(* ===== verification/Prelude.thy ===== *)
theory Prelude
  imports Complex_Main "HOL-Library.Sublist"
begin

section \<open>Prelude: Python values, errors and shared list lemmas\<close>

text \<open>
  What every component theory shares: the exceptions the code raises as values of the left
  summand of a result type, JSON-like Python values with dictionary lookup, Python's string
  operations that the code uses, and generic lemmas on lists, options and association lists.

  A Python \<open>str\<close> is a \<open>string\<close> (a list of code points below 256); \<open>utf8_len\<close> is
  the length of its UTF-8 encoding. A Python \<open>int\<close> is an \<open>int\<close>, a \<open>float\<close> is a
  \<open>pyfloat\<close> (a rational or one of the three special values). Clock readings are
  \<open>rat\<close> values passed to the operation that reads them.
\<close>

named_theorems inv_pres "one preservation lemma per operation and invariant"
named_theorems frame_rules "fields an operation leaves unchanged"
named_theorems op_defs "definitions of the operations of a component"

subsection \<open>Exceptions and results\<close>

datatype py_error =
    ValueError string
  | TypeError string
  | KeyError string
  | OSError string
  | RuntimeError string
  | TimeoutError string
  | FileNotFoundError string

type_synonym 'a res = "py_error + 'a"

definition is_ok :: "'e + 'a \<Rightarrow> bool" where
  "is_ok r = (case r of Inl _ \<Rightarrow> False | Inr _ \<Rightarrow> True)"

definition rbind :: "'e + 'a \<Rightarrow> ('a \<Rightarrow> 'e + 'b) \<Rightarrow> 'e + 'b" where
  "rbind r f = (case r of Inl e \<Rightarrow> Inl e | Inr x \<Rightarrow> f x)"

lemma is_ok_simps [simp]: "is_ok (Inr x) = True" "is_ok (Inl e) = False"
  by (simp_all add: is_ok_def)

lemma is_ok_iff: "is_ok r \<longleftrightarrow> (\<exists>x. r = Inr x)"
  by (cases r) auto

lemma rbind_simps [simp]: "rbind (Inl e) f = Inl e" "rbind (Inr x) f = f x"
  by (simp_all add: rbind_def)

lemma rbind_Inr_iff: "rbind r f = Inr y \<longleftrightarrow> (\<exists>x. r = Inr x \<and> f x = Inr y)"
  by (cases r) auto

lemma rbind_Inl_iff: "rbind r f = Inl e \<longleftrightarrow> r = Inl e \<or> (\<exists>x. r = Inr x \<and> f x = Inl e)"
  by (cases r) auto

subsection \<open>Python values as decoded from JSON and TOML\<close>

datatype pyfloat = Fin rat | PosInf | NegInf | NaN

datatype pyval =
    VNone
  | VBool bool
  | VInt int
  | VFloat pyfloat
  | VStr string
  | VList "pyval list"
  | VDict "(string \<times> pyval) list"

type_synonym pydict = "(string \<times> pyval) list"

text \<open>\<open>d.get(k)\<close> and \<open>d.get(k, default)\<close>.\<close>

definition dget :: "pydict \<Rightarrow> string \<Rightarrow> pyval" where
  "dget d k = (case map_of d k of None \<Rightarrow> VNone | Some v \<Rightarrow> v)"

definition dget_or :: "pydict \<Rightarrow> string \<Rightarrow> pyval \<Rightarrow> pyval" where
  "dget_or d k v0 = (case map_of d k of None \<Rightarrow> v0 | Some v \<Rightarrow> v)"

definition has_key :: "pydict \<Rightarrow> string \<Rightarrow> bool" where
  "has_key d k \<longleftrightarrow> k \<in> set (map fst d)"

lemma has_key_map_of: "has_key d k \<longleftrightarrow> map_of d k \<noteq> None"
  by (simp add: has_key_def map_of_eq_None_iff)

fun is_str :: "pyval \<Rightarrow> bool" where
  "is_str (VStr _) = True"
| "is_str _ = False"

fun str_val :: "pyval \<Rightarrow> string" where
  "str_val (VStr s) = s"
| "str_val _ = []"

fun truthy :: "pyval \<Rightarrow> bool" where
  "truthy VNone = False"
| "truthy (VBool b) = b"
| "truthy (VInt i) = (i \<noteq> 0)"
| "truthy (VFloat f) = (f \<noteq> Fin 0)"
| "truthy (VStr s) = (s \<noteq> [])"
| "truthy (VList xs) = (xs \<noteq> [])"
| "truthy (VDict d) = (d \<noteq> [])"

lemma is_str_iff: "is_str v \<longleftrightarrow> (\<exists>s. v = VStr s)"
  by (cases v) auto

lemma map_VStr_str_val: "(\<forall>v \<in> set vs. is_str v) \<Longrightarrow> map (VStr \<circ> str_val) vs = vs"
  by (induction vs) (auto simp: is_str_iff)

text \<open>\<open>min(unknown)\<close> over the keys outside an allowed set: the least key, if there is one.\<close>

fun lex_less :: "string \<Rightarrow> string \<Rightarrow> bool" where
  "lex_less _ [] = False"
| "lex_less [] (_ # _) = True"
| "lex_less (x # xs) (y # ys) =
     (of_char x < (of_char y :: nat) \<or> (x = y \<and> lex_less xs ys))"

fun min_string :: "string list \<Rightarrow> string option" where
  "min_string [] = None"
| "min_string (s # ss) =
     (case min_string ss of None \<Rightarrow> Some s
      | Some t \<Rightarrow> Some (if lex_less t s then t else s))"

definition unknown_key :: "pydict \<Rightarrow> string list \<Rightarrow> string option" where
  "unknown_key d known = min_string (filter (\<lambda>k. k \<notin> set known) (map fst d))"

lemma min_string_None_iff [simp]: "min_string ss = None \<longleftrightarrow> ss = []"
  by (cases ss) (auto split: option.splits)

lemma min_string_in: "min_string ss = Some s \<Longrightarrow> s \<in> set ss"
  by (induction ss arbitrary: s) (auto split: option.splits if_splits)

lemma unknown_key_None_iff: "unknown_key d known = None \<longleftrightarrow> fst ` set d \<subseteq> set known"
  by (auto simp: unknown_key_def filter_empty_conv)

lemma unknown_key_Some:
  "unknown_key d known = Some k \<Longrightarrow> k \<in> fst ` set d \<and> k \<notin> set known"
  by (auto simp: unknown_key_def dest!: min_string_in)

subsection \<open>Strings\<close>

definition lower_char :: "char \<Rightarrow> char" where
  "lower_char c =
     (let n = (of_char c :: nat) in if 65 \<le> n \<and> n \<le> 90 then char_of (n + 32) else c)"

text \<open>\<open>str.casefold\<close> on ASCII letters, the only ones the compared constants contain.\<close>

definition casefold :: "string \<Rightarrow> string" where
  "casefold = map lower_char"

definition py_space :: "char \<Rightarrow> bool" where
  "py_space c = ((of_char c :: nat) \<in> {9, 10, 11, 12, 13, 28, 29, 30, 31, 32, 133, 160})"

text \<open>\<open>not s.strip()\<close> holds exactly when every character is white space.\<close>

definition blank :: "string \<Rightarrow> bool" where
  "blank s = list_all py_space s"

definition utf8_len :: "string \<Rightarrow> int" where
  "utf8_len s = sum_list (map (\<lambda>c. if (of_char c :: int) < 128 then 1 else 2) s)"

function digits_of_int :: "int \<Rightarrow> string" where
  "digits_of_int n =
     (if n < 10 then [char_of (48 + n)]
      else digits_of_int (n div 10) @ [char_of (48 + n mod 10)])"
  by auto
termination by (relation "measure nat") auto

declare digits_of_int.simps [simp del]

definition str_of_int :: "int \<Rightarrow> string" where
  "str_of_int i = (if i < 0 then CHR ''-'' # digits_of_int (- i) else digits_of_int i)"

text \<open>The suffix after the last character that satisfies \<open>p\<close> (the whole list if none does).\<close>

definition after_last :: "('a \<Rightarrow> bool) \<Rightarrow> 'a list \<Rightarrow> 'a list" where
  "after_last p xs = rev (takeWhile (\<lambda>x. \<not> p x) (rev xs))"

text \<open>The prefix before the last character that satisfies \<open>p\<close>, when there is one.\<close>

definition before_last :: "('a \<Rightarrow> bool) \<Rightarrow> 'a list \<Rightarrow> 'a list option" where
  "before_last p xs =
     (case dropWhile (\<lambda>x. \<not> p x) (rev xs) of [] \<Rightarrow> None | _ # ys \<Rightarrow> Some (rev ys))"

lemma utf8_len_simps [simp]:
  "utf8_len [] = 0"
  "utf8_len (c # s) = (if (of_char c :: int) < 128 then 1 else 2) + utf8_len s"
  "utf8_len (s @ t) = utf8_len s + utf8_len t"
  by (simp_all add: utf8_len_def)

lemma length_le_utf8_len: "int (length s) \<le> utf8_len s"
  by (induction s) auto

lemma takeWhile_all_before:
  "\<forall>x \<in> set xs. \<not> p x \<Longrightarrow> p s \<Longrightarrow> takeWhile (\<lambda>x. \<not> p x) (xs @ s # ys) = xs"
  by (induction xs) auto

lemma dropWhile_all_before:
  "\<forall>x \<in> set xs. \<not> p x \<Longrightarrow> p s \<Longrightarrow> dropWhile (\<lambda>x. \<not> p x) (xs @ s # ys) = s # ys"
  by (induction xs) auto

lemma takeWhile_none: "\<forall>x \<in> set xs. \<not> p x \<Longrightarrow> takeWhile (\<lambda>x. \<not> p x) xs = xs"
  by (induction xs) auto

lemma after_last_none: "\<forall>x \<in> set xs. \<not> p x \<Longrightarrow> after_last p xs = xs"
  by (simp add: after_last_def takeWhile_none)

lemma after_last_sep: "\<forall>x \<in> set ys. \<not> p x \<Longrightarrow> p s \<Longrightarrow> after_last p (xs @ s # ys) = ys"
  using takeWhile_all_before [of "rev ys" p s "rev xs"] by (simp add: after_last_def)

lemma before_last_sep: "\<forall>x \<in> set ys. \<not> p x \<Longrightarrow> p s \<Longrightarrow> before_last p (xs @ s # ys) = Some xs"
  using dropWhile_all_before [of "rev ys" p s "rev xs"] by (simp add: before_last_def)

lemma blank_Nil [simp]: "blank []"
  by (simp add: blank_def)

subsection \<open>Lists\<close>

lemma take_length_min: "length (take n xs) = min n (length xs)"
  by (simp add: min.commute)

lemma sum_list_map_le:
  "(\<And>x. x \<in> set xs \<Longrightarrow> f x \<le> (g x :: nat)) \<Longrightarrow> sum_list (map f xs) \<le> sum_list (map g xs)"
  by (rule sum_list_mono)

lemma sum_list_filter_split:
  "sum_list (map f xs) = (sum_list (map f (filter p xs)) + sum_list (map f (filter (\<lambda>x. \<not> p x) xs)) :: nat)"
  by (induction xs) auto

lemma length_filter_map_update:
  "(\<And>x. x \<in> set xs \<Longrightarrow> p (f x) \<longrightarrow> p x) \<Longrightarrow> length (filter p (map f xs)) \<le> length (filter p xs)"
  by (induction xs) auto

lemma distinct_map_filter: "distinct (map f xs) \<Longrightarrow> distinct (map f (filter p xs))"
  by (induction xs) auto

lemma map_fst_update [simp]:
  "map fst (map (\<lambda>(k, v). (k, f k v)) xs) = map fst xs"
  by (induction xs) auto

text \<open>Insertion keeping the order of a key, equal keys in arrival order (a stable sort).\<close>

fun insort_by :: "('a \<Rightarrow> 'k::linorder) \<Rightarrow> 'a \<Rightarrow> 'a list \<Rightarrow> 'a list" where
  "insort_by f x [] = [x]"
| "insort_by f x (y # ys) = (if f x \<le> f y then x # y # ys else y # insort_by f x ys)"

text \<open>Python's \<open>sorted(xs, key=f)\<close> and SQL's \<open>ORDER BY\<close>: a stable sort.\<close>

definition sort_by :: "('a \<Rightarrow> 'k::linorder) \<Rightarrow> 'a list \<Rightarrow> 'a list" where
  "sort_by f xs = foldr (insort_by f) xs []"

lemma set_insort_by [simp]: "set (insort_by f x xs) = insert x (set xs)"
  by (induction xs) auto

lemma sorted_insort_by: "sorted (map f xs) \<Longrightarrow> sorted (map f (insort_by f x xs))"
  by (induction xs) auto

lemma distinct_insort_by: "distinct (insort_by f x xs) = (x \<notin> set xs \<and> distinct xs)"
  by (induction xs) auto

lemma length_insort_by [simp]: "length (insort_by f x xs) = Suc (length xs)"
  by (induction xs) auto

lemma set_sort_by [simp]: "set (sort_by f xs) = set xs"
  by (induction xs) (auto simp: sort_by_def)

lemma sorted_sort_by: "sorted (map f (sort_by f xs))"
  by (induction xs) (auto simp: sort_by_def sorted_insort_by)

lemma length_sort_by [simp]: "length (sort_by f xs) = length xs"
  by (induction xs) (auto simp: sort_by_def)

lemma distinct_sort_by [simp]: "distinct (sort_by f xs) = distinct xs"
proof (induction xs)
  case Nil
  then show ?case by (simp add: sort_by_def)
next
  case (Cons x xs)
  then show ?case using set_sort_by [of f xs] by (simp add: sort_by_def distinct_insort_by)
qed

lemma hd_sort_by_least: "x \<in> set xs \<Longrightarrow> f (hd (sort_by f xs)) \<le> f x"
proof -
  assume x: "x \<in> set xs"
  then have "sort_by f xs \<noteq> []" by (metis list.set(1) empty_iff set_sort_by)
  then obtain y ys where y: "sort_by f xs = y # ys" by (cases "sort_by f xs") auto
  with sorted_sort_by [of f xs] have "\<forall>z \<in> set ys. f y \<le> f z" by simp
  with x y set_sort_by [of f xs] show ?thesis by (metis list.sel(1) order_refl set_ConsD)
qed

end
