(* ===== verification/CoreErrors.thy ===== *)
theory CoreErrors
  imports Prelude
begin

section \<open>Stable execution errors (core/errors.py)\<close>

text \<open>
  The error codes and stages of the runtime, the \<open>ExecutionError\<close> value every failing
  operation carries, and its dictionary form. \<open>SharkRailError\<close> is the exception that wraps
  one such value; here an operation that raises it returns \<open>Inl err\<close>.
\<close>

datatype error_code =
    EXECUTABLE_NOT_FOUND
  | START_FAILED
  | INVALID_REQUEST
  | CAPABILITY_NOT_SUPPORTED
  | SESSION_NOT_FOUND
  | INVALID_SESSION_STATE
  | INTERNAL_ERROR
  | RESOURCE_LIMITED
  | DRAIN_TIMEOUT
  | TERMINATION_FAILED
  | EVENT_CURSOR_EXPIRED
  | SESSION_EXPIRED
  | IDLE_TIMEOUT
  | POLICY_DENIED

datatype error_stage = VALIDATE | START | RUN | DRAIN | DISPOSE

record execution_error =
  ee_code :: error_code
  ee_stage :: error_stage
  ee_message :: string
  ee_retryable :: bool
  ee_native :: pydict

fun error_code_value :: "error_code \<Rightarrow> string" where
  "error_code_value EXECUTABLE_NOT_FOUND = ''EXECUTABLE_NOT_FOUND''"
| "error_code_value START_FAILED = ''START_FAILED''"
| "error_code_value INVALID_REQUEST = ''INVALID_REQUEST''"
| "error_code_value CAPABILITY_NOT_SUPPORTED = ''CAPABILITY_NOT_SUPPORTED''"
| "error_code_value SESSION_NOT_FOUND = ''SESSION_NOT_FOUND''"
| "error_code_value INVALID_SESSION_STATE = ''INVALID_SESSION_STATE''"
| "error_code_value INTERNAL_ERROR = ''INTERNAL_ERROR''"
| "error_code_value RESOURCE_LIMITED = ''RESOURCE_LIMITED''"
| "error_code_value DRAIN_TIMEOUT = ''DRAIN_TIMEOUT''"
| "error_code_value TERMINATION_FAILED = ''TERMINATION_FAILED''"
| "error_code_value EVENT_CURSOR_EXPIRED = ''EVENT_CURSOR_EXPIRED''"
| "error_code_value SESSION_EXPIRED = ''SESSION_EXPIRED''"
| "error_code_value IDLE_TIMEOUT = ''IDLE_TIMEOUT''"
| "error_code_value POLICY_DENIED = ''POLICY_DENIED''"

fun error_stage_value :: "error_stage \<Rightarrow> string" where
  "error_stage_value VALIDATE = ''validate''"
| "error_stage_value START = ''start''"
| "error_stage_value RUN = ''run''"
| "error_stage_value DRAIN = ''drain''"
| "error_stage_value DISPOSE = ''dispose''"

definition error_to_dict :: "execution_error \<Rightarrow> pydict" where
  "error_to_dict e =
     [(''code'', VStr (error_code_value (ee_code e))),
      (''stage'', VStr (error_stage_value (ee_stage e))),
      (''message'', VStr (ee_message e)),
      (''retryable'', VBool (ee_retryable e)),
      (''native'', VDict (ee_native e))]"

text \<open>An error with the dataclass defaults \<open>retryable=False, native={}\<close>.\<close>

definition exec_error :: "error_code \<Rightarrow> error_stage \<Rightarrow> string \<Rightarrow> execution_error" where
  "exec_error c st m =
     \<lparr>ee_code = c, ee_stage = st, ee_message = m, ee_retryable = False, ee_native = []\<rparr>"

lemma exec_error_simps [simp]:
  "ee_code (exec_error c st m) = c"
  "ee_stage (exec_error c st m) = st"
  "ee_message (exec_error c st m) = m"
  "ee_retryable (exec_error c st m) = False"
  "ee_native (exec_error c st m) = []"
  by (simp_all add: exec_error_def)

lemma error_code_value_inj: "error_code_value a = error_code_value b \<Longrightarrow> a = b"
  by (cases a; cases b) simp_all

lemma error_stage_value_inj: "error_stage_value a = error_stage_value b \<Longrightarrow> a = b"
  by (cases a; cases b) simp_all

text \<open>The dictionary form loses nothing: two errors with equal dictionaries are equal.\<close>

lemma error_to_dict_inj: "error_to_dict a = error_to_dict b \<Longrightarrow> a = b"
  by (cases a; cases b)
    (auto simp: error_to_dict_def dest: error_code_value_inj error_stage_value_inj)

end
