(* ===== verification/Lifecycle.thy ===== *)
theory Lifecycle
  imports Prelude
begin

section \<open>The session state machine (core/lifecycle.py)\<close>

text \<open>
  \<open>SessionState\<close>, the transition table, and \<open>SessionLifecycle\<close> with its ten named
  transitions. A refused transition is \<open>Inl (InvalidTransition from to)\<close>. The locale
  \<open>ranked_machine\<close> states what a table whose transitions only ever move forward gives:
  no state is entered twice and every history is bounded by the number of ranks. It is
  interpreted on the session table here and on the Job phases in \<open>JobModels\<close>.
\<close>

datatype session_state =
    CREATED | ACCEPTED | STARTING | RUNNING | EXITING | CANCELLING
  | DRAINING | COMPLETED | FAILED | CANCELED | DISPOSED

fun session_state_value :: "session_state \<Rightarrow> string" where
  "session_state_value CREATED = ''created''"
| "session_state_value ACCEPTED = ''accepted''"
| "session_state_value STARTING = ''starting''"
| "session_state_value RUNNING = ''running''"
| "session_state_value EXITING = ''exiting''"
| "session_state_value CANCELLING = ''cancelling''"
| "session_state_value DRAINING = ''draining''"
| "session_state_value COMPLETED = ''completed''"
| "session_state_value FAILED = ''failed''"
| "session_state_value CANCELED = ''canceled''"
| "session_state_value DISPOSED = ''disposed''"

datatype invalid_transition = InvalidTransition session_state session_state

fun transitions :: "session_state \<Rightarrow> session_state set" where
  "transitions CREATED = {ACCEPTED, RUNNING, FAILED}"
| "transitions ACCEPTED = {STARTING, FAILED}"
| "transitions STARTING = {RUNNING, FAILED}"
| "transitions RUNNING = {EXITING, CANCELLING, DRAINING, COMPLETED, CANCELED, FAILED}"
| "transitions EXITING = {DRAINING, FAILED}"
| "transitions CANCELLING = {DRAINING, FAILED}"
| "transitions DRAINING = {COMPLETED, FAILED}"
| "transitions COMPLETED = {DISPOSED}"
| "transitions FAILED = {DISPOSED}"
| "transitions CANCELED = {DISPOSED}"
| "transitions DISPOSED = {}"

record lifecycle =
  lc_state :: session_state
  lc_history :: "session_state list"

definition new_lifecycle :: lifecycle where
  "new_lifecycle = \<lparr>lc_state = CREATED, lc_history = [CREATED]\<rparr>"

definition transition :: "session_state \<Rightarrow> lifecycle \<Rightarrow> invalid_transition + lifecycle" where
  "transition target lc =
     (if target \<notin> transitions (lc_state lc) then Inl (InvalidTransition (lc_state lc) target)
      else Inr (lc\<lparr>lc_state := target, lc_history := lc_history lc @ [target]\<rparr>))"

definition lc_accept :: "lifecycle \<Rightarrow> invalid_transition + lifecycle" where
  "lc_accept = transition ACCEPTED"

definition lc_begin_start :: "lifecycle \<Rightarrow> invalid_transition + lifecycle" where
  "lc_begin_start = transition STARTING"

definition lc_start :: "lifecycle \<Rightarrow> invalid_transition + lifecycle" where
  "lc_start = transition RUNNING"

definition lc_begin_exit :: "lifecycle \<Rightarrow> invalid_transition + lifecycle" where
  "lc_begin_exit = transition EXITING"

definition lc_begin_drain :: "lifecycle \<Rightarrow> invalid_transition + lifecycle" where
  "lc_begin_drain = transition DRAINING"

definition lc_complete :: "lifecycle \<Rightarrow> invalid_transition + lifecycle" where
  "lc_complete = transition COMPLETED"

definition lc_begin_cancel :: "lifecycle \<Rightarrow> invalid_transition + lifecycle" where
  "lc_begin_cancel = transition CANCELLING"

definition lc_cancel :: "lifecycle \<Rightarrow> invalid_transition + lifecycle" where
  "lc_cancel = transition CANCELED"

definition lc_fail :: "lifecycle \<Rightarrow> invalid_transition + lifecycle" where
  "lc_fail = transition FAILED"

definition lc_dispose :: "lifecycle \<Rightarrow> invalid_transition + lifecycle" where
  "lc_dispose = transition DISPOSED"

subsection \<open>Machines that only move forward\<close>

fun path_ok :: "('s \<Rightarrow> 's set) \<Rightarrow> 's list \<Rightarrow> bool" where
  "path_ok nxt [] = True"
| "path_ok nxt [s] = True"
| "path_ok nxt (s # t # ts) = (t \<in> nxt s \<and> path_ok nxt (t # ts))"

lemma path_ok_snoc:
  "path_ok nxt (ss @ [s]) \<Longrightarrow> t \<in> nxt s \<Longrightarrow> path_ok nxt (ss @ [s, t])"
  by (induction nxt ss rule: path_ok.induct) auto

locale ranked_machine =
  fixes nxt :: "'s \<Rightarrow> 's set" and rank :: "'s \<Rightarrow> nat" and top_rank :: nat
  assumes forward: "t \<in> nxt s \<Longrightarrow> rank s < rank t"
    and bounded: "rank s \<le> top_rank"
begin

lemma path_ranks: "path_ok nxt ss \<Longrightarrow> sorted_wrt (<) (map rank ss)"
proof (induction ss rule: induct_list012)
  case (3 s t ts)
  then have "sorted_wrt (<) (map rank (t # ts))" and "rank s < rank t"
    by (auto intro: forward)
  then show ?case by (auto intro: less_trans)
qed auto

lemma path_distinct: "path_ok nxt ss \<Longrightarrow> distinct ss"
  using path_ranks [of ss] by (metis distinct_map strict_sorted_iff)

lemma path_length: "path_ok nxt ss \<Longrightarrow> length ss \<le> Suc top_rank"
proof -
  assume p: "path_ok nxt ss"
  have "set (map rank ss) \<subseteq> {..top_rank}" using bounded by auto
  then have "card (set (map rank ss)) \<le> Suc top_rank"
    by (metis card_atMost card_mono finite_atMost)
  moreover have "distinct (map rank ss)" using path_ranks [OF p] strict_sorted_iff by blast
  ultimately show ?thesis by (metis distinct_card length_map)
qed

lemma path_no_return: "path_ok nxt (s # ts) \<Longrightarrow> s \<notin> set ts"
  using path_distinct by fastforce

end

fun session_rank :: "session_state \<Rightarrow> nat" where
  "session_rank CREATED = 0"
| "session_rank ACCEPTED = 1"
| "session_rank STARTING = 2"
| "session_rank RUNNING = 3"
| "session_rank EXITING = 4"
| "session_rank CANCELLING = 4"
| "session_rank DRAINING = 5"
| "session_rank COMPLETED = 6"
| "session_rank FAILED = 6"
| "session_rank CANCELED = 6"
| "session_rank DISPOSED = 7"

interpretation session_machine: ranked_machine transitions session_rank 7
proof
  show "t \<in> transitions s \<Longrightarrow> session_rank s < session_rank t" for s t
    by (cases s) auto
  show "session_rank s \<le> 7" for s by (cases s) simp_all
qed

subsection \<open>The lifecycle invariant\<close>

text \<open>A history starts at \<open>CREATED\<close>, ends at the current state and follows the table.\<close>

definition lifecycle_ok :: "lifecycle \<Rightarrow> bool" where
  "lifecycle_ok lc \<longleftrightarrow>
     (\<exists>ss. lc_history lc = ss @ [lc_state lc]) \<and> hd (lc_history lc) = CREATED
     \<and> path_ok transitions (lc_history lc)"

lemma lifecycle_ok_new [simp]: "lifecycle_ok new_lifecycle"
  by (simp add: lifecycle_ok_def new_lifecycle_def)

lemma transition_Inr_iff:
  "transition t lc = Inr lc' \<longleftrightarrow>
     t \<in> transitions (lc_state lc)
     \<and> lc' = lc\<lparr>lc_state := t, lc_history := lc_history lc @ [t]\<rparr>"
  by (auto simp: transition_def)

lemma transition_Inl_iff:
  "transition t lc = Inl e \<longleftrightarrow>
     t \<notin> transitions (lc_state lc) \<and> e = InvalidTransition (lc_state lc) t"
  by (auto simp: transition_def)

lemma transition_lifecycle_ok [inv_pres]:
  assumes "lifecycle_ok lc" and "transition t lc = Inr lc'"
  shows "lifecycle_ok lc'"
proof -
  from assms(1) obtain ss where ss: "lc_history lc = ss @ [lc_state lc]"
    and hd: "hd (lc_history lc) = CREATED" and p: "path_ok transitions (lc_history lc)"
    by (auto simp: lifecycle_ok_def)
  from assms(2) have t: "t \<in> transitions (lc_state lc)"
    and lc': "lc' = lc\<lparr>lc_state := t, lc_history := lc_history lc @ [t]\<rparr>"
    by (auto simp: transition_Inr_iff)
  from p ss t have "path_ok transitions (ss @ [lc_state lc, t])" by (simp add: path_ok_snoc)
  moreover from hd ss have "hd (ss @ [lc_state lc, t]) = CREATED" by (cases ss) auto
  ultimately show ?thesis using ss lc' by (auto simp: lifecycle_ok_def)
qed

lemma transition_rank: "transition t lc = Inr lc' \<Longrightarrow> session_rank (lc_state lc) < session_rank (lc_state lc')"
  by (auto simp: transition_Inr_iff intro: session_machine.forward)

lemma lifecycle_ok_distinct: "lifecycle_ok lc \<Longrightarrow> distinct (lc_history lc)"
  by (simp add: lifecycle_ok_def session_machine.path_distinct)

lemma lifecycle_ok_length: "lifecycle_ok lc \<Longrightarrow> length (lc_history lc) \<le> 8"
  using session_machine.path_length by (fastforce simp: lifecycle_ok_def)

text \<open>A run of requested transitions: refused requests leave the lifecycle as it is.\<close>

fun request_all :: "session_state list \<Rightarrow> lifecycle \<Rightarrow> lifecycle" where
  "request_all [] lc = lc"
| "request_all (t # ts) lc =
     request_all ts (case transition t lc of Inl _ \<Rightarrow> lc | Inr lc' \<Rightarrow> lc')"

lemma request_all_ok: "lifecycle_ok lc \<Longrightarrow> lifecycle_ok (request_all ts lc)"
  by (induction ts arbitrary: lc) (auto split: sum.splits intro: transition_lifecycle_ok)

fun finished :: "session_state \<Rightarrow> bool" where
  "finished COMPLETED = True"
| "finished FAILED = True"
| "finished CANCELED = True"
| "finished DISPOSED = True"
| "finished _ = False"

lemma finished_transitions: "finished s \<Longrightarrow> t \<in> transitions s \<Longrightarrow> t = DISPOSED"
  by (cases s) auto

lemma request_all_finished:
  "finished (lc_state lc) \<Longrightarrow> lc_state (request_all ts lc) \<in> {lc_state lc, DISPOSED}"
proof (induction ts arbitrary: lc)
  case (Cons t ts)
  show ?case
  proof (cases "transition t lc")
    case (Inl e)
    with Cons show ?thesis by simp
  next
    case (Inr lc')
    with Cons.prems have "lc_state lc' = DISPOSED"
      using finished_transitions by (auto simp: transition_Inr_iff)
    with Cons.IH [of lc'] Inr show ?thesis by simp
  qed
qed simp

text \<open>
  C24. However the ten transitions are requested, in whatever order and number, an accepted
  history starts at \<open>created\<close>, ends in the current state, follows the transition table, never
  enters a state twice and has at most eight entries.
\<close>

theorem lifecycle_history_sound:
  "let lc = request_all ts new_lifecycle in
     lifecycle_ok lc \<and> distinct (lc_history lc) \<and> length (lc_history lc) \<le> 8
     \<and> last (lc_history lc) = lc_state lc"
proof -
  have ok: "lifecycle_ok (request_all ts new_lifecycle)" by (simp add: request_all_ok)
  then have "last (lc_history (request_all ts new_lifecycle))
      = lc_state (request_all ts new_lifecycle)" by (auto simp: lifecycle_ok_def)
  with ok show ?thesis by (simp add: Let_def lifecycle_ok_distinct lifecycle_ok_length)
qed

end
