(* ===== verification/Utf8.thy ===== *)
theory Utf8
  imports Prelude "HOL-Library.Word"
begin

section \<open>UTF-8 decoding as the runtime uses it\<close>

text \<open>
  The runtime decodes process output with Python's \<open>utf-8\<close> codec: whole buffers in
  \<open>core/output.py\<close>, and incrementally, one chunk at a time, in \<open>_Utf8StreamDecoder\<close>
  (runtime/sessions.py). The codec is a byte automaton whose state is the pending prefix of an
  unfinished sequence; it emits a code point, or the maximal invalid piece. \<open>errors="replace"\<close>
  shows such a piece as U+FFFD, \<open>errors="surrogateescape"\<close> as one lone surrogate per byte.
\<close>

type_synonym byte = "8 word"
type_synonym bytes = "byte list"
type_synonym codepoints = "nat list"

datatype decoded = Scalar nat | Bad bytes

subsection \<open>The byte automaton\<close>

definition seq_len :: "byte \<Rightarrow> nat" where
  "seq_len b =
     (let n = unat b in
      if n < 128 then 1 else if 194 \<le> n \<and> n < 224 then 2
      else if 224 \<le> n \<and> n < 240 then 3 else if 240 \<le> n \<and> n < 245 then 4 else 0)"

definition cont_byte :: "byte \<Rightarrow> bool" where
  "cont_byte b \<longleftrightarrow> 128 \<le> unat b \<and> unat b < 192"

definition ok_second :: "byte \<Rightarrow> byte \<Rightarrow> bool" where
  "ok_second lead b \<longleftrightarrow> cont_byte b
     \<and> (unat lead = 224 \<longrightarrow> 160 \<le> unat b) \<and> (unat lead = 237 \<longrightarrow> unat b < 160)
     \<and> (unat lead = 240 \<longrightarrow> 144 \<le> unat b) \<and> (unat lead = 244 \<longrightarrow> unat b < 144)"

fun extends :: "bytes \<Rightarrow> byte \<Rightarrow> bool" where
  "extends [] b = False"
| "extends [lead] b = ok_second lead b"
| "extends (lead # _ # _) b = cont_byte b"

fun code_point :: "bytes \<Rightarrow> nat" where
  "code_point [a] = unat a"
| "code_point [a, b] = (unat a - 192) * 64 + (unat b - 128)"
| "code_point [a, b, c] = (unat a - 224) * 4096 + (unat b - 128) * 64 + (unat c - 128)"
| "code_point [a, b, c, d] =
     (unat a - 240) * 262144 + (unat b - 128) * 4096 + (unat c - 128) * 64 + (unat d - 128)"
| "code_point _ = 0"

definition start_byte :: "byte \<Rightarrow> decoded list \<times> bytes" where
  "start_byte b =
     (if seq_len b = 0 then ([Bad [b]], [])
      else if seq_len b = 1 then ([Scalar (unat b)], []) else ([], [b]))"

definition feed_byte :: "bytes \<Rightarrow> byte \<Rightarrow> decoded list \<times> bytes" where
  "feed_byte pend b =
     (if pend = [] then start_byte b
      else if extends pend b then
        (if Suc (length pend) = seq_len (hd pend) then ([Scalar (code_point (pend @ [b]))], [])
         else ([], pend @ [b]))
      else (let (out, p) = start_byte b in (Bad pend # out, p)))"

fun feed :: "bytes \<Rightarrow> bytes \<Rightarrow> decoded list \<times> bytes" where
  "feed pend [] = ([], pend)"
| "feed pend (b # bs) =
     (let (out, p) = feed_byte pend b; (out', p') = feed p bs in (out @ out', p'))"

definition finish :: "bytes \<Rightarrow> decoded list" where
  "finish pend = (if pend = [] then [] else [Bad pend])"

text \<open>\<open>IncrementalDecoder.decode(data, final)\<close> of a decoder holding \<open>pend\<close>.\<close>

definition decode_step :: "bytes \<Rightarrow> bytes \<Rightarrow> bool \<Rightarrow> decoded list \<times> bytes" where
  "decode_step pend data fin =
     (let (out, p) = feed pend data in if fin then (out @ finish p, []) else (out, p))"

definition is_bad :: "decoded \<Rightarrow> bool" where
  "is_bad d = (case d of Scalar _ \<Rightarrow> False | Bad _ \<Rightarrow> True)"

definition replace_text :: "decoded list \<Rightarrow> codepoints" where
  "replace_text = map (\<lambda>d. case d of Scalar c \<Rightarrow> c | Bad _ \<Rightarrow> 65533)"

definition escape_text :: "decoded list \<Rightarrow> codepoints" where
  "escape_text ds =
     concat (map (\<lambda>d. case d of Scalar c \<Rightarrow> [c] | Bad bs \<Rightarrow> map (\<lambda>b. 56320 + unat b) bs) ds)"

subsection \<open>Encoding\<close>

definition scalar_value :: "nat \<Rightarrow> bool" where
  "scalar_value c \<longleftrightarrow> c < 55296 \<or> 57344 \<le> c \<and> c < 1114112"

definition encode_cp :: "nat \<Rightarrow> bytes" where
  "encode_cp c =
     (if c < 128 then [of_nat c]
      else if c < 2048 then [of_nat (192 + c div 64), of_nat (128 + c mod 64)]
      else if c < 65536 then
        [of_nat (224 + c div 4096), of_nat (128 + c div 64 mod 64), of_nat (128 + c mod 64)]
      else
        [of_nat (240 + c div 262144), of_nat (128 + c div 4096 mod 64),
         of_nat (128 + c div 64 mod 64), of_nat (128 + c mod 64)])"

definition encode_utf8 :: "codepoints \<Rightarrow> bytes" where
  "encode_utf8 cs = concat (map encode_cp cs)"

subsection \<open>Chunking does not matter\<close>

lemma feed_append:
  "feed pend (xs @ ys) =
     (let (out, p) = feed pend xs; (out', p') = feed p ys in (out @ out', p'))"
  by (induction xs arbitrary: pend) (auto simp: Let_def split: prod.splits)

lemma replace_text_append [simp]: "replace_text (a @ b) = replace_text a @ replace_text b"
  by (simp add: replace_text_def)

lemma replace_text_Nil [simp]: "replace_text [] = []"
  by (simp add: replace_text_def)

subsection \<open>No byte is lost\<close>

fun decoded_bytes :: "decoded \<Rightarrow> bytes" where
  "decoded_bytes (Scalar c) = encode_cp c"
| "decoded_bytes (Bad bs) = bs"

definition source_bytes :: "decoded list \<Rightarrow> bytes" where
  "source_bytes ds = concat (map decoded_bytes ds)"

lemma source_bytes_simps [simp]:
  "source_bytes [] = []" "source_bytes (d # ds) = decoded_bytes d @ source_bytes ds"
  "source_bytes (a @ b) = source_bytes a @ source_bytes b"
  by (simp_all add: source_bytes_def)

text \<open>The shapes a pending prefix can have.\<close>

definition pending_ok :: "bytes \<Rightarrow> bool" where
  "pending_ok p \<longleftrightarrow> p = []
     \<or> (\<exists>a. p = [a] \<and> 2 \<le> seq_len a)
     \<or> (\<exists>a b. p = [a, b] \<and> 3 \<le> seq_len a \<and> ok_second a b)
     \<or> (\<exists>a b c. p = [a, b, c] \<and> seq_len a = 4 \<and> ok_second a b \<and> cont_byte c)"

lemma byte_eq: "unat (b :: byte) = n \<Longrightarrow> of_nat n = b"
  by auto

lemma unat_of_small: "n < 256 \<Longrightarrow> unat (of_nat n :: byte) = n"
  by (simp add: unat_of_nat)

text \<open>Base-64 digits of a code point.\<close>

lemma base64_digit: "k < 64 \<Longrightarrow> (x * 64 + k) div 64 = x \<and> (x * 64 + k) mod 64 = (k :: nat)"
  by simp

lemma div_4096: "(c :: nat) div 4096 = c div 64 div 64"
  by (simp add: div_mult2_eq [symmetric])

lemma div_262144: "(c :: nat) div 262144 = c div 64 div 64 div 64"
  by (simp add: div_mult2_eq [symmetric])

lemma base64_cases: "\<exists>x k. (c :: nat) = x * 64 + k \<and> k < 64"
  by (rule exI [of _ "c div 64"], rule exI [of _ "c mod 64"]) simp

lemma encode_code_point_1: "seq_len a = 1 \<Longrightarrow> encode_cp (unat a) = [a]"
  by (auto simp: seq_len_def encode_cp_def Let_def split: if_splits)

lemma encode_2:
  assumes "k < 64" and "2 \<le> x" and "x < 32"
  shows "encode_cp (x * 64 + k) = [of_nat (192 + x), of_nat (128 + k)]"
  using assms base64_digit [of k x] by (simp add: encode_cp_def del: of_nat_add)

lemma encode_3:
  assumes "k < 64" and "n < 64" and "x < 16" and "x = 0 \<longrightarrow> 32 \<le> n"
  shows "encode_cp ((x * 64 + n) * 64 + k) = [of_nat (224 + x), of_nat (128 + n), of_nat (128 + k)]"
proof -
  define y where "y = x * 64 + n"
  have y: "32 \<le> y" "y < 1024" "y div 64 = x" "y mod 64 = n" using assms by (auto simp: y_def)
  then have "2048 \<le> y * 64 + k" "y * 64 + k < 65536" using assms(1) by linarith+
  then have "encode_cp (y * 64 + k) = [of_nat (224 + x), of_nat (128 + n), of_nat (128 + k)]"
    using base64_digit [OF assms(1), of y] y
    by (simp add: encode_cp_def div_4096 del: of_nat_add)
  then show ?thesis by (simp only: y_def)
qed

lemma encode_4:
  assumes "k < 64" and "n < 64" and "l < 64" and "x < 5" and "x = 0 \<longrightarrow> 16 \<le> l"
  shows "encode_cp (((x * 64 + l) * 64 + n) * 64 + k) =
    [of_nat (240 + x), of_nat (128 + l), of_nat (128 + n), of_nat (128 + k)]"
proof -
  define z where "z = x * 64 + l"
  define y where "y = z * 64 + n"
  have z: "16 \<le> z" "z div 64 = x" "z mod 64 = l" using assms by (auto simp: z_def)
  then have y: "1024 \<le> y" "y div 64 = z" "y mod 64 = n" using assms(2) by (auto simp: y_def)
  then have "65536 \<le> y * 64 + k" by linarith
  then have "encode_cp (y * 64 + k) =
      [of_nat (240 + x), of_nat (128 + l), of_nat (128 + n), of_nat (128 + k)]"
    using base64_digit [OF assms(1), of y] y z
    by (simp add: encode_cp_def div_4096 div_262144 del: of_nat_add)
  then show ?thesis by (simp only: y_def z_def)
qed

lemma encode_code_point_2:
  assumes "seq_len a = 2" and "ok_second a b"
  shows "encode_cp (code_point [a, b]) = [a, b]"
proof -
  from assms have "2 \<le> unat a - 192" "unat a - 192 < 32" "unat b - 128 < 64"
    and ab: "unat a = 192 + (unat a - 192)" "unat b = 128 + (unat b - 128)"
    by (auto simp: seq_len_def ok_second_def cont_byte_def Let_def split: if_splits)
  with encode_2 [of "unat b - 128" "unat a - 192"] byte_eq [OF ab(1)] byte_eq [OF ab(2)]
  show ?thesis by simp
qed

lemma encode_code_point_3:
  assumes "seq_len a = 3" and "ok_second a b" and "cont_byte c"
  shows "encode_cp (code_point [a, b, c]) = [a, b, c]"
proof -
  let ?x = "unat a - 224" and ?n = "unat b - 128" and ?k = "unat c - 128"
  from assms have r: "?x < 16" "?n < 64" "?k < 64" "?x = 0 \<longrightarrow> 32 \<le> ?n"
    and ab: "unat a = 224 + ?x" "unat b = 128 + ?n" "unat c = 128 + ?k"
    by (auto simp: seq_len_def ok_second_def cont_byte_def Let_def split: if_splits)
  have "code_point [a, b, c] = (?x * 64 + ?n) * 64 + ?k" by simp
  with encode_3 [of ?k ?n ?x] r byte_eq [OF ab(1)] byte_eq [OF ab(2)] byte_eq [OF ab(3)]
  show ?thesis by metis
qed

lemma encode_code_point_4:
  assumes "seq_len a = 4" and "ok_second a b" and "cont_byte c" and "cont_byte d"
  shows "encode_cp (code_point [a, b, c, d]) = [a, b, c, d]"
proof -
  let ?x = "unat a - 240" and ?l = "unat b - 128" and ?n = "unat c - 128" and ?k = "unat d - 128"
  from assms have r: "?x < 5" "?l < 64" "?n < 64" "?k < 64" "?x = 0 \<longrightarrow> 16 \<le> ?l"
    and ab: "unat a = 240 + ?x" "unat b = 128 + ?l" "unat c = 128 + ?n" "unat d = 128 + ?k"
    by (auto simp: seq_len_def ok_second_def cont_byte_def Let_def split: if_splits)
  have "code_point [a, b, c, d] = ((?x * 64 + ?l) * 64 + ?n) * 64 + ?k" by simp
  with encode_4 [of ?k ?n ?l ?x] r byte_eq [OF ab(1)] byte_eq [OF ab(2)] byte_eq [OF ab(3)]
    byte_eq [OF ab(4)]
  show ?thesis by metis
qed

lemma seq_len_le: "seq_len a \<le> 4"
  by (simp add: seq_len_def Let_def)

lemma start_byte_lossless:
  "start_byte b = (out, p) \<Longrightarrow> source_bytes out @ p = [b] \<and> pending_ok p"
  by (auto simp: start_byte_def pending_ok_def encode_code_point_1 seq_len_def Let_def
      split: if_splits)

lemma feed_byte_extend_lossless:
  assumes "pending_ok pend" and "extends pend b" and "feed_byte pend b = (out, p)"
  shows "source_bytes out @ p = pend @ [b] \<and> pending_ok p"
proof -
  from assms(2) have ne: "pend \<noteq> []" by auto
  consider
      (one) a where "pend = [a]" "2 \<le> seq_len a"
    | (two) a a' where "pend = [a, a']" "3 \<le> seq_len a" "ok_second a a'"
    | (three) a a' c where "pend = [a, a', c]" "seq_len a = 4" "ok_second a a'" "cont_byte c"
    using assms(1) ne unfolding pending_ok_def by blast
  then show ?thesis
  proof cases
    case one
    with assms(2,3) show ?thesis
      by (auto simp: feed_byte_def pending_ok_def encode_code_point_2
          simp del: code_point.simps split: if_splits)
  next
    case two
    then have "seq_len a = 3 \<or> seq_len a = 4" using seq_len_le [of a] by linarith
    with two assms(2,3) show ?thesis
      by (auto simp: feed_byte_def pending_ok_def encode_code_point_3
          simp del: code_point.simps split: if_splits)
  next
    case three
    with assms(2,3) show ?thesis
      by (auto simp: feed_byte_def pending_ok_def encode_code_point_4
          simp del: code_point.simps split: if_splits)
  qed
qed

lemma feed_byte_lossless:
  assumes "pending_ok pend" and "feed_byte pend b = (out, p)"
  shows "source_bytes out @ p = pend @ [b] \<and> pending_ok p"
proof (cases "extends pend b")
  case True
  with assms show ?thesis using feed_byte_extend_lossless by blast
next
  case False
  obtain out' p' where st: "start_byte b = (out', p')" by (cases "start_byte b")
  from False assms(2) st show ?thesis
    using start_byte_lossless [OF st] by (auto simp: feed_byte_def split: if_splits)
qed

lemma feed_lossless:
  "pending_ok pend \<Longrightarrow> feed pend bs = (out, p) \<Longrightarrow>
     source_bytes out @ p = pend @ bs \<and> pending_ok p"
proof (induction bs arbitrary: pend out p)
  case Nil
  then show ?case by simp
next
  case (Cons b bs)
  obtain o1 p1 where one: "feed_byte pend b = (o1, p1)" by (cases "feed_byte pend b")
  obtain o2 p2 where two: "feed p1 bs = (o2, p2)" by (cases "feed p1 bs")
  from Cons.prems(2) one two have "out = o1 @ o2" "p = p2" by auto
  with feed_byte_lossless [OF Cons.prems(1) one] Cons.IH [OF _ two] show ?case
    by (metis append.assoc append_Cons append_Nil source_bytes_simps(3))
qed

subsection \<open>Round trip\<close>

lemmas automaton_defs = feed_byte_def start_byte_def seq_len_def ok_second_def cont_byte_def

lemma feed_2:
  assumes "k < 64" and "2 \<le> x" and "x < 32"
  shows "feed [] [of_nat (192 + x), of_nat (128 + k)] = ([Scalar (x * 64 + k)], [])"
  using assms by (simp add: automaton_defs unat_of_small del: of_nat_add)

lemma feed_3:
  assumes "k < 64" and "n < 64" and "x < 16" and "x = 0 \<longrightarrow> 32 \<le> n" and "x = 13 \<longrightarrow> n < 32"
  shows "feed [] [of_nat (224 + x), of_nat (128 + n), of_nat (128 + k)]
    = ([Scalar ((x * 64 + n) * 64 + k)], [])"
  using assms by (simp add: automaton_defs unat_of_small del: of_nat_add)

lemma feed_4:
  assumes "k < 64" and "n < 64" and "l < 64" and "x < 5" and "x = 0 \<longrightarrow> 16 \<le> l"
    and "x = 4 \<longrightarrow> l < 16"
  shows "feed [] [of_nat (240 + x), of_nat (128 + l), of_nat (128 + n), of_nat (128 + k)]
    = ([Scalar (((x * 64 + l) * 64 + n) * 64 + k)], [])"
  using assms by (simp add: automaton_defs unat_of_small del: of_nat_add)

lemma feed_encode_cp:
  assumes "scalar_value c"
  shows "feed [] (encode_cp c) = ([Scalar c], [])"
proof -
  obtain y k where c: "c = y * 64 + k" and k: "k < 64" using base64_cases by blast
  obtain z n where y: "y = z * 64 + n" and n: "n < 64" using base64_cases by blast
  obtain x l where z: "z = x * 64 + l" and l: "l < 64" using base64_cases by blast
  consider "c < 128" | "128 \<le> c" "c < 2048" | "2048 \<le> c" "c < 65536" | "65536 \<le> c" "c < 1114112"
    using assms by (fastforce simp: scalar_value_def)
  then show ?thesis
  proof cases
    case 1
    then show ?thesis
      by (simp add: encode_cp_def automaton_defs unat_of_small)
  next
    case 2
    then have "2 \<le> y" "y < 32" using c k by auto
    with encode_2 feed_2 k c show ?thesis by simp
  next
    case 3
    then have "32 \<le> y" "y < 1024" using c k by auto
    then have "z < 16" "z = 0 \<longrightarrow> 32 \<le> n" using y n by auto
    moreover have "z = 13 \<longrightarrow> n < 32" using assms c k y n by (auto simp: scalar_value_def)
    ultimately show ?thesis using encode_3 [of k n z] feed_3 [of k n z] k n c y by simp
  next
    case 4
    then have "1024 \<le> y" "y < 17408" using c k by auto
    then have "16 \<le> z" "z < 272" using y n by auto
    then have "x < 5" "x = 0 \<longrightarrow> 16 \<le> l" "x = 4 \<longrightarrow> l < 16" using z l by auto
    then show ?thesis using encode_4 [of k n l x] feed_4 [of k n l x] k n l c y z by simp
  qed
qed

lemma feed_encode:
  "\<forall>c \<in> set cs. scalar_value c \<Longrightarrow> feed [] (encode_utf8 cs) = (map Scalar cs, [])"
  by (induction cs) (auto simp: encode_utf8_def feed_append feed_encode_cp)

end
