(* ===== verification/CoreOutput.thy ===== *)
theory CoreOutput
  imports Utf8
begin

section \<open>Bounded output capture and stream decoding (core/output.py, _Utf8StreamDecoder)\<close>

text \<open>
  \<open>capture_output\<close> retains at most a byte budget of two captured streams, stdout first, and
  decodes what it kept; \<open>stream_decode\<close> is the incremental decoder that turns each chunk of a
  running process into event text. The lemmas give the accounting of the budget, and that the
  texts of the chunks of a stream, whatever the chunking, are the text of the whole stream.
\<close>

record captured_output =
  co_stdout :: codepoints
  co_stderr :: codepoints
  co_retained_bytes :: int
  co_truncated_bytes :: int
  co_decoding_errors :: bool

definition co_truncated :: "captured_output \<Rightarrow> bool" where
  "co_truncated c \<longleftrightarrow> co_truncated_bytes c > 0"

text \<open>
  \<open>data.decode("utf-8")\<close> with strict errors, then with replacement when that raises: the
  strict decoder raises exactly when some piece of the input is invalid.
\<close>

definition decode_all :: "bytes \<Rightarrow> decoded list" where
  "decode_all data = fst (decode_step [] data True)"

definition decode_output :: "bytes \<Rightarrow> codepoints \<times> bool" where
  "decode_output data =
     (let ds = decode_all data in
      if \<not> list_ex is_bad ds then (replace_text ds, False) else (replace_text ds, True))"

definition capture_output :: "bytes \<Rightarrow> bytes \<Rightarrow> int option \<Rightarrow> captured_output res" where
  "capture_output out err max_bytes =
     (if (case max_bytes of Some m \<Rightarrow> m < 0 | None \<Rightarrow> False)
      then Inl (ValueError ''max_bytes must be greater than or equal to zero'')
      else
        let budget = (case max_bytes of None \<Rightarrow> int (length out) + int (length err) | Some m \<Rightarrow> m);
            kept_stdout = take (nat budget) out;
            remaining = max 0 (budget - int (length kept_stdout));
            kept_stderr = take (nat remaining) err;
            retained = int (length kept_stdout) + int (length kept_stderr);
            total = int (length out) + int (length err);
            (stdout_text, stdout_errors) = decode_output kept_stdout;
            (stderr_text, stderr_errors) = decode_output kept_stderr
        in Inr \<lparr>co_stdout = stdout_text, co_stderr = stderr_text, co_retained_bytes = retained,
                co_truncated_bytes = total - retained,
                co_decoding_errors = stdout_errors \<or> stderr_errors\<rparr>)"

text \<open>\<open>_Utf8StreamDecoder\<close>: two incremental decoders that differ in their error handler.\<close>

record stream_decoder =
  sd_text_pending :: bytes
  sd_validation_pending :: bytes

definition new_decoder :: stream_decoder where
  "new_decoder = \<lparr>sd_text_pending = [], sd_validation_pending = []\<rparr>"

definition stream_decode :: "stream_decoder \<Rightarrow> bytes \<Rightarrow> bool \<Rightarrow> codepoints \<times> bool \<times> stream_decoder" where
  "stream_decode d data fin =
     (let (text_items, tp) = decode_step (sd_text_pending d) data fin;
          (validated_items, vp) = decode_step (sd_validation_pending d) data fin;
          validated = escape_text validated_items
      in (replace_text text_items,
          list_ex (\<lambda>c. 56448 \<le> c \<and> c \<le> 56575) validated,
          \<lparr>sd_text_pending = tp, sd_validation_pending = vp\<rparr>))"

subsection \<open>The budget\<close>

lemma capture_output_error:
  "capture_output out err m = Inl e \<longleftrightarrow>
     (\<exists>i. m = Some i \<and> i < 0) \<and> e = ValueError ''max_bytes must be greater than or equal to zero''"
  by (auto simp: capture_output_def Let_def split: option.splits prod.splits)

lemma capture_output_accounting:
  assumes "capture_output out err m = Inr c"
  shows "co_retained_bytes c + co_truncated_bytes c = int (length out) + int (length err)"
  using assms by (auto simp: capture_output_def Let_def split: if_splits prod.splits)

lemma capture_output_budget:
  assumes "capture_output out err (Some b) = Inr c"
  shows "co_retained_bytes c = min b (int (length out) + int (length err))"
  using assms by (auto simp: capture_output_def Let_def min_def split: if_splits prod.splits)

lemma capture_output_unbounded:
  assumes "capture_output out err None = Inr c"
  shows "co_retained_bytes c = int (length out) + int (length err) \<and> \<not> co_truncated c"
  using assms by (auto simp: capture_output_def Let_def co_truncated_def split: if_splits prod.splits)

subsection \<open>Decoding chunk by chunk\<close>

lemma escape_text_simps [simp]:
  "escape_text [] = []"
  "escape_text (Scalar c # ds) = c # escape_text ds"
  "escape_text (Bad bs # ds) = map (\<lambda>b. 56320 + unat b) bs @ escape_text ds"
  by (simp_all add: escape_text_def)

text \<open>A bad piece is never empty and holds only bytes from 0x80, so its escapes are surrogates.\<close>

definition items_ok :: "decoded list \<Rightarrow> bool" where
  "items_ok ds \<longleftrightarrow>
     (\<forall>bs. Bad bs \<in> set ds \<longrightarrow> bs \<noteq> [] \<and> (\<forall>b \<in> set bs. 128 \<le> unat b))
     \<and> (\<forall>c. Scalar c \<in> set ds \<longrightarrow> \<not> (56448 \<le> c \<and> c \<le> 56575))"

lemma items_ok_simps [simp]:
  "items_ok []" "items_ok (a @ b) \<longleftrightarrow> items_ok a \<and> items_ok b"
  by (auto simp: items_ok_def)

lemma unat_byte_le: "unat (b :: byte) \<le> 255"
proof -
  have "unat b < 2 ^ LENGTH(8)" by (rule unsigned_less)
  then show ?thesis by simp
qed

lemma list_ex_escape:
  "items_ok ds \<Longrightarrow> list_ex (\<lambda>c. 56448 \<le> c \<and> c \<le> 56575) (escape_text ds) = list_ex is_bad ds"
proof (induction ds)
  case Nil
  then show ?case by simp
next
  case (Cons d ds)
  then have ok: "items_ok ds" "items_ok [d]"
    using items_ok_simps(2) [of "[d]" ds] by auto
  show ?case
  proof (cases d)
    case (Scalar c)
    with ok have "\<not> (56448 \<le> c \<and> c \<le> 56575)" by (simp add: items_ok_def)
    with Cons.IH ok Scalar show ?thesis by (auto simp: is_bad_def)
  next
    case (Bad bs)
    with ok obtain b bs' where b: "bs = b # bs'" "128 \<le> unat b"
      by (cases bs) (auto simp: items_ok_def)
    with unat_byte_le [of b] Bad show ?thesis by (simp add: is_bad_def)
  qed
qed

lemma lead_high: "2 \<le> seq_len a \<or> seq_len a = 0 \<Longrightarrow> 128 \<le> unat a"
  by (auto simp: seq_len_def Let_def split: if_splits)

lemma pending_ok_high: "pending_ok p \<Longrightarrow> b \<in> set p \<Longrightarrow> 128 \<le> unat b"
  by (auto simp: pending_ok_def ok_second_def cont_byte_def lead_high)

lemma code_point_no_escape:
  assumes "pending_ok (p @ [b]) \<or> True" and "pending_ok p" and "extends p b"
    and "Suc (length p) = seq_len (hd p)"
  shows "\<not> (56448 \<le> code_point (p @ [b]) \<and> code_point (p @ [b]) \<le> 56575)"
proof -
  from assms(3) have "p \<noteq> []" by auto
  with assms(2) consider
      (one) a where "p = [a]" "2 \<le> seq_len a"
    | (two) a a' where "p = [a, a']" "3 \<le> seq_len a" "ok_second a a'"
    | (three) a a' c where "p = [a, a', c]" "seq_len a = 4" "ok_second a a'" "cont_byte c"
    unfolding pending_ok_def by blast
  then show ?thesis
  proof cases
    case one
    with assms(3,4) show ?thesis
      by (auto simp: seq_len_def ok_second_def cont_byte_def Let_def split: if_splits)
  next
    case two
    let ?x = "unat a - 224" and ?n = "unat a' - 128" and ?k = "unat b - 128"
    from two assms(3,4) have "?x < 16" "?n < 64" "?k < 64" "?x = 13 \<longrightarrow> ?n < 32"
      by (auto simp: seq_len_def ok_second_def cont_byte_def Let_def split: if_splits)
    then have "\<not> (56448 \<le> ?x * 4096 + ?n * 64 + ?k \<and> ?x * 4096 + ?n * 64 + ?k \<le> 56575)"
      by (cases "?x \<le> 12"; cases "?x = 13") auto
    with two show ?thesis by simp
  next
    case three
    let ?x = "unat a - 240" and ?l = "unat a' - 128"
    from three assms(3,4) have "?x = 0 \<longrightarrow> 16 \<le> ?l"
      by (auto simp: seq_len_def ok_second_def cont_byte_def Let_def split: if_splits)
    then have "65536 \<le> ?x * 262144 + ?l * 4096" by (cases "?x = 0") auto
    with three show ?thesis by simp
  qed
qed

lemma start_byte_items_ok: "start_byte b = (out, p) \<Longrightarrow> items_ok out"
  using lead_high [of b] unat_byte_le [of b]
  by (auto simp: start_byte_def items_ok_def split: if_splits)

lemma feed_byte_items_ok:
  assumes "pending_ok pend" and "feed_byte pend b = (out, p)"
  shows "items_ok out"
proof (cases "extends pend b")
  case True
  then have "pend \<noteq> []" by auto
  with True assms show ?thesis
    using code_point_no_escape [of pend b]
    by (auto simp: feed_byte_def items_ok_def split: if_splits)
next
  case False
  obtain o' p' where st: "start_byte b = (o', p')" by (cases "start_byte b")
  have "items_ok o'" by (rule start_byte_items_ok [OF st])
  with False assms st show ?thesis
    by (auto simp: feed_byte_def items_ok_def pending_ok_high split: if_splits)
qed

lemma feed_items_ok: "pending_ok pend \<Longrightarrow> feed pend bs = (out, p) \<Longrightarrow> items_ok out"
proof (induction bs arbitrary: pend out p)
  case (Cons b bs)
  obtain o1 p1 where one: "feed_byte pend b = (o1, p1)" by (cases "feed_byte pend b")
  obtain o2 p2 where two: "feed p1 bs = (o2, p2)" by (cases "feed p1 bs")
  have "pending_ok p1" using feed_byte_lossless [OF Cons.prems(1) one] by simp
  with Cons.IH [OF _ two] feed_byte_items_ok [OF Cons.prems(1) one] Cons.prems(2) one two
  show ?case by auto
qed simp

lemma decode_step_ok:
  assumes "pending_ok p" and "decode_step p data fin = (out, p')"
  shows "items_ok out \<and> pending_ok p'"
proof -
  obtain o1 p1 where f: "feed p data = (o1, p1)" by (cases "feed p data")
  have ok: "items_ok o1" "pending_ok p1"
    using feed_items_ok [OF assms(1) f] feed_lossless [OF assms(1) f] by auto
  then have "items_ok (finish p1)" by (auto simp: finish_def items_ok_def pending_ok_high)
  with ok assms(2) f show ?thesis by (auto simp: decode_step_def pending_ok_def split: if_splits)
qed

text \<open>The two decoders of a stream hold the same pending bytes, a legal prefix.\<close>

definition decoder_ok :: "stream_decoder \<Rightarrow> bool" where
  "decoder_ok d \<longleftrightarrow> sd_validation_pending d = sd_text_pending d \<and> pending_ok (sd_text_pending d)"

lemma decoder_ok_new [simp]: "decoder_ok new_decoder"
  by (simp add: decoder_ok_def new_decoder_def pending_ok_def)

lemma stream_decode_step:
  assumes "decoder_ok d" and "decode_step (sd_text_pending d) data fin = (out, p)"
  shows "stream_decode d data fin = (replace_text out, list_ex is_bad out,
    \<lparr>sd_text_pending = p, sd_validation_pending = p\<rparr>)"
  using assms decode_step_ok [of "sd_text_pending d" data fin out p]
  by (simp add: stream_decode_def decoder_ok_def list_ex_escape)

lemma stream_decode_ok [inv_pres]:
  assumes "decoder_ok d" and "stream_decode d data fin = (text, errs, d')"
  shows "decoder_ok d'"
proof -
  obtain out p where st: "decode_step (sd_text_pending d) data fin = (out, p)"
    by (cases "decode_step (sd_text_pending d) data fin")
  with assms stream_decode_step [OF assms(1) st] show ?thesis
    using decode_step_ok [OF _ st] by (auto simp: decoder_ok_def)
qed

text \<open>Decoding a list of chunks as they arrive, then flushing at end of file.\<close>

fun decode_chunks :: "stream_decoder \<Rightarrow> bytes list \<Rightarrow> codepoints \<times> bool" where
  "decode_chunks d [] = (let (text, errs, _) = stream_decode d [] True in (text, errs))"
| "decode_chunks d (c # cs) =
     (let (text, errs, d') = stream_decode d c False; (text', errs') = decode_chunks d' cs
      in (text @ text', errs \<or> errs'))"

lemma decode_chunks_items:
  assumes "decoder_ok d"
  shows "decode_chunks d cs =
    (let ds = fst (decode_step (sd_text_pending d) (concat cs) True)
     in (replace_text ds, list_ex is_bad ds))"
  using assms
proof (induction cs arbitrary: d)
  case Nil
  obtain out p where st: "decode_step (sd_text_pending d) [] True = (out, p)"
    by (cases "decode_step (sd_text_pending d) [] True")
  with stream_decode_step [OF Nil st] show ?case by simp
next
  case (Cons c cs)
  obtain out p where f: "feed (sd_text_pending d) c = (out, p)"
    by (cases "feed (sd_text_pending d) c")
  then have st: "decode_step (sd_text_pending d) c False = (out, p)"
    by (simp add: decode_step_def)
  note sd = stream_decode_step [OF Cons.prems st]
  have "decoder_ok \<lparr>sd_text_pending = p, sd_validation_pending = p\<rparr>"
    by (rule stream_decode_ok [OF Cons.prems sd])
  from Cons.IH [OF this] sd f show ?case
    by (simp add: decode_step_def feed_append Let_def split: prod.splits)
qed

lemma decode_chunks_whole: "decode_chunks new_decoder cs = decode_output (concat cs)"
  using decode_chunks_items [OF decoder_ok_new]
  by (simp add: decode_output_def decode_all_def new_decoder_def Let_def)

text \<open>
  C25. The event texts of a stream do not depend on how the operating system chunked it: the
  concatenated texts of all chunks and of the final flush are the decoded text of the whole
  stream, and decoding errors are reported on some event exactly when the whole has one.
\<close>

theorem stream_text_is_output_text:
  "decode_chunks new_decoder cs = decode_output (concat cs)"
  by (rule decode_chunks_whole)

text \<open>
  C26. Output that is valid UTF-8 is decoded to the text that was encoded, with no decoding
  error reported, whatever the chunking.
\<close>

theorem stream_text_roundtrip:
  assumes "\<forall>c \<in> set cs. scalar_value c" and "concat chunks = encode_utf8 cs"
  shows "decode_chunks new_decoder chunks = (cs, False)"
proof -
  have "decode_all (encode_utf8 cs) = map Scalar cs"
    using assms(1) by (simp add: decode_all_def decode_step_def feed_encode finish_def)
  moreover have "replace_text (map Scalar cs) = cs" by (simp add: replace_text_def comp_def)
  moreover have "\<not> list_ex is_bad (map Scalar cs)" by (simp add: list_ex_iff is_bad_def)
  ultimately show ?thesis
    using assms(2) by (simp add: decode_chunks_whole decode_output_def)
qed

theorem stream_text_roundtrip_witness:
  "decode_chunks new_decoder [[72, 195], [169, 226, 130], [172]] = ([72, 233, 8364], False)"
proof (rule stream_text_roundtrip)
  show "\<forall>c \<in> set [72, 233, 8364]. scalar_value c" by (simp add: scalar_value_def)
  show "concat [[72, 195], [169, 226, 130], [172]] = encode_utf8 [72, 233, 8364]"
    by (simp add: encode_utf8_def encode_cp_def)
qed

text \<open>
  \<open>capture_output\<close> keeps exactly as many bytes as its budget allows (all of them without a
  budget), accounts for every byte as retained or truncated, and refuses only a negative budget.
\<close>

theorem capture_output_budget_exact:
  "case capture_output out err max_bytes of
     Inl e \<Rightarrow> (\<exists>b < 0. max_bytes = Some b)
   | Inr c \<Rightarrow>
       co_retained_bytes c + co_truncated_bytes c = int (length out) + int (length err)
       \<and> co_retained_bytes c = (case max_bytes of None \<Rightarrow> int (length out) + int (length err)
            | Some b \<Rightarrow> min b (int (length out) + int (length err)))
       \<and> 0 \<le> co_truncated_bytes c"
proof (cases "capture_output out err max_bytes")
  case (Inl e)
  then have "\<exists>b < 0. max_bytes = Some b" using capture_output_error by blast
  with Inl show ?thesis by simp
next
  case (Inr c)
  then show ?thesis
    using capture_output_accounting [OF Inr] capture_output_budget [of out err _ c]
      capture_output_unbounded [of out err c]
    by (auto split: option.splits)
qed

end
