(* ===== verification/CoreModels.thy ===== *)
theory CoreModels
  imports Prelude
begin

section \<open>Command requests (core/models.py)\<close>

text \<open>
  \<open>CommandSpec\<close> and \<open>ResourceLimits\<close> with their validation. The members of \<open>argv\<close> are Python
  values, since a caller can put anything there and the code checks them; the other fields have
  the types their annotations give them.
\<close>

datatype command_mode = PIPE | PTY

fun command_mode_value :: "command_mode \<Rightarrow> string" where
  "command_mode_value PIPE = ''pipe''"
| "command_mode_value PTY = ''pty''"

definition command_mode_of :: "string \<Rightarrow> command_mode res" where
  "command_mode_of s =
     (if s = ''pipe'' then Inr PIPE else if s = ''pty'' then Inr PTY
      else Inl (ValueError ''not a valid CommandMode''))"

record resource_limits =
  rl_memory_bytes :: "int option"
  rl_cpu_time_seconds :: "int option"
  rl_process_count :: "int option"

definition no_limits :: resource_limits where
  "no_limits = \<lparr>rl_memory_bytes = None, rl_cpu_time_seconds = None, rl_process_count = None\<rparr>"

fun check_positive :: "(string \<times> int option) list \<Rightarrow> unit res" where
  "check_positive [] = Inr ()"
| "check_positive ((name, value) # rest) =
     (case value of
        Some v \<Rightarrow> if v \<le> 0 then Inl (ValueError (name @ '' must be positive'')) else check_positive rest
      | None \<Rightarrow> check_positive rest)"

definition limits_validate :: "resource_limits \<Rightarrow> unit res" where
  "limits_validate l =
     check_positive
       [(''memory_bytes'', rl_memory_bytes l), (''cpu_time_seconds'', rl_cpu_time_seconds l),
        (''process_count'', rl_process_count l)]"

type_synonym env_map = "(string \<times> string) list"

record command_spec =
  cs_executable :: string
  cs_argv :: "pyval list"
  cs_cwd :: "string option"
  cs_env :: "env_map option"
  cs_mode :: command_mode
  cs_resources :: resource_limits
  cs_inherit_env :: bool

definition bad_env_key :: "string \<Rightarrow> bool" where
  "bad_env_key k \<longleftrightarrow> k = [] \<or> CHR ''='' \<in> set k"

definition spec_validate :: "command_spec \<Rightarrow> unit res" where
  "spec_validate s =
     (if blank (cs_executable s) then Inl (ValueError ''executable must be a non-empty string'')
      else if list_ex (\<lambda>a. \<not> is_str a) (cs_argv s)
      then Inl (TypeError ''argv must contain only strings'')
      else if (case cs_env s of None \<Rightarrow> False | Some e \<Rightarrow> list_ex (\<lambda>(k, _). bad_env_key k) e)
      then Inl (ValueError ''environment contains an invalid variable name'')
      else limits_validate (cs_resources s))"

definition argv_list :: "command_spec \<Rightarrow> pyval list" where
  "argv_list s = VStr (cs_executable s) # cs_argv s"

text \<open>A command that the examples of the development run.\<close>

definition sample_spec :: command_spec where
  "sample_spec = \<lparr>cs_executable = ''echo'', cs_argv = [VStr ''hi''], cs_cwd = None, cs_env = None,
     cs_mode = PIPE, cs_resources = no_limits, cs_inherit_env = True\<rparr>"

subsection \<open>What validation accepts\<close>

definition positive_opt :: "int option \<Rightarrow> bool" where
  "positive_opt v \<longleftrightarrow> (case v of None \<Rightarrow> True | Some i \<Rightarrow> 0 < i)"

definition limits_ok :: "resource_limits \<Rightarrow> bool" where
  "limits_ok l \<longleftrightarrow> positive_opt (rl_memory_bytes l) \<and> positive_opt (rl_cpu_time_seconds l)
     \<and> positive_opt (rl_process_count l)"

definition spec_ok :: "command_spec \<Rightarrow> bool" where
  "spec_ok s \<longleftrightarrow> \<not> blank (cs_executable s) \<and> (\<forall>a \<in> set (cs_argv s). is_str a)
     \<and> (\<forall>e k v. cs_env s = Some e \<longrightarrow> (k, v) \<in> set e \<longrightarrow> \<not> bad_env_key k)
     \<and> limits_ok (cs_resources s)"

lemma check_positive_ok: "is_ok (check_positive ps) \<longleftrightarrow> (\<forall>(n, v) \<in> set ps. positive_opt v)"
  by (induction ps rule: check_positive.induct) (auto simp: positive_opt_def split: option.splits)

lemma limits_validate_ok: "is_ok (limits_validate l) \<longleftrightarrow> limits_ok l"
  unfolding limits_validate_def check_positive_ok by (simp add: limits_ok_def)

lemma spec_validate_ok: "is_ok (spec_validate s) \<longleftrightarrow> spec_ok s"
  by (cases "cs_env s") (auto simp: spec_validate_def spec_ok_def limits_validate_ok list_ex_iff)

lemma spec_validate_Inr: "spec_validate s = Inr () \<longleftrightarrow> spec_ok s"
  using spec_validate_ok [of s] by (cases "spec_validate s") auto

end
