(* ===== verification/Routing.thy ===== *)
theory Routing
  imports CoreModels
begin

section \<open>Routing of direct, shell and WSL commands (runtime/routing.py)\<close>

text \<open>
  How a request becomes an argument vector: direct execution, the five shells, and the WSL
  launcher, whose canonical long-form command line \<open>wsl_spec\<close> builds and
  \<open>parse_wsl_invocation\<close> reads back for the execution policy. \<open>os_nt\<close> stands for
  \<open>os.name == "nt"\<close>. \<open>nt_basename\<close> is \<open>ntpath.basename\<close> of the standard library.
\<close>

datatype shell = CMD | POWERSHELL | PWSH | BASH | ZSH

datatype target = NATIVE | WSL

fun shell_value :: "shell \<Rightarrow> string" where
  "shell_value CMD = ''cmd''"
| "shell_value POWERSHELL = ''powershell''"
| "shell_value PWSH = ''pwsh''"
| "shell_value BASH = ''bash''"
| "shell_value ZSH = ''zsh''"

record wsl_options =
  wo_distribution :: pyval
  wo_user :: pyval
  wo_cwd :: pyval

definition no_wsl_options :: wsl_options where
  "no_wsl_options = \<lparr>wo_distribution = VNone, wo_user = VNone, wo_cwd = VNone\<rparr>"

record wsl_invocation =
  wi_executable :: string
  wi_cwd :: "string option"

subsection \<open>Windows path names\<close>

definition nt_sep :: "char \<Rightarrow> bool" where
  "nt_sep c \<longleftrightarrow> c = CHR 92 \<or> c = CHR ''/''"

text \<open>The part of \<open>xs\<close> after its first separator, and the part from it on.\<close>

definition upto_sep :: "string \<Rightarrow> string option" where
  "upto_sep xs = (case dropWhile (\<lambda>c. \<not> nt_sep c) xs of [] \<Rightarrow> None | _ # ys \<Rightarrow> Some ys)"

definition unc_prefix :: "string \<Rightarrow> bool" where
  "unc_prefix p \<longleftrightarrow>
     map (\<lambda>c. if nt_sep c then CHR 92 else lower_char c) (take 8 p)
       = [CHR 92, CHR 92, CHR ''?'', CHR 92, CHR ''u'', CHR ''n'', CHR ''c'', CHR 92]"

text \<open>The path with drive and root removed: the third component of \<open>ntpath.splitroot\<close>.\<close>

definition nt_tail :: "string \<Rightarrow> string" where
  "nt_tail p =
     (case p of
        a # b # rest \<Rightarrow>
          if nt_sep a \<and> nt_sep b then
            (case upto_sep (if unc_prefix p then drop 8 p else rest) of
               None \<Rightarrow> []
             | Some share \<Rightarrow> (case upto_sep share of None \<Rightarrow> [] | Some t \<Rightarrow> t))
          else if nt_sep a then b # rest
          else if b = CHR '':'' then
            (case rest of c # cs \<Rightarrow> if nt_sep c then cs else rest | [] \<Rightarrow> [])
          else p
      | [a] \<Rightarrow> if nt_sep a then [] else p
      | [] \<Rightarrow> [])"

definition nt_basename :: "string \<Rightarrow> string" where
  "nt_basename p = after_last nt_sep (nt_tail p)"

definition is_wsl_launcher :: "string \<Rightarrow> bool" where
  "is_wsl_launcher executable \<longleftrightarrow> casefold (nt_basename executable) \<in> {''wsl'', ''wsl.exe''}"

subsection \<open>The parser of WSL command lines\<close>

definition value_options :: "string list" where
  "value_options = [''--distribution'', ''--user'', ''--cd'']"

text \<open>
  The loop over \<open>argv\<close>, from the current index on: \<open>seen\<close> are the options met so far and
  \<open>cwd\<close> the value of \<open>--cd\<close>.
\<close>

fun parse_wsl_loop :: "pyval list \<Rightarrow> string list \<Rightarrow> string option \<Rightarrow> wsl_invocation res" where
  "parse_wsl_loop [] seen cwd =
     Inl (ValueError ''WSL command requires an explicit --exec delimiter'')"
| "parse_wsl_loop (opt # rest) seen cwd =
     (if \<not> is_str opt then Inl (TypeError ''WSL launcher options must be strings'')
      else let option = str_val opt in
      if option = ''--exec'' then
        (case rest of
           [] \<Rightarrow> Inl (ValueError ''WSL --exec requires an executable'')
         | executable # _ \<Rightarrow>
             if \<not> is_str executable then Inl (TypeError ''WSL --exec executable must be a string'')
             else if str_val executable = []
             then Inl (ValueError ''WSL --exec requires an executable'')
             else Inr \<lparr>wi_executable = str_val executable, wi_cwd = cwd\<rparr>)
      else if option \<notin> set value_options
      then Inl (ValueError (''unsupported WSL launcher option: '' @ option))
      else if option \<in> set seen
      then Inl (ValueError (''duplicate WSL launcher option: '' @ option))
      else
        (case rest of
           [] \<Rightarrow> Inl (ValueError (''WSL launcher option requires a value: '' @ option))
         | value # rest' \<Rightarrow>
             if \<not> is_str value
             then Inl (TypeError (''WSL launcher option value must be a string: '' @ option))
             else if str_val value = []
             then Inl (ValueError (''WSL launcher option requires a value: '' @ option))
             else parse_wsl_loop rest' (option # seen)
                    (if option = ''--cd'' then Some (str_val value) else cwd)))"

definition parse_wsl_invocation :: "command_spec \<Rightarrow> wsl_invocation option res" where
  "parse_wsl_invocation spec =
     (if \<not> is_wsl_launcher (cs_executable spec) then Inr None
      else rbind (parse_wsl_loop (cs_argv spec) [] None) (\<lambda>w. Inr (Some w)))"

subsection \<open>Building command specifications\<close>

definition wsl_prefix :: "wsl_options \<Rightarrow> pyval list" where
  "wsl_prefix o' =
     (if truthy (wo_distribution o') then [VStr ''--distribution'', wo_distribution o'] else [])
     @ (if truthy (wo_user o') then [VStr ''--user'', wo_user o'] else [])
     @ (if truthy (wo_cwd o') then [VStr ''--cd'', wo_cwd o'] else [])
     @ [VStr ''--exec'']"

definition wsl_spec ::
  "string list \<Rightarrow> command_mode \<Rightarrow> env_map option \<Rightarrow> bool \<Rightarrow> wsl_options option
     \<Rightarrow> resource_limits option \<Rightarrow> command_spec" where
  "wsl_spec command mode env inherit options resources =
     \<lparr>cs_executable = ''wsl.exe'',
      cs_argv = wsl_prefix (case options of None \<Rightarrow> no_wsl_options | Some w \<Rightarrow> w) @ map VStr command,
      cs_cwd = None, cs_env = env, cs_mode = mode,
      cs_resources = (case resources of None \<Rightarrow> no_limits | Some r \<Rightarrow> r),
      cs_inherit_env = inherit\<rparr>"

definition shell_argv :: "bool \<Rightarrow> shell \<Rightarrow> string \<Rightarrow> string \<times> string list" where
  "shell_argv os_nt sh script =
     (case sh of
        CMD \<Rightarrow> (''cmd.exe'', [''/d'', ''/s'', ''/c'', script])
      | POWERSHELL \<Rightarrow>
          (if os_nt then ''powershell.exe'' else ''powershell'',
           [''-NoLogo'', ''-NoProfile'', ''-NonInteractive'', ''-Command'', script])
      | PWSH \<Rightarrow> (''pwsh'', [''-NoLogo'', ''-NoProfile'', ''-NonInteractive'', ''-Command'', script])
      | BASH \<Rightarrow> (''bash'', [''-lc'', script])
      | ZSH \<Rightarrow> (''zsh'', [''-lc'', script]))"

definition shell_command ::
  "bool \<Rightarrow> shell \<Rightarrow> string \<Rightarrow> string option \<Rightarrow> env_map option \<Rightarrow> bool \<Rightarrow> command_mode \<Rightarrow> target
     \<Rightarrow> wsl_options option \<Rightarrow> resource_limits option \<Rightarrow> command_spec res" where
  "shell_command os_nt sh script cwd env inherit mode tgt wsl resources =
     (if script = [] then Inl (ValueError ''shell script must be non-empty'')
      else if tgt = WSL then
        (if sh \<notin> {BASH, ZSH} then Inl (ValueError ''WSL target supports bash and zsh shell requests'')
         else Inr (wsl_spec [shell_value sh, ''-lc'', script] mode env inherit wsl resources))
      else
        Inr \<lparr>cs_executable = fst (shell_argv os_nt sh script),
             cs_argv = map VStr (snd (shell_argv os_nt sh script)),
             cs_cwd = cwd, cs_env = env, cs_mode = mode,
             cs_resources = (case resources of None \<Rightarrow> no_limits | Some r \<Rightarrow> r),
             cs_inherit_env = inherit\<rparr>)"

definition direct_command ::
  "string \<Rightarrow> string list \<Rightarrow> string option \<Rightarrow> env_map option \<Rightarrow> bool \<Rightarrow> command_mode \<Rightarrow> target
     \<Rightarrow> wsl_options option \<Rightarrow> resource_limits option \<Rightarrow> command_spec" where
  "direct_command executable argv cwd env inherit mode tgt wsl resources =
     (if tgt = WSL then wsl_spec (executable # argv) mode env inherit wsl resources
      else
        \<lparr>cs_executable = executable, cs_argv = map VStr argv, cs_cwd = cwd, cs_env = env,
         cs_mode = mode, cs_resources = (case resources of None \<Rightarrow> no_limits | Some r \<Rightarrow> r),
         cs_inherit_env = inherit\<rparr>)"

subsection \<open>Reading back what was built\<close>

lemma is_wsl_launcher_wsl_exe [simp]: "is_wsl_launcher ''wsl.exe''"
  by (simp add: is_wsl_launcher_def nt_basename_def nt_tail_def nt_sep_def after_last_def
      casefold_def lower_char_def)

text \<open>The canonical options: absent or empty, or a string.\<close>

definition option_ok :: "pyval \<Rightarrow> bool" where
  "option_ok v \<longleftrightarrow> \<not> truthy v \<or> is_str v"

definition opt_string :: "pyval \<Rightarrow> string option" where
  "opt_string v = (if truthy v then Some (str_val v) else None)"

lemma parse_wsl_loop_exec:
  "exe \<noteq> [] \<Longrightarrow> parse_wsl_loop (VStr ''--exec'' # VStr exe # rest) seen cwd
     = Inr \<lparr>wi_executable = exe, wi_cwd = cwd\<rparr>"
  by simp

lemma parse_wsl_prefix:
  assumes "option_ok (wo_distribution w)" "option_ok (wo_user w)" "option_ok (wo_cwd w)"
    and "exe \<noteq> []"
  shows "parse_wsl_loop (wsl_prefix w @ VStr exe # rest) [] None
    = Inr \<lparr>wi_executable = exe, wi_cwd = opt_string (wo_cwd w)\<rparr>"
  using assms
  by (auto simp: wsl_prefix_def option_ok_def opt_string_def value_options_def is_str_iff Let_def)

lemma parse_wsl_loop_accepts:
  "parse_wsl_loop argv seen cwd = Inr w \<Longrightarrow>
     wi_executable w \<noteq> [] \<and> VStr ''--exec'' \<in> set argv \<and> VStr (wi_executable w) \<in> set argv"
  by (induction argv seen cwd rule: parse_wsl_loop.induct)
    (auto simp: Let_def is_str_iff split: if_splits list.splits)

lemma parse_wsl_loop_shape:
  "parse_wsl_loop argv seen cwd = Inr w \<Longrightarrow>
     \<exists>opts rest. argv = concat (map (\<lambda>(k, v). [VStr k, VStr v]) opts)
         @ VStr ''--exec'' # VStr (wi_executable w) # rest
       \<and> distinct (map fst opts) \<and> set (map fst opts) \<subseteq> set value_options - set seen"
proof (induction argv seen cwd rule: parse_wsl_loop.induct)
  case (1 seen cwd)
  then show ?case by simp
next
  case (2 opt rest seen cwd)
  then obtain s where s: "opt = VStr s" by (auto simp: is_str_iff split: if_splits)
  show ?case
  proof (cases "s = ''--exec''")
    case True
    with "2.prems" s obtain e tl where "rest = VStr e # tl" "wi_executable w = e"
      by (auto simp: is_str_iff split: list.splits if_splits)
    with True s show ?thesis by (intro exI [of _ "[]"] exI [of _ tl]) simp
  next
    case False
    with "2.prems" s obtain v rest' where v: "rest = VStr v # rest'" "s \<in> set value_options"
      "s \<notin> set seen" "v \<noteq> []"
      and p: "parse_wsl_loop rest' (s # seen) (if s = ''--cd'' then Some v else cwd) = Inr w"
      by (auto simp: is_str_iff Let_def split: list.splits if_splits)
    have "\<exists>opts tl. rest' = concat (map (\<lambda>(k, v). [VStr k, VStr v]) opts)
         @ VStr ''--exec'' # VStr (wi_executable w) # tl
       \<and> distinct (map fst opts) \<and> set (map fst opts) \<subseteq> set value_options - set (s # seen)"
      by (rule "2.IH" [of s "VStr v" rest']) (use p in \<open>simp_all add: s v False split: if_splits\<close>)
    then obtain opts tl where
      o': "rest' = concat (map (\<lambda>(k, v). [VStr k, VStr v]) opts)
         @ VStr ''--exec'' # VStr (wi_executable w) # tl"
      and d: "distinct (map fst opts)" "set (map fst opts) \<subseteq> set value_options - set (s # seen)"
      by blast
    from s v o' have "opt # rest = concat (map (\<lambda>(k, v). [VStr k, VStr v]) ((s, v) # opts))
         @ VStr ''--exec'' # VStr (wi_executable w) # tl" by simp
    moreover from d v have "distinct (map fst ((s, v) # opts))"
      and "set (map fst ((s, v) # opts)) \<subseteq> set value_options - set seen" by auto
    ultimately show ?thesis by blast
  qed
qed

text \<open>
  C27. A WSL command line that the router builds is read back by the policy's parser with the
  same Linux executable and working directory, so policy checks see what will run.
\<close>

theorem wsl_command_roundtrip:
  assumes "exe \<noteq> []"
    and "option_ok (wo_distribution w)" "option_ok (wo_user w)" "option_ok (wo_cwd w)"
  shows "parse_wsl_invocation (direct_command exe argv cwd env inherit mode WSL (Some w) resources)
    = Inr (Some \<lparr>wi_executable = exe, wi_cwd = opt_string (wo_cwd w)\<rparr>)"
  using assms parse_wsl_prefix
  by (simp add: parse_wsl_invocation_def direct_command_def wsl_spec_def)

theorem wsl_command_roundtrip_witness:
  "parse_wsl_invocation (direct_command ''ls'' [''-l''] None None True PIPE WSL
      (Some \<lparr>wo_distribution = VStr ''Ubuntu'', wo_user = VNone, wo_cwd = VStr ''/tmp''\<rparr>) None)
    = Inr (Some \<lparr>wi_executable = ''ls'', wi_cwd = Some ''/tmp''\<rparr>)"
  using wsl_command_roundtrip [of "''ls''" "\<lparr>wo_distribution = VStr ''Ubuntu'', wo_user = VNone,
      wo_cwd = VStr ''/tmp''\<rparr>" "[''-l'']" None None True PIPE None]
  by (simp add: option_ok_def opt_string_def)

text \<open>
  Whatever argument vector a caller gives the WSL launcher directly, the parser accepts it
  only in canonical form: distinct long options with string values, then \<open>--exec\<close> and the
  executable that the policy is going to check.
\<close>

theorem wsl_parser_canonical:
  assumes "parse_wsl_invocation spec = Inr (Some w)"
  shows "is_wsl_launcher (cs_executable spec) \<and> wi_executable w \<noteq> []
    \<and> (\<exists>opts rest. cs_argv spec = concat (map (\<lambda>(k, v). [VStr k, VStr v]) opts)
           @ VStr ''--exec'' # VStr (wi_executable w) # rest
         \<and> distinct (map fst opts) \<and> set (map fst opts) \<subseteq> set value_options)"
proof -
  from assms have l: "is_wsl_launcher (cs_executable spec)"
    and p: "parse_wsl_loop (cs_argv spec) [] None = Inr w"
    by (auto simp: parse_wsl_invocation_def rbind_Inr_iff split: if_splits)
  with parse_wsl_loop_shape [OF p] parse_wsl_loop_accepts [OF p] show ?thesis by auto
qed

theorem wsl_parser_canonical_witness:
  "\<exists>spec w. cs_executable spec = ''C:/Windows/System32/WSL.EXE''
     \<and> parse_wsl_invocation spec = Inr (Some w) \<and> wi_executable w = ''id''
     \<and> (\<exists>opts rest. cs_argv spec = concat (map (\<lambda>(k, v). [VStr k, VStr v]) opts)
           @ VStr ''--exec'' # VStr ''id'' # rest
         \<and> distinct (map fst opts) \<and> set (map fst opts) \<subseteq> set value_options)"
proof -
  let ?spec = "\<lparr>cs_executable = ''C:/Windows/System32/WSL.EXE'',
      cs_argv = [VStr ''--user'', VStr ''root'', VStr ''--exec'', VStr ''id''],
      cs_cwd = None, cs_env = None, cs_mode = PIPE, cs_resources = no_limits, cs_inherit_env = True\<rparr>"
  have p: "parse_wsl_invocation ?spec = Inr (Some \<lparr>wi_executable = ''id'', wi_cwd = None\<rparr>)"
    by code_simp
  show ?thesis
    using wsl_parser_canonical [OF p] p
    by (intro exI [of _ ?spec] exI [of _ "\<lparr>wi_executable = ''id'', wi_cwd = None\<rparr>"]) simp
qed

end
