(* ===== verification/Policy.thy ===== *)
theory Policy
  imports Routing
begin

section \<open>The host execution policy (runtime/policy.py)\<close>

text \<open>
  \<open>ExecutionPolicy.enforce\<close> as a chain of checks whose first failure names the violated rule
  (\<open>Inl rule\<close> is \<open>raise PolicyViolation(rule)\<close>), \<open>effective_spec\<close>, which also materialises
  resource ceilings, and the strict JSON form of a policy. What depends on the operating system
  (\<open>os.path.normcase\<close>, \<open>Path(x).name\<close>, \<open>Path(x).is_absolute()\<close>, \<open>Path(x).resolve()\<close> as a list of
  components, \<open>os.getcwd()\<close>) is the record \<open>host\<close>; \<open>posix_host\<close> is its POSIX instance.
\<close>

record host =
  h_normcase :: "string \<Rightarrow> string"
  h_path_name :: "string \<Rightarrow> string"
  h_is_absolute :: "string \<Rightarrow> bool"
  h_resolve :: "string \<Rightarrow> string list"
  h_cwd :: string

definition slash :: "char \<Rightarrow> bool" where
  "slash c \<longleftrightarrow> c = CHR ''/''"

definition posix_basename :: "string \<Rightarrow> string" where
  "posix_basename p = after_last slash p"

definition posix_isabs :: "string \<Rightarrow> bool" where
  "posix_isabs p = (case p of [] \<Rightarrow> False | c # _ \<Rightarrow> slash c)"

fun split_slash :: "string \<Rightarrow> string \<Rightarrow> string list" where
  "split_slash acc [] = [rev acc]"
| "split_slash acc (c # cs) = (if slash c then rev acc # split_slash [] cs else split_slash (c # acc) cs)"

definition path_parts :: "string \<Rightarrow> string list" where
  "path_parts p = filter (\<lambda>x. x \<noteq> [] \<and> x \<noteq> ''.'') (split_slash [] p)"

definition posix_path_name :: "string \<Rightarrow> string" where
  "posix_path_name p = (case rev (path_parts p) of [] \<Rightarrow> [] | x # _ \<Rightarrow> x)"

fun drop_dotdot :: "string list \<Rightarrow> string list \<Rightarrow> string list" where
  "drop_dotdot acc [] = rev acc"
| "drop_dotdot acc (x # xs) = (if x = ''..'' then drop_dotdot (tl acc) xs else drop_dotdot (x # acc) xs)"

definition posix_host :: "string \<Rightarrow> host" where
  "posix_host cwd =
     \<lparr>h_normcase = (\<lambda>s. s), h_path_name = posix_path_name, h_is_absolute = posix_isabs,
      h_resolve = (\<lambda>p. drop_dotdot [] (path_parts (if posix_isabs p then p else cwd @ ''/'' @ p))),
      h_cwd = cwd\<rparr>"

record policy =
  ep_allowed_executables :: "string set option"
  ep_denied_executables :: "string set"
  ep_allowed_cwd_roots :: "string list"
  ep_allowed_env_keys :: "string set option"
  ep_allow_parent_environment :: bool
  ep_require_absolute_executable :: bool
  ep_require_timeout :: bool
  ep_max_timeout_ms :: "int option"
  ep_max_output_bytes :: "int option"
  ep_max_memory_bytes :: "int option"
  ep_max_cpu_time_seconds :: "int option"
  ep_max_process_count :: "int option"

definition default_policy :: policy where
  "default_policy =
     \<lparr>ep_allowed_executables = None, ep_denied_executables = {}, ep_allowed_cwd_roots = [],
      ep_allowed_env_keys = None, ep_allow_parent_environment = True,
      ep_require_absolute_executable = False, ep_require_timeout = False,
      ep_max_timeout_ms = None, ep_max_output_bytes = None, ep_max_memory_bytes = None,
      ep_max_cpu_time_seconds = None, ep_max_process_count = None\<rparr>"

definition normalized :: "host \<Rightarrow> string set \<Rightarrow> string set" where
  "normalized h vs = h_normcase h ` vs"

definition command_names :: "host \<Rightarrow> string \<Rightarrow> string set" where
  "command_names h executable = normalized h {executable, h_path_name h executable}"

definition posix_command_names :: "string \<Rightarrow> string set" where
  "posix_command_names executable = {executable, posix_basename executable}"

definition matches_windows_wsl_launcher :: "host \<Rightarrow> string \<Rightarrow> string set \<Rightarrow> bool" where
  "matches_windows_wsl_launcher h executable policy_names =
     (if \<not> is_wsl_launcher executable then False
      else
        {casefold executable,
         casefold (h_path_name h (map (\<lambda>c. if c = CHR 92 then CHR ''/'' else c) executable))}
        \<inter> casefold ` policy_names \<noteq> {})"

definition checks_effective_context :: "policy \<Rightarrow> bool" where
  "checks_effective_context p \<longleftrightarrow>
     ep_allowed_executables p \<noteq> None \<or> ep_denied_executables p \<noteq> {}
     \<or> ep_require_absolute_executable p \<or> ep_allowed_cwd_roots p \<noteq> []"

definition policy_wsl_invocation :: "command_spec \<Rightarrow> policy \<Rightarrow> string + wsl_invocation option" where
  "policy_wsl_invocation spec p =
     (if \<not> is_wsl_launcher (cs_executable spec) \<or> \<not> checks_effective_context p then Inr None
      else (case parse_wsl_invocation spec of Inl _ \<Rightarrow> Inl ''wsl_command'' | Inr w \<Rightarrow> Inr w))"

text \<open>\<open>os.path.commonpath((path, root)) == str(root)\<close> on resolved paths.\<close>

fun common_path :: "string list \<Rightarrow> string list \<Rightarrow> string list" where
  "common_path (x # xs) (y # ys) = (if x = y then x # common_path xs ys else [])"
| "common_path _ _ = []"

definition is_within :: "string list \<Rightarrow> string list \<Rightarrow> bool" where
  "is_within path base \<longleftrightarrow> common_path path base = base"

definition native_cwd_is_allowed :: "host \<Rightarrow> command_spec \<Rightarrow> string list \<Rightarrow> bool" where
  "native_cwd_is_allowed h spec roots =
     (let cwd = h_resolve h (case cs_cwd spec of None \<Rightarrow> h_cwd h
                 | Some c \<Rightarrow> if c = [] then h_cwd h else c)
      in list_ex (\<lambda>r. is_within cwd (h_resolve h r)) roots)"

definition over_ceiling :: "int option \<Rightarrow> int option \<Rightarrow> bool" where
  "over_ceiling value limit =
     (case (limit, value) of (Some c, Some v) \<Rightarrow> v > c | _ \<Rightarrow> False)"

fun enforce_ceilings :: "(string \<times> int option \<times> int option) list \<Rightarrow> string + unit" where
  "enforce_ceilings [] = Inr ()"
| "enforce_ceilings ((rule, value, limit) # rest) =
     (if over_ceiling value limit then Inl rule else enforce_ceilings rest)"

definition requested_names :: "host \<Rightarrow> wsl_invocation option \<Rightarrow> command_spec \<Rightarrow> string set" where
  "requested_names h wsl spec =
     (case wsl of Some w \<Rightarrow> posix_command_names (wi_executable w)
      | None \<Rightarrow> command_names h (cs_executable spec))"

definition policy_names :: "host \<Rightarrow> wsl_invocation option \<Rightarrow> string set \<Rightarrow> string set" where
  "policy_names h wsl names = (case wsl of Some _ \<Rightarrow> names | None \<Rightarrow> normalized h names)"

definition enforce_with :: "host \<Rightarrow> policy \<Rightarrow> command_spec \<Rightarrow> int option \<Rightarrow> int option \<Rightarrow>
     wsl_invocation option \<Rightarrow> string + unit" where
  "enforce_with h p spec timeout_ms max_output wsl =
     (let requested = requested_names h wsl spec in
      if requested \<inter> policy_names h wsl (ep_denied_executables p) \<noteq> {}
      then Inl ''denied_executables''
      else if (case ep_allowed_executables p of None \<Rightarrow> False
               | Some names \<Rightarrow> requested \<inter> policy_names h wsl names = {})
      then Inl ''allowed_executables''
      else if ep_require_absolute_executable p
           \<and> \<not> (case wsl of Some w \<Rightarrow> posix_isabs (wi_executable w)
                | None \<Rightarrow> h_is_absolute h (cs_executable spec))
      then Inl ''require_absolute_executable''
      else if ep_allowed_cwd_roots p \<noteq> [] \<and> wsl \<noteq> None then Inl ''wsl_cwd_physical_resolution''
      else if ep_allowed_cwd_roots p \<noteq> [] \<and> \<not> native_cwd_is_allowed h spec (ep_allowed_cwd_roots p)
      then Inl ''allowed_cwd_roots''
      else if \<not> ep_allow_parent_environment p \<and> cs_inherit_env spec
      then Inl ''allow_parent_environment''
      else if (case (ep_allowed_env_keys p, cs_env spec) of
                 (Some keys, Some e) \<Rightarrow> fst ` set e - keys \<noteq> {} | _ \<Rightarrow> False)
      then Inl ''allowed_env_keys''
      else if ep_require_timeout p \<and> timeout_ms = None then Inl ''require_timeout''
      else enforce_ceilings
        [(''max_timeout_ms'', timeout_ms, ep_max_timeout_ms p),
         (''max_output_bytes'', max_output, ep_max_output_bytes p),
         (''max_memory_bytes'', rl_memory_bytes (cs_resources spec), ep_max_memory_bytes p),
         (''max_cpu_time_seconds'', rl_cpu_time_seconds (cs_resources spec), ep_max_cpu_time_seconds p),
         (''max_process_count'', rl_process_count (cs_resources spec), ep_max_process_count p)])"

definition enforce :: "host \<Rightarrow> policy \<Rightarrow> command_spec \<Rightarrow> int option \<Rightarrow> int option \<Rightarrow> string + unit" where
  "enforce h p spec timeout_ms max_output =
     (if ep_denied_executables p \<noteq> {}
         \<and> matches_windows_wsl_launcher h (cs_executable spec) (ep_denied_executables p)
      then Inl ''denied_executables''
      else rbind (policy_wsl_invocation spec p) (enforce_with h p spec timeout_ms max_output))"

definition or_ceiling :: "int option \<Rightarrow> int option \<Rightarrow> int option" where
  "or_ceiling requested limit = (case requested of Some v \<Rightarrow> Some v | None \<Rightarrow> limit)"

definition effective_limits :: "policy \<Rightarrow> resource_limits \<Rightarrow> resource_limits" where
  "effective_limits p r =
     \<lparr>rl_memory_bytes = or_ceiling (rl_memory_bytes r) (ep_max_memory_bytes p),
      rl_cpu_time_seconds = or_ceiling (rl_cpu_time_seconds r) (ep_max_cpu_time_seconds p),
      rl_process_count = or_ceiling (rl_process_count r) (ep_max_process_count p)\<rparr>"

definition effective_spec ::
  "host \<Rightarrow> policy \<Rightarrow> command_spec \<Rightarrow> int option \<Rightarrow> int option \<Rightarrow> string + command_spec" where
  "effective_spec h p spec timeout_ms max_output =
     rbind (enforce h p spec timeout_ms max_output)
       (\<lambda>_. let effective = effective_limits p (cs_resources spec) in
            Inr (if effective = cs_resources spec then spec
                 else spec\<lparr>cs_resources := effective\<rparr>))"

subsection \<open>Policies from JSON\<close>

definition json_strings :: "pydict \<Rightarrow> string \<Rightarrow> string list option \<Rightarrow> string list res" where
  "json_strings value key dflt =
     (case map_of value key of
        None \<Rightarrow> (case dflt of Some d \<Rightarrow> Inr d
                | None \<Rightarrow> Inl (ValueError (key @ '' must be an array of strings'')))
      | Some (VList items) \<Rightarrow>
          (if list_all is_str items then Inr (map str_val items)
           else Inl (ValueError (key @ '' must be an array of strings'')))
      | Some _ \<Rightarrow> Inl (ValueError (key @ '' must be an array of strings'')))"

definition optional_strings :: "pydict \<Rightarrow> string \<Rightarrow> string set option res" where
  "optional_strings value key =
     (if \<not> has_key value key then Inr None
      else rbind (json_strings value key None) (\<lambda>xs. Inr (Some (set xs))))"

definition json_boolean :: "pydict \<Rightarrow> string \<Rightarrow> bool \<Rightarrow> bool res" where
  "json_boolean value key dflt =
     (case dget_or value key (VBool dflt) of VBool b \<Rightarrow> Inr b
      | _ \<Rightarrow> Inl (TypeError (key @ '' must be a boolean'')))"

definition optional_positive_int :: "pydict \<Rightarrow> string \<Rightarrow> int option res" where
  "optional_positive_int value key =
     (case dget value key of
        VNone \<Rightarrow> Inr None
      | VInt i \<Rightarrow> if i \<le> 0 then Inl (ValueError (key @ '' must be a positive integer'')) else Inr (Some i)
      | _ \<Rightarrow> Inl (ValueError (key @ '' must be a positive integer'')))"

definition policy_fields :: "string list" where
  "policy_fields =
     [''allowed_executables'', ''denied_executables'', ''allowed_cwd_roots'', ''allowed_env_keys'',
      ''allow_parent_environment'', ''require_absolute_executable'', ''require_timeout'',
      ''max_timeout_ms'', ''max_output_bytes'', ''max_memory_bytes'', ''max_cpu_time_seconds'',
      ''max_process_count'']"

definition policy_from_dict :: "pydict \<Rightarrow> policy res" where
  "policy_from_dict v =
     (if unknown_key v policy_fields \<noteq> None
      then Inl (ValueError ''unknown execution policy fields'')
      else
        rbind (optional_strings v ''allowed_executables'') (\<lambda>allowed.
        rbind (optional_strings v ''denied_executables'') (\<lambda>denied.
        rbind (json_strings v ''allowed_cwd_roots'' (Some [])) (\<lambda>roots.
        rbind (optional_strings v ''allowed_env_keys'') (\<lambda>keys.
        rbind (json_boolean v ''allow_parent_environment'' True) (\<lambda>parent.
        rbind (json_boolean v ''require_absolute_executable'' False) (\<lambda>absolute.
        rbind (json_boolean v ''require_timeout'' False) (\<lambda>need_timeout.
        rbind (optional_positive_int v ''max_timeout_ms'') (\<lambda>max_timeout.
        rbind (optional_positive_int v ''max_output_bytes'') (\<lambda>max_output.
        rbind (optional_positive_int v ''max_memory_bytes'') (\<lambda>max_memory.
        rbind (optional_positive_int v ''max_cpu_time_seconds'') (\<lambda>max_cpu.
        rbind (optional_positive_int v ''max_process_count'') (\<lambda>max_processes.
        Inr \<lparr>ep_allowed_executables = allowed,
             ep_denied_executables = (case denied of None \<Rightarrow> {} | Some d \<Rightarrow> d),
             ep_allowed_cwd_roots = roots, ep_allowed_env_keys = keys,
             ep_allow_parent_environment = parent, ep_require_absolute_executable = absolute,
             ep_require_timeout = need_timeout, ep_max_timeout_ms = max_timeout,
             ep_max_output_bytes = max_output, ep_max_memory_bytes = max_memory,
             ep_max_cpu_time_seconds = max_cpu, ep_max_process_count = max_processes\<rparr>)))))))))))))"

text \<open>\<open>from_json\<close> on the decoded document.\<close>

definition policy_from_json :: "pyval \<Rightarrow> policy res" where
  "policy_from_json v =
     (case v of VDict d \<Rightarrow> policy_from_dict d
      | _ \<Rightarrow> Inl (TypeError ''execution policy must be a JSON object''))"

subsection \<open>What a policy admits\<close>

lemma is_within_prefix: "is_within path base \<longleftrightarrow> prefix base path"
  by (induction path base rule: common_path.induct) (auto simp: is_within_def)

lemma enforce_ceilings_ok:
  "enforce_ceilings cs = Inr () \<longleftrightarrow> (\<forall>(r, v, c) \<in> set cs. \<not> over_ceiling v c)"
  by (induction cs rule: enforce_ceilings.induct) auto

definition within_ceilings :: "policy \<Rightarrow> command_spec \<Rightarrow> int option \<Rightarrow> int option \<Rightarrow> bool" where
  "within_ceilings p spec t out \<longleftrightarrow>
     \<not> over_ceiling t (ep_max_timeout_ms p) \<and> \<not> over_ceiling out (ep_max_output_bytes p)
     \<and> \<not> over_ceiling (rl_memory_bytes (cs_resources spec)) (ep_max_memory_bytes p)
     \<and> \<not> over_ceiling (rl_cpu_time_seconds (cs_resources spec)) (ep_max_cpu_time_seconds p)
     \<and> \<not> over_ceiling (rl_process_count (cs_resources spec)) (ep_max_process_count p)"

definition names_admitted :: "host \<Rightarrow> policy \<Rightarrow> command_spec \<Rightarrow> wsl_invocation option \<Rightarrow> bool" where
  "names_admitted h p spec wsl \<longleftrightarrow>
     requested_names h wsl spec \<inter> policy_names h wsl (ep_denied_executables p) = {}
     \<and> (\<forall>A. ep_allowed_executables p = Some A \<longrightarrow>
          requested_names h wsl spec \<inter> policy_names h wsl A \<noteq> {})
     \<and> (ep_require_absolute_executable p \<longrightarrow>
          (case wsl of Some w \<Rightarrow> posix_isabs (wi_executable w)
           | None \<Rightarrow> h_is_absolute h (cs_executable spec)))"

definition context_admitted :: "host \<Rightarrow> policy \<Rightarrow> command_spec \<Rightarrow> int option \<Rightarrow> wsl_invocation option \<Rightarrow> bool" where
  "context_admitted h p spec t wsl \<longleftrightarrow>
     (ep_allowed_cwd_roots p \<noteq> [] \<longrightarrow>
        wsl = None \<and> native_cwd_is_allowed h spec (ep_allowed_cwd_roots p))
     \<and> (cs_inherit_env spec \<longrightarrow> ep_allow_parent_environment p)
     \<and> (\<forall>K e. ep_allowed_env_keys p = Some K \<longrightarrow> cs_env spec = Some e \<longrightarrow> fst ` set e \<subseteq> K)
     \<and> (ep_require_timeout p \<longrightarrow> t \<noteq> None)"

lemma enforce_with_Inr:
  "enforce_with h p spec t out wsl = Inr () \<longleftrightarrow>
     names_admitted h p spec wsl \<and> context_admitted h p spec t wsl \<and> within_ceilings p spec t out"
proof -
  have env: "(case (ep_allowed_env_keys p, cs_env spec) of
       (Some keys, Some e) \<Rightarrow> fst ` set e - keys \<noteq> {} | _ \<Rightarrow> False)
     \<longleftrightarrow> \<not> (\<forall>K e. ep_allowed_env_keys p = Some K \<longrightarrow> cs_env spec = Some e \<longrightarrow> fst ` set e \<subseteq> K)"
    by (cases "ep_allowed_env_keys p"; cases "cs_env spec"; auto)
  have allow: "(case ep_allowed_executables p of None \<Rightarrow> False
       | Some names \<Rightarrow> requested_names h wsl spec \<inter> policy_names h wsl names = {})
     \<longleftrightarrow> \<not> (\<forall>A. ep_allowed_executables p = Some A \<longrightarrow>
          requested_names h wsl spec \<inter> policy_names h wsl A \<noteq> {})"
    by (cases "ep_allowed_executables p") auto
  show ?thesis
    unfolding enforce_with_def Let_def env allow names_admitted_def context_admitted_def
      within_ceilings_def
    by (simp add: enforce_ceilings_ok del: enforce_ceilings.simps)
qed

lemma enforce_Inr:
  "enforce h p spec t out = Inr () \<longleftrightarrow>
     \<not> (ep_denied_executables p \<noteq> {}
        \<and> matches_windows_wsl_launcher h (cs_executable spec) (ep_denied_executables p))
     \<and> (\<exists>wsl. policy_wsl_invocation spec p = Inr wsl
          \<and> names_admitted h p spec wsl \<and> context_admitted h p spec t wsl
          \<and> within_ceilings p spec t out)"
  by (auto simp: enforce_def rbind_Inr_iff enforce_with_Inr)

lemma policy_wsl_launcher:
  "policy_wsl_invocation spec p = Inr wsl \<Longrightarrow> is_wsl_launcher (cs_executable spec)
     \<Longrightarrow> checks_effective_context p
     \<Longrightarrow> \<exists>w. wsl = Some w \<and> parse_wsl_invocation spec = Inr (Some w)"
  by (auto simp: policy_wsl_invocation_def parse_wsl_invocation_def rbind_Inr_iff
      split: sum.splits if_splits)

subsection \<open>Effective resource ceilings\<close>

definition ceiling_applied :: "int option \<Rightarrow> int option \<Rightarrow> bool" where
  "ceiling_applied value limit \<longleftrightarrow>
     (\<forall>c. limit = Some c \<longrightarrow> (\<exists>v. value = Some v \<and> v \<le> c))"

lemma or_ceiling_applied: "\<not> over_ceiling v c \<Longrightarrow> ceiling_applied (or_ceiling v c) c"
  by (auto simp: ceiling_applied_def or_ceiling_def over_ceiling_def split: option.splits)

lemma or_ceiling_not_over: "\<not> over_ceiling v c \<Longrightarrow> \<not> over_ceiling (or_ceiling v c) c"
  by (auto simp: or_ceiling_def over_ceiling_def split: option.splits)

lemma or_ceiling_idem [simp]: "or_ceiling (or_ceiling v c) c = or_ceiling v c"
  by (simp add: or_ceiling_def split: option.splits)

lemma effective_spec_Inr:
  "effective_spec h p spec t out = Inr spec' \<longleftrightarrow>
     enforce h p spec t out = Inr ()
     \<and> spec' = spec\<lparr>cs_resources := effective_limits p (cs_resources spec)\<rparr>"
  by (auto simp: effective_spec_def rbind_Inr_iff Let_def)

text \<open>A check that reads only the limits of a specification sees the limits alone.\<close>

lemma enforce_effective:
  assumes "enforce h p spec t out = Inr ()"
  shows "enforce h p (spec\<lparr>cs_resources := effective_limits p (cs_resources spec)\<rparr>) t out = Inr ()"
proof -
  let ?spec' = "spec\<lparr>cs_resources := effective_limits p (cs_resources spec)\<rparr>"
  have wsl: "policy_wsl_invocation ?spec' p = policy_wsl_invocation spec p"
    by (simp add: policy_wsl_invocation_def parse_wsl_invocation_def)
  have names: "names_admitted h p ?spec' w = names_admitted h p spec w" for w
    by (simp add: names_admitted_def requested_names_def split: option.splits)
  have ctx: "context_admitted h p ?spec' t w = context_admitted h p spec t w" for w
    by (simp add: context_admitted_def native_cwd_is_allowed_def)
  have "within_ceilings p spec t out \<Longrightarrow> within_ceilings p ?spec' t out"
    by (simp add: within_ceilings_def effective_limits_def or_ceiling_not_over)
  with assms show ?thesis by (auto simp: enforce_Inr wsl names ctx)
qed

subsection \<open>Tightening a policy\<close>

definition tighter_ceiling :: "int option \<Rightarrow> int option \<Rightarrow> bool" where
  "tighter_ceiling a b \<longleftrightarrow> (\<forall>c. b = Some c \<longrightarrow> (\<exists>c'. a = Some c' \<and> c' \<le> c))"

definition tighter_set :: "'a set option \<Rightarrow> 'a set option \<Rightarrow> bool" where
  "tighter_set a b \<longleftrightarrow> (\<forall>B. b = Some B \<longrightarrow> (\<exists>A. a = Some A \<and> A \<subseteq> B))"

definition tighter :: "policy \<Rightarrow> policy \<Rightarrow> bool" where
  "tighter p q \<longleftrightarrow>
     tighter_set (ep_allowed_executables p) (ep_allowed_executables q)
     \<and> ep_denied_executables q \<subseteq> ep_denied_executables p
     \<and> (ep_allowed_cwd_roots q \<noteq> [] \<longrightarrow> ep_allowed_cwd_roots p \<noteq> []
          \<and> set (ep_allowed_cwd_roots p) \<subseteq> set (ep_allowed_cwd_roots q))
     \<and> tighter_set (ep_allowed_env_keys p) (ep_allowed_env_keys q)
     \<and> (ep_allow_parent_environment p \<longrightarrow> ep_allow_parent_environment q)
     \<and> (ep_require_absolute_executable q \<longrightarrow> ep_require_absolute_executable p)
     \<and> (ep_require_timeout q \<longrightarrow> ep_require_timeout p)
     \<and> tighter_ceiling (ep_max_timeout_ms p) (ep_max_timeout_ms q)
     \<and> tighter_ceiling (ep_max_output_bytes p) (ep_max_output_bytes q)
     \<and> tighter_ceiling (ep_max_memory_bytes p) (ep_max_memory_bytes q)
     \<and> tighter_ceiling (ep_max_cpu_time_seconds p) (ep_max_cpu_time_seconds q)
     \<and> tighter_ceiling (ep_max_process_count p) (ep_max_process_count q)"

lemma tighter_over: "tighter_ceiling a b \<Longrightarrow> \<not> over_ceiling v a \<Longrightarrow> \<not> over_ceiling v b"
  by (auto simp: tighter_ceiling_def over_ceiling_def split: option.splits)

lemma policy_names_mono: "A \<subseteq> B \<Longrightarrow> policy_names h w A \<subseteq> policy_names h w B"
  by (auto simp: policy_names_def normalized_def split: option.splits)

lemma tighter_names:
  assumes "tighter p q" and "names_admitted h p spec w"
  shows "names_admitted h q spec w"
proof -
  have "policy_names h w (ep_denied_executables q) \<subseteq> policy_names h w (ep_denied_executables p)"
    using assms(1) by (intro policy_names_mono) (simp add: tighter_def)
  moreover have "requested_names h w spec \<inter> policy_names h w B \<noteq> {}"
    if "ep_allowed_executables q = Some B" for B
  proof -
    from assms(1) that obtain A where A: "ep_allowed_executables p = Some A" "A \<subseteq> B"
      by (auto simp: tighter_def tighter_set_def)
    with assms(2) policy_names_mono [OF A(2), of h w] show ?thesis
      by (auto simp: names_admitted_def)
  qed
  ultimately show ?thesis using assms by (auto simp: names_admitted_def tighter_def)
qed

lemma native_cwd_mono:
  "set roots \<subseteq> set roots' \<Longrightarrow> native_cwd_is_allowed h spec roots \<Longrightarrow> native_cwd_is_allowed h spec roots'"
  by (auto simp: native_cwd_is_allowed_def list_ex_iff Let_def)

lemma tighter_context:
  assumes "tighter p q" and "context_admitted h p spec t w"
  shows "context_admitted h q spec t w"
proof -
  have roots: "w = None \<and> native_cwd_is_allowed h spec (ep_allowed_cwd_roots q)"
    if "ep_allowed_cwd_roots q \<noteq> []"
  proof -
    from that assms(1) have "ep_allowed_cwd_roots p \<noteq> []"
      and sub: "set (ep_allowed_cwd_roots p) \<subseteq> set (ep_allowed_cwd_roots q)"
      by (simp_all add: tighter_def)
    with assms(2) have "w = None" "native_cwd_is_allowed h spec (ep_allowed_cwd_roots p)"
      by (simp_all add: context_admitted_def)
    with native_cwd_mono [OF sub] show ?thesis by simp
  qed
  have env: "fst ` set e \<subseteq> K" if "ep_allowed_env_keys q = Some K" "cs_env spec = Some e" for K e
  proof -
    from that(1) assms(1) obtain J where "ep_allowed_env_keys p = Some J" "J \<subseteq> K"
      by (auto simp: tighter_def tighter_set_def)
    with that(2) assms(2) show ?thesis unfolding context_admitted_def by blast
  qed
  have "cs_inherit_env spec \<longrightarrow> ep_allow_parent_environment q"
    and "ep_require_timeout q \<longrightarrow> t \<noteq> None"
    using assms unfolding tighter_def context_admitted_def by blast+
  with roots env show ?thesis unfolding context_admitted_def by blast
qed

lemma tighter_launcher:
  "A \<subseteq> B \<Longrightarrow> matches_windows_wsl_launcher h e A \<Longrightarrow> matches_windows_wsl_launcher h e B"
  by (auto simp: matches_windows_wsl_launcher_def split: if_splits)

lemma tighter_checks: "tighter p q \<Longrightarrow> checks_effective_context q \<Longrightarrow> checks_effective_context p"
  by (auto simp: tighter_def tighter_set_def checks_effective_context_def)

text \<open>Without context checks, a policy looks at no name and no directory.\<close>

lemma unchecked_names: "\<not> checks_effective_context q \<Longrightarrow> names_admitted h q spec w"
  by (auto simp: checks_effective_context_def names_admitted_def policy_names_def normalized_def
      split: option.splits)

lemma unchecked_context:
  "\<not> checks_effective_context q \<Longrightarrow> context_admitted h q spec t w = context_admitted h q spec t w'"
  by (simp add: checks_effective_context_def context_admitted_def)

lemma tighter_enforce:
  assumes tight: "tighter p q" and ok: "enforce h p spec t out = Inr ()"
  shows "enforce h q spec t out = Inr ()"
proof -
  from ok obtain w where w: "policy_wsl_invocation spec p = Inr w"
    and adm: "names_admitted h p spec w" "context_admitted h p spec t w"
    and ceil: "within_ceilings p spec t out"
    and den: "ep_denied_executables p = {}
      \<or> \<not> matches_windows_wsl_launcher h (cs_executable spec) (ep_denied_executables p)"
    by (auto simp: enforce_Inr)
  have den': "ep_denied_executables q = {}
      \<or> \<not> matches_windows_wsl_launcher h (cs_executable spec) (ep_denied_executables q)"
  proof (rule ccontr)
    assume "\<not> ?thesis"
    then have q: "ep_denied_executables q \<noteq> {}"
      "matches_windows_wsl_launcher h (cs_executable spec) (ep_denied_executables q)" by simp_all
    have "ep_denied_executables q \<subseteq> ep_denied_executables p" using tight by (simp add: tighter_def)
    with q den tighter_launcher [OF this q(2)] show False by blast
  qed
  have ceil': "within_ceilings q spec t out"
    using ceil tight tighter_over unfolding within_ceilings_def tighter_def by blast
  have ctx: "context_admitted h q spec t w" by (rule tighter_context [OF tight adm(2)])
  show ?thesis
  proof (cases "checks_effective_context q")
    case True
    with tighter_checks [OF tight] w have "policy_wsl_invocation spec q = Inr w"
      by (simp add: policy_wsl_invocation_def)
    with den' ceil' ctx tighter_names [OF tight adm(1)] show ?thesis
      unfolding enforce_Inr by blast
  next
    case False
    then have "policy_wsl_invocation spec q = Inr None" by (simp add: policy_wsl_invocation_def)
    with False den' ceil' ctx show ?thesis
      using unchecked_names [OF False] unchecked_context [OF False] unfolding enforce_Inr by blast
  qed
qed

subsection \<open>Policies read from JSON\<close>

lemma optional_positive_int_pos: "optional_positive_int v k = Inr r \<Longrightarrow> positive_opt r"
  by (auto simp: optional_positive_int_def positive_opt_def split: pyval.splits if_splits)

definition policy_ok :: "policy \<Rightarrow> bool" where
  "policy_ok p \<longleftrightarrow> positive_opt (ep_max_timeout_ms p) \<and> positive_opt (ep_max_output_bytes p)
     \<and> positive_opt (ep_max_memory_bytes p) \<and> positive_opt (ep_max_cpu_time_seconds p)
     \<and> positive_opt (ep_max_process_count p)"

lemma policy_from_dict_policy_ok: "policy_from_dict v = Inr p \<Longrightarrow> policy_ok p"
  by (auto simp: policy_from_dict_def rbind_Inr_iff policy_ok_def optional_positive_int_pos
      split: if_splits)

lemma policy_from_dict_fields: "policy_from_dict v = Inr p \<Longrightarrow> fst ` set v \<subseteq> set policy_fields"
  by (auto simp: policy_from_dict_def simp flip: unknown_key_None_iff split: if_splits)

lemma effective_limits_ok: "policy_ok p \<Longrightarrow> limits_ok l \<Longrightarrow> limits_ok (effective_limits p l)"
  by (auto simp: policy_ok_def limits_ok_def effective_limits_def or_ceiling_def split: option.splits)

subsection \<open>Properties of the policy\<close>

text \<open>
  C21. Making a policy stricter (smaller allow lists, larger deny lists, fewer working-directory
  roots, lower ceilings, more requirements) never admits a request the looser policy refused,
  WSL launch syntax included.
\<close>

theorem policy_tightening_monotone:
  assumes "tighter p q" and "enforce h p spec timeout_ms max_output = Inr ()"
  shows "enforce h q spec timeout_ms max_output = Inr ()"
  using assms by (rule tighter_enforce)

theorem policy_tightening_monotone_witness:
  "enforce (posix_host ''/work'') default_policy
     (direct_command ''/bin/ls'' [] None None False PIPE NATIVE None None) (Some 50) None = Inr ()"
proof (rule policy_tightening_monotone)
  let ?p = "default_policy\<lparr>ep_allowed_executables := Some {''ls''}, ep_max_timeout_ms := Some 100,
      ep_allow_parent_environment := False\<rparr>"
  show "tighter ?p default_policy"
    by (simp add: tighter_def default_policy_def tighter_set_def tighter_ceiling_def)
  show "enforce (posix_host ''/work'') ?p
     (direct_command ''/bin/ls'' [] None None False PIPE NATIVE None None) (Some 50) None = Inr ()"
    by code_simp
qed

text \<open>
  C23. An admitted request is handed on with every configured resource ceiling materialised and
  respected, differs from the request only in its resource limits, and is itself admitted
  unchanged when it is checked again.
\<close>

theorem policy_effective_spec:
  assumes "effective_spec h p spec timeout_ms max_output = Inr spec'"
  shows "ceiling_applied (rl_memory_bytes (cs_resources spec')) (ep_max_memory_bytes p)
    \<and> ceiling_applied (rl_cpu_time_seconds (cs_resources spec')) (ep_max_cpu_time_seconds p)
    \<and> ceiling_applied (rl_process_count (cs_resources spec')) (ep_max_process_count p)
    \<and> spec'\<lparr>cs_resources := cs_resources spec\<rparr> = spec
    \<and> effective_spec h p spec' timeout_ms max_output = Inr spec'"
proof -
  from assms have ok: "enforce h p spec timeout_ms max_output = Inr ()"
    and spec': "spec' = spec\<lparr>cs_resources := effective_limits p (cs_resources spec)\<rparr>"
    by (auto simp: effective_spec_Inr)
  from ok have "within_ceilings p spec timeout_ms max_output" by (auto simp: enforce_Inr)
  then have "ceiling_applied (rl_memory_bytes (cs_resources spec')) (ep_max_memory_bytes p)"
    "ceiling_applied (rl_cpu_time_seconds (cs_resources spec')) (ep_max_cpu_time_seconds p)"
    "ceiling_applied (rl_process_count (cs_resources spec')) (ep_max_process_count p)"
    by (simp_all add: spec' effective_limits_def within_ceilings_def or_ceiling_applied)
  moreover have "effective_limits p (effective_limits p (cs_resources spec))
      = effective_limits p (cs_resources spec)" by (simp add: effective_limits_def)
  ultimately show ?thesis
    using enforce_effective [OF ok] by (simp add: spec' effective_spec_Inr)
qed

theorem policy_effective_spec_witness:
  "effective_spec (posix_host ''/'')
     (default_policy\<lparr>ep_max_memory_bytes := Some 4096\<rparr>)
     (direct_command ''ls'' [] None None True PIPE NATIVE None None) None None
   = Inr ((direct_command ''ls'' [] None None True PIPE NATIVE None None)
       \<lparr>cs_resources := no_limits\<lparr>rl_memory_bytes := Some 4096\<rparr>\<rparr>)
   \<and> ceiling_applied (Some 4096) (Some 4096)"
proof -
  have e: "effective_spec (posix_host ''/'')
     (default_policy\<lparr>ep_max_memory_bytes := Some 4096\<rparr>)
     (direct_command ''ls'' [] None None True PIPE NATIVE None None) None None
   = Inr ((direct_command ''ls'' [] None None True PIPE NATIVE None None)
       \<lparr>cs_resources := no_limits\<lparr>rl_memory_bytes := Some 4096\<rparr>\<rparr>)"
    by code_simp
  with policy_effective_spec [OF e] show ?thesis by (simp add: default_policy_def)
qed

text \<open>
  C22. Under a policy with an allow list, a request that goes through the WSL launcher is admitted
  only if its command line is canonical and the Linux executable it runs, by its full or its base
  name, is on the allow list and not on the deny list.
\<close>

theorem policy_wsl_no_evasion:
  assumes "enforce h p spec timeout_ms max_output = Inr ()"
    and "is_wsl_launcher (cs_executable spec)"
    and "ep_allowed_executables p = Some allowed"
  shows "\<exists>w. parse_wsl_invocation spec = Inr (Some w)
    \<and> {wi_executable w, posix_basename (wi_executable w)} \<inter> allowed \<noteq> {}
    \<and> {wi_executable w, posix_basename (wi_executable w)} \<inter> ep_denied_executables p = {}
    \<and> ep_allowed_cwd_roots p = []"
proof -
  from assms(3) have "checks_effective_context p" by (simp add: checks_effective_context_def)
  with assms(1,2) policy_wsl_launcher obtain w where
    w: "parse_wsl_invocation spec = Inr (Some w)"
    and adm: "names_admitted h p spec (Some w)" "context_admitted h p spec timeout_ms (Some w)"
    unfolding enforce_Inr by blast
  with assms(3) show ?thesis
    by (auto simp: names_admitted_def context_admitted_def requested_names_def policy_names_def
        posix_command_names_def)
qed

theorem policy_wsl_no_evasion_witness:
  "\<exists>w. parse_wsl_invocation (direct_command ''/bin/ls'' [] None None True PIPE WSL None None)
       = Inr (Some w)
     \<and> {wi_executable w, posix_basename (wi_executable w)} \<inter> {''ls''} \<noteq> {}"
proof -
  let ?p = "default_policy\<lparr>ep_allowed_executables := Some {''ls''}\<rparr>"
  let ?s = "direct_command ''/bin/ls'' [] None None True PIPE WSL None None"
  have "enforce (posix_host ''/'') ?p ?s None None = Inr ()" by code_simp
  moreover have "is_wsl_launcher (cs_executable ?s)" by code_simp
  ultimately show ?thesis
    using policy_wsl_no_evasion [of "posix_host ''/''" ?p ?s None None "{''ls''}"] by auto
qed

end
