(* ===== verification/JobModels.thy ===== *)
theory JobModels
  imports Lifecycle
begin

section \<open>The Job resource (service/models.py)\<close>

text \<open>
  \<open>JobPhase\<close>, \<open>JobSpec\<close> with its validation and dictionary form, \<open>JobRecord\<close> and
  \<open>OutboxRecord\<close>. A \<open>JobSpec\<close> is built from a decoded JSON object, so its fields are
  Python values until \<open>validate\<close> has accepted them. The main result is that the dictionary
  form is read back as the same specification, exactly for valid specifications. The machine
  of the phases (\<open>phase_steps\<close>) is an instance of \<open>ranked_machine\<close>: a Job never comes
  back to a phase it has left.
\<close>

definition default_job_timeout_seconds :: int where
  "default_job_timeout_seconds = 60 * 60"

definition max_job_timeout_seconds :: int where
  "max_job_timeout_seconds = 24 * 60 * 60"

definition default_job_max_output_bytes :: int where
  "default_job_max_output_bytes = 16 * 1024 * 1024"

definition max_job_output_bytes :: int where
  "max_job_output_bytes = default_job_max_output_bytes"

definition job_spec_fields :: "string list" where
  "job_spec_fields =
     [''command'', ''cwd'', ''env'', ''timeout_seconds'', ''idle_timeout_seconds'',
      ''max_output_bytes'', ''callback_endpoint_id'', ''callback'', ''desired_state'']"

subsection \<open>Phases\<close>

datatype job_phase =
    Queued | Assigned | Running | Succeeded | Failed | Timed_out | Canceled | Executor_lost | Expired

fun phase_value :: "job_phase \<Rightarrow> string" where
  "phase_value Queued = ''queued''"
| "phase_value Assigned = ''assigned''"
| "phase_value Running = ''running''"
| "phase_value Succeeded = ''succeeded''"
| "phase_value Failed = ''failed''"
| "phase_value Timed_out = ''timed_out''"
| "phase_value Canceled = ''canceled''"
| "phase_value Executor_lost = ''executor_lost''"
| "phase_value Expired = ''expired''"

definition terminal :: "job_phase \<Rightarrow> bool" where
  "terminal p \<longleftrightarrow> p \<in> {Succeeded, Failed, Timed_out, Canceled, Executor_lost, Expired}"

lemma terminal_simps [simp]:
  "\<not> terminal Queued" "\<not> terminal Assigned" "\<not> terminal Running" "terminal Succeeded"
  "terminal Failed" "terminal Timed_out" "terminal Canceled" "terminal Executor_lost"
  "terminal Expired"
  by (simp_all add: terminal_def)

lemma not_terminal_cases: "\<not> terminal p \<longleftrightarrow> p = Queued \<or> p = Assigned \<or> p = Running"
  by (cases p) auto

text \<open>The phase changes the store is meant to make.\<close>

fun phase_steps :: "job_phase \<Rightarrow> job_phase set" where
  "phase_steps Queued = {Assigned, Canceled}"
| "phase_steps Assigned =
     {Running, Succeeded, Failed, Timed_out, Canceled, Executor_lost, Expired}"
| "phase_steps Running = {Succeeded, Failed, Timed_out, Canceled, Executor_lost, Expired}"
| "phase_steps _ = {}"

fun phase_rank :: "job_phase \<Rightarrow> nat" where
  "phase_rank Queued = 0"
| "phase_rank Assigned = 1"
| "phase_rank Running = 2"
| "phase_rank _ = 3"

interpretation job_machine: ranked_machine phase_steps phase_rank 3
proof
  show "t \<in> phase_steps s \<Longrightarrow> phase_rank s < phase_rank t" for s t by (cases s) auto
  show "phase_rank s \<le> 3" for s by (cases s) simp_all
qed

lemma phase_steps_terminal: "terminal p \<Longrightarrow> phase_steps p = {}"
  by (cases p) auto

subsection \<open>Specifications\<close>

record job_spec =
  js_command :: "pyval list"
  js_cwd :: pyval
  js_env :: "pydict option"
  js_timeout_seconds :: pyval
  js_idle_timeout_seconds :: pyval
  js_max_output_bytes :: pyval
  js_callback_endpoint_id :: pyval
  js_desired_state :: pyval

text \<open>
  \<open>isinstance(v, (int, float)) and not isinstance(v, bool) and 0 < v <= limit and
  math.isfinite(v)\<close>.
\<close>

fun positive_seconds :: "pyval \<Rightarrow> bool" where
  "positive_seconds (VInt i) = (0 < i \<and> i \<le> max_job_timeout_seconds)"
| "positive_seconds (VFloat (Fin r)) = (0 < r \<and> r \<le> of_int max_job_timeout_seconds)"
| "positive_seconds _ = False"

fun output_limit_ok :: "pyval \<Rightarrow> bool" where
  "output_limit_ok (VInt i) = (0 \<le> i \<and> i \<le> max_job_output_bytes)"
| "output_limit_ok _ = False"

fun command_ok :: "pyval list \<Rightarrow> bool" where
  "command_ok [] = False"
| "command_ok (x # xs) = (is_str x \<and> \<not> blank (str_val x) \<and> list_all is_str xs)"

definition env_entry_ok :: "string \<times> pyval \<Rightarrow> bool" where
  "env_entry_ok kv \<longleftrightarrow> fst kv \<noteq> [] \<and> CHR ''='' \<notin> set (fst kv) \<and> is_str (snd kv)"

text \<open>
  \<open>desired_state not in {"active", "cancelled"}\<close>: a set membership hashes its operand, which a
  list or a dictionary refuses with \<open>TypeError\<close>.
\<close>

fun desired_state_check :: "pyval \<Rightarrow> unit res" where
  "desired_state_check (VList _) = Inl (TypeError (''unhashable type: '' @ [CHR 0x27] @ ''list'' @ [CHR 0x27]))"
| "desired_state_check (VDict _) = Inl (TypeError (''unhashable type: '' @ [CHR 0x27] @ ''dict'' @ [CHR 0x27]))"
| "desired_state_check v =
     (if v = VStr ''active'' \<or> v = VStr ''cancelled'' then Inr ()
      else Inl (ValueError ''desired_state must be active or cancelled''))"

definition job_spec_validate :: "job_spec \<Rightarrow> unit res" where
  "job_spec_validate s =
     (if \<not> command_ok (js_command s)
      then Inl (ValueError ''command must contain a non-empty executable followed by string arguments'')
      else if js_cwd s \<noteq> VNone \<and> \<not> is_str (js_cwd s)
      then Inl (ValueError ''cwd must be a string'')
      else if (case js_env s of None \<Rightarrow> False | Some e \<Rightarrow> list_ex (\<lambda>kv. \<not> env_entry_ok kv) e)
      then Inl (ValueError ''env must contain valid string keys and values'')
      else if \<not> positive_seconds (js_timeout_seconds s)
      then Inl (ValueError ''timeout_seconds must be positive and no greater than 86400'')
      else if js_idle_timeout_seconds s \<noteq> VNone \<and> \<not> positive_seconds (js_idle_timeout_seconds s)
      then Inl (ValueError ''idle_timeout_seconds must be positive and no greater than 86400'')
      else if \<not> output_limit_ok (js_max_output_bytes s)
      then Inl (ValueError ''max_output_bytes must be a non-negative integer no greater than 16777216'')
      else if js_callback_endpoint_id s \<noteq> VNone
        \<and> (\<not> is_str (js_callback_endpoint_id s) \<or> str_val (js_callback_endpoint_id s) = [])
      then Inl (ValueError ''callback endpoint_id must be a non-empty string'')
      else desired_state_check (js_desired_state s))"

definition job_spec_to_dict :: "job_spec \<Rightarrow> pydict" where
  "job_spec_to_dict s =
     [(''command'', VList (js_command s)),
      (''cwd'', js_cwd s),
      (''env'', case js_env s of None \<Rightarrow> VNone | Some e \<Rightarrow> VDict e),
      (''timeout_seconds'', js_timeout_seconds s),
      (''idle_timeout_seconds'', js_idle_timeout_seconds s),
      (''max_output_bytes'', js_max_output_bytes s),
      (''callback_endpoint_id'', js_callback_endpoint_id s),
      (''desired_state'', js_desired_state s)]"

fun as_env :: "pyval \<Rightarrow> pydict option res" where
  "as_env VNone = Inr None"
| "as_env (VDict d) = Inr (Some d)"
| "as_env _ = Inl (ValueError ''env must be an object'')"

text \<open>The endpoint of \<open>callback\<close>: \<open>None\<close> when the request has no callback object.\<close>

fun callback_endpoint :: "pyval \<Rightarrow> pyval option res" where
  "callback_endpoint VNone = Inr None"
| "callback_endpoint (VDict d) =
     (case unknown_key d [''endpoint_id''] of
        Some k \<Rightarrow> Inl (ValueError (''unknown callback field: '' @ k))
      | None \<Rightarrow> Inr (Some (dget d ''endpoint_id'')))"
| "callback_endpoint _ = Inl (ValueError ''callback must be an object'')"

fun as_command :: "pyval \<Rightarrow> pyval list res" where
  "as_command (VList xs) = Inr xs"
| "as_command _ = Inl (TypeError ''command must be an array'')"

definition job_spec_of_fields :: "pydict \<Rightarrow> pyval list \<Rightarrow> pydict option \<Rightarrow> pyval option \<Rightarrow> job_spec" where
  "job_spec_of_fields value command env callback =
     \<lparr>js_command = command,
      js_cwd = dget value ''cwd'',
      js_env = env,
      js_timeout_seconds =
        (if dget value ''timeout_seconds'' = VNone then VInt default_job_timeout_seconds
         else dget value ''timeout_seconds''),
      js_idle_timeout_seconds = dget value ''idle_timeout_seconds'',
      js_max_output_bytes =
        dget_or value ''max_output_bytes'' (VInt default_job_max_output_bytes),
      js_callback_endpoint_id =
        (case callback of None \<Rightarrow> dget value ''callback_endpoint_id'' | Some e \<Rightarrow> e),
      js_desired_state = dget_or value ''desired_state'' (VStr ''active'')\<rparr>"

definition job_spec_from_dict :: "pydict \<Rightarrow> job_spec res" where
  "job_spec_from_dict value =
     (case unknown_key value job_spec_fields of
        Some k \<Rightarrow> Inl (ValueError (''unknown Job field: '' @ k))
      | None \<Rightarrow>
          rbind (as_command (dget value ''command'')) (\<lambda>command.
          rbind (as_env (dget value ''env'')) (\<lambda>env.
          rbind (callback_endpoint (dget value ''callback'')) (\<lambda>callback.
          if dget value ''callback_endpoint_id'' \<noteq> VNone \<and> callback \<noteq> None
          then Inl (ValueError ''callback_endpoint_id and callback are mutually exclusive'')
          else
            let s = job_spec_of_fields value command env callback in
            rbind (job_spec_validate s) (\<lambda>_. Inr s)))))"

subsection \<open>What validation accepts\<close>

definition job_spec_ok :: "job_spec \<Rightarrow> bool" where
  "job_spec_ok s \<longleftrightarrow> command_ok (js_command s)
     \<and> (js_cwd s = VNone \<or> is_str (js_cwd s))
     \<and> (\<forall>e. js_env s = Some e \<longrightarrow> (\<forall>kv \<in> set e. env_entry_ok kv))
     \<and> positive_seconds (js_timeout_seconds s)
     \<and> (js_idle_timeout_seconds s = VNone \<or> positive_seconds (js_idle_timeout_seconds s))
     \<and> output_limit_ok (js_max_output_bytes s)
     \<and> (js_callback_endpoint_id s = VNone
        \<or> is_str (js_callback_endpoint_id s) \<and> str_val (js_callback_endpoint_id s) \<noteq> [])
     \<and> (js_desired_state s = VStr ''active'' \<or> js_desired_state s = VStr ''cancelled'')"

lemma desired_state_check_Inr:
  "desired_state_check v = Inr () \<longleftrightarrow> v = VStr ''active'' \<or> v = VStr ''cancelled''"
  by (cases v) auto

lemma job_spec_validate_Inr: "job_spec_validate s = Inr () \<longleftrightarrow> job_spec_ok s"
  by (cases "js_env s")
    (simp_all add: job_spec_validate_def job_spec_ok_def desired_state_check_Inr list_ex_iff)

lemma positive_seconds_not_None [simp]: "positive_seconds v \<Longrightarrow> v \<noteq> VNone"
  by (cases v) auto

lemma job_spec_dict_gets:
  "dget (job_spec_to_dict s) ''command'' = VList (js_command s)"
  "dget (job_spec_to_dict s) ''cwd'' = js_cwd s"
  "dget (job_spec_to_dict s) ''env'' = (case js_env s of None \<Rightarrow> VNone | Some e \<Rightarrow> VDict e)"
  "dget (job_spec_to_dict s) ''timeout_seconds'' = js_timeout_seconds s"
  "dget (job_spec_to_dict s) ''idle_timeout_seconds'' = js_idle_timeout_seconds s"
  "dget_or (job_spec_to_dict s) ''max_output_bytes'' v = js_max_output_bytes s"
  "dget (job_spec_to_dict s) ''callback_endpoint_id'' = js_callback_endpoint_id s"
  "dget (job_spec_to_dict s) ''callback'' = VNone"
  "dget_or (job_spec_to_dict s) ''desired_state'' v = js_desired_state s"
  by (simp_all add: job_spec_to_dict_def dget_def dget_or_def)

lemma job_spec_dict_known: "unknown_key (job_spec_to_dict s) job_spec_fields = None"
  by (simp add: unknown_key_None_iff job_spec_to_dict_def job_spec_fields_def)

text \<open>
  Reading a document in which every field of a specification has its value (in whatever order
  the document lists them) gives that specification. The store keeps the document sorted by key.
\<close>

lemma job_spec_from_dict_fields:
  assumes "unknown_key d job_spec_fields = None"
    and "dget d ''command'' = VList (js_command s)" and "dget d ''cwd'' = js_cwd s"
    and "dget d ''env'' = (case js_env s of None \<Rightarrow> VNone | Some e \<Rightarrow> VDict e)"
    and "dget d ''timeout_seconds'' = js_timeout_seconds s"
    and "dget d ''idle_timeout_seconds'' = js_idle_timeout_seconds s"
    and "\<And>v. dget_or d ''max_output_bytes'' v = js_max_output_bytes s"
    and "dget d ''callback_endpoint_id'' = js_callback_endpoint_id s"
    and "dget d ''callback'' = VNone"
    and "\<And>v. dget_or d ''desired_state'' v = js_desired_state s"
    and ok: "job_spec_ok s"
  shows "job_spec_from_dict d = Inr s"
proof -
  have env: "as_env (dget d ''env'') = Inr (js_env s)" using assms(4) by (cases "js_env s") simp_all
  have "js_timeout_seconds s \<noteq> VNone" using ok by (auto simp: job_spec_ok_def)
  then have "job_spec_of_fields d (js_command s) (js_env s) None = s"
    using assms by (simp add: job_spec_of_fields_def)
  with ok assms env show ?thesis
    by (simp add: job_spec_from_dict_def job_spec_validate_Inr [THEN iffD2])
qed

lemma job_spec_from_to_dict: "job_spec_ok s \<Longrightarrow> job_spec_from_dict (job_spec_to_dict s) = Inr s"
  by (rule job_spec_from_dict_fields) (simp_all add: job_spec_dict_known job_spec_dict_gets)

lemma job_spec_from_dict_ok: "job_spec_from_dict d = Inr s \<Longrightarrow> job_spec_ok s"
  by (auto simp: job_spec_from_dict_def rbind_Inr_iff Let_def job_spec_validate_Inr
      split: option.splits if_splits)

text \<open>
  C20. The dictionary form of a Job specification is read back as the same specification exactly
  when it is valid, and whatever document is accepted yields a valid specification, whose own
  dictionary form is a fixed point of reading and writing.
\<close>

theorem job_spec_roundtrip:
  "(job_spec_from_dict (job_spec_to_dict s) = Inr s \<longleftrightarrow> job_spec_validate s = Inr ())
   \<and> (case job_spec_from_dict d of Inl _ \<Rightarrow> True
      | Inr t \<Rightarrow> job_spec_validate t = Inr () \<and> job_spec_from_dict (job_spec_to_dict t) = Inr t)"
proof -
  have "job_spec_from_dict (job_spec_to_dict s) = Inr s \<longleftrightarrow> job_spec_validate s = Inr ()"
    using job_spec_from_to_dict job_spec_from_dict_ok by (auto simp: job_spec_validate_Inr)
  moreover have "case job_spec_from_dict d of Inl _ \<Rightarrow> True
      | Inr t \<Rightarrow> job_spec_validate t = Inr () \<and> job_spec_from_dict (job_spec_to_dict t) = Inr t"
    using job_spec_from_dict_ok job_spec_from_to_dict
    by (auto simp: job_spec_validate_Inr split: sum.split)
  ultimately show ?thesis by blast
qed

subsection \<open>Records\<close>

record job_record =
  jo_id :: string
  jo_tenant_id :: string
  jo_idempotency_key :: string
  jo_spec :: job_spec
  jo_request_hash :: string
  jo_phase :: job_phase
  jo_generation :: int
  jo_observed_generation :: int
  jo_revision :: int
  jo_durability :: string
  jo_store_epoch :: string
  jo_created_at :: string
  jo_updated_at :: string
  jo_attempt_id :: "string option"
  jo_lease_owner :: "string option"
  jo_lease_epoch :: int
  jo_lease_expires_at :: "rat option"
  jo_started_at :: "string option"
  jo_completed_at :: "string option"
  jo_exit_code :: "int option"
  jo_reason :: "string option"
  jo_error :: "pydict option"
  jo_stdout_path :: "string option"
  jo_stderr_path :: "string option"
  jo_stdout_bytes :: int
  jo_stderr_bytes :: int
  jo_output_truncated :: bool
  jo_conditions :: "pydict list"

definition opt_str :: "string option \<Rightarrow> pyval" where
  "opt_str v = (case v of None \<Rightarrow> VNone | Some s \<Rightarrow> VStr s)"

definition opt_int :: "int option \<Rightarrow> pyval" where
  "opt_int v = (case v of None \<Rightarrow> VNone | Some i \<Rightarrow> VInt i)"

definition job_record_to_dict :: "bool \<Rightarrow> job_record \<Rightarrow> pydict" where
  "job_record_to_dict include_spec j =
     [(''job_id'', VStr (jo_id j)),
      (''tenant_id'', VStr (jo_tenant_id j)),
      (''phase'', VStr (phase_value (jo_phase j))),
      (''status'', VStr (phase_value (jo_phase j))),
      (''generation'', VInt (jo_generation j)),
      (''observed_generation'', VInt (jo_observed_generation j)),
      (''revision'', VInt (jo_revision j)),
      (''durability'', VStr (jo_durability j)),
      (''store_epoch'', VStr (jo_store_epoch j)),
      (''attempt_id'', opt_str (jo_attempt_id j)),
      (''lease_epoch'', VInt (jo_lease_epoch j)),
      (''created_at'', VStr (jo_created_at j)),
      (''updated_at'', VStr (jo_updated_at j)),
      (''started_at'', opt_str (jo_started_at j)),
      (''completed_at'', opt_str (jo_completed_at j)),
      (''exit_code'', opt_int (jo_exit_code j)),
      (''reason'', opt_str (jo_reason j)),
      (''error'', case jo_error j of None \<Rightarrow> VNone | Some d \<Rightarrow> VDict d),
      (''output'', VDict
        [(''stdout_bytes'', VInt (jo_stdout_bytes j)),
         (''stderr_bytes'', VInt (jo_stderr_bytes j)),
         (''truncated'', VBool (jo_output_truncated j))]),
      (''conditions'', VList (map VDict (jo_conditions j))),
      (''status_url'', VStr (''/v1/jobs/'' @ jo_id j)),
      (''result_url'', VStr (''/v1/jobs/'' @ jo_id j @ ''/result''))]
     @ (if include_spec then [(''spec'', VDict (job_spec_to_dict (jo_spec j)))] else [])"

record outbox_record =
  or_event_id :: string
  or_job_id :: string
  or_tenant_id :: string
  or_endpoint_id :: string
  or_payload :: pydict
  or_attempts :: int
  or_next_attempt_at :: rat
  or_delivery_attempt_id :: "string option"

end
