(* ===== verification/JobStore.thy ===== *)
theory JobStore
  imports JobModels "HOL-Library.List_Lexorder" "HOL-Library.Char_ord"
begin

section \<open>The Job store (service/store.py)\<close>

text \<open>
  The tables of the SQLite store as a record of row lists in insertion order, its triggers as an
  explicit adjustment of \<open>db_usage\<close> by every row operation, its constraints as
  \<open>IntegrityError\<close>, and every operation of \<open>SqliteJobStore\<close> as a function of the tables.
  A JSON column holds the document its text encodes; the width of the text is what the usage
  counter sees. An operation has type \<open>'a db_op\<close>: the tables before to the value or error and
  the tables after. \<open>transaction\<close> rolls back on an error.

  Parameters: the clock and the identifiers of one call are a \<open>clock\<close> (the readings in the
  order of the call), SQLite's text of a real, Python's text of a float and SHA-256 are functions
  in \<open>store_cfg\<close>, and the output cleaner is a function that says whether it succeeded.
\<close>

datatype store_error =
    JobNotFound string
  | IdempotencyConflict string
  | AdmissionLimited string
  | InstanceAlreadyRunning string
  | StoreError string
  | IntegrityError string
  | PyError py_error

subsection \<open>JSON documents\<close>

definition json_char :: "char \<Rightarrow> string" where
  "json_char c =
     (let n = (of_char c :: int);
          hex = (\<lambda>d. if d < 10 then char_of (48 + d) else char_of (87 + d)) in
      if n = 34 then [CHR 0x5C, CHR 0x22]
      else if n = 92 then [CHR 0x5C, CHR 0x5C]
      else if n = 10 then [CHR 0x5C, CHR ''n'']
      else if n = 13 then [CHR 0x5C, CHR ''r'']
      else if n = 9 then [CHR 0x5C, CHR ''t'']
      else if n = 8 then [CHR 0x5C, CHR ''b'']
      else if n = 12 then [CHR 0x5C, CHR ''f'']
      else if 32 \<le> n \<and> n < 127 then [c]
      else [CHR 0x5C, CHR ''u'', CHR ''0'', CHR ''0'', hex (n div 16), hex (n mod 16)])"

definition json_string :: "string \<Rightarrow> string" where
  "json_string s = [CHR 0x22] @ concat (map json_char s) @ [CHR 0x22]"

fun join_with :: "string \<Rightarrow> string list \<Rightarrow> string" where
  "join_with sep [] = []"
| "join_with sep [s] = s"
| "join_with sep (s # ss) = s @ sep @ join_with sep ss"

text \<open>\<open>json.dumps(v, separators=(",", ":"))\<close>; \<open>fl\<close> is the text of a float.\<close>

fun json_text :: "(pyfloat \<Rightarrow> string) \<Rightarrow> pyval \<Rightarrow> string" where
  "json_text fl VNone = ''null''"
| "json_text fl (VBool b) = (if b then ''true'' else ''false'')"
| "json_text fl (VInt i) = str_of_int i"
| "json_text fl (VFloat f) = fl f"
| "json_text fl (VStr s) = json_string s"
| "json_text fl (VList xs) = ''['' @ join_with '','' (map (json_text fl) xs) @ '']''"
| "json_text fl (VDict d) =
     ''{'' @ join_with '','' (map (\<lambda>kv. json_string (fst kv) @ '':'' @ json_text fl (snd kv)) d) @ ''}''"

text \<open>\<open>json.loads(json.dumps(v, sort_keys=True))\<close>: every object sorted by key.\<close>

fun sort_keys :: "pyval \<Rightarrow> pyval" where
  "sort_keys (VList xs) = VList (map sort_keys xs)"
| "sort_keys (VDict d) = VDict (sort_by fst (map (\<lambda>kv. (fst kv, sort_keys (snd kv))) d))"
| "sort_keys v = v"

definition sorted_document :: "pydict \<Rightarrow> pydict" where
  "sorted_document d = sort_by fst (map (\<lambda>kv. (fst kv, sort_keys (snd kv))) d)"

text \<open>\<open>d[k] = v\<close>.\<close>

fun dict_set :: "pydict \<Rightarrow> string \<Rightarrow> pyval \<Rightarrow> pydict" where
  "dict_set [] k v = [(k, v)]"
| "dict_set ((k', v') # d) k v = (if k' = k then (k, v) # d else (k', v') # dict_set d k v)"

subsection \<open>Tables\<close>

record job_row =
  jr_id :: string
  jr_tenant_id :: string
  jr_idempotency_key :: string
  jr_request_hash :: string
  jr_spec_json :: pydict
  jr_phase :: job_phase
  jr_generation :: int
  jr_observed_generation :: int
  jr_revision :: int
  jr_durability :: string
  jr_store_epoch :: string
  jr_attempt_id :: "string option"
  jr_lease_owner :: "string option"
  jr_lease_epoch :: int
  jr_lease_expires_at :: "rat option"
  jr_created_at :: string
  jr_updated_at :: string
  jr_started_at :: "string option"
  jr_completed_at :: "string option"
  jr_exit_code :: "int option"
  jr_reason :: "string option"
  jr_error_json :: "pydict option"
  jr_stdout_path :: "string option"
  jr_stderr_path :: "string option"
  jr_stdout_bytes :: int
  jr_stderr_bytes :: int
  jr_output_truncated :: bool
  jr_conditions_json :: "pydict list"

record event_row =
  ev_seq :: nat
  ev_job_id :: string
  ev_revision :: int
  ev_kind :: string
  ev_created_at :: string

datatype outbox_state = Pending | Delivering | Delivered | Dead

fun outbox_state_value :: "outbox_state \<Rightarrow> string" where
  "outbox_state_value Pending = ''pending''"
| "outbox_state_value Delivering = ''delivering''"
| "outbox_state_value Delivered = ''delivered''"
| "outbox_state_value Dead = ''dead''"

record outbox_row =
  ob_event_id :: string
  ob_job_id :: string
  ob_endpoint_id :: string
  ob_payload_json :: pydict
  ob_state :: outbox_state
  ob_attempts :: int
  ob_next_attempt_at :: rat
  ob_delivery_attempt_id :: "string option"
  ob_last_error :: "string option"
  ob_created_at :: string
  ob_delivered_at :: "string option"

record deletion_row =
  dl_job_id :: string
  dl_stdout_path :: "string option"
  dl_stderr_path :: "string option"
  dl_created_at :: string

record db =
  db_meta :: "(string \<times> string) list"
  db_jobs :: "job_row list"
  db_events :: "event_row list"
  db_next_seq :: nat
  db_outbox :: "outbox_row list"
  db_deletions :: "deletion_row list"
  db_usage :: int

record store_cfg =
  sc_volatile :: bool
  sc_store_epoch :: string
  sc_max_jobs :: int
  sc_max_metadata_bytes :: int
  sc_max_event_records :: nat
  sc_job_ttl_seconds :: int
  sc_max_queued_jobs :: int
  sc_max_queued_jobs_per_tenant :: int
  sc_output_cleaner :: "(string \<Rightarrow> string option \<Rightarrow> string option \<Rightarrow> bool) option"
  sc_real_text :: "rat \<Rightarrow> string"
  sc_float_text :: "pyfloat \<Rightarrow> string"
  sc_sha256 :: "string \<Rightarrow> string"

definition sc_durability :: "store_cfg \<Rightarrow> string" where
  "sc_durability c = (if sc_volatile c then ''volatile'' else ''durable'')"

record clock =
  ck_iso :: "nat \<Rightarrow> string"
  ck_time :: "nat \<Rightarrow> rat"
  ck_uuid :: "nat \<Rightarrow> string"
  ck_before :: "int \<Rightarrow> string"

type_synonym 'a db_op = "db \<Rightarrow> (store_error + 'a) \<times> db"

subsection \<open>Row sizes (\<open>_METADATA_COLUMNS\<close>)\<close>

definition text_size :: "string \<Rightarrow> int" where
  "text_size s = utf8_len s"

definition opt_text_size :: "string option \<Rightarrow> int" where
  "opt_text_size v = (case v of None \<Rightarrow> 0 | Some s \<Rightarrow> text_size s)"

definition int_size :: "int \<Rightarrow> int" where
  "int_size i = text_size (str_of_int i)"

definition opt_int_size :: "int option \<Rightarrow> int" where
  "opt_int_size v = (case v of None \<Rightarrow> 0 | Some i \<Rightarrow> int_size i)"

definition real_size :: "store_cfg \<Rightarrow> rat \<Rightarrow> int" where
  "real_size c q = text_size (sc_real_text c q)"

definition json_size :: "store_cfg \<Rightarrow> pyval \<Rightarrow> int" where
  "json_size c v = text_size (json_text (sc_float_text c) v)"

definition meta_row_size :: "string \<times> string \<Rightarrow> int" where
  "meta_row_size kv = text_size (fst kv) + text_size (snd kv)"

definition job_row_size :: "store_cfg \<Rightarrow> job_row \<Rightarrow> int" where
  "job_row_size c r = sum_list
     [text_size (jr_id r), text_size (jr_tenant_id r), text_size (jr_idempotency_key r),
      text_size (jr_request_hash r), json_size c (VDict (jr_spec_json r)),
      text_size (phase_value (jr_phase r)), int_size (jr_generation r),
      int_size (jr_observed_generation r), int_size (jr_revision r), text_size (jr_durability r),
      text_size (jr_store_epoch r), opt_text_size (jr_attempt_id r),
      opt_text_size (jr_lease_owner r), int_size (jr_lease_epoch r),
      (case jr_lease_expires_at r of None \<Rightarrow> 0 | Some q \<Rightarrow> real_size c q),
      text_size (jr_created_at r), text_size (jr_updated_at r), opt_text_size (jr_started_at r),
      opt_text_size (jr_completed_at r), opt_int_size (jr_exit_code r),
      opt_text_size (jr_reason r),
      (case jr_error_json r of None \<Rightarrow> 0 | Some d \<Rightarrow> json_size c (VDict d)),
      opt_text_size (jr_stdout_path r), opt_text_size (jr_stderr_path r),
      int_size (jr_stdout_bytes r), int_size (jr_stderr_bytes r),
      int_size (if jr_output_truncated r then 1 else 0),
      json_size c (VList (map VDict (jr_conditions_json r)))]"

definition event_row_size :: "event_row \<Rightarrow> int" where
  "event_row_size r = int_size (int (ev_seq r)) + text_size (ev_job_id r)
     + int_size (ev_revision r) + text_size (ev_kind r) + text_size (ev_created_at r)"

definition outbox_row_size :: "store_cfg \<Rightarrow> outbox_row \<Rightarrow> int" where
  "outbox_row_size c r = sum_list
     [text_size (ob_event_id r), text_size (ob_job_id r), text_size (ob_endpoint_id r),
      json_size c (VDict (ob_payload_json r)), text_size (outbox_state_value (ob_state r)),
      int_size (ob_attempts r), real_size c (ob_next_attempt_at r),
      opt_text_size (ob_delivery_attempt_id r), opt_text_size (ob_last_error r),
      text_size (ob_created_at r), opt_text_size (ob_delivered_at r)]"

definition deletion_row_size :: "deletion_row \<Rightarrow> int" where
  "deletion_row_size r = text_size (dl_job_id r) + opt_text_size (dl_stdout_path r)
     + opt_text_size (dl_stderr_path r) + text_size (dl_created_at r)"

text \<open>\<open>_recalculate_metadata_usage\<close>.\<close>

definition metadata_total :: "store_cfg \<Rightarrow> db \<Rightarrow> int" where
  "metadata_total c d =
     sum_list (map meta_row_size (db_meta d)) + sum_list (map (job_row_size c) (db_jobs d))
     + sum_list (map event_row_size (db_events d))
     + sum_list (map (outbox_row_size c) (db_outbox d))
     + sum_list (map deletion_row_size (db_deletions d))"

definition recalculate_metadata_usage :: "store_cfg \<Rightarrow> db \<Rightarrow> db" where
  "recalculate_metadata_usage c d = d\<lparr>db_usage := metadata_total c d\<rparr>"

subsection \<open>Row operations with their triggers\<close>

text \<open>
  \<open>UPDATE t SET f WHERE p\<close> on a list of rows and the adjustment its update trigger makes;
  \<open>rows_matching\<close> is the statement's row count.
\<close>

definition update_rows :: "('r \<Rightarrow> bool) \<Rightarrow> ('r \<Rightarrow> 'r) \<Rightarrow> 'r list \<Rightarrow> 'r list" where
  "update_rows p f rs = map (\<lambda>r. if p r then f r else r) rs"

definition update_charge :: "('r \<Rightarrow> int) \<Rightarrow> ('r \<Rightarrow> bool) \<Rightarrow> ('r \<Rightarrow> 'r) \<Rightarrow> 'r list \<Rightarrow> int" where
  "update_charge sz p f rs = sum_list (map (\<lambda>r. - sz r + sz (f r)) (filter p rs))"

definition delete_charge :: "('r \<Rightarrow> int) \<Rightarrow> ('r \<Rightarrow> bool) \<Rightarrow> 'r list \<Rightarrow> int" where
  "delete_charge sz p rs = sum_list (map (\<lambda>r. - sz r) (filter p rs))"

definition rows_matching :: "('r \<Rightarrow> bool) \<Rightarrow> 'r list \<Rightarrow> nat" where
  "rows_matching p rs = length (filter p rs)"

definition job_ids :: "db \<Rightarrow> string set" where
  "job_ids d = jr_id ` set (db_jobs d)"

definition insert_job :: "store_cfg \<Rightarrow> job_row \<Rightarrow> unit db_op" where
  "insert_job c r d =
     (if jr_id r \<in> job_ids d then (Inl (IntegrityError ''jobs.id''), d)
      else if \<exists>q \<in> set (db_jobs d).
        jr_tenant_id q = jr_tenant_id r \<and> jr_idempotency_key q = jr_idempotency_key r
      then (Inl (IntegrityError ''jobs.tenant_id, jobs.idempotency_key''), d)
      else (Inr (), d\<lparr>db_jobs := db_jobs d @ [r], db_usage := db_usage d + job_row_size c r\<rparr>))"

definition update_jobs :: "store_cfg \<Rightarrow> (job_row \<Rightarrow> bool) \<Rightarrow> (job_row \<Rightarrow> job_row) \<Rightarrow> nat db_op" where
  "update_jobs c p f d =
     (Inr (rows_matching p (db_jobs d)),
      d\<lparr>db_jobs := update_rows p f (db_jobs d),
        db_usage := db_usage d + update_charge (job_row_size c) p f (db_jobs d)\<rparr>)"

text \<open>Deleting Jobs cascades to their events and outbox rows, whose delete triggers also run.\<close>

definition delete_jobs :: "store_cfg \<Rightarrow> (job_row \<Rightarrow> bool) \<Rightarrow> nat db_op" where
  "delete_jobs c p d =
     (let gone = jr_id ` set (filter p (db_jobs d)) in
      (Inr (rows_matching p (db_jobs d)),
       d\<lparr>db_jobs := filter (\<lambda>r. \<not> p r) (db_jobs d),
         db_events := filter (\<lambda>e. ev_job_id e \<notin> gone) (db_events d),
         db_outbox := filter (\<lambda>b. ob_job_id b \<notin> gone) (db_outbox d),
         db_usage := db_usage d + delete_charge (job_row_size c) p (db_jobs d)
           + delete_charge event_row_size (\<lambda>e. ev_job_id e \<in> gone) (db_events d)
           + delete_charge (outbox_row_size c) (\<lambda>b. ob_job_id b \<in> gone) (db_outbox d)\<rparr>))"

definition update_outbox ::
  "store_cfg \<Rightarrow> (outbox_row \<Rightarrow> bool) \<Rightarrow> (outbox_row \<Rightarrow> outbox_row) \<Rightarrow> nat db_op" where
  "update_outbox c p f d =
     (Inr (rows_matching p (db_outbox d)),
      d\<lparr>db_outbox := update_rows p f (db_outbox d),
        db_usage := db_usage d + update_charge (outbox_row_size c) p f (db_outbox d)\<rparr>)"

definition insert_outbox_row :: "store_cfg \<Rightarrow> outbox_row \<Rightarrow> unit db_op" where
  "insert_outbox_row c b d =
     (if ob_event_id b \<in> ob_event_id ` set (db_outbox d)
      then (Inl (IntegrityError ''callback_outbox.event_id''), d)
      else if ob_job_id b \<notin> job_ids d then (Inl (IntegrityError ''FOREIGN KEY''), d)
      else (Inr (), d\<lparr>db_outbox := db_outbox d @ [b],
                     db_usage := db_usage d + outbox_row_size c b\<rparr>))"

definition insert_deletion :: "deletion_row \<Rightarrow> unit db_op" where
  "insert_deletion r d =
     (if dl_job_id r \<in> dl_job_id ` set (db_deletions d) then (Inr (), d)
      else (Inr (), d\<lparr>db_deletions := db_deletions d @ [r],
                     db_usage := db_usage d + deletion_row_size r\<rparr>))"

definition delete_deletion :: "string \<Rightarrow> nat db_op" where
  "delete_deletion jid d =
     (let p = (\<lambda>r. dl_job_id r = jid) in
      (Inr (rows_matching p (db_deletions d)),
       d\<lparr>db_deletions := filter (\<lambda>r. \<not> p r) (db_deletions d),
         db_usage := db_usage d + delete_charge deletion_row_size p (db_deletions d)\<rparr>))"

text \<open>\<open>_set_metadata\<close>: insert, or update on conflict.\<close>

definition set_metadata :: "string \<Rightarrow> string \<Rightarrow> unit db_op" where
  "set_metadata k v d =
     (if k \<in> fst ` set (db_meta d)
      then let p = (\<lambda>kv. fst kv = k); f = (\<lambda>kv. (k, v)) in
        (Inr (), d\<lparr>db_meta := update_rows p f (db_meta d),
                  db_usage := db_usage d + update_charge meta_row_size p f (db_meta d)\<rparr>)
      else (Inr (), d\<lparr>db_meta := db_meta d @ [(k, v)],
                     db_usage := db_usage d + meta_row_size (k, v)\<rparr>))"

text \<open>
  \<open>_event\<close>: insert an event and delete all but the newest \<open>max_event_records\<close>. The sequence
  number is the table's AUTOINCREMENT counter, so the rows are in ascending order.
\<close>

definition insert_event :: "string \<Rightarrow> string \<Rightarrow> int \<Rightarrow> string \<Rightarrow> unit db_op" where
  "insert_event now jid revision kind d =
     (if \<exists>e \<in> set (db_events d). ev_job_id e = jid \<and> ev_revision e = revision \<and> ev_kind e = kind
      then (Inl (IntegrityError ''resource_events''), d)
      else if jid \<notin> job_ids d then (Inl (IntegrityError ''FOREIGN KEY''), d)
      else
        let e = \<lparr>ev_seq = db_next_seq d, ev_job_id = jid, ev_revision = revision,
                 ev_kind = kind, ev_created_at = now\<rparr> in
        (Inr (), d\<lparr>db_events := db_events d @ [e], db_next_seq := Suc (db_next_seq d),
                  db_usage := db_usage d + event_row_size e\<rparr>))"

definition prune_events :: "nat \<Rightarrow> unit db_op" where
  "prune_events keep d =
     (let n = length (db_events d) - keep in
      (Inr (), d\<lparr>db_events := drop n (db_events d),
                db_usage := db_usage d + sum_list (map (\<lambda>e. - event_row_size e) (take n (db_events d)))\<rparr>))"

subsection \<open>Sequencing and transactions\<close>

definition sret :: "'a \<Rightarrow> 'a db_op" where
  "sret x d = (Inr x, d)"

definition sraise :: "store_error \<Rightarrow> 'a db_op" where
  "sraise e d = (Inl e, d)"

definition sbind :: "'a db_op \<Rightarrow> ('a \<Rightarrow> 'b db_op) \<Rightarrow> 'b db_op" where
  "sbind m f d = (case m d of (Inl e, d1) \<Rightarrow> (Inl e, d1) | (Inr x, d1) \<Rightarrow> f x d1)"

definition stry :: "py_error + 'a \<Rightarrow> 'a db_op" where
  "stry r d = (case r of Inl e \<Rightarrow> (Inl (PyError e), d) | Inr x \<Rightarrow> (Inr x, d))"

definition sget :: "(db \<Rightarrow> 'a) \<Rightarrow> 'a db_op" where
  "sget f d = (Inr (f d), d)"

text \<open>An operation that reads the tables it starts from.\<close>

definition sreader :: "(db \<Rightarrow> 'a db_op) \<Rightarrow> 'a db_op" where
  "sreader f d = f d d"

definition transaction :: "store_cfg \<Rightarrow> 'a db_op \<Rightarrow> 'a db_op" where
  "transaction c body d =
     (case body d of
        (Inl e, _) \<Rightarrow> (Inl e, d)
      | (Inr x, d1) \<Rightarrow>
          if sc_max_metadata_bytes c < db_usage d1 \<and> db_usage d < db_usage d1
          then (Inl (AdmissionLimited ''metadata capacity is full''), d)
          else (Inr x, d1))"

definition event :: "store_cfg \<Rightarrow> string \<Rightarrow> string \<Rightarrow> int \<Rightarrow> string \<Rightarrow> unit db_op" where
  "event c now jid revision kind =
     sbind (insert_event now jid revision kind) (\<lambda>_. prune_events (sc_max_event_records c))"

end
