(* ===== verification/StoreOps.thy ===== *)
theory StoreOps
  imports JobStore
begin

section \<open>The operations of the Job store (service/store.py)\<close>

text \<open>
  Every public method of \<open>SqliteJobStore\<close>, with the statements of its body in their order. Each
  takes the configuration \<open>c\<close> (the attributes of the store object) and the \<open>clock\<close> of the
  call: \<open>ck_iso k\<close>, \<open>ck_time k\<close> and \<open>ck_uuid k\<close> are the k-th readings of
  \<open>utc_now\<close>, \<open>time.time\<close> and \<open>uuid4\<close> in the call, with a block of readings per row
  in the loops over rows.
\<close>

definition find_job :: "(job_row \<Rightarrow> bool) \<Rightarrow> db \<Rightarrow> job_row option" where
  "find_job p d = find p (db_jobs d)"

definition row_to_job :: "job_row \<Rightarrow> job_record res" where
  "row_to_job r =
     rbind (job_spec_from_dict (jr_spec_json r)) (\<lambda>s. Inr
       \<lparr>jo_id = jr_id r, jo_tenant_id = jr_tenant_id r, jo_idempotency_key = jr_idempotency_key r,
        jo_spec = s, jo_request_hash = jr_request_hash r, jo_phase = jr_phase r,
        jo_generation = jr_generation r, jo_observed_generation = jr_observed_generation r,
        jo_revision = jr_revision r, jo_durability = jr_durability r,
        jo_store_epoch = jr_store_epoch r, jo_created_at = jr_created_at r,
        jo_updated_at = jr_updated_at r, jo_attempt_id = jr_attempt_id r,
        jo_lease_owner = jr_lease_owner r, jo_lease_epoch = jr_lease_epoch r,
        jo_lease_expires_at = jr_lease_expires_at r, jo_started_at = jr_started_at r,
        jo_completed_at = jr_completed_at r, jo_exit_code = jr_exit_code r,
        jo_reason = jr_reason r, jo_error = jr_error_json r, jo_stdout_path = jr_stdout_path r,
        jo_stderr_path = jr_stderr_path r, jo_stdout_bytes = jr_stdout_bytes r,
        jo_stderr_bytes = jr_stderr_bytes r, jo_output_truncated = jr_output_truncated r,
        jo_conditions = jr_conditions_json r\<rparr>)"

definition select_job :: "string \<Rightarrow> string option \<Rightarrow> job_row db_op" where
  "select_job jid tenant d =
     (case find_job (\<lambda>r. jr_id r = jid
        \<and> (case tenant of None \<Rightarrow> True | Some t \<Rightarrow> jr_tenant_id r = t)) d of
        None \<Rightarrow> (Inl (JobNotFound jid), d)
      | Some r \<Rightarrow> (Inr r, d))"

text \<open>\<open>WHERE id = ? AND attempt_id = ? AND lease_owner = ?\<close>; NULL equals nothing.\<close>

definition owns :: "string \<Rightarrow> string \<Rightarrow> string \<Rightarrow> job_row \<Rightarrow> bool" where
  "owns jid attempt owner r \<longleftrightarrow>
     jr_id r = jid \<and> jr_attempt_id r = Some attempt \<and> jr_lease_owner r = Some owner"

definition owned_row :: "string \<Rightarrow> string \<Rightarrow> string \<Rightarrow> job_row db_op" where
  "owned_row jid attempt owner d =
     (case find_job (owns jid attempt owner) d of
        None \<Rightarrow> (Inl (StoreError ''stale or invalid attempt ownership''), d)
      | Some r \<Rightarrow> (Inr r, d))"

definition store_get :: "string \<Rightarrow> string option \<Rightarrow> job_record db_op" where
  "store_get jid tenant = sbind (select_job jid tenant) (\<lambda>r. stry (row_to_job r))"

definition outbox_payload :: "string \<Rightarrow> job_record \<Rightarrow> pydict" where
  "outbox_payload event_id job =
     (''event_id'', VStr event_id) # (''event_type'', VStr ''job.completed'')
       # job_record_to_dict False job"

definition insert_outbox :: "store_cfg \<Rightarrow> string \<Rightarrow> rat \<Rightarrow> string \<Rightarrow> job_row \<Rightarrow> unit db_op" where
  "insert_outbox c uid due now row =
     sbind (stry (job_spec_from_dict (jr_spec_json row))) (\<lambda>spec.
     if \<not> truthy (js_callback_endpoint_id spec) then sret ()
     else
       sbind (stry (row_to_job row)) (\<lambda>job.
       let event_id = ''evt_'' @ uid in
       insert_outbox_row c
         \<lparr>ob_event_id = event_id, ob_job_id = jo_id job,
          ob_endpoint_id = str_val (js_callback_endpoint_id spec),
          ob_payload_json = outbox_payload event_id job, ob_state = Pending, ob_attempts = 0,
          ob_next_attempt_at = due, ob_delivery_attempt_id = None, ob_last_error = None,
          ob_created_at = now, ob_delivered_at = None\<rparr>))"

subsection \<open>Retention\<close>

fun finalize_rows :: "store_cfg \<Rightarrow> (string \<Rightarrow> string option \<Rightarrow> string option \<Rightarrow> bool)
    \<Rightarrow> deletion_row list \<Rightarrow> nat \<Rightarrow> nat db_op" where
  "finalize_rows c cleaner [] n = sret n"
| "finalize_rows c cleaner (r # rs) n =
     (if \<not> cleaner (dl_job_id r) (dl_stdout_path r) (dl_stderr_path r)
      then finalize_rows c cleaner rs n
      else sbind (transaction c (delete_deletion (dl_job_id r)))
             (\<lambda>deleted. finalize_rows c cleaner rs (n + deleted)))"

definition finalize_output_deletions :: "store_cfg \<Rightarrow> nat db_op" where
  "finalize_output_deletions c d =
     (case sc_output_cleaner c of
        None \<Rightarrow> (Inr 0, d)
      | Some cleaner \<Rightarrow> finalize_rows c cleaner (sort_by dl_created_at (db_deletions d)) 0 d)"

definition has_live_callback :: "db \<Rightarrow> string \<Rightarrow> bool" where
  "has_live_callback d jid \<longleftrightarrow>
     (\<exists>b \<in> set (db_outbox d). ob_job_id b = jid \<and> ob_state b \<in> {Pending, Delivering})"

definition completed_before :: "string \<Rightarrow> job_row \<Rightarrow> bool" where
  "completed_before cutoff r \<longleftrightarrow> (case jr_completed_at r of None \<Rightarrow> False | Some t \<Rightarrow> t < cutoff)"

definition prunable :: "db \<Rightarrow> string \<Rightarrow> job_row \<Rightarrow> bool" where
  "prunable d cutoff r \<longleftrightarrow>
     terminal (jr_phase r) \<and> completed_before cutoff r \<and> \<not> has_live_callback d (jr_id r)"

definition has_output :: "job_row \<Rightarrow> bool" where
  "has_output r \<longleftrightarrow> jr_stdout_path r \<noteq> None \<or> jr_stderr_path r \<noteq> None"

fun prune_rows :: "store_cfg \<Rightarrow> clock \<Rightarrow> string \<Rightarrow> nat \<Rightarrow> job_row list \<Rightarrow> nat \<Rightarrow> nat db_op" where
  "prune_rows c ck cutoff k [] deleted = sret deleted"
| "prune_rows c ck cutoff k (r # rs) deleted =
     (if sc_output_cleaner c = None \<and> has_output r then prune_rows c ck cutoff (Suc k) rs deleted
      else
        sbind (if has_output r
               then insert_deletion \<lparr>dl_job_id = jr_id r, dl_stdout_path = jr_stdout_path r,
                      dl_stderr_path = jr_stderr_path r, dl_created_at = ck_iso ck k\<rparr>
               else sret ()) (\<lambda>_.
        sreader (\<lambda>d.
        sbind (delete_jobs c (\<lambda>q. jr_id q = jr_id r \<and> prunable d cutoff q)) (\<lambda>n.
        sbind (if n = 0 then delete_deletion (jr_id r) else sret 0) (\<lambda>_.
        prune_rows c ck cutoff (Suc k) rs (deleted + n))))))"

definition prune_expired :: "store_cfg \<Rightarrow> clock \<Rightarrow> nat db_op" where
  "prune_expired c ck =
     (let cutoff = ck_before ck (sc_job_ttl_seconds c) in
      sbind (finalize_output_deletions c) (\<lambda>_.
      sbind (transaction c (sreader (\<lambda>d.
        prune_rows c ck cutoff 0 (filter (prunable d cutoff) (db_jobs d)) 0))) (\<lambda>deleted.
      sbind (finalize_output_deletions c) (\<lambda>_. sret deleted))))"

subsection \<open>Admission\<close>

definition accepted_condition :: "store_cfg \<Rightarrow> string \<Rightarrow> pydict" where
  "accepted_condition c now =
     [(''type'', VStr ''Accepted''), (''status'', VBool True),
      (''reason'', VStr (if sc_volatile c then ''VolatileStore'' else ''Persisted'')),
      (''transition_time'', VStr now)]"

definition new_job_row ::
  "store_cfg \<Rightarrow> clock \<Rightarrow> string \<Rightarrow> string \<Rightarrow> string \<Rightarrow> pydict \<Rightarrow> job_row" where
  "new_job_row c ck tenant key hash doc =
     \<lparr>jr_id = ''job_'' @ ck_uuid ck 0, jr_tenant_id = tenant, jr_idempotency_key = key,
      jr_request_hash = hash, jr_spec_json = doc, jr_phase = Queued, jr_generation = 1,
      jr_observed_generation = 1, jr_revision = 1, jr_durability = sc_durability c,
      jr_store_epoch = sc_store_epoch c, jr_attempt_id = None, jr_lease_owner = None,
      jr_lease_epoch = 0, jr_lease_expires_at = None, jr_created_at = ck_iso ck 0,
      jr_updated_at = ck_iso ck 0, jr_started_at = None, jr_completed_at = None,
      jr_exit_code = None, jr_reason = None, jr_error_json = None, jr_stdout_path = None,
      jr_stderr_path = None, jr_stdout_bytes = 0, jr_stderr_bytes = 0,
      jr_output_truncated = False,
      jr_conditions_json = [accepted_condition c (ck_iso ck 0)]\<rparr>"

definition count_jobs :: "(job_row \<Rightarrow> bool) \<Rightarrow> db \<Rightarrow> int" where
  "count_jobs p d = int (length (filter p (db_jobs d)))"

definition admission_full :: "store_cfg \<Rightarrow> string \<Rightarrow> db \<Rightarrow> bool" where
  "admission_full c tenant d \<longleftrightarrow>
     sc_max_jobs c \<le> count_jobs (\<lambda>_. True) d
     \<or> sc_max_queued_jobs c \<le> count_jobs (\<lambda>r. jr_phase r = Queued) d
     \<or> sc_max_queued_jobs_per_tenant c
         \<le> count_jobs (\<lambda>r. jr_phase r = Queued \<and> jr_tenant_id r = tenant) d"

definition same_key :: "string \<Rightarrow> string \<Rightarrow> job_row \<Rightarrow> bool" where
  "same_key tenant key r \<longleftrightarrow> jr_tenant_id r = tenant \<and> jr_idempotency_key r = key"

definition admit :: "store_cfg \<Rightarrow> clock \<Rightarrow> string \<Rightarrow> string \<Rightarrow> string \<Rightarrow> pydict
    \<Rightarrow> (job_record \<times> bool) db_op" where
  "admit c ck tenant key hash doc = sreader (\<lambda>d.
     case find_job (same_key tenant key) d of
        Some existing \<Rightarrow>
          if jr_request_hash existing \<noteq> hash
          then sraise (IdempotencyConflict
                 ''idempotency key was already used with different content'')
          else sbind (stry (row_to_job existing)) (\<lambda>j. sret (j, False))
      | None \<Rightarrow>
          if admission_full c tenant d
          then sraise (AdmissionLimited ''job admission capacity is full'')
          else
            let row = new_job_row c ck tenant key hash doc in
            sbind (insert_job c row) (\<lambda>_.
            sbind (event c (ck_iso ck 1) (jr_id row) 1 ''job.accepted'') (\<lambda>_.
            sbind (select_job (jr_id row) None) (\<lambda>stored.
            sbind (stry (row_to_job stored)) (\<lambda>j. sret (j, True))))))"

definition request_hash :: "store_cfg \<Rightarrow> job_spec \<Rightarrow> string" where
  "request_hash c s =
     sc_sha256 c (json_text (sc_float_text c) (sort_keys (VDict (job_spec_to_dict s))))"

text \<open>
  The readings of \<open>utc_now\<close> in one submission: the first two are the admission's, the others
  belong to the pruning that runs before it.
\<close>

definition pruning_clock :: "clock \<Rightarrow> clock" where
  "pruning_clock ck = ck\<lparr>ck_iso := (\<lambda>k. ck_iso ck (Suc (Suc k)))\<rparr>"

definition submit :: "store_cfg \<Rightarrow> clock \<Rightarrow> string \<Rightarrow> string \<Rightarrow> job_spec
    \<Rightarrow> (job_record \<times> bool) db_op" where
  "submit c ck tenant key spec =
     sbind (stry (job_spec_validate spec)) (\<lambda>_.
     sbind (prune_expired c (pruning_clock ck)) (\<lambda>_.
     if tenant = [] \<or> key = []
     then sraise (PyError (ValueError ''tenant_id and idempotency_key are required''))
     else if 256 < utf8_len tenant
     then sraise (PyError (ValueError ''tenant_id exceeds 256 UTF-8 bytes''))
     else if 256 < utf8_len key
     then sraise (PyError (ValueError ''idempotency_key exceeds 256 UTF-8 bytes''))
     else transaction c
       (admit c ck tenant key (request_hash c spec) (sorted_document (job_spec_to_dict spec)))))"

subsection \<open>Attempts\<close>

definition claimed :: "clock \<Rightarrow> string \<Rightarrow> int \<Rightarrow> int \<Rightarrow> job_row \<Rightarrow> job_row" where
  "claimed ck owner lease_seconds revision r =
     r\<lparr>jr_phase := Assigned, jr_attempt_id := Some (''attempt_'' @ ck_uuid ck 0),
       jr_lease_owner := Some owner, jr_lease_epoch := jr_lease_epoch r + 1,
       jr_lease_expires_at := Some (ck_time ck 0 + of_int lease_seconds),
       jr_revision := revision, jr_updated_at := ck_iso ck 0\<rparr>"

definition claim_next :: "store_cfg \<Rightarrow> clock \<Rightarrow> string \<Rightarrow> int \<Rightarrow> job_record option db_op" where
  "claim_next c ck owner lease_seconds =
     transaction c (sreader (\<lambda>d.
       case sort_by jr_created_at (filter (\<lambda>r. jr_phase r = Queued) (db_jobs d)) of
         [] \<Rightarrow> sret None
       | row # _ \<Rightarrow>
           sbind (update_jobs c
             (\<lambda>r. jr_id r = jr_id row \<and> jr_revision r = jr_revision row \<and> jr_phase r = Queued)
             (claimed ck owner lease_seconds (jr_revision row + 1))) (\<lambda>n.
           if n \<noteq> 1 then sret None
           else
             sbind (event c (ck_iso ck 1) (jr_id row) (jr_revision row + 1) ''job.assigned'') (\<lambda>_.
             sbind (select_job (jr_id row) None) (\<lambda>stored.
             sbind (stry (row_to_job stored)) (\<lambda>j. sret (Some j)))))))"

definition mark_running :: "store_cfg \<Rightarrow> clock \<Rightarrow> string \<Rightarrow> string \<Rightarrow> string \<Rightarrow> job_record db_op" where
  "mark_running c ck jid attempt owner =
     sbind (transaction c
       (sbind (owned_row jid attempt owner) (\<lambda>row.
        sbind (update_jobs c (owns jid attempt owner)
          (\<lambda>r. r\<lparr>jr_phase := Running, jr_revision := jr_revision row + 1,
                 jr_started_at := Some (ck_iso ck 0), jr_updated_at := ck_iso ck 0\<rparr>)) (\<lambda>_.
        event c (ck_iso ck 1) jid (jr_revision row + 1) ''job.running''))))
     (\<lambda>_. store_get jid None)"

definition leased :: "job_phase \<Rightarrow> bool" where
  "leased p \<longleftrightarrow> p \<in> {Assigned, Running}"

definition renew_lease ::
  "store_cfg \<Rightarrow> clock \<Rightarrow> string \<Rightarrow> string \<Rightarrow> string \<Rightarrow> int \<Rightarrow> bool db_op" where
  "renew_lease c ck jid attempt owner lease_seconds =
     sbind (transaction c
       (update_jobs c (\<lambda>r. owns jid attempt owner r \<and> leased (jr_phase r))
         (\<lambda>r. r\<lparr>jr_lease_expires_at := Some (ck_time ck 0 + of_int lease_seconds)\<rparr>)))
     (\<lambda>n. sret (n = 1))"

record job_outcome =
  jx_phase :: job_phase
  jx_exit_code :: "int option"
  jx_reason :: string
  jx_error :: "pydict option"
  jx_stdout_path :: "string option"
  jx_stderr_path :: "string option"
  jx_stdout_bytes :: int
  jx_stderr_bytes :: int
  jx_output_truncated :: bool

definition cancel_desired :: "job_row \<Rightarrow> bool" where
  "cancel_desired r \<longleftrightarrow> dget (jr_spec_json r) ''desired_state'' = VStr ''cancelled''"

definition ready_condition :: "job_phase \<Rightarrow> string \<Rightarrow> string \<Rightarrow> pydict" where
  "ready_condition p reason now =
     [(''type'', VStr ''Ready''), (''status'', VBool (p = Succeeded)),
      (''reason'', VStr reason), (''transition_time'', VStr now)]"

definition completed :: "string \<Rightarrow> int \<Rightarrow> job_outcome \<Rightarrow> pydict list \<Rightarrow> job_row \<Rightarrow> job_row" where
  "completed now revision x conditions r =
     r\<lparr>jr_phase := jx_phase x, jr_observed_generation := jr_generation r,
       jr_revision := revision, jr_completed_at := Some now, jr_updated_at := now,
       jr_exit_code := jx_exit_code x, jr_reason := Some (jx_reason x),
       jr_error_json := (case jx_error x of Some [] \<Rightarrow> None | e \<Rightarrow> e),
       jr_stdout_path := jx_stdout_path x, jr_stderr_path := jx_stderr_path x,
       jr_stdout_bytes := jx_stdout_bytes x, jr_stderr_bytes := jx_stderr_bytes x,
       jr_output_truncated := jx_output_truncated x, jr_conditions_json := conditions,
       jr_lease_expires_at := None\<rparr>"

text \<open>The outcome a finish records: a cancelled desired state overrides the reported one.\<close>

definition recorded_outcome :: "job_row \<Rightarrow> job_outcome \<Rightarrow> job_outcome" where
  "recorded_outcome r x =
     (if cancel_desired r then x\<lparr>jx_phase := Canceled, jx_reason := ''cancelled''\<rparr> else x)"

definition finish_row :: "store_cfg \<Rightarrow> clock \<Rightarrow> string \<Rightarrow> string \<Rightarrow> string \<Rightarrow> job_outcome
    \<Rightarrow> job_row \<Rightarrow> unit db_op" where
  "finish_row c ck jid attempt owner x0 row =
     (let x = recorded_outcome row x0; revision = jr_revision row + 1;
          conditions = jr_conditions_json row
            @ [ready_condition (jx_phase x) (jx_reason x) (ck_iso ck 0)] in
      sbind (update_jobs c (owns jid attempt owner)
        (completed (ck_iso ck 0) revision x conditions)) (\<lambda>_.
      sbind (event c (ck_iso ck 1) jid revision (''job.'' @ phase_value (jx_phase x))) (\<lambda>_.
      sbind (select_job jid None) (\<lambda>stored.
      insert_outbox c (ck_uuid ck 0) (ck_time ck 0) (ck_iso ck 2) stored))))"

definition finish :: "store_cfg \<Rightarrow> clock \<Rightarrow> string \<Rightarrow> string \<Rightarrow> string \<Rightarrow> job_outcome
    \<Rightarrow> job_record db_op" where
  "finish c ck jid attempt owner x =
     (if \<not> terminal (jx_phase x)
      then sraise (PyError (ValueError ''finish requires a terminal phase''))
      else
        sbind (transaction c
          (sbind (owned_row jid attempt owner) (\<lambda>row.
           if terminal (jr_phase row)
           then sbind (stry (row_to_job row)) (\<lambda>j. sret (Some j))
           else if \<not> leased (jr_phase row)
           then sraise (StoreError ''attempt is not in a finishable phase'')
           else sbind (finish_row c ck jid attempt owner x row) (\<lambda>_. sret None))))
        (\<lambda>early. case early of Some j \<Rightarrow> sret j | None \<Rightarrow> store_get jid None))"

subsection \<open>Cancellation and recovery\<close>

definition cancel_requested :: "clock \<Rightarrow> job_row \<Rightarrow> job_row \<Rightarrow> job_row" where
  "cancel_requested ck row r =
     (let queued = (jr_phase row = Queued); generation = jr_generation row + 1 in
      r\<lparr>jr_spec_json :=
          sorted_document (dict_set (jr_spec_json row) ''desired_state'' (VStr ''cancelled'')),
        jr_generation := generation,
        jr_observed_generation := (if queued then generation else jr_observed_generation row),
        jr_revision := jr_revision row + 1,
        jr_phase := (if queued then Canceled else jr_phase row),
        jr_completed_at := (if queued then Some (ck_iso ck 0) else jr_completed_at r),
        jr_reason := (if queued then Some ''cancelled_before_start'' else jr_reason row),
        jr_updated_at := ck_iso ck 0\<rparr>)"

definition cancel_row :: "store_cfg \<Rightarrow> clock \<Rightarrow> string \<Rightarrow> job_row \<Rightarrow> job_record option db_op" where
  "cancel_row c ck jid row =
     (if terminal (jr_phase row) \<or> cancel_desired row
      then sbind (stry (row_to_job row)) (\<lambda>j. sret (Some j))
      else
        sbind (update_jobs c (\<lambda>r. jr_id r = jid \<and> jr_revision r = jr_revision row)
          (cancel_requested ck row)) (\<lambda>_.
        sbind (event c (ck_iso ck 1) jid (jr_revision row + 1) ''job.cancel_requested'') (\<lambda>_.
        sbind (select_job jid None) (\<lambda>stored.
        sbind (if jr_phase row = Queued
               then insert_outbox c (ck_uuid ck 0) (ck_time ck 0) (ck_iso ck 2) stored
               else sret ()) (\<lambda>_. sret None)))))"

definition request_cancel :: "store_cfg \<Rightarrow> clock \<Rightarrow> string \<Rightarrow> string option \<Rightarrow> job_record db_op" where
  "request_cancel c ck jid tenant =
     sbind (transaction c (sbind (select_job jid tenant) (cancel_row c ck jid)))
     (\<lambda>early. case early of Some j \<Rightarrow> sret j | None \<Rightarrow> store_get jid None)"

text \<open>The terminal row both recoveries write; \<open>lost\<close> is the reason for an uncancelled Job.\<close>

definition recovered_phase :: "job_row \<Rightarrow> job_phase" where
  "recovered_phase row = (if cancel_desired row then Canceled else Executor_lost)"

definition recovered :: "string \<Rightarrow> string \<Rightarrow> job_row \<Rightarrow> job_row \<Rightarrow> job_row" where
  "recovered now lost row r =
     r\<lparr>jr_phase := recovered_phase row, jr_observed_generation := jr_generation r,
       jr_revision := jr_revision row + 1, jr_completed_at := Some now, jr_updated_at := now,
       jr_reason := Some (if cancel_desired row then ''cancelled'' else lost),
       jr_lease_expires_at := None\<rparr>"

fun recover_rows :: "store_cfg \<Rightarrow> clock \<Rightarrow> nat \<Rightarrow> job_row list \<Rightarrow> unit db_op" where
  "recover_rows c ck k [] = sret ()"
| "recover_rows c ck k (row # rows) =
     sbind (update_jobs c (\<lambda>r. jr_id r = jr_id row)
       (recovered (ck_iso ck (3 * k)) ''service_restarted'' row)) (\<lambda>_.
     sbind (event c (ck_iso ck (3 * k + 1)) (jr_id row) (jr_revision row + 1)
       (''job.'' @ phase_value (recovered_phase row))) (\<lambda>_.
     sbind (select_job (jr_id row) None) (\<lambda>stored.
     sbind (insert_outbox c (ck_uuid ck k) (ck_time ck (Suc k)) (ck_iso ck (3 * k + 2)) stored) (\<lambda>_.
     recover_rows c ck (Suc k) rows))))"

definition recover_interrupted :: "store_cfg \<Rightarrow> clock \<Rightarrow> nat db_op" where
  "recover_interrupted c ck =
     transaction c
       (sbind (update_outbox c (\<lambda>b. ob_state b = Delivering)
          (\<lambda>b. b\<lparr>ob_state := Pending, ob_next_attempt_at := ck_time ck 0,
                 ob_delivery_attempt_id := None\<rparr>)) (\<lambda>_.
        sbind (sget (\<lambda>d. filter (\<lambda>r. leased (jr_phase r)) (db_jobs d))) (\<lambda>rows.
        sbind (recover_rows c ck 0 rows) (\<lambda>_. sret (length rows)))))"

definition lease_expired :: "rat \<Rightarrow> job_row \<Rightarrow> bool" where
  "lease_expired now r \<longleftrightarrow> (case jr_lease_expires_at r of None \<Rightarrow> False | Some t \<Rightarrow> t \<le> now)"

fun recover_expired_rows ::
  "store_cfg \<Rightarrow> clock \<Rightarrow> string set \<Rightarrow> nat \<Rightarrow> job_row list \<Rightarrow> nat \<Rightarrow> nat db_op" where
  "recover_expired_rows c ck excluded k [] n = sret n"
| "recover_expired_rows c ck excluded k (row # rows) n =
     (if jr_id row \<in> excluded then recover_expired_rows c ck excluded (Suc k) rows n
      else
        sbind (update_jobs c
          (\<lambda>r. jr_id r = jr_id row \<and> jr_revision r = jr_revision row
             \<and> lease_expired (ck_time ck (2 * k + 1)) r)
          (recovered (ck_iso ck (3 * k)) ''executor_lease_expired'' row)) (\<lambda>updated.
        if updated \<noteq> 1 then recover_expired_rows c ck excluded (Suc k) rows n
        else
          sbind (event c (ck_iso ck (3 * k + 1)) (jr_id row) (jr_revision row + 1)
            (''job.'' @ phase_value (recovered_phase row))) (\<lambda>_.
          sbind (select_job (jr_id row) None) (\<lambda>stored.
          sbind (insert_outbox c (ck_uuid ck k) (ck_time ck (2 * k + 2)) (ck_iso ck (3 * k + 2)) stored) (\<lambda>_.
          recover_expired_rows c ck excluded (Suc k) rows (Suc n))))))"

definition recover_expired_leases :: "store_cfg \<Rightarrow> clock \<Rightarrow> string set \<Rightarrow> nat db_op" where
  "recover_expired_leases c ck excluded =
     transaction c (sreader (\<lambda>d.
       recover_expired_rows c ck excluded 0
         (filter (\<lambda>r. leased (jr_phase r) \<and> lease_expired (ck_time ck 0) r) (db_jobs d)) 0))"

subsection \<open>The callback outbox\<close>

definition due_rows :: "rat \<Rightarrow> nat \<Rightarrow> db \<Rightarrow> (outbox_row \<times> job_row) list" where
  "due_rows now n d =
     take n (sort_by (\<lambda>(b, _). ob_next_attempt_at b)
       [(b, j). b \<leftarrow> db_outbox d, j \<leftarrow> db_jobs d,
          jr_id j = ob_job_id b \<and> ob_state b = Pending \<and> ob_next_attempt_at b \<le> now])"

definition to_outbox_record :: "string option \<Rightarrow> outbox_row \<times> job_row \<Rightarrow> outbox_record" where
  "to_outbox_record delivery bj =
     (case bj of (b, j) \<Rightarrow>
       \<lparr>or_event_id = ob_event_id b, or_job_id = ob_job_id b, or_tenant_id = jr_tenant_id j,
        or_endpoint_id = ob_endpoint_id b, or_payload = ob_payload_json b,
        or_attempts = ob_attempts b, or_next_attempt_at = ob_next_attempt_at b,
        or_delivery_attempt_id = delivery\<rparr>)"

definition outbox_due :: "clock \<Rightarrow> nat \<Rightarrow> outbox_record list db_op" where
  "outbox_due ck n = sget (\<lambda>d. map (to_outbox_record None) (due_rows (ck_time ck 0) n d))"

fun claim_rows :: "store_cfg \<Rightarrow> clock \<Rightarrow> rat \<Rightarrow> nat \<Rightarrow> (outbox_row \<times> job_row) list
    \<Rightarrow> outbox_record list db_op" where
  "claim_rows c ck lease_end k [] = sret []"
| "claim_rows c ck lease_end k (bj # rest) =
     (let delivery = ''delivery_'' @ ck_uuid ck k in
      sbind (update_outbox c
        (\<lambda>b. ob_event_id b = ob_event_id (fst bj) \<and> ob_state b = Pending)
        (\<lambda>b. b\<lparr>ob_state := Delivering, ob_next_attempt_at := lease_end,
               ob_delivery_attempt_id := Some delivery\<rparr>)) (\<lambda>n.
      sbind (claim_rows c ck lease_end (Suc k) rest) (\<lambda>records.
      sret (if n = 1 then to_outbox_record (Some delivery) bj # records else records))))"

definition claim_outbox_due ::
  "store_cfg \<Rightarrow> clock \<Rightarrow> int \<Rightarrow> rat \<Rightarrow> outbox_record list db_op" where
  "claim_outbox_due c ck limit lease_seconds =
     (if limit \<le> 0 then sret []
      else
        let now = ck_time ck 0 in
        transaction c
          (sbind (update_outbox c (\<lambda>b. ob_state b = Delivering \<and> ob_next_attempt_at b \<le> now)
             (\<lambda>b. b\<lparr>ob_state := Pending, ob_delivery_attempt_id := None\<rparr>)) (\<lambda>_.
           sbind (sget (due_rows now (nat limit))) (\<lambda>rows.
           claim_rows c ck (now + lease_seconds) 0 rows))))"

text \<open>\<open>event_id = ? AND state = 'delivering' AND delivery_attempt_id = ?\<close>.\<close>

definition delivering_as :: "string \<Rightarrow> string option \<Rightarrow> outbox_row \<Rightarrow> bool" where
  "delivering_as event_id delivery b \<longleftrightarrow>
     ob_event_id b = event_id \<and> ob_state b = Delivering
     \<and> delivery \<noteq> None \<and> ob_delivery_attempt_id b = delivery"

definition outbox_delivered :: "store_cfg \<Rightarrow> clock \<Rightarrow> string \<Rightarrow> string option \<Rightarrow> bool db_op" where
  "outbox_delivered c ck event_id delivery =
     sbind (transaction c (update_outbox c (delivering_as event_id delivery)
       (\<lambda>b. b\<lparr>ob_state := Delivered, ob_delivered_at := Some (ck_iso ck 0),
              ob_delivery_attempt_id := None\<rparr>)))
     (\<lambda>n. sret (n = 1))"

definition outbox_failed ::
  "store_cfg \<Rightarrow> string \<Rightarrow> string option \<Rightarrow> string \<Rightarrow> rat \<Rightarrow> bool \<Rightarrow> bool db_op" where
  "outbox_failed c event_id delivery err next_attempt_at permanent =
     sbind (transaction c (update_outbox c (delivering_as event_id delivery)
       (\<lambda>b. b\<lparr>ob_state := (if permanent then Dead else Pending),
              ob_attempts := ob_attempts b + 1, ob_next_attempt_at := next_attempt_at,
              ob_last_error := Some (take 1000 err), ob_delivery_attempt_id := None\<rparr>)))
     (\<lambda>n. sret (n = 1))"

subsection \<open>Opening the store and reading it\<close>

definition empty_db :: db where
  "empty_db = \<lparr>db_meta = [], db_jobs = [], db_events = [], db_next_seq = 1, db_outbox = [],
     db_deletions = [], db_usage = 0\<rparr>"

text \<open>
  The parts of the constructor that touch the tables: \<open>_migrate\<close> creates what is missing,
  writes the schema version and recalculates the usage; a file store then reads or writes its
  identity, which becomes the store epoch.
\<close>

definition migrate :: "store_cfg \<Rightarrow> db \<Rightarrow> db" where
  "migrate c d = recalculate_metadata_usage c (snd (set_metadata ''schema_version'' ''3'' d))"

definition open_store :: "store_cfg \<Rightarrow> string \<Rightarrow> string \<Rightarrow> db \<Rightarrow> store_cfg \<times> db" where
  "open_store c uid_epoch uid_store d0 =
     (let d = migrate c d0; c1 = c\<lparr>sc_store_epoch := ''store_'' @ uid_epoch\<rparr> in
      if sc_volatile c then (c1, d)
      else (case map_of (db_meta d) ''store_id'' of
          Some persisted \<Rightarrow> (c1\<lparr>sc_store_epoch := persisted\<rparr>, d)
        | None \<Rightarrow> (c1\<lparr>sc_store_epoch := ''store_'' @ uid_store\<rparr>,
                   snd (set_metadata ''store_id'' (''store_'' @ uid_store) d))))"

definition referenced_output_job_ids :: "db \<Rightarrow> string set" where
  "referenced_output_job_ids d =
     jr_id ` set (filter has_output (db_jobs d)) \<union> dl_job_id ` set (db_deletions d)"

record store_stats =
  ss_phase_count :: "job_phase \<Rightarrow> nat"
  ss_pending_callbacks :: nat
  ss_dead_callbacks :: nat
  ss_pending_output_deletions :: nat
  ss_metadata_bytes :: int
  ss_max_metadata_bytes :: int

definition store_stats_of :: "store_cfg \<Rightarrow> db \<Rightarrow> store_stats" where
  "store_stats_of c d =
     \<lparr>ss_phase_count = (\<lambda>p. rows_matching (\<lambda>r. jr_phase r = p) (db_jobs d)),
      ss_pending_callbacks = rows_matching (\<lambda>b. ob_state b \<in> {Pending, Delivering}) (db_outbox d),
      ss_dead_callbacks = rows_matching (\<lambda>b. ob_state b = Dead) (db_outbox d),
      ss_pending_output_deletions = length (db_deletions d),
      ss_metadata_bytes = db_usage d,
      ss_max_metadata_bytes = sc_max_metadata_bytes c\<rparr>"

text \<open>\<open>_sqlite_location\<close>; \<open>base\<close> is the state directory or the working directory.\<close>

definition sqlite_prefix :: string where
  "sqlite_prefix = ''sqlite:///''"

definition sqlite_location :: "string \<Rightarrow> string \<Rightarrow> string res" where
  "sqlite_location base url =
     (if take (length sqlite_prefix) url \<noteq> sqlite_prefix
      then Inl (ValueError ''only sqlite:/// JobStore URLs are supported'')
      else
        let location = drop (length sqlite_prefix) url in
        if location = '':memory:'' then Inr location
        else if take 1 location = ''/'' then Inr location
        else Inr (base @ ''/'' @ location))"

end
