(* ===== verification/StoreInv.thy ===== *)
theory StoreInv
  imports StoreOps
begin

section \<open>Invariants of the Job store\<close>

text \<open>
  \<open>table_invariant\<close> is the contract between the row operations and the public operations: a
  predicate on the tables that the row operations keep is kept by every operation of the store.
  It is interpreted on the exactness of the usage counter, on the table constraints, on the
  readability of the stored specifications, on the shape of delivery leases, and on the metadata
  table itself.
\<close>

subsection \<open>Stored documents\<close>

definition sort_spec :: "job_spec \<Rightarrow> job_spec" where
  "sort_spec s =
     s\<lparr>js_command := map sort_keys (js_command s), js_cwd := sort_keys (js_cwd s),
       js_env := map_option sorted_document (js_env s),
       js_timeout_seconds := sort_keys (js_timeout_seconds s),
       js_idle_timeout_seconds := sort_keys (js_idle_timeout_seconds s),
       js_max_output_bytes := sort_keys (js_max_output_bytes s),
       js_callback_endpoint_id := sort_keys (js_callback_endpoint_id s),
       js_desired_state := sort_keys (js_desired_state s)\<rparr>"

definition document_of :: "job_spec \<Rightarrow> pydict \<Rightarrow> bool" where
  "document_of s d \<longleftrightarrow> distinct (map fst d) \<and> map_of d = map_of (job_spec_to_dict s)"

definition readable :: "pydict \<Rightarrow> bool" where
  "readable d \<longleftrightarrow> (\<exists>s. job_spec_ok s \<and> document_of s d)"

lemma set_map_sort_by: "set (map g (sort_by f xs)) = set (map g xs)"
  by simp

lemma distinct_map_insort_by:
  "distinct (map g (insort_by f x xs)) = distinct (map g (x # xs))"
  by (induction xs) auto

lemma distinct_map_sort_by: "distinct (map g (sort_by f xs)) = distinct (map g xs)"
proof (induction xs)
  case (Cons x xs)
  have "set (map g (sort_by f xs)) = set (map g xs)" by simp
  with Cons show ?case
    by (simp add: sort_by_def distinct_map_insort_by del: set_map)
qed (simp add: sort_by_def)

lemma map_of_sort_by: "distinct (map fst d) \<Longrightarrow> map_of (sort_by f d) = map_of d"
  by (simp add: map_of_inject_set distinct_map_sort_by)

lemma map_fst_pairs [simp]: "map fst (map (\<lambda>kv. (fst kv, g (snd kv))) d) = map fst d"
  by (induction d) auto

lemma map_of_pairs: "map_of (map (\<lambda>kv. (fst kv, g (snd kv))) d) k = map_option g (map_of d k)"
  by (induction d) auto

lemma map_of_sorted_document:
  "distinct (map fst d) \<Longrightarrow> map_of (sorted_document d) k = map_option sort_keys (map_of d k)"
  by (simp add: sorted_document_def map_of_sort_by map_of_pairs del: map_map)

lemma distinct_sorted_document: "distinct (map fst (sorted_document d)) = distinct (map fst d)"
  by (simp add: sorted_document_def distinct_map_sort_by del: map_map)

lemma set_sorted_document: "set (sorted_document d) = (\<lambda>kv. (fst kv, sort_keys (snd kv))) ` set d"
  by (simp add: sorted_document_def)

lemma map_of_dict_set: "map_of (dict_set d k v) = (map_of d)(k \<mapsto> v)"
  by (induction d k v rule: dict_set.induct) auto

lemma set_dict_set: "fst ` set (dict_set d k v) = insert k (fst ` set d)"
  by (induction d k v rule: dict_set.induct) auto

lemma distinct_dict_set: "distinct (map fst d) \<Longrightarrow> distinct (map fst (dict_set d k v))"
proof (induction d k v rule: dict_set.induct)
  case (2 k' v' d k v)
  then show ?case using set_dict_set [of d k v] by auto
qed simp

lemma sort_keys_str [simp]: "is_str v \<Longrightarrow> sort_keys v = v"
  by (cases v) auto

lemma sort_keys_seconds [simp]: "positive_seconds v \<Longrightarrow> sort_keys v = v"
  by (cases v) auto

lemma sort_keys_limit [simp]: "output_limit_ok v \<Longrightarrow> sort_keys v = v"
  by (cases v) auto

lemma command_ok_sort_keys: "command_ok xs \<Longrightarrow> map sort_keys xs = xs"
  by (cases xs) (auto simp: list_all_iff intro: map_idI)

lemma env_entry_ok_sorted:
  assumes "\<forall>kv \<in> set e. env_entry_ok kv"
  shows "\<forall>kv \<in> set (sorted_document e). env_entry_ok kv"
  using assms by (auto simp: set_sorted_document env_entry_ok_def)

lemma job_spec_ok_sort: "job_spec_ok s \<Longrightarrow> job_spec_ok (sort_spec s)"
  using env_entry_ok_sorted
  by (auto simp: job_spec_ok_def sort_spec_def command_ok_sort_keys)

lemma map_option_dict_sort_spec:
  "map_option sort_keys (map_of (job_spec_to_dict s) k) = map_of (job_spec_to_dict (sort_spec s)) k"
  by (cases "js_env s") (simp_all add: job_spec_to_dict_def sort_spec_def sorted_document_def)

lemma document_of_sorted: "document_of s d \<Longrightarrow> document_of (sort_spec s) (sorted_document d)"
  by (auto simp: document_of_def distinct_sorted_document map_of_sorted_document
      map_option_dict_sort_spec)

lemma document_of_self: "document_of s (job_spec_to_dict s)"
  by (simp add: document_of_def job_spec_to_dict_def)

lemma document_of_set_state:
  "document_of s d \<Longrightarrow>
     document_of (s\<lparr>js_desired_state := v\<rparr>) (dict_set d ''desired_state'' v)"
  by (auto simp: document_of_def distinct_dict_set map_of_dict_set job_spec_to_dict_def)

lemma document_of_from_dict:
  assumes "document_of s d" and "job_spec_ok s"
  shows "job_spec_from_dict d = Inr s"
proof -
  from assms(1) have m: "map_of d = map_of (job_spec_to_dict s)" by (simp add: document_of_def)
  then have "fst ` set d = fst ` set (job_spec_to_dict s)" by (metis dom_map_of_conv_image_fst)
  then have "unknown_key d job_spec_fields = None"
    using job_spec_dict_known [of s] by (simp add: unknown_key_None_iff)
  moreover have "dget d k = dget (job_spec_to_dict s) k" "dget_or d k v = dget_or (job_spec_to_dict s) k v"
    for k v using m by (simp_all add: dget_def dget_or_def)
  ultimately show ?thesis
    using assms(2) by (intro job_spec_from_dict_fields) (simp_all add: job_spec_dict_gets)
qed

lemma readable_new: "job_spec_ok s \<Longrightarrow> readable (sorted_document (job_spec_to_dict s))"
  using document_of_sorted [OF document_of_self] job_spec_ok_sort by (auto simp: readable_def)

lemma from_dict_new:
  "job_spec_ok s \<Longrightarrow> job_spec_from_dict (sorted_document (job_spec_to_dict s)) = Inr (sort_spec s)"
  using document_of_from_dict [OF document_of_sorted [OF document_of_self] job_spec_ok_sort] .

lemma readable_cancel:
  assumes "readable d"
  shows "readable (sorted_document (dict_set d ''desired_state'' (VStr ''cancelled'')))"
proof -
  from assms obtain s where s: "job_spec_ok s" "document_of s d" by (auto simp: readable_def)
  then have "job_spec_ok (s\<lparr>js_desired_state := VStr ''cancelled''\<rparr>)" by (simp add: job_spec_ok_def)
  with s show ?thesis
    using document_of_sorted [OF document_of_set_state] job_spec_ok_sort
    unfolding readable_def by blast
qed

lemma readable_from_dict: "readable d \<Longrightarrow> \<exists>s. job_spec_from_dict d = Inr s \<and> job_spec_ok s"
  using document_of_from_dict by (auto simp: readable_def)

lemma readable_row_to_job:
  "readable (jr_spec_json r) \<Longrightarrow>
     \<exists>j. row_to_job r = Inr j \<and> jo_id j = jr_id r \<and> jo_phase j = jr_phase r"
  using readable_from_dict by (fastforce simp: row_to_job_def)

subsection \<open>Sequencing\<close>

definition preserves :: "(db \<Rightarrow> bool) \<Rightarrow> 'a db_op \<Rightarrow> bool" where
  "preserves P m \<longleftrightarrow> (\<forall>d. P d \<longrightarrow> P (snd (m d)))"

lemma preservesI: "(\<And>d. P d \<Longrightarrow> P (snd (m d))) \<Longrightarrow> preserves P m"
  by (simp add: preserves_def)

lemma preservesD: "preserves P m \<Longrightarrow> P d \<Longrightarrow> P (snd (m d))"
  by (simp add: preserves_def)

lemma preserves_ret [simp, inv_pres]: "preserves P (sret x)"
  by (simp add: preserves_def sret_def)

lemma preserves_raise [simp, inv_pres]: "preserves P (sraise e)"
  by (simp add: preserves_def sraise_def)

lemma preserves_try [simp, inv_pres]: "preserves P (stry r)"
  by (auto simp: preserves_def stry_def split: sum.split)

lemma preserves_get [simp, inv_pres]: "preserves P (sget f)"
  by (simp add: preserves_def sget_def)

lemma preserves_select_job [simp, inv_pres]: "preserves P (select_job jid t)"
  by (auto simp: preserves_def select_job_def split: option.split)

lemma preserves_owned_row [simp, inv_pres]: "preserves P (owned_row jid a ow)"
  by (auto simp: preserves_def owned_row_def split: option.split)

lemma preserves_bind [inv_pres]:
  "preserves P m \<Longrightarrow> (\<And>x. preserves P (f x)) \<Longrightarrow> preserves P (sbind m f)"
  by (auto simp: preserves_def sbind_def split: prod.split sum.split)

lemma preserves_bind_value:
  assumes "preserves P m" and "\<And>d x d1. P d \<Longrightarrow> m d = (Inr x, d1) \<Longrightarrow> preserves P (f x)"
  shows "preserves P (sbind m f)"
proof (rule preservesI)
  fix d assume d: "P d"
  obtain r d1 where m: "m d = (r, d1)" by (cases "m d")
  with assms(1) d have d1: "P d1" by (metis preservesD snd_conv)
  show "P (snd (sbind m f d))"
  proof (cases r)
    case (Inl e)
    with m d1 show ?thesis by (simp add: sbind_def)
  next
    case (Inr x)
    with m d1 assms(2) [OF d] show ?thesis by (simp add: sbind_def preserves_def)
  qed
qed

lemma preserves_transaction [inv_pres]: "preserves P m \<Longrightarrow> preserves P (transaction c m)"
  by (auto simp: preserves_def transaction_def split: prod.split sum.split)

lemma preserves_reader: "(\<And>d. preserves P (f d)) \<Longrightarrow> preserves P (sreader f)"
  by (simp add: preserves_def sreader_def)

lemma preserves_option:
  "preserves P m \<Longrightarrow> (\<And>x. preserves P (f x)) \<Longrightarrow> preserves P (case v of None \<Rightarrow> m | Some x \<Rightarrow> f x)"
  by (simp split: option.split)

lemma preserves_list:
  "preserves P m \<Longrightarrow> (\<And>x xs. preserves P (f x xs)) \<Longrightarrow>
     preserves P (case v of [] \<Rightarrow> m | x # xs \<Rightarrow> f x xs)"
  by (simp split: list.split)

lemma preserves_if [inv_pres]: "preserves P m \<Longrightarrow> preserves P n \<Longrightarrow> preserves P (if b then m else n)"
  by simp

lemma preserves_store_get [simp, inv_pres]: "preserves P (store_get jid t)"
  by (simp add: store_get_def preserves_bind)

lemma select_job_Inr:
  "select_job jid t d = (Inr r, d1) \<longleftrightarrow>
     d1 = d \<and> find_job (\<lambda>r. jr_id r = jid \<and> (case t of None \<Rightarrow> True | Some u \<Rightarrow> jr_tenant_id r = u)) d
       = Some r"
  by (auto simp: select_job_def split: option.split)

lemma find_job_Some: "find_job p d = Some r \<Longrightarrow> p r \<and> r \<in> set (db_jobs d)"
  by (auto simp: find_job_def find_Some_iff)

lemma find_job_None: "find_job p d = None \<longleftrightarrow> (\<forall>r \<in> set (db_jobs d). \<not> p r)"
  by (auto simp: find_job_def find_None_iff)

lemma bind_post:
  assumes "P (snd (m d))" and "\<And>x d1. m d = (Inr x, d1) \<Longrightarrow> P (snd (f x d1))"
  shows "P (snd (sbind m f d))"
  using assms by (cases "m d") (auto simp: sbind_def split: sum.split)

lemma event_frame:
  "db_jobs (snd (event c now jid rv k d)) = db_jobs d"
  "db_outbox (snd (event c now jid rv k d)) = db_outbox d"
  "db_deletions (snd (event c now jid rv k d)) = db_deletions d"
  "db_meta (snd (event c now jid rv k d)) = db_meta d"
  by (simp_all add: event_def sbind_def insert_event_def prune_events_def Let_def)

lemma in_update_rows:
  "r \<in> set (update_rows p f rs) \<Longrightarrow> (\<exists>q \<in> set rs. p q \<and> r = f q) \<or> r \<in> set rs"
  by (auto simp: update_rows_def split: if_splits)

lemma insert_outbox_frame: "db_jobs (snd (insert_outbox c uid due now row d)) = db_jobs d"
proof (rule preservesD [where P = "\<lambda>d'. db_jobs d' = db_jobs d"])
  show "preserves (\<lambda>d'. db_jobs d' = db_jobs d) (insert_outbox c uid due now row)"
    unfolding insert_outbox_def Let_def
    by (intro preserves_bind preserves_if preserves_try preserves_ret)
      (simp add: preserves_def insert_outbox_row_def)
qed simp

lemma same_id_same_row:
  "distinct (map jr_id rs) \<Longrightarrow> q \<in> set rs \<Longrightarrow> r \<in> set rs \<Longrightarrow> jr_id q = jr_id r \<Longrightarrow> q = r"
  by (auto simp: distinct_map dest: inj_onD)

lemmas db_rules = preserves_bind preserves_transaction preserves_reader preserves_if
  preserves_option preserves_list preserves_ret preserves_raise preserves_try preserves_get
  preserves_select_job preserves_owned_row preserves_store_get

subsection \<open>The contract\<close>

definition same_identity :: "job_row \<Rightarrow> job_row \<Rightarrow> bool" where
  "same_identity q r \<longleftrightarrow> jr_id q = jr_id r \<and> jr_tenant_id q = jr_tenant_id r
     \<and> jr_idempotency_key q = jr_idempotency_key r"

definition lease_shape :: "outbox_row \<Rightarrow> bool" where
  "lease_shape b \<longleftrightarrow> (ob_state b = Delivering \<longleftrightarrow> ob_delivery_attempt_id b \<noteq> None)"

definition same_event :: "outbox_row \<Rightarrow> outbox_row \<Rightarrow> bool" where
  "same_event a b \<longleftrightarrow> ob_event_id a = ob_event_id b \<and> ob_job_id a = ob_job_id b"

locale table_invariant =
  fixes c :: store_cfg and inv :: "db \<Rightarrow> bool" and doc_ok :: "pydict \<Rightarrow> bool"
    and legal :: "job_row \<Rightarrow> job_phase \<Rightarrow> bool" and new_ok :: "string \<Rightarrow> bool"
  assumes ids: "inv d \<Longrightarrow> distinct (map jr_id (db_jobs d))"
    and legal_refl: "\<not> terminal (jr_phase r) \<Longrightarrow> legal r (jr_phase r)"
    and legal_step: "t \<in> phase_steps (jr_phase r) \<Longrightarrow> legal r t"
    and docs: "inv d \<Longrightarrow> r \<in> set (db_jobs d) \<Longrightarrow> doc_ok (jr_spec_json r)"
    and doc_new: "job_spec_ok s \<Longrightarrow> doc_ok (sorted_document (job_spec_to_dict s))"
    and doc_cancel:
      "doc_ok doc \<Longrightarrow> doc_ok (sorted_document (dict_set doc ''desired_state'' (VStr ''cancelled'')))"
    and keep_insert_job: "inv d \<Longrightarrow> doc_ok (jr_spec_json r) \<Longrightarrow> new_ok (jr_id r) \<Longrightarrow> inv (snd (insert_job c r d))"
    and keep_update_jobs:
      "inv d \<Longrightarrow>
         (\<And>r. r \<in> set (db_jobs d) \<Longrightarrow> p r \<Longrightarrow>
            same_identity (f r) r \<and> doc_ok (jr_spec_json (f r)) \<and> legal r (jr_phase (f r))) \<Longrightarrow>
         inv (snd (update_jobs c p f d))"
    and keep_delete_jobs: "inv d \<Longrightarrow> inv (snd (delete_jobs c p d))"
    and keep_event: "inv d \<Longrightarrow> inv (snd (event c now jid revision kind d))"
    and keep_update_outbox:
      "inv d \<Longrightarrow>
         (\<And>b. b \<in> set (db_outbox d) \<Longrightarrow> q b \<Longrightarrow> same_event (g b) b \<and> lease_shape (g b)) \<Longrightarrow>
         inv (snd (update_outbox c q g d))"
    and keep_insert_outbox_row: "inv d \<Longrightarrow> lease_shape b \<Longrightarrow> inv (snd (insert_outbox_row c b d))"
    and keep_insert_deletion: "inv d \<Longrightarrow> inv (snd (insert_deletion dr d))"
    and keep_delete_deletion: "inv d \<Longrightarrow> inv (snd (delete_deletion jid d))"
begin

lemma inv_bind:
  assumes "inv (snd (m d))"
    and "\<And>x d1. m d = (Inr x, d1) \<Longrightarrow> inv d1 \<Longrightarrow> inv (snd (f x d1))"
  shows "inv (snd (sbind m f d))"
  using assms by (cases "m d") (auto simp: sbind_def split: sum.split)

lemma invD: "inv d \<Longrightarrow> preserves inv m \<Longrightarrow> inv (snd (m d))"
  by (simp add: preserves_def)

lemma inv_transaction: "inv d \<Longrightarrow> inv (snd (m d)) \<Longrightarrow> inv (snd (transaction c m d))"
  by (cases "m d") (auto simp: transaction_def split: sum.split)

lemma pres_event [inv_pres]: "preserves inv (event c now jid revision kind)"
  by (simp add: preserves_def keep_event)

lemma pres_delete_deletion [inv_pres]: "preserves inv (delete_deletion jid)"
  by (simp add: preserves_def keep_delete_deletion)

lemma pres_insert_deletion [inv_pres]: "preserves inv (insert_deletion r)"
  by (simp add: preserves_def keep_insert_deletion)

lemma pres_delete_jobs [inv_pres]: "preserves inv (delete_jobs c p)"
  by (simp add: preserves_def keep_delete_jobs)

lemma pres_update_jobs:
  "(\<And>r. p r \<Longrightarrow> doc_ok (jr_spec_json r) \<Longrightarrow>
      same_identity (f r) r \<and> doc_ok (jr_spec_json (f r)) \<and> legal r (jr_phase (f r))) \<Longrightarrow>
     preserves inv (update_jobs c p f)"
  by (rule preservesI, rule keep_update_jobs) (auto dest: docs)

lemma pres_update_outbox:
  "(\<And>b. same_event (g b) b \<and> lease_shape (g b)) \<Longrightarrow> preserves inv (update_outbox c q g)"
  by (rule preservesI, rule keep_update_outbox) auto

lemma pres_insert_outbox_row: "lease_shape b \<Longrightarrow> preserves inv (insert_outbox_row c b)"
  by (simp add: preserves_def keep_insert_outbox_row)

lemma pres_insert_job: "doc_ok (jr_spec_json r) \<Longrightarrow> new_ok (jr_id r) \<Longrightarrow> preserves inv (insert_job c r)"
  by (simp add: preserves_def keep_insert_job)

lemma pres_insert_outbox [inv_pres]: "preserves inv (insert_outbox c uid due now row)"
  unfolding insert_outbox_def Let_def
  by (intro db_rules pres_insert_outbox_row) (simp add: lease_shape_def)

lemma pres_finalize_rows: "preserves inv (finalize_rows c cleaner rs n)"
  by (induction rs arbitrary: n) (simp_all add: db_rules pres_delete_deletion)

lemma pres_finalize [inv_pres]: "preserves inv (finalize_output_deletions c)"
  using pres_finalize_rows
  by (auto simp: finalize_output_deletions_def preserves_def split: option.split)

lemma pres_prune_rows: "preserves inv (prune_rows c ck cutoff k rs n)"
proof (induction rs arbitrary: k n)
  case (Cons r rs)
  show ?case
    unfolding prune_rows.simps
    by (intro db_rules pres_insert_deletion pres_delete_jobs pres_delete_deletion Cons.IH)
qed simp

lemma pres_prune_expired [inv_pres]: "preserves inv (prune_expired c ck)"
  unfolding prune_expired_def Let_def by (intro db_rules pres_finalize pres_prune_rows)

lemma pres_admit:
  "doc_ok doc \<Longrightarrow> new_ok (''job_'' @ ck_uuid ck 0) \<Longrightarrow> preserves inv (admit c ck tenant key hash doc)"
  unfolding admit_def Let_def
  by (intro db_rules pres_insert_job pres_event) (simp_all add: new_job_row_def)

lemma pres_submit [inv_pres]:
  assumes "new_ok (''job_'' @ ck_uuid ck 0)"
  shows "preserves inv (submit c ck tenant key spec)"
  unfolding submit_def
proof (rule preserves_bind_value)
  fix d x d1 assume "stry (job_spec_validate spec) d = (Inr x, d1)"
  then have "job_spec_ok spec"
    by (auto simp: stry_def job_spec_validate_Inr [symmetric] split: sum.splits)
  then show "preserves inv
    (sbind (prune_expired c (pruning_clock ck)) (\<lambda>_.
       if tenant = [] \<or> key = []
       then sraise (PyError (ValueError ''tenant_id and idempotency_key are required''))
       else if 256 < utf8_len tenant
       then sraise (PyError (ValueError ''tenant_id exceeds 256 UTF-8 bytes''))
       else if 256 < utf8_len key
       then sraise (PyError (ValueError ''idempotency_key exceeds 256 UTF-8 bytes''))
       else transaction c
         (admit c ck tenant key (request_hash c spec) (sorted_document (job_spec_to_dict spec)))))"
    by (intro preserves_bind pres_prune_expired preserves_if preserves_raise
        preserves_transaction pres_admit doc_new assms)
qed simp

lemma pres_claim_next [inv_pres]: "preserves inv (claim_next c ck owner lease_seconds)"
  unfolding claim_next_def
  by (intro db_rules pres_update_jobs pres_event)
    (simp add: claimed_def same_identity_def legal_step)

text \<open>\<open>mark_running\<close> has no guard on the phase, so what it does has to be legal.\<close>

lemma inv_mark_running:
  assumes d: "inv d" and "\<And>r. r \<in> set (db_jobs d) \<Longrightarrow> owns jid attempt owner r \<Longrightarrow> legal r Running"
  shows "inv (snd (mark_running c ck jid attempt owner d))"
  unfolding mark_running_def
proof (rule inv_bind, rule inv_transaction [OF d], rule inv_bind)
  show "inv (snd (owned_row jid attempt owner d))" by (rule invD [OF d preserves_owned_row])
  fix row d1 assume "owned_row jid attempt owner d = (Inr row, d1)"
  then have d1: "d1 = d" by (auto simp: owned_row_def split: option.splits)
  have "inv (snd (update_jobs c (owns jid attempt owner)
      (\<lambda>r. r\<lparr>jr_phase := Running, jr_revision := jr_revision row + 1,
             jr_started_at := Some (ck_iso ck 0), jr_updated_at := ck_iso ck 0\<rparr>) d))"
    by (rule keep_update_jobs [OF d]) (use assms in \<open>simp add: same_identity_def docs\<close>)
  then show "inv (snd (sbind (update_jobs c (owns jid attempt owner)
      (\<lambda>r. r\<lparr>jr_phase := Running, jr_revision := jr_revision row + 1,
             jr_started_at := Some (ck_iso ck 0), jr_updated_at := ck_iso ck 0\<rparr>)) (\<lambda>_.
      event c (ck_iso ck 1) jid (jr_revision row + 1) ''job.running'') d1))"
    unfolding d1 by (rule inv_bind) (rule keep_event)
qed (rule invD, assumption, rule preserves_store_get)

lemma pres_renew_lease [inv_pres]: "preserves inv (renew_lease c ck jid attempt owner secs)"
  unfolding renew_lease_def
  by (intro db_rules pres_update_jobs) (auto simp: same_identity_def leased_def terminal_def intro!: legal_refl)

lemma inv_finish_row:
  assumes "inv d" and row: "row \<in> set (db_jobs d)" "jr_id row = jid"
    and "leased (jr_phase row)" and "terminal (jx_phase x)"
  shows "inv (snd (finish_row c ck jid attempt owner x row d))"
proof -
  have "terminal (jx_phase (recorded_outcome row x))"
    using assms(5) by (simp add: recorded_outcome_def)
  then have "jx_phase (recorded_outcome row x) \<in> phase_steps (jr_phase row)"
    using assms(4) by (auto simp: leased_def terminal_def)
  then have "inv (snd (update_jobs c (owns jid attempt owner)
      (completed now rv (recorded_outcome row x) conds) d))" for now rv conds
    using same_id_same_row [OF ids [OF assms(1)] row(1)] row(2) assms(1)
    by (intro keep_update_jobs)
      (auto simp: same_identity_def completed_def owns_def docs legal_step)
  then show ?thesis unfolding finish_row_def Let_def
    by (rule inv_bind) (rule invD, assumption, intro db_rules pres_event pres_insert_outbox)
qed

lemma pres_finish [inv_pres]: "preserves inv (finish c ck jid attempt owner x)"
proof (cases "terminal (jx_phase x)")
  case True
  have "inv (snd (transaction c (sbind (owned_row jid attempt owner) (\<lambda>row.
      if terminal (jr_phase row) then sbind (stry (row_to_job row)) (\<lambda>j. sret (Some j))
      else if \<not> leased (jr_phase row)
      then sraise (StoreError ''attempt is not in a finishable phase'')
      else sbind (finish_row c ck jid attempt owner x row) (\<lambda>_. sret None))) d))"
    if d: "inv d" for d
  proof (rule inv_transaction [OF d], rule inv_bind)
    show "inv (snd (owned_row jid attempt owner d))" by (rule invD [OF d preserves_owned_row])
    fix row d1 assume row: "owned_row jid attempt owner d = (Inr row, d1)"
    then have own: "row \<in> set (db_jobs d)" "jr_id row = jid" and d1: "d1 = d"
      by (auto simp: owned_row_def owns_def split: option.splits dest: find_job_Some)
    show "inv (snd ((if terminal (jr_phase row)
      then sbind (stry (row_to_job row)) (\<lambda>j. sret (Some j))
      else if \<not> leased (jr_phase row)
      then sraise (StoreError ''attempt is not in a finishable phase'')
      else sbind (finish_row c ck jid attempt owner x row) (\<lambda>_. sret None)) d1))"
    proof (cases "\<not> terminal (jr_phase row) \<and> leased (jr_phase row)")
      case True
      then have "inv (snd (sbind (finish_row c ck jid attempt owner x row) (\<lambda>_. sret None) d))"
        using inv_finish_row [OF d own _ \<open>terminal (jx_phase x)\<close>]
        by (intro inv_bind) (simp_all add: sret_def)
      with True d1 show ?thesis by simp
    next
      case False
      then show ?thesis unfolding d1
        by (intro invD [OF d]) (auto intro!: preserves_bind)
    qed
  qed
  then have "preserves inv (transaction c (sbind (owned_row jid attempt owner) (\<lambda>row.
      if terminal (jr_phase row) then sbind (stry (row_to_job row)) (\<lambda>j. sret (Some j))
      else if \<not> leased (jr_phase row)
      then sraise (StoreError ''attempt is not in a finishable phase'')
      else sbind (finish_row c ck jid attempt owner x row) (\<lambda>_. sret None))))"
    by (simp add: preserves_def)
  with True show ?thesis unfolding finish_def
    by (simp add: preserves_bind preserves_option)
qed (simp add: finish_def)

text \<open>What a cancel request does to a selected Job.\<close>

lemma inv_cancel_row:
  assumes d: "inv d" and row: "row \<in> set (db_jobs d)" "jr_id row = jid"
  shows "inv (snd (cancel_row c ck jid row d))"
proof -
  have docrow: "doc_ok (jr_spec_json (cancel_requested ck row r))" for r
    using docs [OF d row(1)] by (simp add: cancel_requested_def Let_def doc_cancel)
  have upd: "inv (snd (update_jobs c (\<lambda>r. jr_id r = jid \<and> jr_revision r = jr_revision row)
      (cancel_requested ck row) d))" if "\<not> terminal (jr_phase row)"
  proof (rule keep_update_jobs [OF d], intro conjI)
    fix r assume "r \<in> set (db_jobs d)" "jr_id r = jid \<and> jr_revision r = jr_revision row"
    with same_id_same_row [OF ids [OF d] row(1)] row(2) have "r = row" by auto
    then show "legal r (jr_phase (cancel_requested ck row r))"
      using that by (auto simp: cancel_requested_def Let_def legal_refl intro: legal_step)
  qed (simp_all add: docrow, simp add: same_identity_def cancel_requested_def Let_def)
  have rest: "preserves inv (sbind (event c (ck_iso ck 1) jid (jr_revision row + 1)
      ''job.cancel_requested'') (\<lambda>_. sbind (select_job jid None) (\<lambda>stored.
        sbind (if jr_phase row = Queued
               then insert_outbox c (ck_uuid ck 0) (ck_time ck 0) (ck_iso ck 2) stored
               else sret ()) (\<lambda>_. sret None))))"
    by (intro db_rules pres_event pres_insert_outbox)
  have act: "inv (snd (sbind (update_jobs c (\<lambda>r. jr_id r = jid \<and> jr_revision r = jr_revision row)
      (cancel_requested ck row)) (\<lambda>_. sbind (event c (ck_iso ck 1) jid (jr_revision row + 1)
      ''job.cancel_requested'') (\<lambda>_. sbind (select_job jid None) (\<lambda>stored.
        sbind (if jr_phase row = Queued
               then insert_outbox c (ck_uuid ck 0) (ck_time ck 0) (ck_iso ck 2) stored
               else sret ()) (\<lambda>_. sret None)))) d))" if "\<not> terminal (jr_phase row)"
    by (rule inv_bind, rule upd [OF that]) (rule invD [OF _ rest])
  show ?thesis
  proof (cases "terminal (jr_phase row) \<or> cancel_desired row")
    case True
    then show ?thesis unfolding cancel_row_def
      by (simp add: invD [OF d] preserves_bind)
  next
    case False
    then have "\<not> terminal (jr_phase row)" by simp
    from act [OF this] False show ?thesis by (simp only: cancel_row_def if_False)
  qed
qed

lemma pres_request_cancel [inv_pres]: "preserves inv (request_cancel c ck jid tenant)"
proof -
  have "inv (snd (sbind (select_job jid tenant) (cancel_row c ck jid) d))" if d: "inv d" for d
  proof (rule inv_bind)
    show "inv (snd (select_job jid tenant d))" by (rule invD [OF d preserves_select_job])
    fix row d1 assume "select_job jid tenant d = (Inr row, d1)"
    then show "inv (snd (cancel_row c ck jid row d1))"
      using inv_cancel_row [OF d] by (auto simp: select_job_Inr dest!: find_job_Some)
  qed
  then have "preserves inv (sbind (select_job jid tenant) (cancel_row c ck jid))"
    by (simp add: preserves_def)
  then show ?thesis
    unfolding request_cancel_def
    by (rule preserves_bind [OF preserves_transaction]) (intro db_rules)
qed

text \<open>
  The recoveries work through a list of rows read at the start; a row later in the list is still
  in the table when its turn comes, because each turn changes only the row of its own Job.
\<close>

lemma inv_recovered:
  assumes d: "inv d" and row: "row \<in> set (db_jobs d)" "leased (jr_phase row)"
    and p: "\<And>r. p r \<Longrightarrow> jr_id r = jr_id row"
  shows "inv (snd (update_jobs c p (recovered now lost row) d))"
proof (rule keep_update_jobs [OF d], intro conjI)
  fix r assume r: "r \<in> set (db_jobs d)" "p r"
  have "r = row" by (rule same_id_same_row [OF ids [OF d] r(1) row(1) p [OF r(2)]])
  moreover have "recovered_phase row \<in> phase_steps (jr_phase row)"
    using row(2) by (auto simp: leased_def recovered_phase_def)
  ultimately show "legal r (jr_phase (recovered now lost row r))"
    by (simp add: recovered_def legal_step)
  show "doc_ok (jr_spec_json (recovered now lost row r))"
    using docs [OF d r(1)] by (simp add: recovered_def)
qed (simp add: recovered_def same_identity_def)

lemma rows_left:
  assumes "set (row # rows) \<subseteq> set (db_jobs d)" and "distinct (map jr_id (row # rows))"
    and "\<And>r. p r \<Longrightarrow> jr_id r = jr_id row" and "update_jobs c p f d = (Inr n, d1)"
  shows "set rows \<subseteq> set (db_jobs d1)"
proof
  fix r assume r: "r \<in> set rows"
  have "\<not> p r"
  proof
    assume "p r"
    then have "jr_id r = jr_id row" by (rule assms(3))
    with r assms(2) imageI [OF r, of jr_id] show False by simp
  qed
  with r assms(1,4) show "r \<in> set (db_jobs d1)"
    by (auto simp: update_jobs_def update_rows_def image_iff)
qed

lemma inv_after_record:
  assumes "inv d" and "db_jobs d = js" and rest: "\<And>d. inv d \<Longrightarrow> db_jobs d = js \<Longrightarrow> inv (snd (rest d))"
  shows "inv (snd (sbind (event c now jid rv k) (\<lambda>_. sbind (select_job jid None) (\<lambda>stored.
     sbind (insert_outbox c uid due now' stored) (\<lambda>_. rest))) d))"
proof (rule inv_bind, rule keep_event [OF assms(1)])
  fix u d1 assume ev: "event c now jid rv k d = (Inr u, d1)" and d1: "inv d1"
  from ev assms(2) have js1: "db_jobs d1 = js" using event_frame(1) by (metis snd_conv)
  show "inv (snd (sbind (select_job jid None) (\<lambda>stored.
     sbind (insert_outbox c uid due now' stored) (\<lambda>_. rest)) d1))"
  proof (rule inv_bind, rule invD [OF d1 preserves_select_job])
    fix stored d2 assume "select_job jid None d1 = (Inr stored, d2)"
    then have d2: "d2 = d1" by (simp add: select_job_Inr)
    show "inv (snd (sbind (insert_outbox c uid due now' stored) (\<lambda>_. rest) d2))"
      unfolding d2
    proof (rule inv_bind, rule invD [OF d1 pres_insert_outbox])
      fix v d3 assume "insert_outbox c uid due now' stored d1 = (Inr v, d3)" and d3: "inv d3"
      then have "db_jobs d3 = js" using js1 insert_outbox_frame by (metis snd_conv)
      with d3 show "inv (snd (rest d3))" by (rule rest)
    qed
  qed
qed

lemma inv_recover_rows:
  "inv d \<Longrightarrow> set rows \<subseteq> set (db_jobs d) \<Longrightarrow> distinct (map jr_id rows) \<Longrightarrow>
     \<forall>row \<in> set rows. leased (jr_phase row) \<Longrightarrow> inv (snd (recover_rows c ck k rows d))"
proof (induction rows arbitrary: k d)
  case Nil
  then show ?case by (simp add: sret_def)
next
  case (Cons row rows)
  have upd: "inv (snd (update_jobs c (\<lambda>r. jr_id r = jr_id row)
        (recovered (ck_iso ck (3 * k)) ''service_restarted'' row) d))"
    using Cons.prems by (intro inv_recovered) auto
  show ?case unfolding recover_rows.simps
  proof (rule inv_bind, rule upd)
    fix n d1 assume u: "update_jobs c (\<lambda>r. jr_id r = jr_id row)
        (recovered (ck_iso ck (3 * k)) ''service_restarted'' row) d = (Inr n, d1)" and d1: "inv d1"
    have left: "set rows \<subseteq> set (db_jobs d1)"
      by (rule rows_left [OF Cons.prems(2,3) _ u]) simp
    have rest: "inv (snd (recover_rows c ck (Suc k) rows d2))"
      if "inv d2" "db_jobs d2 = db_jobs d1" for d2
      using that left Cons.prems by (intro Cons.IH) auto
    show "inv (snd (sbind (event c (ck_iso ck (3 * k + 1)) (jr_id row)
        (jr_revision row + 1) (''job.'' @ phase_value (recovered_phase row))) (\<lambda>_.
      sbind (select_job (jr_id row) None) (\<lambda>stored.
      sbind (insert_outbox c (ck_uuid ck k) (ck_time ck (Suc k)) (ck_iso ck (3 * k + 2)) stored) (\<lambda>_.
      recover_rows c ck (Suc k) rows))) d1))"
      by (rule inv_after_record [OF d1 refl rest])
  qed
qed

lemma pres_recover_interrupted [inv_pres]: "preserves inv (recover_interrupted c ck)"
proof -
  have "preserves inv (sbind (sget (\<lambda>d. filter (\<lambda>r. leased (jr_phase r)) (db_jobs d))) (\<lambda>rows.
      sbind (recover_rows c ck 0 rows) (\<lambda>_. sret (length rows))))"
  proof (rule preservesI)
    fix d assume d: "inv d"
    let ?rows = "filter (\<lambda>r. leased (jr_phase r)) (db_jobs d)"
    have "inv (snd (recover_rows c ck 0 ?rows d))"
      using ids [OF d] by (intro inv_recover_rows [OF d]) (auto simp: distinct_map_filter)
    then have "inv (snd (sbind (recover_rows c ck 0 ?rows) (\<lambda>_. sret (length ?rows)) d))"
      by (rule inv_bind) (simp add: sret_def)
    then show "inv (snd (sbind (sget (\<lambda>d. filter (\<lambda>r. leased (jr_phase r)) (db_jobs d))) (\<lambda>rows.
      sbind (recover_rows c ck 0 rows) (\<lambda>_. sret (length rows))) d))"
      by (simp add: sbind_def [of "sget _"] sget_def)
  qed
  moreover have "preserves inv (update_outbox c (\<lambda>b. ob_state b = Delivering)
     (\<lambda>b. b\<lparr>ob_state := Pending, ob_next_attempt_at := ck_time ck 0,
            ob_delivery_attempt_id := None\<rparr>))"
    by (rule pres_update_outbox) (simp add: same_event_def lease_shape_def)
  ultimately show ?thesis unfolding recover_interrupted_def
    by (simp add: preserves_transaction preserves_bind)
qed

lemma inv_recover_expired_rows:
  "inv d \<Longrightarrow> set rows \<subseteq> set (db_jobs d) \<Longrightarrow> distinct (map jr_id rows) \<Longrightarrow>
     \<forall>row \<in> set rows. leased (jr_phase row) \<Longrightarrow>
     inv (snd (recover_expired_rows c ck ex k rows n d))"
proof (induction rows arbitrary: k n d)
  case Nil
  then show ?case by (simp add: sret_def)
next
  case (Cons row rows)
  let ?p = "\<lambda>r. jr_id r = jr_id row \<and> jr_revision r = jr_revision row
      \<and> lease_expired (ck_time ck (2 * k + 1)) r"
  let ?f = "recovered (ck_iso ck (3 * k)) ''executor_lease_expired'' row"
  show ?case
  proof (cases "jr_id row \<in> ex")
    case True
    with Cons show ?thesis by simp
  next
    case False
    have upd: "inv (snd (update_jobs c ?p ?f d))"
      using Cons.prems by (intro inv_recovered) auto
    have rest: "inv (snd (recover_expired_rows c ck ex (Suc k) rows m d2))"
      if "update_jobs c ?p ?f d = (Inr updated, d1)" "inv d2" "db_jobs d2 = db_jobs d1"
      for updated d1 m d2
    proof -
      have "set rows \<subseteq> set (db_jobs d1)"
        by (rule rows_left [OF Cons.prems(2,3) _ that(1)]) simp
      with that Cons.prems show ?thesis by (intro Cons.IH) auto
    qed
    have "inv (snd (sbind (update_jobs c ?p ?f) (\<lambda>updated.
        if updated \<noteq> 1 then recover_expired_rows c ck ex (Suc k) rows n
        else
          sbind (event c (ck_iso ck (3 * k + 1)) (jr_id row) (jr_revision row + 1)
            (''job.'' @ phase_value (recovered_phase row))) (\<lambda>_.
          sbind (select_job (jr_id row) None) (\<lambda>stored.
          sbind (insert_outbox c (ck_uuid ck k) (ck_time ck (2 * k + 2)) (ck_iso ck (3 * k + 2)) stored) (\<lambda>_.
          recover_expired_rows c ck ex (Suc k) rows (Suc n))))) d))"
    proof (rule inv_bind, rule upd)
      fix updated d1 assume u: "update_jobs c ?p ?f d = (Inr updated, d1)" and d1: "inv d1"
      show "inv (snd ((if updated \<noteq> 1 then recover_expired_rows c ck ex (Suc k) rows n
        else
          sbind (event c (ck_iso ck (3 * k + 1)) (jr_id row) (jr_revision row + 1)
            (''job.'' @ phase_value (recovered_phase row))) (\<lambda>_.
          sbind (select_job (jr_id row) None) (\<lambda>stored.
          sbind (insert_outbox c (ck_uuid ck k) (ck_time ck (2 * k + 2)) (ck_iso ck (3 * k + 2)) stored) (\<lambda>_.
          recover_expired_rows c ck ex (Suc k) rows (Suc n))))) d1))"
      proof (cases "updated \<noteq> 1")
        case True
        then show ?thesis using rest [OF u d1 refl] by simp
      next
        case False
        then show ?thesis
          by (simp only: if_False) (rule inv_after_record [OF d1 refl rest [OF u]])
      qed
    qed
    with False show ?thesis by (simp only: recover_expired_rows.simps if_False)
  qed
qed

lemma pres_recover_expired_leases [inv_pres]: "preserves inv (recover_expired_leases c ck ex)"
proof -
  have "preserves inv (sreader (\<lambda>d. recover_expired_rows c ck ex 0
      (filter (\<lambda>r. leased (jr_phase r) \<and> lease_expired (ck_time ck 0) r) (db_jobs d)) 0))"
    by (auto simp: preserves_def sreader_def ids distinct_map_filter intro!: inv_recover_expired_rows)
  then show ?thesis unfolding recover_expired_leases_def by (rule preserves_transaction)
qed

lemma pres_claim_rows: "preserves inv (claim_rows c ck lease_end k rows)"
proof (induction rows arbitrary: k)
  case (Cons bj rows)
  show ?case
    unfolding claim_rows.simps Let_def
    by (intro db_rules pres_update_outbox Cons.IH) (simp add: same_event_def lease_shape_def)
qed simp

lemma pres_claim_outbox_due [inv_pres]: "preserves inv (claim_outbox_due c ck limit secs)"
  unfolding claim_outbox_due_def Let_def
  by (intro db_rules pres_update_outbox pres_claim_rows) (simp add: same_event_def lease_shape_def)

lemma pres_outbox_delivered [inv_pres]: "preserves inv (outbox_delivered c ck ev delivery)"
  unfolding outbox_delivered_def
  by (intro db_rules pres_update_outbox) (simp add: same_event_def lease_shape_def)

lemma pres_outbox_failed [inv_pres]: "preserves inv (outbox_failed c ev delivery err t permanent)"
  unfolding outbox_failed_def
  by (intro db_rules pres_update_outbox) (simp add: same_event_def lease_shape_def)

end

end
