(* ===== verification/StoreFacts.thy ===== *)
theory StoreFacts
  imports StoreInv
begin

section \<open>The contract of the store, interpreted\<close>

text \<open>
  Five readings of \<open>table_invariant\<close>: the usage counter equals the recalculated size of all
  tables, the constraints of the schema hold, every stored specification can be read, a delivery
  identifier is set exactly while a callback is being delivered, and the metadata table is not
  touched after the store is open. The relation \<open>store_step\<close> collects all operations and
  \<open>store_reachable\<close> the tables they lead to from an empty store.
\<close>

subsection \<open>The usage counter\<close>

definition usage_exact :: "store_cfg \<Rightarrow> db \<Rightarrow> bool" where
  "usage_exact c d \<longleftrightarrow> db_usage d = metadata_total c d"

lemma sum_update_rows:
  "sum_list (map sz (update_rows p f rs)) = sum_list (map sz rs) + update_charge sz p f rs"
  by (induction rs) (auto simp: update_rows_def update_charge_def)

lemma sum_delete_rows:
  "sum_list (map sz (filter (\<lambda>r. \<not> p r) rs)) = sum_list (map sz rs) + delete_charge sz p rs"
  by (induction rs) (auto simp: delete_charge_def)

lemma sum_neg: "sum_list (map (\<lambda>e. - sz e) es) = - (sum_list (map sz es) :: int)"
  by (induction es) auto

lemma sum_drop_rows:
  "sum_list (map sz (drop n es)) = sum_list (map sz es) + sum_list (map (\<lambda>e. - sz e :: int) (take n es))"
proof -
  have "sum_list (map sz es) = sum_list (map sz (take n es)) + sum_list (map sz (drop n es))"
    by (metis append_take_drop_id map_append sum_list_append)
  then show ?thesis by (simp add: sum_neg)
qed

lemmas usage_defs = usage_exact_def metadata_total_def

lemma usage_insert_job: "usage_exact c d \<Longrightarrow> usage_exact c (snd (insert_job c r d))"
  by (simp add: usage_defs insert_job_def)

lemma usage_update_jobs: "usage_exact c d \<Longrightarrow> usage_exact c (snd (update_jobs c p f d))"
  by (simp add: usage_defs update_jobs_def sum_update_rows)

lemma usage_delete_jobs: "usage_exact c d \<Longrightarrow> usage_exact c (snd (delete_jobs c p d))"
  using sum_delete_rows [of event_row_size
      "\<lambda>e. ev_job_id e \<in> jr_id ` set (filter p (db_jobs d))" "db_events d"]
    sum_delete_rows [of "outbox_row_size c"
      "\<lambda>b. ob_job_id b \<in> jr_id ` set (filter p (db_jobs d))" "db_outbox d"]
    sum_delete_rows [of "job_row_size c" p "db_jobs d"]
  by (simp add: usage_defs delete_jobs_def Let_def)

lemma usage_prune_events: "usage_exact c d \<Longrightarrow> usage_exact c (snd (prune_events n d))"
  by (simp add: usage_defs prune_events_def Let_def sum_drop_rows)

lemma usage_insert_event: "usage_exact c d \<Longrightarrow> usage_exact c (snd (insert_event now jid rv k d))"
  by (simp add: usage_defs insert_event_def Let_def)

lemma usage_event: "usage_exact c d \<Longrightarrow> usage_exact c (snd (event c now jid rv k d))"
proof -
  assume u: "usage_exact c d"
  obtain r d1 where e: "insert_event now jid rv k d = (r, d1)" by (cases "insert_event now jid rv k d")
  with usage_insert_event [OF u, of now jid rv k] have "usage_exact c d1" by simp
  with usage_prune_events [of c d1] e show ?thesis
    by (cases r) (simp_all add: event_def sbind_def)
qed

lemma usage_update_outbox: "usage_exact c d \<Longrightarrow> usage_exact c (snd (update_outbox c p f d))"
  by (simp add: usage_defs update_outbox_def sum_update_rows)

lemma usage_insert_outbox_row: "usage_exact c d \<Longrightarrow> usage_exact c (snd (insert_outbox_row c b d))"
  by (simp add: usage_defs insert_outbox_row_def)

lemma usage_insert_deletion: "usage_exact c d \<Longrightarrow> usage_exact c (snd (insert_deletion r d))"
  by (simp add: usage_defs insert_deletion_def)

lemma usage_delete_deletion: "usage_exact c d \<Longrightarrow> usage_exact c (snd (delete_deletion jid d))"
  by (simp add: usage_defs delete_deletion_def Let_def sum_delete_rows)

lemma usage_set_metadata: "usage_exact c d \<Longrightarrow> usage_exact c (snd (set_metadata k v d))"
  by (simp add: usage_defs set_metadata_def Let_def sum_update_rows)

subsection \<open>The constraints of the schema\<close>

definition job_key :: "job_row \<Rightarrow> string \<times> string" where
  "job_key r = (jr_tenant_id r, jr_idempotency_key r)"

definition event_key :: "event_row \<Rightarrow> string \<times> int \<times> string" where
  "event_key e = (ev_job_id e, ev_revision e, ev_kind e)"

definition schema_ok :: "store_cfg \<Rightarrow> db \<Rightarrow> bool" where
  "schema_ok c d \<longleftrightarrow>
     distinct (map jr_id (db_jobs d)) \<and> distinct (map job_key (db_jobs d))
     \<and> ev_job_id ` set (db_events d) \<subseteq> job_ids d \<and> distinct (map event_key (db_events d))
     \<and> sorted_wrt (<) (map ev_seq (db_events d)) \<and> (\<forall>e \<in> set (db_events d). ev_seq e < db_next_seq d)
     \<and> length (db_events d) \<le> sc_max_event_records c
     \<and> distinct (map ob_event_id (db_outbox d)) \<and> ob_job_id ` set (db_outbox d) \<subseteq> job_ids d
     \<and> distinct (map dl_job_id (db_deletions d))"

lemma map_update_rows:
  "(\<And>r. r \<in> set rs \<Longrightarrow> p r \<Longrightarrow> g (f r) = g r) \<Longrightarrow> map g (update_rows p f rs) = map g rs"
  by (induction rs) (auto simp: update_rows_def)

lemma image_update_rows:
  "(\<And>r. r \<in> set rs \<Longrightarrow> p r \<Longrightarrow> g (f r) = g r) \<Longrightarrow> g ` set (update_rows p f rs) = g ` set rs"
  using map_update_rows [of rs p g f] by (metis list.set_map)

lemma schema_insert_job: "schema_ok c d \<Longrightarrow> schema_ok c (snd (insert_job c r d))"
  by (auto simp: schema_ok_def insert_job_def job_ids_def job_key_def)

lemma schema_update_jobs:
  assumes "schema_ok c d" and "\<And>r. r \<in> set (db_jobs d) \<Longrightarrow> p r \<Longrightarrow> same_identity (f r) r"
  shows "schema_ok c (snd (update_jobs c p f d))"
proof -
  have "map jr_id (update_rows p f (db_jobs d)) = map jr_id (db_jobs d)"
    and "map job_key (update_rows p f (db_jobs d)) = map job_key (db_jobs d)"
    using assms(2) by (auto intro!: map_update_rows simp: same_identity_def job_key_def)
  moreover from this(1) have "jr_id ` set (update_rows p f (db_jobs d)) = jr_id ` set (db_jobs d)"
    by (metis list.set_map)
  ultimately show ?thesis using assms(1) by (simp add: schema_ok_def update_jobs_def job_ids_def)
qed

lemma image_filter_subset:
  "f ` set xs \<subseteq> A \<Longrightarrow> A - B \<subseteq> C \<Longrightarrow> f ` set (filter (\<lambda>x. f x \<notin> B) xs) \<subseteq> C"
  by auto

lemma schema_delete_jobs:
  assumes "schema_ok c d"
  shows "schema_ok c (snd (delete_jobs c p d))"
proof -
  let ?gone = "jr_id ` set (filter p (db_jobs d))"
  let ?left = "jr_id ` set (filter (\<lambda>r. \<not> p r) (db_jobs d))"
  have left: "job_ids d - ?gone \<subseteq> ?left" by (auto simp: job_ids_def)
  have "ev_job_id ` set (filter (\<lambda>e. ev_job_id e \<notin> ?gone) (db_events d)) \<subseteq> ?left"
    and "ob_job_id ` set (filter (\<lambda>b. ob_job_id b \<notin> ?gone) (db_outbox d)) \<subseteq> ?left"
    using assms by (simp_all only: schema_ok_def image_filter_subset [OF _ left])
  moreover have "sorted_wrt (<) (map ev_seq (filter (\<lambda>e. ev_job_id e \<notin> ?gone) (db_events d)))"
    using assms by (simp add: schema_ok_def sorted_wrt_map sorted_wrt_filter)
  moreover have "length (filter (\<lambda>e. ev_job_id e \<notin> ?gone) (db_events d)) \<le> sc_max_event_records c"
    by (rule order.trans [OF length_filter_le]) (use assms in \<open>simp add: schema_ok_def\<close>)
  ultimately show ?thesis using assms
    by (simp add: schema_ok_def delete_jobs_def Let_def job_ids_def distinct_map_filter)
qed

lemma sorted_wrt_drop: "sorted_wrt R xs \<Longrightarrow> sorted_wrt R (drop n xs)"
  by (metis append_take_drop_id sorted_wrt_append)

lemma event_Inr:
  "event c now jid rv k d = (Inr (), d1) \<Longrightarrow>
     jid \<in> job_ids d \<and> (jid, rv, k) \<notin> event_key ` set (db_events d)
     \<and> db_events d1 = drop (Suc (length (db_events d)) - sc_max_event_records c)
         (db_events d @ [\<lparr>ev_seq = db_next_seq d, ev_job_id = jid, ev_revision = rv,
            ev_kind = k, ev_created_at = now\<rparr>])
     \<and> db_next_seq d1 = Suc (db_next_seq d) \<and> db_jobs d1 = db_jobs d \<and> db_meta d1 = db_meta d
     \<and> db_outbox d1 = db_outbox d \<and> db_deletions d1 = db_deletions d"
  by (auto simp: event_def sbind_def insert_event_def prune_events_def Let_def event_key_def
      image_iff split: if_splits)

lemma event_Inl: "event c now jid rv k d = (Inl e, d1) \<Longrightarrow> d1 = d"
  by (auto simp: event_def sbind_def insert_event_def prune_events_def Let_def split: if_splits)

lemma schema_event:
  assumes "schema_ok c d"
  shows "schema_ok c (snd (event c now jid rv k d))"
proof (cases "event c now jid rv k d")
  case (Pair r d1)
  show ?thesis
  proof (cases r)
    case (Inl e)
    with Pair event_Inl assms show ?thesis by (metis snd_conv)
  next
    case (Inr u)
    let ?e = "\<lparr>ev_seq = db_next_seq d, ev_job_id = jid, ev_revision = rv, ev_kind = k,
      ev_created_at = now\<rparr>"
    let ?es = "db_events d @ [?e]"
    from Inr Pair have "event c now jid rv k d = (Inr (), d1)" by simp
    note ev = event_Inr [OF this]
    from assms ev have all: "ev_job_id ` set ?es \<subseteq> job_ids d" "distinct (map event_key ?es)"
      "sorted_wrt (<) (map ev_seq ?es)" "\<forall>e \<in> set ?es. ev_seq e < Suc (db_next_seq d)"
      by (auto simp: schema_ok_def sorted_wrt_append event_key_def less_Suc_eq)
    let ?n = "Suc (length (db_events d)) - sc_max_event_records c"
    have sub: "set (drop ?n ?es) \<subseteq> set ?es" by (rule set_drop_subset)
    have "ev_job_id ` set (drop ?n ?es) \<subseteq> job_ids d" using all(1) sub by blast
    moreover have "distinct (map event_key (drop ?n ?es))"
      using all(2) by (metis distinct_drop drop_map)
    moreover have "sorted_wrt (<) (map ev_seq (drop ?n ?es))"
      using all(3) by (metis sorted_wrt_drop drop_map)
    moreover have "\<forall>e \<in> set (drop ?n ?es). ev_seq e < Suc (db_next_seq d)" using all(4) sub by blast
    moreover have "length (drop ?n ?es) \<le> sc_max_event_records c" by simp
    moreover from ev have "db_events d1 = drop ?n ?es" by simp
    ultimately show ?thesis using assms ev Pair
      by (simp add: schema_ok_def job_ids_def)
  qed
qed

lemma schema_update_outbox:
  assumes "schema_ok c d" and "\<And>b. b \<in> set (db_outbox d) \<Longrightarrow> q b \<Longrightarrow> same_event (g b) b"
  shows "schema_ok c (snd (update_outbox c q g d))"
proof -
  have "map ob_event_id (update_rows q g (db_outbox d)) = map ob_event_id (db_outbox d)"
    and "ob_job_id ` set (update_rows q g (db_outbox d)) = ob_job_id ` set (db_outbox d)"
    using assms(2) by (auto intro!: map_update_rows image_update_rows simp: same_event_def)
  then show ?thesis using assms(1) by (simp add: schema_ok_def update_outbox_def job_ids_def)
qed

lemma schema_insert_outbox_row: "schema_ok c d \<Longrightarrow> schema_ok c (snd (insert_outbox_row c b d))"
  by (auto simp: schema_ok_def insert_outbox_row_def job_ids_def)

lemma schema_insert_deletion: "schema_ok c d \<Longrightarrow> schema_ok c (snd (insert_deletion r d))"
  by (auto simp: schema_ok_def insert_deletion_def job_ids_def)

lemma schema_delete_deletion: "schema_ok c d \<Longrightarrow> schema_ok c (snd (delete_deletion jid d))"
  by (auto simp: schema_ok_def delete_deletion_def Let_def job_ids_def distinct_map_filter)

lemma schema_ids: "schema_ok c d \<Longrightarrow> distinct (map jr_id (db_jobs d))"
  by (simp add: schema_ok_def)

lemma schema_ids_conj: "schema_ok c d \<and> Q \<Longrightarrow> distinct (map jr_id (db_jobs d))"
  by (erule conjE) (erule schema_ids)

lemmas schema_keep = schema_insert_job schema_update_jobs schema_delete_jobs schema_event
  schema_update_outbox schema_insert_outbox_row schema_insert_deletion schema_delete_deletion

interpretation schema: table_invariant c "schema_ok c" "\<lambda>_. True" "\<lambda>_ _. True" "\<lambda>_. True" for c
  by unfold_locales (erule schema_ids, simp_all add: schema_keep)

interpretation usage:
  table_invariant c "\<lambda>d. schema_ok c d \<and> usage_exact c d" "\<lambda>_. True" "\<lambda>_ _. True" "\<lambda>_. True" for c
  by unfold_locales
    (erule schema_ids_conj, simp_all add: schema_keep usage_insert_job usage_update_jobs usage_delete_jobs usage_event
      usage_update_outbox usage_insert_outbox_row usage_insert_deletion usage_delete_deletion)

subsection \<open>Readable specifications, delivery leases, frozen metadata\<close>

definition docs_ok :: "db \<Rightarrow> bool" where
  "docs_ok d \<longleftrightarrow> (\<forall>r \<in> set (db_jobs d). readable (jr_spec_json r))"

definition leases_ok :: "db \<Rightarrow> bool" where
  "leases_ok d \<longleftrightarrow> (\<forall>b \<in> set (db_outbox d). lease_shape b)"

lemmas row_op_defs = insert_job_def update_jobs_def delete_jobs_def update_outbox_def
  insert_outbox_row_def insert_deletion_def delete_deletion_def Let_def

lemma docs_insert_job: "docs_ok d \<Longrightarrow> readable (jr_spec_json r) \<Longrightarrow> docs_ok (snd (insert_job c r d))"
  by (auto simp: docs_ok_def row_op_defs)

lemma docs_update_jobs:
  "docs_ok d \<Longrightarrow> (\<And>r. r \<in> set (db_jobs d) \<Longrightarrow> p r \<Longrightarrow> readable (jr_spec_json (f r))) \<Longrightarrow>
     docs_ok (snd (update_jobs c p f d))"
  by (auto simp: docs_ok_def row_op_defs dest!: in_update_rows)

lemma docs_frame:
  "docs_ok d \<Longrightarrow> docs_ok (snd (delete_jobs c p d))"
  "docs_ok d \<Longrightarrow> docs_ok (snd (event c now jid rv k d))"
  "docs_ok d \<Longrightarrow> docs_ok (snd (update_outbox c q g d))"
  "docs_ok d \<Longrightarrow> docs_ok (snd (insert_outbox_row c b d))"
  "docs_ok d \<Longrightarrow> docs_ok (snd (insert_deletion dr d))"
  "docs_ok d \<Longrightarrow> docs_ok (snd (delete_deletion jid d))"
  by (auto simp: docs_ok_def row_op_defs event_frame)

interpretation docs:
  table_invariant c "\<lambda>d. schema_ok c d \<and> docs_ok d" readable "\<lambda>_ _. True" "\<lambda>_. True" for c
proof unfold_locales
  show "readable (jr_spec_json r)" if "schema_ok c d \<and> docs_ok d" "r \<in> set (db_jobs d)" for c d r
    using that by (simp add: docs_ok_def)
qed (erule schema_ids_conj, simp_all add: schema_keep readable_new readable_cancel docs_insert_job docs_update_jobs
    docs_frame)

lemma leases_update_outbox:
  "leases_ok d \<Longrightarrow> (\<And>b. b \<in> set (db_outbox d) \<Longrightarrow> q b \<Longrightarrow> lease_shape (g b)) \<Longrightarrow>
     leases_ok (snd (update_outbox c q g d))"
  by (auto simp: leases_ok_def row_op_defs dest!: in_update_rows)

lemma leases_insert_outbox_row:
  "leases_ok d \<Longrightarrow> lease_shape b \<Longrightarrow> leases_ok (snd (insert_outbox_row c b d))"
  by (auto simp: leases_ok_def row_op_defs)

lemma leases_frame:
  "leases_ok d \<Longrightarrow> leases_ok (snd (insert_job c r d))"
  "leases_ok d \<Longrightarrow> leases_ok (snd (update_jobs c p f d))"
  "leases_ok d \<Longrightarrow> leases_ok (snd (delete_jobs c p d))"
  "leases_ok d \<Longrightarrow> leases_ok (snd (event c now jid rv k d))"
  "leases_ok d \<Longrightarrow> leases_ok (snd (insert_deletion dr d))"
  "leases_ok d \<Longrightarrow> leases_ok (snd (delete_deletion jid d))"
  by (auto simp: leases_ok_def row_op_defs event_frame)

interpretation leases:
  table_invariant c "\<lambda>d. schema_ok c d \<and> leases_ok d" "\<lambda>_. True" "\<lambda>_ _. True" "\<lambda>_. True" for c
  by unfold_locales
    (erule schema_ids_conj, simp_all add: schema_keep leases_update_outbox leases_insert_outbox_row leases_frame)

lemma meta_frame:
  "db_meta (snd (insert_job c r d)) = db_meta d" "db_meta (snd (update_jobs c p f d)) = db_meta d"
  "db_meta (snd (delete_jobs c p d)) = db_meta d" "db_meta (snd (update_outbox c q g d)) = db_meta d"
  "db_meta (snd (insert_outbox_row c b d)) = db_meta d"
  "db_meta (snd (insert_deletion dr d)) = db_meta d"
  "db_meta (snd (delete_deletion jid d)) = db_meta d"
  by (simp_all add: row_op_defs)

interpretation metadata:
  table_invariant c "\<lambda>d. schema_ok c d \<and> db_meta d = m" "\<lambda>_. True" "\<lambda>_ _. True" "\<lambda>_. True" for c m
  by unfold_locales (erule schema_ids_conj, simp_all add: schema_keep event_frame meta_frame)

text \<open>A terminal Job keeps its phase: no legal move leaves it.\<close>

definition phase_fixed :: "string \<Rightarrow> job_phase \<Rightarrow> db \<Rightarrow> bool" where
  "phase_fixed jid t d \<longleftrightarrow> (terminal t \<longrightarrow> (\<forall>r \<in> set (db_jobs d). jr_id r = jid \<longrightarrow> jr_phase r = t))"

definition keeps_phase :: "string \<Rightarrow> job_phase \<Rightarrow> job_row \<Rightarrow> job_phase \<Rightarrow> bool" where
  "keeps_phase jid t r q \<longleftrightarrow> (terminal t \<and> jr_id r = jid \<and> jr_phase r = t \<longrightarrow> q = t)"

lemma fixed_update_jobs:
  "phase_fixed jid t d \<Longrightarrow>
     (\<And>r. r \<in> set (db_jobs d) \<Longrightarrow> p r \<Longrightarrow> same_identity (f r) r \<and> keeps_phase jid t r (jr_phase (f r))) \<Longrightarrow>
     phase_fixed jid t (snd (update_jobs c p f d))"
  by (auto simp: phase_fixed_def keeps_phase_def same_identity_def row_op_defs dest!: in_update_rows)

lemma fixed_insert_job:
  "phase_fixed jid t d \<Longrightarrow> jr_id r \<noteq> jid \<Longrightarrow> phase_fixed jid t (snd (insert_job c r d))"
  by (auto simp: phase_fixed_def row_op_defs)

lemma fixed_frame:
  "phase_fixed jid t d \<Longrightarrow> phase_fixed jid t (snd (delete_jobs c p d))"
  "phase_fixed jid t d \<Longrightarrow> phase_fixed jid t (snd (event c now i rv k d))"
  "phase_fixed jid t d \<Longrightarrow> phase_fixed jid t (snd (update_outbox c q g d))"
  "phase_fixed jid t d \<Longrightarrow> phase_fixed jid t (snd (insert_outbox_row c b d))"
  "phase_fixed jid t d \<Longrightarrow> phase_fixed jid t (snd (insert_deletion dr d))"
  "phase_fixed jid t d \<Longrightarrow> phase_fixed jid t (snd (delete_deletion i d))"
  by (auto simp: phase_fixed_def row_op_defs event_frame)

interpretation final: table_invariant c "\<lambda>d. schema_ok c d \<and> phase_fixed jid t d" "\<lambda>_. True"
  "keeps_phase jid t" "\<lambda>i. i \<noteq> jid" for c jid t
proof unfold_locales
  show "q \<in> phase_steps (jr_phase r) \<Longrightarrow> keeps_phase jid t r q" for q r
    using phase_steps_terminal by (auto simp: keeps_phase_def)
  show "keeps_phase jid t r (jr_phase r)" for r by (simp add: keeps_phase_def)
qed (erule schema_ids_conj, simp_all add: schema_keep fixed_update_jobs fixed_insert_job fixed_frame)

text \<open>
  A terminal row is not written to at all: the only row of its Job stays what it is until it is
  pruned.
\<close>

definition row_settled :: "string \<Rightarrow> job_row \<Rightarrow> db \<Rightarrow> bool" where
  "row_settled jid r0 d \<longleftrightarrow>
     terminal (jr_phase r0) \<and> (\<forall>r \<in> set (db_jobs d). jr_id r = jid \<longrightarrow> r = r0)"

definition leaves_terminal :: "string \<Rightarrow> job_row \<Rightarrow> job_phase \<Rightarrow> bool" where
  "leaves_terminal jid r q \<longleftrightarrow> (jr_id r = jid \<longrightarrow> \<not> terminal (jr_phase r))"

lemma settled_update_jobs:
  "row_settled jid r0 d \<Longrightarrow>
     (\<And>r. r \<in> set (db_jobs d) \<Longrightarrow> p r \<Longrightarrow> same_identity (f r) r \<and> leaves_terminal jid r (jr_phase (f r))) \<Longrightarrow>
     row_settled jid r0 (snd (update_jobs c p f d))"
  by (fastforce simp: row_settled_def leaves_terminal_def same_identity_def row_op_defs
      dest!: in_update_rows)

lemma settled_insert_job:
  "row_settled jid r0 d \<Longrightarrow> jr_id r \<noteq> jid \<Longrightarrow> row_settled jid r0 (snd (insert_job c r d))"
  by (auto simp: row_settled_def row_op_defs)

lemma settled_frame:
  "row_settled jid r0 d \<Longrightarrow> row_settled jid r0 (snd (delete_jobs c p d))"
  "row_settled jid r0 d \<Longrightarrow> row_settled jid r0 (snd (event c now i rv k d))"
  "row_settled jid r0 d \<Longrightarrow> row_settled jid r0 (snd (update_outbox c q g d))"
  "row_settled jid r0 d \<Longrightarrow> row_settled jid r0 (snd (insert_outbox_row c b d))"
  "row_settled jid r0 d \<Longrightarrow> row_settled jid r0 (snd (insert_deletion dr d))"
  "row_settled jid r0 d \<Longrightarrow> row_settled jid r0 (snd (delete_deletion i d))"
  by (auto simp: row_settled_def row_op_defs event_frame)

interpretation settled: table_invariant c "\<lambda>d. schema_ok c d \<and> row_settled jid r0 d" "\<lambda>_. True"
  "leaves_terminal jid" "\<lambda>i. i \<noteq> jid" for c jid r0
proof unfold_locales
  show "q \<in> phase_steps (jr_phase r) \<Longrightarrow> leaves_terminal jid r q" for q r
    using phase_steps_terminal by (auto simp: leaves_terminal_def)
  show "\<not> terminal (jr_phase r) \<Longrightarrow> leaves_terminal jid r (jr_phase r)" for r
    by (simp add: leaves_terminal_def)
qed (erule schema_ids_conj, simp_all add: schema_keep settled_update_jobs settled_insert_job settled_frame)

subsection \<open>Runs of operations\<close>

datatype store_op =
    OpSubmit clock string string job_spec
  | OpPrune clock
  | OpClaim clock string int
  | OpRunning clock string string string
  | OpRenew clock string string string int
  | OpFinish clock string string string job_outcome
  | OpCancel clock string "string option"
  | OpRecoverInterrupted clock
  | OpRecoverExpired clock "string set"
  | OpClaimOutbox clock int rat
  | OpDelivered clock string "string option"
  | OpFailed string "string option" string rat bool

text \<open>The tables after a call, whether it returned or raised.\<close>

fun run_op :: "store_cfg \<Rightarrow> store_op \<Rightarrow> db \<Rightarrow> db" where
  "run_op c (OpSubmit ck tenant key spec) d = snd (submit c ck tenant key spec d)"
| "run_op c (OpPrune ck) d = snd (prune_expired c ck d)"
| "run_op c (OpClaim ck owner secs) d = snd (claim_next c ck owner secs d)"
| "run_op c (OpRunning ck jid attempt owner) d = snd (mark_running c ck jid attempt owner d)"
| "run_op c (OpRenew ck jid attempt owner secs) d = snd (renew_lease c ck jid attempt owner secs d)"
| "run_op c (OpFinish ck jid attempt owner x) d = snd (finish c ck jid attempt owner x d)"
| "run_op c (OpCancel ck jid tenant) d = snd (request_cancel c ck jid tenant d)"
| "run_op c (OpRecoverInterrupted ck) d = snd (recover_interrupted c ck d)"
| "run_op c (OpRecoverExpired ck ex) d = snd (recover_expired_leases c ck ex d)"
| "run_op c (OpClaimOutbox ck limit secs) d = snd (claim_outbox_due c ck limit secs d)"
| "run_op c (OpDelivered ck ev delivery) d = snd (outbox_delivered c ck ev delivery d)"
| "run_op c (OpFailed ev delivery err due permanent) d =
     snd (outbox_failed c ev delivery err due permanent d)"

fun run_ops :: "store_cfg \<Rightarrow> store_op list \<Rightarrow> db \<Rightarrow> db" where
  "run_ops c [] d = d"
| "run_ops c (op # ops) d = run_ops c ops (run_op c op d)"

context table_invariant
begin

text \<open>What an operation needs: a fresh identifier, and a legal move for \<open>mark_running\<close>.\<close>

definition op_ok :: "store_op \<Rightarrow> db \<Rightarrow> bool" where
  "op_ok op d \<longleftrightarrow>
     (case op of
        OpSubmit ck _ _ _ \<Rightarrow> new_ok (''job_'' @ ck_uuid ck 0)
      | OpRunning _ jid attempt owner \<Rightarrow>
          (\<forall>r \<in> set (db_jobs d). owns jid attempt owner r \<longrightarrow> legal r Running)
      | _ \<Rightarrow> True)"

lemma inv_run_op: "inv d \<Longrightarrow> op_ok op d \<Longrightarrow> inv (run_op c op d)"
  by (cases op) (simp_all add: op_ok_def invD pres_submit pres_prune_expired pres_claim_next
      inv_mark_running pres_renew_lease pres_finish pres_request_cancel pres_recover_interrupted
      pres_recover_expired_leases pres_claim_outbox_due pres_outbox_delivered pres_outbox_failed)

lemma inv_run_ops: "inv d \<Longrightarrow> (\<And>op d. op \<in> set ops \<Longrightarrow> op_ok op d) \<Longrightarrow> inv (run_ops c ops d)"
  by (induction ops arbitrary: d) (auto simp: inv_run_op)

end

text \<open>An operation that neither reports the Job as running nor reuses its identifier.\<close>

definition leaves_final :: "string \<Rightarrow> store_op \<Rightarrow> bool" where
  "leaves_final jid op \<longleftrightarrow>
     (case op of
        OpSubmit ck _ _ _ \<Rightarrow> ''job_'' @ ck_uuid ck 0 \<noteq> jid
      | OpRunning _ i _ _ \<Rightarrow> i \<noteq> jid
      | _ \<Rightarrow> True)"

lemma settled_run_ops:
  assumes "schema_ok c d" and "row_settled jid r0 d" and "\<forall>op \<in> set ops. leaves_final jid op"
  shows "row_settled jid r0 (run_ops c ops d)"
proof -
  have "settled.op_ok jid op d'" if "op \<in> set ops" for op d'
    using assms(3) that
    by (auto simp: settled.op_ok_def leaves_final_def owns_def leaves_terminal_def
        split: store_op.splits)
  with settled.inv_run_ops [of c d jid r0 ops] assms show ?thesis by blast
qed

definition store_ok :: "store_cfg \<Rightarrow> db \<Rightarrow> bool" where
  "store_ok c d \<longleftrightarrow> usage_exact c d \<and> schema_ok c d \<and> docs_ok d \<and> leases_ok d"

lemma op_ok_trivial: "schema.op_ok op d"
  by (simp add: schema.op_ok_def split: store_op.split)

lemma store_ok_run_op: "store_ok c d \<Longrightarrow> store_ok c (run_op c op d)"
  using usage.inv_run_op [of c d op] docs.inv_run_op [of c d op] leases.inv_run_op [of c d op]
    op_ok_trivial [of op d]
  by (simp add: store_ok_def)

lemma store_ok_run_ops: "store_ok c d \<Longrightarrow> store_ok c (run_ops c ops d)"
  by (induction ops arbitrary: d) (simp_all add: store_ok_run_op)

lemma metadata_run_ops: "schema_ok c d \<Longrightarrow> db_meta (run_ops c ops d) = db_meta d"
  using metadata.inv_run_ops [of c d "db_meta d" ops]
    op_ok_trivial by blast

lemma schema_set_metadata: "schema_ok c d \<Longrightarrow> schema_ok c (snd (set_metadata k v d))"
  by (simp add: schema_ok_def set_metadata_def Let_def job_ids_def)

lemma set_metadata_frame:
  "db_jobs (snd (set_metadata k v d)) = db_jobs d" "db_outbox (snd (set_metadata k v d)) = db_outbox d"
  by (simp_all add: set_metadata_def Let_def)

lemma store_ok_set_metadata: "store_ok c d \<Longrightarrow> store_ok c (snd (set_metadata k v d))"
  by (simp add: store_ok_def usage_set_metadata schema_set_metadata docs_ok_def leases_ok_def
      set_metadata_frame)

text \<open>Migration recalculates the counter, so it repairs any earlier value of it.\<close>

lemma store_ok_migrate:
  assumes "schema_ok c d" and "docs_ok d" and "leases_ok d"
  shows "store_ok c (migrate c d)"
  using schema_set_metadata [OF assms(1)] assms(2,3)
  by (simp add: store_ok_def migrate_def recalculate_metadata_usage_def usage_defs schema_ok_def
      docs_ok_def leases_ok_def set_metadata_frame job_ids_def)

lemma store_ok_epoch [simp]: "store_ok (c\<lparr>sc_store_epoch := e\<rparr>) d = store_ok c d"
proof -
  have "job_row_size (c\<lparr>sc_store_epoch := e\<rparr>) = job_row_size c"
    and "outbox_row_size (c\<lparr>sc_store_epoch := e\<rparr>) = outbox_row_size c"
    by (auto simp: fun_eq_iff job_row_size_def outbox_row_size_def json_size_def real_size_def
        split: option.split)
  then show ?thesis by (simp add: store_ok_def usage_defs schema_ok_def)
qed

lemma store_ok_open:
  assumes "schema_ok c d" and "docs_ok d" and "leases_ok d" and "open_store c u v d = (c1, d1)"
  shows "store_ok c1 d1"
  using assms(4) store_ok_migrate [OF assms(1-3)]
  by (auto simp: open_store_def Let_def store_ok_set_metadata split: if_splits option.splits)

lemma empty_db_ok: "schema_ok c empty_db" "docs_ok empty_db" "leases_ok empty_db"
  by (simp_all add: schema_ok_def docs_ok_def leases_ok_def empty_db_def)

end
