(* ===== verification/StoreExample.thy ===== *)
theory StoreExample
  imports StoreFacts
begin

section \<open>An example store\<close>

text \<open>
  A small configuration, clocks, a Job specification with a callback and a run of operations, on
  which the witnesses of the store's properties evaluate the operations.
\<close>

definition demo_cfg :: store_cfg where
  "demo_cfg =
     \<lparr>sc_volatile = True, sc_store_epoch = ''store_1'', sc_max_jobs = 10,
      sc_max_metadata_bytes = 65536, sc_max_event_records = 100, sc_job_ttl_seconds = 3600,
      sc_max_queued_jobs = 10, sc_max_queued_jobs_per_tenant = 5, sc_output_cleaner = None,
      sc_real_text = (\<lambda>_. ''0.0''), sc_float_text = (\<lambda>_. ''0.0''), sc_sha256 = rev\<rparr>"

definition demo_clock :: "string \<Rightarrow> rat \<Rightarrow> clock" where
  "demo_clock uid now =
     \<lparr>ck_iso = (\<lambda>_. ''2025-01-01T00:00:00+00:00''), ck_time = (\<lambda>_. now), ck_uuid = (\<lambda>_. uid),
      ck_before = (\<lambda>_. ''2024-12-31T23:00:00+00:00'')\<rparr>"

definition demo_spec :: job_spec where
  "demo_spec =
     \<lparr>js_command = [VStr ''echo''], js_cwd = VNone, js_env = None, js_timeout_seconds = VInt 60,
      js_idle_timeout_seconds = VNone, js_max_output_bytes = VInt 1024,
      js_callback_endpoint_id = VStr ''hook'', js_desired_state = VStr ''active''\<rparr>"

definition demo_outcome :: job_outcome where
  "demo_outcome =
     \<lparr>jx_phase = Succeeded, jx_exit_code = Some 0, jx_reason = ''process_exit'', jx_error = None,
      jx_stdout_path = None, jx_stderr_path = None, jx_stdout_bytes = 0, jx_stderr_bytes = 0,
      jx_output_truncated = False\<rparr>"

text \<open>One Job with the given phase, owned by attempt \<open>a\<close> of owner \<open>o\<close>.\<close>

definition demo_row :: "job_phase \<Rightarrow> job_row" where
  "demo_row phase =
     \<lparr>jr_id = ''job_1'', jr_tenant_id = ''t'', jr_idempotency_key = ''k'', jr_request_hash = ''h'',
      jr_spec_json = [(''command'', VList [VStr ''a'']), (''callback_endpoint_id'', VStr ''e'')],
      jr_phase = phase, jr_generation = 1, jr_observed_generation = 1, jr_revision = 3,
      jr_durability = ''volatile'', jr_store_epoch = ''s'', jr_attempt_id = Some ''a'',
      jr_lease_owner = Some ''o'', jr_lease_epoch = 1, jr_lease_expires_at = None,
      jr_created_at = ''2025'', jr_updated_at = ''2025'', jr_started_at = None,
      jr_completed_at = None, jr_exit_code = None, jr_reason = None, jr_error_json = None,
      jr_stdout_path = None, jr_stderr_path = None, jr_stdout_bytes = 0, jr_stderr_bytes = 0,
      jr_output_truncated = False, jr_conditions_json = []\<rparr>"

definition demo_db :: "job_phase \<Rightarrow> db" where
  "demo_db phase = empty_db\<lparr>db_jobs := [demo_row phase]\<rparr>"

text \<open>
  A Job whose executor stops renewing its lease is recovered as lost; then the executor reports
  that the Job is running, and finishes it.
\<close>

definition demo_run :: "store_op list" where
  "demo_run =
     [OpSubmit (demo_clock ''1'' 0) ''t'' ''k'' demo_spec,
      OpClaim (demo_clock ''2'' 0) ''o'' 30,
      OpRecoverExpired (demo_clock ''3'' 40) {},
      OpRunning (demo_clock ''4'' 41) ''job_1'' ''attempt_2'' ''o'',
      OpFinish (demo_clock ''5'' 42) ''job_1'' ''attempt_2'' ''o'' demo_outcome]"

lemma demo_db_schema: "schema_ok demo_cfg (demo_db phase)"
  by (simp add: schema_ok_def demo_db_def empty_db_def)

lemma empty_schema: "schema_ok demo_cfg empty_db"
  by (rule empty_db_ok)

text \<open>A result that returned a value, as the equation the properties ask for.\<close>

lemma op_returns: "is_ok (fst r) \<Longrightarrow> \<exists>x d. r = (Inr x, d)"
  by (cases r; cases "fst r") auto

end
