(* ===== verification/StoreProps.thy ===== *)
theory StoreProps
  imports StoreExample
begin

section \<open>What the Job store promises: integrity and admission\<close>

text \<open>
  Integrity and exact accounting along any run, restart without loss, and admission: the bounds
  a new Job is admitted within and idempotent resubmission.
\<close>

subsection \<open>Results of sequences and transactions\<close>

lemma sbind_Inr:
  "sbind m f d = (Inr y, d2) \<longleftrightarrow> (\<exists>x d1. m d = (Inr x, d1) \<and> f x d1 = (Inr y, d2))"
  by (auto simp: sbind_def split: prod.split sum.split)

lemma transaction_Inr:
  "transaction c m d = (Inr x, d1) \<Longrightarrow>
     m d = (Inr x, d1) \<and> (db_usage d1 \<le> sc_max_metadata_bytes c \<or> db_usage d1 \<le> db_usage d)"
  by (auto simp: transaction_def split: prod.splits sum.splits if_splits)

lemma transaction_Inl: "transaction c m d = (Inl e, d1) \<Longrightarrow> d1 = d"
  by (auto simp: transaction_def split: prod.splits sum.splits if_splits)

lemma transaction_same: "m d = (Inr x, d) \<Longrightarrow> transaction c m d = (Inr x, d)"
  by (simp add: transaction_def)

lemma stry_Inr: "stry r d = (Inr x, d1) \<longleftrightarrow> r = Inr x \<and> d1 = d"
  by (auto simp: stry_def split: sum.split)

lemma sret_Inr: "sret x d = (Inr y, d1) \<longleftrightarrow> y = x \<and> d1 = d"
  by (auto simp: sret_def)

lemma sraise_not_Inr [simp]: "sraise e d \<noteq> (Inr x, d1)"
  by (simp add: sraise_def)

lemma sget_Inr: "sget f d = (Inr y, d1) \<longleftrightarrow> y = f d \<and> d1 = d"
  by (auto simp: sget_def)

lemmas op_results = sbind_Inr stry_Inr sret_Inr sget_Inr sreader_def

lemma find_first: "find p xs = Some x \<Longrightarrow> p x \<and> x \<in> set xs"
  by (auto simp: find_Some_iff)

lemma find_by_id:
  assumes "distinct (map jr_id (db_jobs d))" and r: "r \<in> set (db_jobs d)" "p r"
    and p: "\<And>q. p q \<Longrightarrow> jr_id q = jr_id r"
  shows "find_job p d = Some r"
proof (cases "find_job p d")
  case None
  with r show ?thesis by (auto simp: find_job_None)
next
  case (Some q)
  from find_job_Some [OF Some] have q: "p q" "q \<in> set (db_jobs d)" by simp_all
  have "q = r" by (rule same_id_same_row [OF assms(1) q(2) r(1) p [OF q(1)]])
  with Some show ?thesis by simp
qed

lemma find_by_key:
  assumes "distinct (map job_key (db_jobs d))" "r \<in> set (db_jobs d)"
  shows "find_job (same_key (jr_tenant_id r) (jr_idempotency_key r)) d = Some r"
proof (cases "find_job (same_key (jr_tenant_id r) (jr_idempotency_key r)) d")
  case None
  with assms(2) show ?thesis by (auto simp: find_job_None same_key_def)
next
  case (Some q)
  then have "q \<in> set (db_jobs d)" "job_key q = job_key r"
    by (auto dest!: find_job_Some simp: same_key_def job_key_def)
  with assms Some show ?thesis by (auto simp: distinct_map dest: inj_onD)
qed

lemma select_by_id:
  "distinct (map jr_id (db_jobs d)) \<Longrightarrow> r \<in> set (db_jobs d) \<Longrightarrow> select_job (jr_id r) None d = (Inr r, d)"
  by (simp add: select_job_Inr find_by_id)

subsection \<open>Integrity and accounting\<close>

text \<open>
  C1. From a newly opened store, whatever operations run in whatever order and with whatever
  arguments, and whether they return or raise: the usage counter kept by the triggers equals the
  recalculated size of all tables, the schema's keys and references hold (no event or callback
  outlives its Job) and the event table respects its bound, every stored specification can be
  read back, and a callback carries a delivery identifier exactly while it is being delivered.
\<close>

theorem store_integrity:
  "store_ok (fst (open_store c u v empty_db))
     (run_ops (fst (open_store c u v empty_db)) ops (snd (open_store c u v empty_db)))"
  by (rule store_ok_run_ops, rule store_ok_open [OF empty_db_ok]) (rule prod.collapse [symmetric])

lemma update_charge_same:
  "(\<And>r. r \<in> set rs \<Longrightarrow> p r \<Longrightarrow> f r = r) \<Longrightarrow> update_charge sz p f rs = 0"
  by (induction rs) (auto simp: update_charge_def)

lemma set_metadata_again:
  assumes "db_meta d = [(''schema_version'', ''3''), (''store_id'', s)]" and "usage_exact c d"
  shows "migrate c d = d"
proof -
  have "snd (set_metadata ''schema_version'' ''3'' d) = d"
    by (simp add: set_metadata_def assms(1) update_rows_def update_charge_def Let_def)
  then show ?thesis using assms(2)
    by (simp add: migrate_def recalculate_metadata_usage_def usage_exact_def)
qed

lemma open_empty:
  assumes "\<not> sc_volatile c"
  shows "fst (open_store c u v empty_db) = c\<lparr>sc_store_epoch := ''store_'' @ v\<rparr>"
    and "db_meta (snd (open_store c u v empty_db))
       = [(''schema_version'', ''3''), (''store_id'', ''store_'' @ v)]"
  using assms
  by (simp_all add: open_store_def Let_def migrate_def recalculate_metadata_usage_def
      set_metadata_def empty_db_def)

text \<open>
  C18. A file store that is closed and opened again at any point of its life comes back with the
  same identity and exactly the same tables: migration changes nothing and the persisted store
  epoch wins over the new one.
\<close>

theorem store_restart_lossless:
  "let c = c0\<lparr>sc_volatile := False\<rparr>; (c1, d0) = open_store c u v empty_db;
       d = run_ops c1 ops d0
   in open_store c u' v' d = (c1, d)"
proof -
  let ?c = "c0\<lparr>sc_volatile := False\<rparr>"
  let ?c1 = "fst (open_store ?c u v empty_db)" and ?start = "snd (open_store ?c u v empty_db)"
  let ?d = "run_ops ?c1 ops ?start"
  have ok0: "store_ok ?c1 ?start"
    by (rule store_ok_open [OF empty_db_ok, of ?c u v]) simp
  then have ok: "store_ok ?c1 ?d" by (rule store_ok_run_ops)
  have c1: "?c1 = ?c\<lparr>sc_store_epoch := ''store_'' @ v\<rparr>" by (rule open_empty) simp
  have meta: "db_meta ?d = [(''schema_version'', ''3''), (''store_id'', ''store_'' @ v)]"
    using metadata_run_ops [of ?c1 ?start ops] ok0 open_empty(2) [of ?c u v]
    by (simp add: store_ok_def)
  from ok c1 have "usage_exact ?c ?d" using store_ok_epoch [of _ ?c] by (simp add: store_ok_def)
  with meta have "migrate ?c ?d = ?d" by (rule set_metadata_again)
  then have "open_store ?c u' v' ?d = (?c1, ?d)"
    using meta c1 by (simp add: open_store_def Let_def)
  then show ?thesis by (simp add: Let_def case_prod_beta)
qed

subsection \<open>Admission\<close>

lemma preserves_nonterminal_prune:
  assumes "\<not> terminal (jr_phase r)"
  shows "preserves (\<lambda>d. r \<in> set (db_jobs d)) (prune_expired c ck)"
proof -
  let ?P = "\<lambda>d. r \<in> set (db_jobs d)"
  have del: "preserves ?P (delete_deletion jid)" for jid
    by (simp add: preserves_def delete_deletion_def Let_def)
  have fin_rows: "preserves ?P (finalize_rows c cl rs n)" for cl rs n
    by (induction rs arbitrary: n) (simp_all add: preserves_bind preserves_transaction del)
  then have fin: "preserves ?P (finalize_output_deletions c)"
    by (auto simp: finalize_output_deletions_def preserves_def split: option.split)
  have ins: "preserves ?P (insert_deletion q)" for q
    by (simp add: preserves_def insert_deletion_def)
  have dels: "preserves ?P (delete_jobs c (\<lambda>q. jr_id q = i \<and> prunable d cutoff q))" for i d cutoff
    using assms by (simp add: preserves_def delete_jobs_def Let_def prunable_def)
  have rows: "preserves ?P (prune_rows c ck cutoff k rs n)" for cutoff k rs n
  proof (induction rs arbitrary: k n)
    case (Cons q rs)
    show ?case unfolding prune_rows.simps by (intro db_rules ins dels del Cons.IH)
  qed simp
  show ?thesis unfolding prune_expired_def Let_def by (intro db_rules fin rows)
qed

text \<open>What a successful new admission does to the tables.\<close>

lemma admit_new:
  assumes "admit c ck t k h doc d = (Inr (j, True), d1)"
  shows "find_job (same_key t k) d = None" and "\<not> admission_full c t d"
    and "db_jobs d1 = db_jobs d @ [new_job_row c ck t k h doc]"
    and "row_to_job (new_job_row c ck t k h doc) = Inr j"
proof -
  let ?row = "new_job_row c ck t k h doc"
  show none: "find_job (same_key t k) d = None"
    using assms by (auto simp: admit_def op_results split: option.splits if_splits)
  show adm: "\<not> admission_full c t d"
    using assms none by (auto simp: admit_def op_results split: if_splits)
  from assms none adm obtain da db stored where
    ins: "insert_job c ?row d = (Inr (), da)"
    and ev: "event c (ck_iso ck 1) (jr_id ?row) 1 ''job.accepted'' da = (Inr (), db)"
    and sel: "select_job (jr_id ?row) None db = (Inr stored, d1)"
    and j: "row_to_job stored = Inr j"
    by (auto simp: admit_def op_results Let_def)
  from ins have da: "db_jobs da = db_jobs d @ [?row]" and new: "jr_id ?row \<notin> job_ids d"
    by (auto simp: insert_job_def split: if_splits)
  from ev have db: "db_jobs db = db_jobs da" using event_frame(1) by (metis snd_conv)
  from sel have d1: "d1 = db" and "find_job (\<lambda>r. jr_id r = jr_id ?row) db = Some stored"
    by (auto simp: select_job_Inr)
  from find_job_Some [OF this(2)] have "jr_id stored = jr_id ?row" "stored \<in> set (db_jobs db)"
    by simp_all
  with da db new have "stored = ?row" by (auto simp: job_ids_def image_iff)
  with j show "row_to_job ?row = Inr j" by simp
  from d1 db da show "db_jobs d1 = db_jobs d @ [?row]" by simp
qed

lemma submit_new:
  assumes "submit c ck t k s d = (Inr (j, True), d1)"
  obtains n dp where "job_spec_validate s = Inr ()" and "prune_expired c (pruning_clock ck) d = (Inr n, dp)"
    and "t \<noteq> []" "k \<noteq> []" "utf8_len t \<le> 256" "utf8_len k \<le> 256"
    and "admit c ck t k (request_hash c s) (sorted_document (job_spec_to_dict s)) dp
       = (Inr (j, True), d1)"
    and "db_usage d1 \<le> sc_max_metadata_bytes c \<or> db_usage d1 \<le> db_usage dp"
proof -
  from assms obtain n dp where v: "job_spec_validate s = Inr ()"
    and p: "prune_expired c (pruning_clock ck) d = (Inr n, dp)"
    and rest: "(if t = [] \<or> k = []
     then sraise (PyError (ValueError ''tenant_id and idempotency_key are required''))
     else if 256 < utf8_len t
     then sraise (PyError (ValueError ''tenant_id exceeds 256 UTF-8 bytes''))
     else if 256 < utf8_len k
     then sraise (PyError (ValueError ''idempotency_key exceeds 256 UTF-8 bytes''))
     else transaction c
       (admit c ck t k (request_hash c s) (sorted_document (job_spec_to_dict s)))) dp
     = (Inr (j, True), d1)"
    by (auto simp: submit_def op_results)
  from rest have c: "t \<noteq> []" "k \<noteq> []" "utf8_len t \<le> 256" "utf8_len k \<le> 256"
    and tx: "transaction c (admit c ck t k (request_hash c s)
      (sorted_document (job_spec_to_dict s))) dp = (Inr (j, True), d1)"
    by (auto split: if_splits)
  show thesis using that [OF v p c] transaction_Inr [OF tx] by blast
qed

lemma count_append: "count_jobs p (d\<lparr>db_jobs := db_jobs d @ [r]\<rparr>) = count_jobs p d + (if p r then 1 else 0)"
  by (simp add: count_jobs_def)

text \<open>
  C13. A new Job is admitted only within every bound: afterwards the store holds at most
  \<open>max_jobs\<close> Jobs, at most \<open>max_queued_jobs\<close> are queued and at most
  \<open>max_queued_jobs_per_tenant\<close> of them belong to the tenant, and the metadata of the tables is
  within its capacity unless it shrank. The Job is queued, active and validated.
\<close>

theorem submit_admission_bounds:
  assumes "submit c ck t k s d = (Inr (j, True), d1)"
  shows "count_jobs (\<lambda>_. True) d1 \<le> sc_max_jobs c
    \<and> count_jobs (\<lambda>r. jr_phase r = Queued) d1 \<le> sc_max_queued_jobs c
    \<and> count_jobs (\<lambda>r. jr_phase r = Queued \<and> jr_tenant_id r = t) d1 \<le> sc_max_queued_jobs_per_tenant c
    \<and> (db_usage d1 \<le> sc_max_metadata_bytes c \<or> db_usage d1 \<le> db_usage (snd (prune_expired c (pruning_clock ck) d)))
    \<and> jo_phase j = Queued \<and> jo_tenant_id j = t \<and> job_spec_validate (jo_spec j) = Inr ()"
proof -
  from assms obtain n dp where v: "job_spec_validate s = Inr ()"
    and p: "prune_expired c (pruning_clock ck) d = (Inr n, dp)"
    and a: "admit c ck t k (request_hash c s) (sorted_document (job_spec_to_dict s)) dp
      = (Inr (j, True), d1)"
    and u: "db_usage d1 \<le> sc_max_metadata_bytes c \<or> db_usage d1 \<le> db_usage dp"
    by (rule submit_new)
  note new = admit_new [OF a]
  have counts: "count_jobs q d1 \<le> count_jobs q dp + 1" for q
    by (simp add: count_jobs_def new(3))
  from new(2) have "count_jobs (\<lambda>_. True) d1 \<le> sc_max_jobs c"
    and "count_jobs (\<lambda>r. jr_phase r = Queued) d1 \<le> sc_max_queued_jobs c"
    and "count_jobs (\<lambda>r. jr_phase r = Queued \<and> jr_tenant_id r = t) d1 \<le> sc_max_queued_jobs_per_tenant c"
    using counts [of "\<lambda>_. True"] counts [of "\<lambda>r. jr_phase r = Queued"]
      counts [of "\<lambda>r. jr_phase r = Queued \<and> jr_tenant_id r = t"]
    by (auto simp: admission_full_def)
  moreover have "jo_phase j = Queued \<and> jo_tenant_id j = t \<and> job_spec_validate (jo_spec j) = Inr ()"
    using new(4) job_spec_from_dict_ok
    by (auto simp: row_to_job_def rbind_Inr_iff new_job_row_def job_spec_validate_Inr)
  ultimately show ?thesis using u p by simp
qed

lemma demo_submit: "\<exists>j d. submit demo_cfg (demo_clock ''1'' 0) ''t'' ''k'' demo_spec empty_db = (Inr (j, True), d)"
proof -
  have "case fst (submit demo_cfg (demo_clock ''1'' 0) ''t'' ''k'' demo_spec empty_db) of
      Inr (_, new) \<Rightarrow> new | Inl _ \<Rightarrow> False" by code_simp
  then show ?thesis
    by (cases "submit demo_cfg (demo_clock ''1'' 0) ''t'' ''k'' demo_spec empty_db")
      (auto split: sum.splits)
qed

theorem submit_admission_bounds_witness:
  "\<exists>j d1. submit demo_cfg (demo_clock ''1'' 0) ''t'' ''k'' demo_spec empty_db = (Inr (j, True), d1)
     \<and> count_jobs (\<lambda>_. True) d1 \<le> 10 \<and> jo_phase j = Queued"
proof -
  obtain j d1 where r: "submit demo_cfg (demo_clock ''1'' 0) ''t'' ''k'' demo_spec empty_db
      = (Inr (j, True), d1)" using demo_submit by blast
  with submit_admission_bounds [OF r] show ?thesis by (auto simp: demo_cfg_def)
qed

text \<open>
  C2. Repeating an accepted submission, at any later clock, returns the very same Job record and
  is not a new admission; it changes nothing beyond the pruning every submission starts with, and
  fails only if that pruning fails.
\<close>

theorem submit_idempotent:
  assumes "schema_ok c d" and "submit c ck t k s d = (Inr (j, True), d1)"
  shows "submit c ck' t k s d1 =
    (case prune_expired c (pruning_clock ck') d1 of
       (Inl e, d2) \<Rightarrow> (Inl e, d2) | (Inr _, d2) \<Rightarrow> (Inr (j, False), d2))"
proof -
  let ?doc = "sorted_document (job_spec_to_dict s)"
  let ?row = "new_job_row c ck t k (request_hash c s) ?doc"
  from assms(2) obtain n dp where v: "job_spec_validate s = Inr ()"
    and lens: "t \<noteq> []" "k \<noteq> []" "utf8_len t \<le> 256" "utf8_len k \<le> 256"
    and a: "admit c ck t k (request_hash c s) ?doc dp = (Inr (j, True), d1)"
    by (rule submit_new)
  note new = admit_new [OF a]
  from assms have ok1: "schema_ok c d1"
    using preservesD [OF schema.pres_submit, of c d ck t k s] by simp
  obtain r d2 where p2: "prune_expired c (pruning_clock ck') d1 = (r, d2)" by (cases "prune_expired c (pruning_clock ck') d1")
  show ?thesis
  proof (cases r)
    case (Inl e)
    with v p2 show ?thesis by (simp add: submit_def sbind_def stry_def)
  next
    case (Inr n2)
    have "\<not> terminal (jr_phase ?row)" by (simp add: new_job_row_def)
    then have row: "?row \<in> set (db_jobs d2)"
      using preservesD [OF preserves_nonterminal_prune, of ?row d1 c "pruning_clock ck'"] new(3) p2 by simp
    from ok1 p2 have "schema_ok c d2" using preservesD [OF schema.pres_prune_expired] by (metis snd_conv)
    then have "find_job (same_key t k) d2 = Some ?row"
      using find_by_key [OF _ row] by (simp add: schema_ok_def new_job_row_def)
    then have "admit c ck' t k (request_hash c s) ?doc d2 = (Inr (j, False), d2)"
      using new(4) by (simp add: admit_def sreader_def sbind_def stry_def sret_def new_job_row_def)
    then show ?thesis using v p2 Inr lens
      by (simp add: submit_def sbind_def stry_def transaction_same)
  qed
qed

theorem submit_idempotent_witness:
  "\<exists>j d1. submit demo_cfg (demo_clock ''1'' 0) ''t'' ''k'' demo_spec empty_db = (Inr (j, True), d1)
     \<and> submit demo_cfg (demo_clock ''9'' 5) ''t'' ''k'' demo_spec d1 =
       (case prune_expired demo_cfg (pruning_clock (demo_clock ''9'' 5)) d1 of
          (Inl e, d2) \<Rightarrow> (Inl e, d2) | (Inr _, d2) \<Rightarrow> (Inr (j, False), d2))"
  using demo_submit submit_idempotent [OF empty_schema] by blast

end
