(* ===== verification/StoreFlow.thy ===== *)
theory StoreFlow
  imports StoreProps
begin

section \<open>What the Job store promises: attempts, completion, recovery and callbacks\<close>

text \<open>
  First-in first-out claiming, completion that is recorded once, cancellation that wins over any
  reported outcome, complete recovery after a restart, retention that never drops an undelivered
  callback, exclusive delivery leases, and the finality of terminal phases together with the one
  operation that breaks it.
\<close>

subsection \<open>Updating the row of one Job\<close>

lemma filter_one:
  assumes "distinct rs" and "r \<in> set rs" and "\<And>q. q \<in> set rs \<Longrightarrow> p q \<longleftrightarrow> q = r"
  shows "filter p rs = [r]"
proof -
  have "filter p rs = filter (\<lambda>q. q = r) rs" by (rule filter_cong [OF refl assms(3)])
  also have "\<dots> = [r]" using assms(1,2) by (induction rs) (auto simp: filter_empty_conv)
  finally show ?thesis .
qed

lemma update_one:
  assumes "distinct (map jr_id (db_jobs d))" and r: "r \<in> set (db_jobs d)" "p r"
    and p: "\<And>q. p q \<Longrightarrow> jr_id q = jr_id r" and u: "update_jobs c p f d = (Inr n, d1)"
  shows "n = 1" and "db_jobs d1 = map (\<lambda>q. if q = r then f r else q) (db_jobs d)"
    and "db_outbox d1 = db_outbox d" and "db_events d1 = db_events d"
proof -
  have one: "q = r" if "q \<in> set (db_jobs d)" "p q" for q
    by (rule same_id_same_row [OF assms(1) that(1) r(1) p [OF that(2)]])
  then have iff: "p q \<longleftrightarrow> q = r" if "q \<in> set (db_jobs d)" for q using that r(2) by blast
  have "distinct (db_jobs d)" using assms(1) by (simp add: distinct_map)
  then have "filter p (db_jobs d) = [r]" using r(1) iff by (rule filter_one)
  with u show "n = 1" by (auto simp: update_jobs_def rows_matching_def)
  from u have "db_jobs d1 = map (\<lambda>q. if p q then f q else q) (db_jobs d)"
    by (auto simp: update_jobs_def update_rows_def)
  also have "\<dots> = map (\<lambda>q. if q = r then f r else q) (db_jobs d)"
  proof (rule map_cong [OF refl])
    fix q assume "q \<in> set (db_jobs d)"
    from iff [OF this] show "(if p q then f q else q) = (if q = r then f r else q)"
      by (cases "q = r") simp_all
  qed
  finally show "db_jobs d1 = map (\<lambda>q. if q = r then f r else q) (db_jobs d)" .
  from u show "db_outbox d1 = db_outbox d" "db_events d1 = db_events d"
    by (auto simp: update_jobs_def)
qed

lemma replaced_ids:
  assumes "jr_id r' = jr_id r" and "distinct (map jr_id rs)"
    and "js = map (\<lambda>q. if q = r then r' else q) rs"
  shows "distinct (map jr_id js)"
proof -
  have "map jr_id js = map jr_id rs" using assms(1,3) by simp
  with assms(2) show ?thesis by simp
qed

lemma event_done:
  assumes "event c now jid rv k d = (Inr u, d1)"
  shows "db_jobs d1 = db_jobs d" and "db_outbox d1 = db_outbox d" and "db_deletions d1 = db_deletions d"
  using event_frame [of c now jid rv k d] assms by simp_all

lemma insert_outbox_done:
  assumes "insert_outbox c uid due now row d = (Inr u, d1)"
  shows "db_jobs d1 = db_jobs d"
    and "\<exists>bs. db_outbox d1 = db_outbox d @ bs \<and> length bs \<le> 1
       \<and> (\<forall>b \<in> set bs. ob_job_id b = jr_id row \<and> ob_state b = Pending)"
  using assms insert_outbox_frame [of c uid due now row d]
  by (auto simp: insert_outbox_def insert_outbox_row_def op_results Let_def row_to_job_def
      rbind_Inr_iff split: if_splits)

subsection \<open>Claiming\<close>

text \<open>
  C14. \<open>claim_next\<close> returns nothing exactly when no Job is queued, and then changes nothing.
  Otherwise it takes a queued Job that no queued Job precedes by creation time, assigns it to the
  caller with the next lease epoch and revision, and leaves every other Job as it was.
\<close>

theorem claim_next_fifo:
  assumes "schema_ok c d" and "claim_next c ck owner secs d = (Inr res, d1)"
  shows "case res of
      None \<Rightarrow> (\<forall>q \<in> set (db_jobs d). jr_phase q \<noteq> Queued) \<and> d1 = d
    | Some j \<Rightarrow>
        \<exists>r \<in> set (db_jobs d). jr_phase r = Queued
          \<and> (\<forall>q \<in> set (db_jobs d). jr_phase q = Queued \<longrightarrow> jr_created_at r \<le> jr_created_at q)
          \<and> (let r' = claimed ck owner secs (jr_revision r + 1) r in
               db_jobs d1 = map (\<lambda>q. if q = r then r' else q) (db_jobs d)
               \<and> row_to_job r' = Inr j \<and> jo_phase j = Assigned
               \<and> jo_lease_owner j = Some owner \<and> jo_lease_epoch j = jr_lease_epoch r + 1)"
proof -
  let ?queue = "filter (\<lambda>r. jr_phase r = Queued) (db_jobs d)"
  from assms(1) have ids: "distinct (map jr_id (db_jobs d))" by (rule schema_ids)
  note tx = transaction_Inr [OF assms(2) [unfolded claim_next_def]]
  show ?thesis
  proof (cases "sort_by jr_created_at ?queue")
    case Nil
    with tx have "res = None \<and> d1 = d" by (auto simp: op_results)
    moreover from Nil have "?queue = []" using length_sort_by [of jr_created_at ?queue] by simp
    ultimately show ?thesis by (auto simp: filter_empty_conv)
  next
    case (Cons r rest)
    then have rq: "r \<in> set ?queue" using set_sort_by [of jr_created_at ?queue] by auto
    have least: "\<forall>q \<in> set ?queue. jr_created_at r \<le> jr_created_at q"
      using hd_sort_by_least [of _ ?queue jr_created_at] Cons by simp
    let ?p = "\<lambda>q. jr_id q = jr_id r \<and> jr_revision q = jr_revision r \<and> jr_phase q = Queued"
    let ?f = "claimed ck owner secs (jr_revision r + 1)"
    obtain n da where u: "update_jobs c ?p ?f d = (Inr n, da)" by (simp add: update_jobs_def)
    have upd: "n = 1" "db_jobs da = map (\<lambda>q. if q = r then ?f r else q) (db_jobs d)"
      using update_one [OF ids _ _ _ u] rq by auto
    with tx Cons u obtain db j where
      ev: "event c (ck_iso ck 1) (jr_id r) (jr_revision r + 1) ''job.assigned'' da = (Inr (), db)"
      and sel: "\<exists>stored. select_job (jr_id r) None db = (Inr stored, d1) \<and> row_to_job stored = Inr j"
      and res: "res = Some j"
      by (auto simp: op_results)
    have idf: "jr_id (?f r) = jr_id r" by (simp add: claimed_def)
    from upd(2) event_done(1) [OF ev] have jobs: "db_jobs db = map (\<lambda>q. if q = r then ?f r else q) (db_jobs d)"
      by simp
    have "distinct (map jr_id (db_jobs db))" by (rule replaced_ids [OF idf ids jobs])
    moreover have "?f r \<in> set (db_jobs db)" using rq jobs by auto
    ultimately have "select_job (jr_id (?f r)) None db = (Inr (?f r), db)" by (rule select_by_id)
    with sel idf have "d1 = db" "row_to_job (?f r) = Inr j" by auto
    moreover from this(2) have "jo_phase j = Assigned \<and> jo_lease_owner j = Some owner
        \<and> jo_lease_epoch j = jr_lease_epoch r + 1"
      by (auto simp: row_to_job_def rbind_Inr_iff claimed_def)
    ultimately show ?thesis using rq least jobs res by (auto simp: Let_def)
  qed
qed

theorem claim_next_fifo_witness:
  "\<exists>j d1. claim_next demo_cfg (demo_clock ''2'' 0) ''o'' 30 (demo_db Queued) = (Inr (Some j), d1)
     \<and> jo_phase j = Assigned \<and> jo_lease_owner j = Some ''o''"
proof -
  have "case fst (claim_next demo_cfg (demo_clock ''2'' 0) ''o'' 30 (demo_db Queued)) of
      Inr (Some _) \<Rightarrow> True | _ \<Rightarrow> False" by code_simp
  then obtain j d1 where
    r: "claim_next demo_cfg (demo_clock ''2'' 0) ''o'' 30 (demo_db Queued) = (Inr (Some j), d1)"
    by (cases "claim_next demo_cfg (demo_clock ''2'' 0) ''o'' 30 (demo_db Queued)")
      (auto split: sum.splits option.splits)
  with claim_next_fifo [OF demo_db_schema r] show ?thesis by (auto simp: Let_def)
qed

subsection \<open>Completion\<close>

lemma owned_row_Inr:
  "owned_row jid a ow d = (Inr row, d1) \<longleftrightarrow> d1 = d \<and> find_job (owns jid a ow) d = Some row"
  by (auto simp: owned_row_def split: option.split)

lemma owned_by_id:
  "distinct (map jr_id (db_jobs d)) \<Longrightarrow> r \<in> set (db_jobs d) \<Longrightarrow> owns jid a ow r \<Longrightarrow>
     owned_row jid a ow d = (Inr r, d)"
  unfolding owned_row_Inr by (intro conjI refl find_by_id) (simp_all add: owns_def)

text \<open>What finishing an active Job writes: its row and at most one callback.\<close>

lemma finish_row_done:
  assumes ids: "distinct (map jr_id (db_jobs d))" and row: "row \<in> set (db_jobs d)" "owns jid a ow row"
    and f: "finish_row c ck jid a ow x row d = (Inr u, d1)"
  obtains row' where "row' = completed (ck_iso ck 0) (jr_revision row + 1) (recorded_outcome row x)
      (jr_conditions_json row @ [ready_condition (jx_phase (recorded_outcome row x))
         (jx_reason (recorded_outcome row x)) (ck_iso ck 0)]) row"
    and "db_jobs d1 = map (\<lambda>q. if q = row then row' else q) (db_jobs d)"
    and "distinct (map jr_id (db_jobs d1))" and "row' \<in> set (db_jobs d1)"
    and "\<exists>bs. db_outbox d1 = db_outbox d @ bs \<and> length bs \<le> 1"
proof -
  let ?x = "recorded_outcome row x"
  let ?g = "completed (ck_iso ck 0) (jr_revision row + 1) ?x (jr_conditions_json row
      @ [ready_condition (jx_phase ?x) (jx_reason ?x) (ck_iso ck 0)])"
  obtain n da where u: "update_jobs c (owns jid a ow) ?g d = (Inr n, da)"
    by (simp add: update_jobs_def)
  have upd: "db_jobs da = map (\<lambda>q. if q = row then ?g row else q) (db_jobs d)"
    "db_outbox da = db_outbox d"
    using update_one [OF ids row _ u] row by (auto simp: owns_def)
  from f u obtain db stored where
    ev: "event c (ck_iso ck 1) jid (jr_revision row + 1) (''job.'' @ phase_value (jx_phase ?x)) da
       = (Inr (), db)"
    and ins: "insert_outbox c (ck_uuid ck 0) (ck_time ck 0) (ck_iso ck 2) stored db = (Inr u, d1)"
    by (auto simp: finish_row_def Let_def op_results select_job_Inr)
  have jobs: "db_jobs d1 = map (\<lambda>q. if q = row then ?g row else q) (db_jobs d)"
    using upd event_done(1) [OF ev] insert_outbox_done(1) [OF ins] by simp
  have idg: "jr_id (?g row) = jr_id row" by (simp add: completed_def)
  have "distinct (map jr_id (db_jobs d1))" by (rule replaced_ids [OF idg ids jobs])
  moreover have "?g row \<in> set (db_jobs d1)" using row jobs by auto
  moreover have "\<exists>bs. db_outbox d1 = db_outbox d @ bs \<and> length bs \<le> 1"
    using upd event_done(2) [OF ev] insert_outbox_done(2) [OF ins] by auto
  ultimately show thesis using jobs by (intro that [OF refl])
qed

text \<open>Whatever state \<open>finish\<close> returns from, the attempt's row is terminal and is the result.\<close>

lemma finish_done:
  assumes ids: "distinct (map jr_id (db_jobs d))" and f: "finish c ck jid a ow x d = (Inr j, d1)"
  obtains row row' where "row \<in> set (db_jobs d)" "owns jid a ow row"
    and "row' \<in> set (db_jobs d1)" "owns jid a ow row'" "terminal (jr_phase row')"
    and "row_to_job row' = Inr j" and "distinct (map jr_id (db_jobs d1))"
    and "terminal (jr_phase row) \<Longrightarrow> d1 = d \<and> row' = row"
    and "\<not> terminal (jr_phase row) \<Longrightarrow> leased (jr_phase row)
      \<and> jr_phase row' = jx_phase (recorded_outcome row x)
      \<and> jr_reason row' = Some (jx_reason (recorded_outcome row x))"
    and "\<exists>bs. db_outbox d1 = db_outbox d @ bs \<and> length bs \<le> 1"
proof -
  from f have tx: "terminal (jx_phase x)" by (auto simp: finish_def sraise_def split: if_splits)
  let ?body = "sbind (owned_row jid a ow) (\<lambda>row.
           if terminal (jr_phase row)
           then sbind (stry (row_to_job row)) (\<lambda>j. sret (Some j))
           else if \<not> leased (jr_phase row)
           then sraise (StoreError ''attempt is not in a finishable phase'')
           else sbind (finish_row c ck jid a ow x row) (\<lambda>_. sret None))"
  from f tx obtain early da where t: "transaction c ?body d = (Inr early, da)"
    and g: "(case early of Some j \<Rightarrow> sret j | None \<Rightarrow> store_get jid None) da = (Inr j, d1)"
    by (auto simp: finish_def op_results)
  from transaction_Inr [OF t] obtain row where own: "find_job (owns jid a ow) d = Some row"
    and body: "(if terminal (jr_phase row)
           then sbind (stry (row_to_job row)) (\<lambda>j. sret (Some j))
           else if \<not> leased (jr_phase row)
           then sraise (StoreError ''attempt is not in a finishable phase'')
           else sbind (finish_row c ck jid a ow x row) (\<lambda>_. sret None)) d = (Inr early, da)"
    by (auto simp: sbind_Inr owned_row_Inr)
  from find_job_Some [OF own] have row: "row \<in> set (db_jobs d)" "owns jid a ow row" by simp_all
  show thesis
  proof (cases "terminal (jr_phase row)")
    case True
    with body obtain j' where "early = Some j'" "da = d" "row_to_job row = Inr j'"
      by (auto simp: op_results)
    with g have "row_to_job row = Inr j" "d1 = d" by (auto simp: sret_def)
    with True row ids show thesis by (intro that [of row row]) auto
  next
    case False
    with body have leased: "leased (jr_phase row)" by (auto split: if_splits)
    with False body obtain u where fr: "finish_row c ck jid a ow x row d = (Inr u, da)"
      and early: "early = None" by (auto simp: op_results)
    from finish_row_done [OF ids row fr] obtain row' where
      r': "row' = completed (ck_iso ck 0) (jr_revision row + 1) (recorded_outcome row x)
        (jr_conditions_json row @ [ready_condition (jx_phase (recorded_outcome row x))
         (jx_reason (recorded_outcome row x)) (ck_iso ck 0)]) row"
      and ids': "distinct (map jr_id (db_jobs da))" and in': "row' \<in> set (db_jobs da)"
      and bs: "\<exists>bs. db_outbox da = db_outbox d @ bs \<and> length bs \<le> 1" by blast
    from r' row have jid: "jr_id row' = jid" and own': "owns jid a ow row'"
      by (simp_all add: completed_def owns_def)
    from select_by_id [OF ids' in'] jid have "select_job jid None da = (Inr row', da)" by simp
    with g early have "d1 = da" "row_to_job row' = Inr j"
      by (auto simp: store_get_def op_results)
    moreover from r' have "jr_phase row' = jx_phase (recorded_outcome row x)"
      "jr_reason row' = Some (jx_reason (recorded_outcome row x))" by (simp_all add: completed_def)
    moreover from this(1) tx have "terminal (jr_phase row')" by (simp add: recorded_outcome_def)
    ultimately show thesis
      using False row in' own' ids' leased bs by (intro that [of row row']) auto
  qed
qed

text \<open>A finish of an attempt whose row is terminal reads it back and changes nothing.\<close>

lemma finish_again:
  assumes "distinct (map jr_id (db_jobs d))" and "row \<in> set (db_jobs d)" "owns jid a ow row"
    and "terminal (jr_phase row)" "row_to_job row = Inr j" "terminal (jx_phase x)"
  shows "finish c ck jid a ow x d = (Inr j, d)"
  using owned_by_id [OF assms(1-3)] assms(4-6)
  by (simp add: finish_def sbind_def transaction_def stry_def sret_def)

lemma finish_stale:
  assumes "jid \<notin> jr_id ` set (db_jobs d)" and "terminal (jx_phase x)"
  shows "finish c ck jid a ow x d = (Inl (StoreError ''stale or invalid attempt ownership''), d)"
proof -
  have "find_job (owns jid a ow) d = None" using assms(1) by (auto simp: find_job_None owns_def)
  with assms(2) show ?thesis
    by (simp add: finish_def owned_row_def sbind_def transaction_def)
qed

text \<open>
  C3. When \<open>finish\<close> returns, the Job is terminal and at most one callback was recorded. From
  then on, after any operations \<open>ops\<close> of the store (other finishes, cancel requests, recoveries,
  lease renewals, deliveries, pruning, other Jobs' operations), every further \<open>finish\<close> of the
  attempt, with whatever terminal outcome and clock, changes nothing: it returns the Job as it was
  recorded, or is refused as stale once the Job has been pruned. The one exception is an
  operation that reports this very Job as running again (see \<open>mark_running_unguarded\<close>).
\<close>

theorem finish_records_once:
  assumes "schema_ok c d" and "finish c ck jid a ow x d = (Inr j, d1)" and "terminal (jx_phase x')"
    and ops: "\<forall>op \<in> set ops. leaves_final jid op"
  shows "jo_id j = jid \<and> terminal (jo_phase j)
    \<and> length (db_outbox d1) \<le> Suc (length (db_outbox d))
    \<and> (let d2 = run_ops c ops d1 in
         finish c ck' jid a ow x' d2 =
           (if jid \<in> job_ids d2 then Inr j
            else Inl (StoreError ''stale or invalid attempt ownership''), d2))"
proof -
  let ?d2 = "run_ops c ops d1"
  have schema1: "schema_ok c d1"
    using preservesD [OF schema.pres_finish assms(1), of ck jid a ow x] assms(2) by simp
  from finish_done [OF schema_ids [OF assms(1)] assms(2)] obtain row' where
    r': "row' \<in> set (db_jobs d1)" "owns jid a ow row'" "terminal (jr_phase row')"
    and j: "row_to_job row' = Inr j" and ids: "distinct (map jr_id (db_jobs d1))"
    and bs: "\<exists>bs. db_outbox d1 = db_outbox d @ bs \<and> length bs \<le> 1" by metis
  have "row_settled jid row' d1"
    unfolding row_settled_def
    using r'(3) same_id_same_row [OF ids _ r'(1)] r'(2) by (simp add: owns_def)
  from settled_run_ops [OF schema1 this ops]
  have fixed: "\<forall>r \<in> set (db_jobs ?d2). jr_id r = jid \<longrightarrow> r = row'" by (simp add: row_settled_def)
  have "schema_ok c ?d2"
    by (rule schema.inv_run_ops [OF schema1]) (rule op_ok_trivial)
  then have ids2: "distinct (map jr_id (db_jobs ?d2))" by (rule schema_ids)
  have "finish c ck' jid a ow x' ?d2 =
      (if jid \<in> job_ids ?d2 then Inr j
       else Inl (StoreError ''stale or invalid attempt ownership''), ?d2)"
  proof (cases "jid \<in> job_ids ?d2")
    case True
    with fixed have "row' \<in> set (db_jobs ?d2)" by (auto simp: job_ids_def)
    from finish_again [OF ids2 this r'(2,3) j assms(3)] True show ?thesis by simp
  next
    case False
    then show ?thesis using finish_stale [OF _ assms(3)] by (simp add: job_ids_def)
  qed
  moreover from j r' have "jo_id j = jid \<and> terminal (jo_phase j)"
    by (auto simp: row_to_job_def rbind_Inr_iff owns_def)
  ultimately show ?thesis using bs by (auto simp: Let_def)
qed

text \<open>
  The witness runs a cancel request, a lease renewal, a recovery and a first repeated finish
  between the two finishes.
\<close>

theorem finish_records_once_witness:
  "\<exists>j d1. finish demo_cfg (demo_clock ''5'' 0) ''job_1'' ''a'' ''o'' demo_outcome (demo_db Running) = (Inr j, d1)
     \<and> terminal (jo_phase j)
     \<and> (let d2 = run_ops demo_cfg
             [OpCancel (demo_clock ''6'' 1) ''job_1'' None,
              OpRenew (demo_clock ''7'' 2) ''job_1'' ''a'' ''o'' 30,
              OpRecoverInterrupted (demo_clock ''8'' 3),
              OpFinish (demo_clock ''9'' 4) ''job_1'' ''a'' ''o'' demo_outcome] d1 in
         finish demo_cfg (demo_clock ''10'' 5) ''job_1'' ''a'' ''o'' (demo_outcome\<lparr>jx_phase := Failed\<rparr>) d2
           = (if ''job_1'' \<in> job_ids d2 then Inr j
              else Inl (StoreError ''stale or invalid attempt ownership''), d2))"
proof -
  let ?ops = "[OpCancel (demo_clock ''6'' 1) ''job_1'' None,
      OpRenew (demo_clock ''7'' 2) ''job_1'' ''a'' ''o'' 30,
      OpRecoverInterrupted (demo_clock ''8'' 3),
      OpFinish (demo_clock ''9'' 4) ''job_1'' ''a'' ''o'' demo_outcome]"
  have "is_ok (fst (finish demo_cfg (demo_clock ''5'' 0) ''job_1'' ''a'' ''o'' demo_outcome (demo_db Running)))"
    by code_simp
  then obtain j d1 where
    r: "finish demo_cfg (demo_clock ''5'' 0) ''job_1'' ''a'' ''o'' demo_outcome (demo_db Running) = (Inr j, d1)"
    using op_returns by blast
  have "\<forall>op \<in> set ?ops. leaves_final ''job_1'' op" and t: "terminal (jx_phase (demo_outcome\<lparr>jx_phase := Failed\<rparr>))"
    by (simp_all add: leaves_final_def)
  from finish_records_once [OF demo_db_schema r t this(1)] r show ?thesis by blast
qed

subsection \<open>Cancellation\<close>

lemma cancel_desired_requested:
  assumes "distinct (map fst (jr_spec_json row))"
  shows "cancel_desired (cancel_requested ck row r)"
  using assms
  by (simp add: cancel_desired_def cancel_requested_def Let_def dget_def map_of_sorted_document
      distinct_dict_set map_of_dict_set)

lemma cancel_done:
  assumes ids: "distinct (map jr_id (db_jobs d))"
    and docs: "\<forall>r \<in> set (db_jobs d). distinct (map fst (jr_spec_json r))"
    and f: "request_cancel c ck jid tn d = (Inr j, d1)"
  obtains row' where "row' \<in> set (db_jobs d1)" "jr_id row' = jid" "row_to_job row' = Inr j"
    and "distinct (map jr_id (db_jobs d1))" and "terminal (jr_phase row') \<or> cancel_desired row'"
proof -
  from f obtain early da where t: "transaction c (sbind (select_job jid tn) (cancel_row c ck jid)) d
      = (Inr early, da)"
    and g: "(case early of Some j \<Rightarrow> sret j | None \<Rightarrow> store_get jid None) da = (Inr j, d1)"
    by (auto simp: request_cancel_def op_results)
  from transaction_Inr [OF t] obtain row where
    sel: "find_job (\<lambda>r. jr_id r = jid \<and> (case tn of None \<Rightarrow> True | Some u \<Rightarrow> jr_tenant_id r = u)) d = Some row"
    and body: "cancel_row c ck jid row d = (Inr early, da)"
    by (auto simp: sbind_Inr select_job_Inr)
  from find_job_Some [OF sel] have row: "row \<in> set (db_jobs d)" "jr_id row = jid" by simp_all
  show thesis
  proof (cases "terminal (jr_phase row) \<or> cancel_desired row")
    case True
    with body obtain j' where "early = Some j'" "da = d" "row_to_job row = Inr j'"
      by (auto simp: cancel_row_def op_results)
    with g have "row_to_job row = Inr j" "d1 = d" by (auto simp: sret_def)
    with True row ids show thesis by (intro that [of row]) auto
  next
    case False
    let ?p = "\<lambda>r. jr_id r = jid \<and> jr_revision r = jr_revision row"
    let ?g = "cancel_requested ck row"
    obtain n du where u: "update_jobs c ?p ?g d = (Inr n, du)" by (simp add: update_jobs_def)
    have upd: "db_jobs du = map (\<lambda>q. if q = row then ?g row else q) (db_jobs d)"
      using update_one(2) [OF ids row(1) _ _ u] row(2) by auto
    from False body u obtain de stored where early: "early = None"
      and ev: "event c (ck_iso ck 1) jid (jr_revision row + 1) ''job.cancel_requested'' du = (Inr (), de)"
      and ins: "\<exists>v. (if jr_phase row = Queued
               then insert_outbox c (ck_uuid ck 0) (ck_time ck 0) (ck_iso ck 2) stored
               else sret ()) de = (Inr v, da)"
      by (auto simp: cancel_row_def op_results select_job_Inr)
    from ins have "db_jobs da = db_jobs de"
      using insert_outbox_done(1) by (auto simp: sret_def split: if_splits)
    with event_done(1) [OF ev] upd have jobs: "db_jobs da = map (\<lambda>q. if q = row then ?g row else q) (db_jobs d)"
      by simp
    have idg: "jr_id (?g row) = jr_id row" by (simp add: cancel_requested_def Let_def)
    have ids': "distinct (map jr_id (db_jobs da))" by (rule replaced_ids [OF idg ids jobs])
    have in': "?g row \<in> set (db_jobs da)" using row jobs by auto
    from select_by_id [OF ids' in'] idg row have "select_job jid None da = (Inr (?g row), da)" by simp
    with g early have "d1 = da" "row_to_job (?g row) = Inr j"
      by (auto simp: store_get_def op_results)
    moreover from docs row have "distinct (map fst (jr_spec_json row))" by simp
    then have "cancel_desired (?g row)" by (rule cancel_desired_requested)
    ultimately show thesis using ids' in' idg row by (intro that [of "?g row"]) auto
  qed
qed

text \<open>
  C5. Cancellation wins (stored documents are JSON objects, so their keys are distinct): once \<open>request_cancel\<close> has returned for a Job, the Job either is already
  terminal or will be recorded as canceled whatever terminal outcome its executor reports.
\<close>

theorem cancel_wins:
  assumes "schema_ok c d" and docs: "\<forall>r \<in> set (db_jobs d). distinct (map fst (jr_spec_json r))"
    and "request_cancel c ck jid tn d = (Inr j, d1)"
    and "finish c ck' jid a ow x d1 = (Inr j2, d2)"
  shows "terminal (jo_phase j) \<and> j2 = j \<and> d2 = d1
    \<or> jo_phase j2 = Canceled \<and> jo_reason j2 = Some ''cancelled''"
proof -
  from cancel_done [OF schema_ids [OF assms(1)] docs assms(3)] obtain row where
    row: "row \<in> set (db_jobs d1)" "jr_id row = jid" and j: "row_to_job row = Inr j"
    and ids: "distinct (map jr_id (db_jobs d1))" and t: "terminal (jr_phase row) \<or> cancel_desired row" .
  from finish_done [OF ids assms(4)] obtain r r' where
    r: "r \<in> set (db_jobs d1)" "owns jid a ow r" and j2: "row_to_job r' = Inr j2"
    and done1: "terminal (jr_phase r) \<Longrightarrow> d2 = d1 \<and> r' = r"
    and done2: "\<not> terminal (jr_phase r) \<Longrightarrow> jr_phase r' = jx_phase (recorded_outcome r x)
      \<and> jr_reason r' = Some (jx_reason (recorded_outcome r x))" by metis
  have "r = row" by (rule same_id_same_row [OF ids r(1) row(1)]) (use r(2) row(2) in \<open>simp add: owns_def\<close>)
  show ?thesis
  proof (cases "terminal (jr_phase row)")
    case True
    with done1 \<open>r = row\<close> j j2 show ?thesis by (auto simp: row_to_job_def rbind_Inr_iff)
  next
    case False
    with t done2 \<open>r = row\<close> j2 show ?thesis
      by (auto simp: row_to_job_def rbind_Inr_iff recorded_outcome_def)
  qed
qed

lemma docs_ok_distinct: "docs_ok d \<Longrightarrow> \<forall>r \<in> set (db_jobs d). distinct (map fst (jr_spec_json r))"
  by (auto simp: docs_ok_def readable_def document_of_def)

theorem cancel_wins_witness:
  "\<exists>j d1 j2 d2. request_cancel demo_cfg (demo_clock ''4'' 1) ''job_1'' None (demo_db Running) = (Inr j, d1)
     \<and> finish demo_cfg (demo_clock ''5'' 2) ''job_1'' ''a'' ''o'' demo_outcome d1 = (Inr j2, d2)
     \<and> (terminal (jo_phase j) \<and> j2 = j \<and> d2 = d1
        \<or> jo_phase j2 = Canceled \<and> jo_reason j2 = Some ''cancelled'')"
proof -
  have docs: "\<forall>r \<in> set (db_jobs (demo_db Running)). distinct (map fst (jr_spec_json r))"
    by (simp add: demo_db_def demo_row_def)
  have "is_ok (fst (request_cancel demo_cfg (demo_clock ''4'' 1) ''job_1'' None (demo_db Running)))"
    by code_simp
  then obtain j d1 where
    r: "request_cancel demo_cfg (demo_clock ''4'' 1) ''job_1'' None (demo_db Running) = (Inr j, d1)"
    using op_returns by blast
  have "is_ok (fst (finish demo_cfg (demo_clock ''5'' 2) ''job_1'' ''a'' ''o'' demo_outcome
      (snd (request_cancel demo_cfg (demo_clock ''4'' 1) ''job_1'' None (demo_db Running)))))"
    by code_simp
  with r obtain j2 d2 where
    f: "finish demo_cfg (demo_clock ''5'' 2) ''job_1'' ''a'' ''o'' demo_outcome d1 = (Inr j2, d2)"
    using op_returns by fastforce
  from r f cancel_wins [OF demo_db_schema docs r f] show ?thesis by blast
qed

end
