(* ===== verification/StoreRecovery.thy ===== *)
theory StoreRecovery
  imports StoreFlow
begin

section \<open>What the Job store promises: recovery, retention, callbacks and finality\<close>

text \<open>
  Recovery after a restart leaves no attempt behind, retention never drops a Job that is not
  finished, expired and delivered, a claimed callback is not handed out again before its lease
  ends, and terminal phases are final for every operation but \<open>mark_running\<close>, whose missing
  phase guard is shown by the example run.
\<close>

subsection \<open>Recovery after a restart\<close>

text \<open>What recovery writes: seven columns of the row, everything else as it was.\<close>

definition recovered_row :: "string \<Rightarrow> job_row \<Rightarrow> job_row \<Rightarrow> bool" where
  "recovered_row lost r r' \<longleftrightarrow> (\<exists>now.
     r' = r\<lparr>jr_phase := (if cancel_desired r then Canceled else Executor_lost),
            jr_observed_generation := jr_generation r, jr_revision := jr_revision r + 1,
            jr_completed_at := Some now, jr_updated_at := now,
            jr_reason := Some (if cancel_desired r then ''cancelled'' else lost),
            jr_lease_expires_at := None\<rparr>)"

lemma recovered_is_row: "recovered_row lost r (recovered now lost r r)"
  by (auto simp: recovered_row_def recovered_def recovered_phase_def)

text \<open>Every callback that was being delivered is due at \<open>t\<close> again; the others are as they were.\<close>

definition redelivered :: "rat \<Rightarrow> outbox_row \<Rightarrow> outbox_row" where
  "redelivered t b =
     (if ob_state b = Delivering
      then b\<lparr>ob_state := Pending, ob_next_attempt_at := t, ob_delivery_attempt_id := None\<rparr> else b)"

text \<open>Callbacks that recovery adds: pending, for recovered Jobs only.\<close>

definition new_callbacks :: "string set \<Rightarrow> nat \<Rightarrow> outbox_row list \<Rightarrow> bool" where
  "new_callbacks ids n bs \<longleftrightarrow>
     length bs \<le> n \<and> (\<forall>b \<in> set bs. ob_state b = Pending \<and> ob_job_id b \<in> ids)"

lemma insert_outbox_tables:
  assumes "insert_outbox c uid due now row d = (Inr u, d1)"
  shows "db_meta d1 = db_meta d \<and> db_deletions d1 = db_deletions d"
  using assms
  by (auto simp: insert_outbox_def insert_outbox_row_def op_results Let_def row_to_job_def
      rbind_Inr_iff split: if_splits)

lemma select_job_id: "select_job i tn d = (Inr r, d1) \<Longrightarrow> jr_id r = i"
  by (auto simp: select_job_Inr dest: find_job_Some)

lemma recover_rows_jobs:
  "recover_rows c ck k rows d = (Inr u, d1) \<Longrightarrow> distinct (map jr_id (db_jobs d)) \<Longrightarrow>
     set rows \<subseteq> set (db_jobs d) \<Longrightarrow> distinct (map jr_id rows) \<Longrightarrow>
     list_all2 (\<lambda>r r'. if r \<in> set rows then recovered_row ''service_restarted'' r r' else r' = r)
       (db_jobs d) (db_jobs d1)
     \<and> (\<exists>bs. db_outbox d1 = db_outbox d @ bs \<and> new_callbacks (jr_id ` set rows) (length rows) bs)
     \<and> db_meta d1 = db_meta d \<and> db_deletions d1 = db_deletions d"
proof (induction rows arbitrary: k d)
  case Nil
  then show ?case by (simp add: sret_def list.rel_refl new_callbacks_def)
next
  case (Cons row rows)
  let ?g = "recovered (ck_iso ck (3 * k)) ''service_restarted'' row"
  obtain n da where u: "update_jobs c (\<lambda>r. jr_id r = jr_id row) ?g d = (Inr n, da)"
    by (simp add: update_jobs_def)
  have row: "row \<in> set (db_jobs d)" using Cons.prems(3) by simp
  note upd = update_one [OF Cons.prems(2) row refl _ u]
  have da: "db_jobs da = map (\<lambda>q. if q = row then ?g row else q) (db_jobs d)"
    "db_outbox da = db_outbox d" "db_meta da = db_meta d \<and> db_deletions da = db_deletions d"
    using upd u by (auto simp: update_jobs_def)
  from Cons.prems(1) u obtain db stored v dc where
    ev: "event c (ck_iso ck (3 * k + 1)) (jr_id row) (jr_revision row + 1)
       (''job.'' @ phase_value (recovered_phase row)) da = (Inr (), db)"
    and st: "jr_id stored = jr_id row"
    and ins: "insert_outbox c (ck_uuid ck k) (ck_time ck (Suc k)) (ck_iso ck (3 * k + 2)) stored db = (Inr v, dc)"
    and rest: "recover_rows c ck (Suc k) rows dc = (Inr u, d1)"
    by (auto simp: op_results select_job_Inr dest: find_job_Some)
  have dc: "db_jobs dc = map (\<lambda>q. if q = row then ?g row else q) (db_jobs d)"
    using da event_done(1) [OF ev] insert_outbox_done(1) [OF ins] by simp
  have idg: "jr_id (?g row) = jr_id row" by (simp add: recovered_def)
  have ids: "distinct (map jr_id (db_jobs dc))" by (rule replaced_ids [OF idg Cons.prems(2) dc])
  have notin: "row \<notin> set rows" "?g row \<notin> set rows"
    using Cons.prems(4) idg by (auto simp: image_iff)
  then have sub: "set rows \<subseteq> set (db_jobs dc)" using Cons.prems(3) dc by (auto simp: image_iff)
  have "distinct (map jr_id rows)" using Cons.prems(4) by simp
  note ih = Cons.IH [OF rest ids sub this]
  have frame: "db_meta dc = db_meta d \<and> db_deletions dc = db_deletions d"
    using da(3) event_frame(3,4) [of c "ck_iso ck (3 * k + 1)" "jr_id row" "jr_revision row + 1"
      "''job.'' @ phase_value (recovered_phase row)" da] ev insert_outbox_tables [OF ins] by simp
  obtain bs where bs: "db_outbox dc = db_outbox d @ bs" "new_callbacks {jr_id row} 1 bs"
    using da(2) event_done(2) [OF ev] insert_outbox_done(2) [OF ins] st
    by (auto simp: new_callbacks_def)
  from ih obtain bs' where bs': "db_outbox d1 = db_outbox dc @ bs'"
    "new_callbacks (jr_id ` set rows) (length rows) bs'" by blast
  from bs bs' have "\<exists>b. db_outbox d1 = db_outbox d @ b
      \<and> new_callbacks (jr_id ` set (row # rows)) (length (row # rows)) b"
    by (intro exI [of _ "bs @ bs'"]) (auto simp: new_callbacks_def)
  moreover have "list_all2 (\<lambda>r r'. if r \<in> set (row # rows)
      then recovered_row ''service_restarted'' r r' else r' = r) (db_jobs d) (db_jobs d1)"
  proof -
    from ih have "list_all2 (\<lambda>r r'. if (if r = row then ?g row else r) \<in> set rows
        then recovered_row ''service_restarted'' (if r = row then ?g row else r) r'
        else r' = (if r = row then ?g row else r)) (db_jobs d) (db_jobs d1)"
      by (simp add: dc list_all2_map1)
    then show ?thesis
    proof (rule list_all2_mono)
      fix r r' assume "if (if r = row then ?g row else r) \<in> set rows
        then recovered_row ''service_restarted'' (if r = row then ?g row else r) r'
        else r' = (if r = row then ?g row else r)"
      then show "if r \<in> set (row # rows) then recovered_row ''service_restarted'' r r' else r' = r"
        using notin recovered_is_row [of _ row] by (auto split: if_splits)
    qed
  qed
  ultimately show ?case using ih frame by simp
qed

text \<open>
  C15. After \<open>recover_interrupted\<close> no Job is assigned or running and no callback is being
  delivered. Every Job that was assigned or running is terminal, canceled if that was its desired
  state and lost otherwise, and differs from its old row in the seven columns of
  \<open>recovered_row\<close> only; every other Job is as it was. Exactly the callbacks that were being
  delivered are pending again, due at once and without a delivery identifier; every other callback
  keeps its state (pending, delivered or dead) and all its columns, and the callbacks added at the
  end are pending ones of recovered Jobs, at most one for each. Metadata and scheduled deletions do
  not change, and the result is the number of Jobs recovered.
\<close>

theorem recover_interrupted_complete:
  assumes "schema_ok c d" and "recover_interrupted c ck d = (Inr n, d1)"
  shows "(\<forall>r \<in> set (db_jobs d1). \<not> leased (jr_phase r))
    \<and> (\<forall>b \<in> set (db_outbox d1). ob_state b \<noteq> Delivering)
    \<and> list_all2 (\<lambda>r r'. if leased (jr_phase r)
         then recovered_row ''service_restarted'' r r' else r' = r) (db_jobs d) (db_jobs d1)
    \<and> (\<exists>bs. db_outbox d1 = map (redelivered (ck_time ck 0)) (db_outbox d) @ bs
         \<and> new_callbacks (jr_id ` set (filter (\<lambda>r. leased (jr_phase r)) (db_jobs d))) n bs)
    \<and> db_meta d1 = db_meta d \<and> db_deletions d1 = db_deletions d
    \<and> n = length (filter (\<lambda>r. leased (jr_phase r)) (db_jobs d))"
proof -
  let ?rows = "filter (\<lambda>r. leased (jr_phase r)) (db_jobs d)"
  from assms(1) have ids: "distinct (map jr_id (db_jobs d))" by (rule schema_ids)
  let ?p = "\<lambda>b. ob_state b = Delivering"
  let ?f = "\<lambda>b. b\<lparr>ob_state := Pending, ob_next_attempt_at := ck_time ck 0,
    ob_delivery_attempt_id := None\<rparr>"
  obtain m da where u: "update_outbox c ?p ?f d = (Inr m, da)" by (simp add: update_outbox_def)
  then have da: "db_jobs da = db_jobs d" "db_outbox da = map (redelivered (ck_time ck 0)) (db_outbox d)"
    "db_meta da = db_meta d \<and> db_deletions da = db_deletions d"
    by (auto simp: update_outbox_def update_rows_def redelivered_def)
  with transaction_Inr [OF assms(2) [unfolded recover_interrupted_def]] u obtain v where
    r: "recover_rows c ck 0 ?rows da = (Inr v, d1)" and n: "n = length ?rows"
    by (auto simp: op_results)
  have "list_all2 (\<lambda>r r'. if r \<in> set ?rows then recovered_row ''service_restarted'' r r' else r' = r)
       (db_jobs da) (db_jobs d1)
     \<and> (\<exists>bs. db_outbox d1 = db_outbox da @ bs \<and> new_callbacks (jr_id ` set ?rows) (length ?rows) bs)
     \<and> db_meta d1 = db_meta da \<and> db_deletions d1 = db_deletions da"
    by (rule recover_rows_jobs [OF r]) (use ids da in \<open>auto simp: distinct_map_filter\<close>)
  then have rel: "list_all2 (\<lambda>r r'. if r \<in> set ?rows then recovered_row ''service_restarted'' r r' else r' = r)
       (db_jobs d) (db_jobs d1)"
    and bs: "\<exists>bs. db_outbox d1 = map (redelivered (ck_time ck 0)) (db_outbox d) @ bs
       \<and> new_callbacks (jr_id ` set ?rows) n bs"
    and frame: "db_meta d1 = db_meta d \<and> db_deletions d1 = db_deletions d"
    using da n by auto
  have spec: "list_all2 (\<lambda>r r'. if leased (jr_phase r)
         then recovered_row ''service_restarted'' r r' else r' = r) (db_jobs d) (db_jobs d1)"
    using rel by (rule list.rel_mono_strong) auto
  have "\<not> leased (jr_phase r')" if "r' \<in> set (db_jobs d1)" for r'
  proof -
    from that spec obtain r where "if leased (jr_phase r)
         then recovered_row ''service_restarted'' r r' else r' = r"
      by (auto simp: in_set_conv_nth list_all2_conv_all_nth)
    then show ?thesis by (auto simp: leased_def recovered_row_def split: if_splits)
  qed
  moreover from bs have "\<forall>b \<in> set (db_outbox d1). ob_state b \<noteq> Delivering"
    by (auto simp: redelivered_def new_callbacks_def)
  ultimately show ?thesis using spec bs frame n by blast
qed

text \<open>A running Job, a callback being delivered, a delivered one and a dead one.\<close>

definition demo_callback :: "string \<Rightarrow> outbox_state \<Rightarrow> outbox_row" where
  "demo_callback uid st =
     \<lparr>ob_event_id = uid, ob_job_id = ''job_1'', ob_endpoint_id = ''hook'', ob_payload_json = [],
      ob_state = st, ob_attempts = 1, ob_next_attempt_at = 7,
      ob_delivery_attempt_id = (if st = Delivering then Some ''d1'' else None),
      ob_last_error = None, ob_created_at = ''2025'', ob_delivered_at = None\<rparr>"

definition demo_delivering :: "job_phase \<Rightarrow> db" where
  "demo_delivering phase = (demo_db phase)\<lparr>db_outbox :=
     [demo_callback ''e1'' Delivering, demo_callback ''e2'' Delivered, demo_callback ''e3'' Dead]\<rparr>"

lemma demo_delivering_schema: "schema_ok demo_cfg (demo_delivering phase)"
  by (simp add: schema_ok_def demo_delivering_def demo_db_def empty_db_def demo_callback_def
      job_ids_def demo_row_def)

theorem recover_interrupted_complete_witness:
  "\<exists>n d1. recover_interrupted demo_cfg (demo_clock ''3'' 0) (demo_delivering Running) = (Inr n, d1)
     \<and> list_all (\<lambda>r. \<not> leased (jr_phase r)) (db_jobs d1) \<and> n = 1
     \<and> map ob_state (take 3 (db_outbox d1)) = [Pending, Delivered, Dead]"
proof -
  have "is_ok (fst (recover_interrupted demo_cfg (demo_clock ''3'' 0) (demo_delivering Running)))"
    by code_simp
  then obtain n d1 where
    r: "recover_interrupted demo_cfg (demo_clock ''3'' 0) (demo_delivering Running) = (Inr n, d1)"
    using op_returns by blast
  have one: "length (filter (\<lambda>r. leased (jr_phase r)) (db_jobs (demo_delivering Running))) = 1" by code_simp
  note all = recover_interrupted_complete [OF demo_delivering_schema r]
  then obtain bs where
    "db_outbox d1 = map (redelivered (ck_time (demo_clock ''3'' 0) 0)) (db_outbox (demo_delivering Running)) @ bs"
    by blast
  then have "map ob_state (take 3 (db_outbox d1)) = [Pending, Delivered, Dead]"
    by (simp add: demo_delivering_def demo_callback_def redelivered_def)
  with r all one show ?thesis by (auto simp: list_all_iff)
qed

subsection \<open>Retention\<close>

definition live :: "outbox_row \<Rightarrow> bool" where
  "live b \<longleftrightarrow> ob_state b \<in> {Pending, Delivering}"

text \<open>Everything a predicate on tables needs to survive pruning.\<close>

lemma prune_preserves:
  assumes del: "\<And>i. preserves P (delete_deletion i)" and ins: "\<And>q. preserves P (insert_deletion q)"
    and jobs: "\<And>i d. P d \<Longrightarrow>
      P (snd (delete_jobs c (\<lambda>q. jr_id q = i \<and> prunable d (ck_before ck (sc_job_ttl_seconds c)) q) d))"
  shows "preserves P (prune_expired c ck)"
proof -
  let ?cutoff = "ck_before ck (sc_job_ttl_seconds c)"
  have fin_rows: "preserves P (finalize_rows c cl rs n)" for cl rs n
    by (induction rs arbitrary: n) (simp_all add: preserves_bind preserves_transaction del)
  then have fin: "preserves P (finalize_output_deletions c)"
    by (auto simp: finalize_output_deletions_def preserves_def split: option.split)
  have rows: "preserves P (prune_rows c ck ?cutoff k rs n)" for k rs n
  proof (induction rs arbitrary: k n)
    case (Cons r rs)
    have "preserves P (sreader (\<lambda>d.
        sbind (delete_jobs c (\<lambda>q. jr_id q = jr_id r \<and> prunable d ?cutoff q)) (\<lambda>m.
        sbind (if m = 0 then delete_deletion (jr_id r) else sret 0) (\<lambda>_.
        prune_rows c ck ?cutoff (Suc k) rs (n + m)))))"
    proof (rule preservesI)
      fix d assume d: "P d"
      obtain m d1 where e: "delete_jobs c (\<lambda>q. jr_id q = jr_id r \<and> prunable d ?cutoff q) d = (Inr m, d1)"
        by (simp add: delete_jobs_def Let_def)
      with jobs [OF d, of "jr_id r"] have "P d1" by simp
      moreover have "preserves P (sbind (if m = 0 then delete_deletion (jr_id r) else sret 0)
          (\<lambda>_. prune_rows c ck ?cutoff (Suc k) rs (n + m)))"
        by (intro preserves_bind preserves_if del preserves_ret Cons.IH)
      ultimately show "P (snd (sreader (\<lambda>d.
        sbind (delete_jobs c (\<lambda>q. jr_id q = jr_id r \<and> prunable d ?cutoff q)) (\<lambda>m.
        sbind (if m = 0 then delete_deletion (jr_id r) else sret 0) (\<lambda>_.
        prune_rows c ck ?cutoff (Suc k) rs (n + m)))) d))"
        using e by (simp add: sreader_def sbind_def preserves_def)
    qed
    then show ?case unfolding prune_rows.simps
      by (intro preserves_if preserves_bind ins preserves_ret Cons.IH)
  qed simp
  show ?thesis unfolding prune_expired_def Let_def by (intro db_rules fin rows)
qed

lemma deletion_frame:
  "db_jobs (snd (delete_deletion i d)) = db_jobs d" "db_jobs (snd (insert_deletion q d)) = db_jobs d"
  "db_outbox (snd (delete_deletion i d)) = db_outbox d"
  "db_outbox (snd (insert_deletion q d)) = db_outbox d"
  by (simp_all add: delete_deletion_def insert_deletion_def Let_def)

lemma prune_only_removes:
  "set (db_jobs (snd (prune_expired c ck d))) \<subseteq> set (db_jobs d)"
proof (rule preservesD [where P = "\<lambda>d'. set (db_jobs d') \<subseteq> set (db_jobs d)"])
  show "preserves (\<lambda>d'. set (db_jobs d') \<subseteq> set (db_jobs d)) (prune_expired c ck)"
    by (rule prune_preserves) (auto simp: preserves_def deletion_frame delete_jobs_def Let_def)
qed simp

lemma prune_keeps_live:
  assumes "live b" and "b \<in> set (db_outbox d)"
  shows "b \<in> set (db_outbox (snd (prune_expired c ck d)))"
    and "r \<in> set (db_jobs d) \<Longrightarrow> jr_id r = ob_job_id b \<Longrightarrow> r \<in> set (db_jobs (snd (prune_expired c ck d)))"
proof -
  have alive: "\<not> prunable d' cutoff q" if "b \<in> set (db_outbox d')" "jr_id q = ob_job_id b" for d' cutoff q
    using that assms(1) by (auto simp: prunable_def has_live_callback_def live_def)
  show "b \<in> set (db_outbox (snd (prune_expired c ck d)))"
  proof (rule preservesD [where P = "\<lambda>d'. b \<in> set (db_outbox d')"])
    show "preserves (\<lambda>d'. b \<in> set (db_outbox d')) (prune_expired c ck)"
      by (rule prune_preserves)
        (use alive in \<open>auto simp: preserves_def deletion_frame delete_jobs_def Let_def\<close>)
  qed (rule assms(2))
  assume r: "r \<in> set (db_jobs d)" "jr_id r = ob_job_id b"
  let ?P = "\<lambda>d'. b \<in> set (db_outbox d') \<and> r \<in> set (db_jobs d')"
  have "?P (snd (prune_expired c ck d))"
  proof (rule preservesD [where P = ?P])
    show "preserves ?P (prune_expired c ck)"
      by (rule prune_preserves)
        (use alive r(2) in \<open>auto simp: preserves_def deletion_frame delete_jobs_def Let_def\<close>)
  qed (use r assms(2) in simp)
  then show "r \<in> set (db_jobs (snd (prune_expired c ck d)))" by simp
qed

lemma prune_keeps_unexpired:
  assumes "r \<in> set (db_jobs d)"
    and "\<not> (terminal (jr_phase r) \<and> completed_before (ck_before ck (sc_job_ttl_seconds c)) r)"
  shows "r \<in> set (db_jobs (snd (prune_expired c ck d)))"
proof (rule preservesD [where P = "\<lambda>d'. r \<in> set (db_jobs d')"])
  show "preserves (\<lambda>d'. r \<in> set (db_jobs d')) (prune_expired c ck)"
    by (rule prune_preserves)
      (use assms(2) in \<open>auto simp: preserves_def deletion_frame delete_jobs_def Let_def prunable_def\<close>)
qed (rule assms(1))

text \<open>
  C17. Pruning only removes: every Job it leaves was there before, unchanged, and a Job it removes
  was terminal, completed before the retention cutoff, and had no callback still to be delivered.
  No pending or delivering callback is ever dropped.
\<close>

theorem prune_removes_only_settled:
  assumes "prune_expired c ck d = (res, d1)"
  shows "set (db_jobs d1) \<subseteq> set (db_jobs d)
    \<and> (\<forall>r \<in> set (db_jobs d) - set (db_jobs d1).
         terminal (jr_phase r) \<and> completed_before (ck_before ck (sc_job_ttl_seconds c)) r
         \<and> \<not> has_live_callback d (jr_id r))
    \<and> (\<forall>b \<in> set (db_outbox d). live b \<longrightarrow> b \<in> set (db_outbox d1))"
proof -
  have d1: "d1 = snd (prune_expired c ck d)" using assms by simp
  have "\<not> has_live_callback d (jr_id r)" if "r \<in> set (db_jobs d)" "r \<notin> set (db_jobs d1)" for r
    using prune_keeps_live(2) [of _ d r c ck] that
    unfolding has_live_callback_def live_def d1 by metis
  then show ?thesis
    using prune_only_removes [of c ck d] prune_keeps_unexpired [of _ d ck c]
      prune_keeps_live(1) [of _ d c ck] d1 by blast
qed

text \<open>A finished Job whose callback was delivered, and one that is finished but was kept too short.\<close>

definition demo_expired :: db where
  "demo_expired = empty_db\<lparr>db_jobs :=
     [(demo_row Succeeded)\<lparr>jr_completed_at := Some ''2024-01-01''\<rparr>,
      (demo_row Failed)\<lparr>jr_id := ''job_2'', jr_idempotency_key := ''k2'',
         jr_completed_at := Some ''2025-01-01''\<rparr>],
     db_outbox := [demo_callback ''e2'' Delivered]\<rparr>"

theorem prune_removes_only_settled_witness:
  "\<exists>res d1. prune_expired demo_cfg (demo_clock ''7'' 9) demo_expired = (res, d1)
     \<and> map jr_id (db_jobs demo_expired) = [''job_1'', ''job_2'']
     \<and> map jr_id (db_jobs d1) = [''job_2'']
     \<and> terminal (jr_phase (hd (db_jobs demo_expired)))
     \<and> \<not> has_live_callback demo_expired ''job_1''"
proof -
  obtain res d1 where r: "prune_expired demo_cfg (demo_clock ''7'' 9) demo_expired = (res, d1)"
    by (cases "prune_expired demo_cfg (demo_clock ''7'' 9) demo_expired")
  have "map jr_id (db_jobs (snd (prune_expired demo_cfg (demo_clock ''7'' 9) demo_expired))) = [''job_2'']"
    by code_simp
  with r have left: "map jr_id (db_jobs d1) = [''job_2'']" by simp
  have rows: "map jr_id (db_jobs demo_expired) = [''job_1'', ''job_2'']" by code_simp
  have "hd (db_jobs demo_expired) \<notin> set (db_jobs d1)"
    and "hd (db_jobs demo_expired) \<in> set (db_jobs demo_expired)"
    and "jr_id (hd (db_jobs demo_expired)) = ''job_1''"
    using left by (auto simp: demo_expired_def demo_row_def map_eq_Cons_conv)
  with prune_removes_only_settled [OF r] r left rows show ?thesis by (metis DiffI)
qed

subsection \<open>Finality of terminal phases\<close>

text \<open>
  C4. A terminal Job keeps its phase along every run of operations (a later \<open>finish\<close>, a cancel
  request, both recoveries, other Jobs' operations), as long as no operation reports this Job as
  running and fresh Jobs get fresh identifiers.
\<close>

theorem terminal_is_final:
  assumes "schema_ok c d" and "terminal t"
    and "\<forall>r \<in> set (db_jobs d). jr_id r = jid \<longrightarrow> jr_phase r = t"
    and ops: "\<forall>op \<in> set ops. leaves_final jid op"
  shows "\<forall>r \<in> set (db_jobs (run_ops c ops d)). jr_id r = jid \<longrightarrow> jr_phase r = t"
proof -
  have "final.op_ok jid t op d'" if "op \<in> set ops" for op d'
    using ops that
    by (auto simp: final.op_ok_def leaves_final_def owns_def keeps_phase_def split: store_op.splits)
  with final.inv_run_ops [of c d jid t ops] assms show ?thesis
    by (auto simp: phase_fixed_def)
qed

theorem terminal_is_final_witness:
  "list_all (\<lambda>r. jr_phase r = Failed) (filter (\<lambda>r. jr_id r = ''job_1'')
     (db_jobs (run_ops demo_cfg
       [OpCancel (demo_clock ''5'' 1) ''job_1'' None, OpRecoverInterrupted (demo_clock ''6'' 2),
        OpFinish (demo_clock ''7'' 3) ''job_1'' ''a'' ''o'' demo_outcome] (demo_db Failed))))"
proof -
  let ?ops = "[OpCancel (demo_clock ''5'' 1) ''job_1'' None, OpRecoverInterrupted (demo_clock ''6'' 2),
        OpFinish (demo_clock ''7'' 3) ''job_1'' ''a'' ''o'' demo_outcome]"
  have "terminal Failed" and "\<forall>op \<in> set ?ops. leaves_final ''job_1'' op"
    and "\<forall>r \<in> set (db_jobs (demo_db Failed)). jr_id r = ''job_1'' \<longrightarrow> jr_phase r = Failed"
    by (simp_all add: leaves_final_def demo_db_def demo_row_def)
  from terminal_is_final [OF demo_db_schema this(1,3,2)] show ?thesis
    by (simp only: list_all_iff set_filter) blast
qed

text \<open>
  C19. \<open>mark_running\<close> does not look at the phase: whenever it returns for an attempt that still
  owns its row, the Job is running afterwards, even if it had been recorded as terminal, and its
  revision has grown.
\<close>

theorem mark_running_unguarded:
  assumes "schema_ok c d" and "r \<in> set (db_jobs d)" and "owns jid a ow r"
    and "mark_running c ck jid a ow d = (Inr j, d1)"
  shows "jo_id j = jid \<and> jo_phase j = Running \<and> jo_revision j = jr_revision r + 1"
proof -
  from assms(1) have ids: "distinct (map jr_id (db_jobs d))" by (rule schema_ids)
  note own = owned_by_id [OF ids assms(2,3)]
  let ?f = "\<lambda>q. q\<lparr>jr_phase := Running, jr_revision := jr_revision r + 1,
             jr_started_at := Some (ck_iso ck 0), jr_updated_at := ck_iso ck 0\<rparr>"
  let ?body = "sbind (owned_row jid a ow) (\<lambda>row.
        sbind (update_jobs c (owns jid a ow)
          (\<lambda>r. r\<lparr>jr_phase := Running, jr_revision := jr_revision row + 1,
                 jr_started_at := Some (ck_iso ck 0), jr_updated_at := ck_iso ck 0\<rparr>)) (\<lambda>_.
        event c (ck_iso ck 1) jid (jr_revision row + 1) ''job.running''))"
  from assms(4) obtain u da where t: "transaction c ?body d = (Inr u, da)"
    and g: "store_get jid None da = (Inr j, d1)"
    by (auto simp: mark_running_def sbind_Inr)
  obtain n du where upd: "update_jobs c (owns jid a ow) ?f d = (Inr n, du)" by (simp add: update_jobs_def)
  note du = update_one [OF ids assms(2,3) _ upd]
  have du2: "db_jobs du = map (\<lambda>q. if q = r then ?f r else q) (db_jobs d)"
    using du(2) assms(3) by (simp add: owns_def)
  from transaction_Inr [OF t] own upd
  have ev: "event c (ck_iso ck 1) jid (jr_revision r + 1) ''job.running'' du = (Inr (), da)"
    by (auto simp: sbind_Inr)
  have jobs: "db_jobs da = map (\<lambda>q. if q = r then ?f r else q) (db_jobs d)"
    using du2 event_done(1) [OF ev] by simp
  have idf: "jr_id (?f r) = jr_id r" by simp
  have "select_job (jr_id (?f r)) None da = (Inr (?f r), da)"
    by (rule select_by_id [OF replaced_ids [OF idf ids jobs]]) (use assms(2) jobs in auto)
  with g assms(3) show ?thesis
    by (auto simp: store_get_def op_results row_to_job_def rbind_Inr_iff owns_def)
qed

text \<open>The run in which a lost Job is resurrected, finished a second time and notified twice.\<close>

lemma lost_job_recorded:
  "map jr_phase (db_jobs (run_ops demo_cfg (take 3 demo_run) empty_db)) = [Executor_lost]"
  by code_simp

lemma lost_job_resurrected:
  "(let d = run_ops demo_cfg demo_run empty_db in (map jr_phase (db_jobs d), length (db_outbox d)))
     = ([Succeeded], 2)"
  by code_simp

theorem mark_running_unguarded_witness:
  "\<exists>j d1. mark_running demo_cfg (demo_clock ''4'' 1) ''job_1'' ''a'' ''o'' (demo_db Executor_lost) = (Inr j, d1)
     \<and> jo_phase j = Running"
proof -
  have "is_ok (fst (mark_running demo_cfg (demo_clock ''4'' 1) ''job_1'' ''a'' ''o'' (demo_db Executor_lost)))"
    by code_simp
  then obtain j d1 where
    r: "mark_running demo_cfg (demo_clock ''4'' 1) ''job_1'' ''a'' ''o'' (demo_db Executor_lost) = (Inr j, d1)"
    using op_returns by blast
  have "demo_row Executor_lost \<in> set (db_jobs (demo_db Executor_lost))"
    and "owns ''job_1'' ''a'' ''o'' (demo_row Executor_lost)"
    by (simp_all add: demo_db_def demo_row_def owns_def)
  from mark_running_unguarded [OF demo_db_schema this r] r show ?thesis by blast
qed

end
