(* ===== verification/StoreOutbox.thy ===== *)
theory StoreOutbox
  imports StoreFlow
begin

section \<open>What the Job store promises: callback delivery leases\<close>

text \<open>
  A claim of due callbacks hands each of them to one delivery attempt: it is marked as delivering
  with the end of its lease, and no later claim made before that end hands it out again. Only the
  attempt that holds a callback can record its outcome.
\<close>

text \<open>The callback of an event is being delivered until \<open>t\<close>.\<close>

definition held :: "string \<Rightarrow> rat \<Rightarrow> db \<Rightarrow> bool" where
  "held ev t d \<longleftrightarrow>
     (\<forall>b \<in> set (db_outbox d). ob_event_id b = ev \<longrightarrow> ob_state b = Delivering \<and> ob_next_attempt_at b = t)"

lemma held_update_outbox:
  assumes "held ev t d" and "update_outbox c p f d = (Inr n, d1)"
    and "\<And>b. p b \<Longrightarrow> ob_event_id (f b) = ob_event_id b"
    and "\<And>b. ob_event_id b = ev \<Longrightarrow> ob_state b = Delivering \<Longrightarrow> ob_next_attempt_at b = t \<Longrightarrow> \<not> p b"
  shows "held ev t d1"
proof -
  from assms(2) have d1: "db_outbox d1 = update_rows p f (db_outbox d)" by (auto simp: update_outbox_def)
  show ?thesis unfolding held_def
  proof (intro ballI impI)
    fix b assume b: "b \<in> set (db_outbox d1)" "ob_event_id b = ev"
    from b(1) d1 in_update_rows [of b p f "db_outbox d"]
    consider a where "a \<in> set (db_outbox d)" "p a" "b = f a" | "b \<in> set (db_outbox d)" by auto
    then show "ob_state b = Delivering \<and> ob_next_attempt_at b = t"
    proof cases
      case 1
      with assms(3) b have "ob_event_id a = ev" by simp
      with 1 assms(1,4) show ?thesis by (auto simp: held_def)
    next
      case 2
      with assms(1) b show ?thesis by (simp add: held_def)
    qed
  qed
qed

abbreviation take_lease :: "rat \<Rightarrow> string \<Rightarrow> outbox_row \<Rightarrow> outbox_row" where
  "take_lease lease_end delivery b \<equiv>
     b\<lparr>ob_state := Delivering, ob_next_attempt_at := lease_end, ob_delivery_attempt_id := Some delivery\<rparr>"

lemma claim_rows_held:
  "claim_rows c ck t k rows d = (Inr recs, d1) \<Longrightarrow> held ev t d \<Longrightarrow> held ev t d1"
proof (induction rows arbitrary: k d recs)
  case Nil
  then show ?case by (simp add: sret_def)
next
  case (Cons bj rows)
  from Cons.prems(1) obtain n da recs' where
    u: "update_outbox c (\<lambda>b. ob_event_id b = ob_event_id (fst bj) \<and> ob_state b = Pending)
        (take_lease t (''delivery_'' @ ck_uuid ck k)) d = (Inr n, da)"
    and r: "claim_rows c ck t (Suc k) rows da = (Inr recs', d1)"
    by (auto simp: Let_def op_results)
  have "held ev t da" by (rule held_update_outbox [OF Cons.prems(2) u]) auto
  with r show ?case by (rule Cons.IH)
qed

lemma claim_rows_takes:
  "claim_rows c ck t k rows d = (Inr recs, d1) \<Longrightarrow> distinct (map ob_event_id (db_outbox d)) \<Longrightarrow>
     rec \<in> set recs \<Longrightarrow> held (or_event_id rec) t d1"
proof (induction rows arbitrary: k d recs)
  case Nil
  then show ?case by (simp add: sret_def)
next
  case (Cons bj rows)
  let ?ev = "ob_event_id (fst bj)"
  let ?p = "\<lambda>b. ob_event_id b = ?ev \<and> ob_state b = Pending"
  let ?f = "take_lease t (''delivery_'' @ ck_uuid ck k)"
  from Cons.prems(1) obtain n da recs' where
    u: "update_outbox c ?p ?f d = (Inr n, da)"
    and r: "claim_rows c ck t (Suc k) rows da = (Inr recs', d1)"
    and recs: "recs = (if n = 1 then to_outbox_record (Some (''delivery_'' @ ck_uuid ck k)) bj # recs' else recs')"
    by (auto simp: Let_def op_results)
  from u have da: "db_outbox da = update_rows ?p ?f (db_outbox d)" and n: "n = rows_matching ?p (db_outbox d)"
    by (auto simp: update_outbox_def)
  have "map ob_event_id (update_rows ?p ?f (db_outbox d)) = map ob_event_id (db_outbox d)"
    by (rule map_update_rows) simp
  with da Cons.prems(2) have ids: "distinct (map ob_event_id (db_outbox da))" by simp
  show ?case
  proof (cases "rec \<in> set recs'")
    case True
    with r ids show ?thesis by (intro Cons.IH)
  next
    case False
    with Cons.prems(3) recs have "n = 1" and rec: "or_event_id rec = ?ev"
      by (auto simp: to_outbox_record_def split: if_splits prod.splits)
    then have "filter ?p (db_outbox d) \<noteq> []" using n by (auto simp: rows_matching_def)
    then obtain b where b: "b \<in> set (db_outbox d)" "?p b" unfolding filter_empty_conv by blast
    have "held ?ev t da" unfolding held_def
    proof (intro ballI impI)
      fix a assume a: "a \<in> set (db_outbox da)" "ob_event_id a = ?ev"
      from a(1) da obtain a0 where a0: "a0 \<in> set (db_outbox d)" "a = (if ?p a0 then ?f a0 else a0)"
        by (auto simp: update_rows_def)
      then have "ob_event_id a0 = ?ev" using a(2) by (auto split: if_splits)
      with b Cons.prems(2) have "ob_event_id a0 = ob_event_id b" "inj_on ob_event_id (set (db_outbox d))"
        by (simp_all add: distinct_map)
      then have "a0 = b" using a0(1) b(1) by (auto dest: inj_onD)
      with a0(2) b(2) show "ob_state a = Delivering \<and> ob_next_attempt_at a = t" by simp
    qed
    with claim_rows_held [OF r] rec show ?thesis by simp
  qed
qed

lemma claim_rows_events:
  "claim_rows c ck t k rows d = (Inr recs, d1) \<Longrightarrow>
     length recs \<le> length rows \<and> or_event_id ` set recs \<subseteq> ob_event_id ` fst ` set rows"
proof (induction rows arbitrary: k d recs)
  case (Cons bj rows)
  from Cons.prems(1) obtain n da recs' where
    u: "update_outbox c (\<lambda>b. ob_event_id b = ob_event_id (fst bj) \<and> ob_state b = Pending)
        (take_lease t (''delivery_'' @ ck_uuid ck k)) d = (Inr n, da)"
    and r: "claim_rows c ck t (Suc k) rows da = (Inr recs', d1)"
    and recs: "recs = (if n = 1 then to_outbox_record (Some (''delivery_'' @ ck_uuid ck k)) bj # recs' else recs')"
    by (auto simp: Let_def op_results)
  have "or_event_id (to_outbox_record del bj) = ob_event_id (fst bj)" for del
    by (simp add: to_outbox_record_def split: prod.split)
  with Cons.IH [OF r] recs show ?case by (cases "n = 1") auto
qed (simp add: sret_def)

lemma due_rows_pending:
  "(b, j) \<in> set (due_rows now n d) \<Longrightarrow> b \<in> set (db_outbox d) \<and> ob_state b = Pending \<and> ob_next_attempt_at b \<le> now"
  using set_take_subset by (fastforce simp: due_rows_def)

lemma claim_outbox_parts:
  assumes "claim_outbox_due c ck limit lease d = (Inr recs, d1)" and "recs \<noteq> []"
  obtains n da where
    "update_outbox c (\<lambda>b. ob_state b = Delivering \<and> ob_next_attempt_at b \<le> ck_time ck 0)
       (\<lambda>b. b\<lparr>ob_state := Pending, ob_delivery_attempt_id := None\<rparr>) d = (Inr n, da)"
    and "claim_rows c ck (ck_time ck 0 + lease) 0 (due_rows (ck_time ck 0) (nat limit) da) da
       = (Inr recs, d1)"
    and "0 < limit"
  using assms
  by (auto simp: claim_outbox_due_def Let_def sret_def op_results split: if_splits
      dest!: transaction_Inr)

text \<open>
  C16. A claim hands out at most \<open>limit\<close> callbacks, and a callback it hands out is not handed out
  again by a second claim made before its lease ends.
\<close>

theorem no_double_delivery:
  assumes "schema_ok c d" and first: "claim_outbox_due c ck limit lease d = (Inr recs, d1)"
    and second: "claim_outbox_due c ck' limit' lease' d1 = (Inr recs', d2)"
    and early: "ck_time ck' 0 < ck_time ck 0 + lease"
  shows "int (length recs) \<le> max 0 limit \<and> or_event_id ` set recs \<inter> or_event_id ` set recs' = {}"
proof (cases "recs = []")
  case False
  obtain n da where
    u: "update_outbox c (\<lambda>b. ob_state b = Delivering \<and> ob_next_attempt_at b \<le> ck_time ck 0)
       (\<lambda>b. b\<lparr>ob_state := Pending, ob_delivery_attempt_id := None\<rparr>) d = (Inr n, da)"
    and r: "claim_rows c ck (ck_time ck 0 + lease) 0 (due_rows (ck_time ck 0) (nat limit) da) da
       = (Inr recs, d1)" and pos: "0 < limit"
    by (rule claim_outbox_parts [OF first False])
  have "map ob_event_id (db_outbox da) = map ob_event_id (db_outbox d)"
    using u by (auto simp: update_outbox_def intro!: map_update_rows)
  with assms(1) have ids: "distinct (map ob_event_id (db_outbox da))" by (simp add: schema_ok_def)
  have "length recs \<le> nat limit"
    using claim_rows_events [OF r] by (auto simp: due_rows_def)
  moreover have "or_event_id rec \<notin> or_event_id ` set recs'" if rec: "rec \<in> set recs" for rec
  proof
    let ?ev = "or_event_id rec" and ?t = "ck_time ck 0 + lease"
    assume again: "?ev \<in> or_event_id ` set recs'"
    then have ne: "recs' \<noteq> []" by auto
    have held1: "held ?ev ?t d1" by (rule claim_rows_takes [OF r ids rec])
    obtain m db where
      u2: "update_outbox c (\<lambda>b. ob_state b = Delivering \<and> ob_next_attempt_at b \<le> ck_time ck' 0)
         (\<lambda>b. b\<lparr>ob_state := Pending, ob_delivery_attempt_id := None\<rparr>) d1 = (Inr m, db)"
      and r2: "claim_rows c ck' (ck_time ck' 0 + lease') 0 (due_rows (ck_time ck' 0) (nat limit') db) db
         = (Inr recs', d2)"
      by (rule claim_outbox_parts [OF second ne])
    have held2: "held ?ev ?t db"
      by (rule held_update_outbox [OF held1 u2]) (use early in auto)
    from again claim_rows_events [OF r2] obtain b j where
      "(b, j) \<in> set (due_rows (ck_time ck' 0) (nat limit') db)" "ob_event_id b = ?ev" by force
    with due_rows_pending held2 show False by (fastforce simp: held_def)
  qed
  ultimately show ?thesis using pos by auto
qed simp

definition demo_outbox :: "outbox_state \<Rightarrow> outbox_row" where
  "demo_outbox st =
     \<lparr>ob_event_id = ''e1'', ob_job_id = ''job_1'', ob_endpoint_id = ''hook'', ob_payload_json = [],
      ob_state = st, ob_attempts = 0, ob_next_attempt_at = 0, ob_delivery_attempt_id = None,
      ob_last_error = None, ob_created_at = ''2025'', ob_delivered_at = None\<rparr>"

theorem no_double_delivery_witness:
  "\<exists>recs d1 recs' d2.
     claim_outbox_due demo_cfg (demo_clock ''1'' 5) 10 30 ((demo_db Failed)\<lparr>db_outbox := [demo_outbox Pending]\<rparr>)
       = (Inr recs, d1)
     \<and> length recs = 1
     \<and> claim_outbox_due demo_cfg (demo_clock ''2'' 34) 10 30 d1 = (Inr recs', d2)
     \<and> or_event_id ` set recs \<inter> or_event_id ` set recs' = {}"
proof -
  let ?d = "(demo_db Failed)\<lparr>db_outbox := [demo_outbox Pending]\<rparr>"
  let ?r1 = "claim_outbox_due demo_cfg (demo_clock ''1'' 5) 10 30 ?d"
  have schema: "schema_ok demo_cfg ?d"
    by (simp add: schema_ok_def demo_db_def empty_db_def demo_outbox_def job_ids_def demo_row_def)
  have "case fst ?r1 of Inr recs \<Rightarrow> length recs = 1 | _ \<Rightarrow> False" by code_simp
  then obtain recs d1 where r1: "?r1 = (Inr recs, d1)" "length recs = 1"
    by (cases ?r1) (auto split: sum.splits)
  have "is_ok (fst (claim_outbox_due demo_cfg (demo_clock ''2'' 34) 10 30 (snd ?r1)))" by code_simp
  with r1 obtain recs' d2 where
    r2: "claim_outbox_due demo_cfg (demo_clock ''2'' 34) 10 30 d1 = (Inr recs', d2)"
    using op_returns by fastforce
  have "ck_time (demo_clock ''2'' 34) 0 < ck_time (demo_clock ''1'' 5) 0 + 30"
    by (simp add: demo_clock_def)
  from no_double_delivery [OF schema r1(1) r2 this] r1 r2 show ?thesis by blast
qed

end
