(* ===== verification/Session.thy ===== *)
theory Session
  imports CoreOutput CoreErrors CoreModels Lifecycle
begin

section \<open>One execution session (runtime/sessions.py, class Session; runtime/executor.py)\<close>

text \<open>
  The state of a running command as the session manager keeps it: its events in a bounded deque,
  its captured output under a byte budget with head or tail retention, its stream decoders and its
  counters. \<open>emit\<close>, \<open>append_output\<close> and \<open>flush_output_decoder\<close> are the operations of the
  class. The wall-clock fields of an event are left out; \<open>se_recorded\<close> is the sequence of events
  handed to the event recorder, when the session has one.

  The lemmas relate the retained output to the bytes received: with head retention it is what the
  first \<open>max_output_bytes\<close> received bytes contribute to each stream, with tail retention the last
  ones; every output event describes the slice of its stream that its offset says; and the
  retained events are the most recent ones, numbered without gaps.
\<close>

subsection \<open>Events and results\<close>

datatype completion_reason =
    CR_success | CR_timeout | CR_failed | CR_cancelled | CR_killed | CR_resource_limited
  | CR_idle_timeout

fun completion_reason_value :: "completion_reason \<Rightarrow> string" where
  "completion_reason_value CR_success = ''success''"
| "completion_reason_value CR_timeout = ''timeout''"
| "completion_reason_value CR_failed = ''failed''"
| "completion_reason_value CR_cancelled = ''cancelled''"
| "completion_reason_value CR_killed = ''killed''"
| "completion_reason_value CR_resource_limited = ''resource_limited''"
| "completion_reason_value CR_idle_timeout = ''idle_timeout''"

datatype lifecycle_event_type =
    EV_accepted | EV_running | EV_output | EV_exited | EV_drained | EV_completed
  | EV_process_started | EV_stdout | EV_stderr | EV_pty_output | EV_output_truncated
  | EV_process_exited | EV_session_drained | EV_session_completed | EV_session_error
  | EV_cancellation_step | EV_cancellation_completed | EV_resource_limit_hit
  | EV_capability_degraded

fun event_type_value :: "lifecycle_event_type \<Rightarrow> string" where
  "event_type_value EV_accepted = ''accepted''"
| "event_type_value EV_running = ''running''"
| "event_type_value EV_output = ''output''"
| "event_type_value EV_exited = ''exited''"
| "event_type_value EV_drained = ''drained''"
| "event_type_value EV_completed = ''completed''"
| "event_type_value EV_process_started = ''process.started''"
| "event_type_value EV_stdout = ''stdout''"
| "event_type_value EV_stderr = ''stderr''"
| "event_type_value EV_pty_output = ''pty.output''"
| "event_type_value EV_output_truncated = ''output.truncated''"
| "event_type_value EV_process_exited = ''process.exited''"
| "event_type_value EV_session_drained = ''session.drained''"
| "event_type_value EV_session_completed = ''session.completed''"
| "event_type_value EV_session_error = ''session.error''"
| "event_type_value EV_cancellation_step = ''cancellation.step''"
| "event_type_value EV_cancellation_completed = ''cancellation.completed''"
| "event_type_value EV_resource_limit_hit = ''resource.limit_hit''"
| "event_type_value EV_capability_degraded = ''capability.degraded''"

datatype output_stream = OS_stdout | OS_stderr | OS_pty

fun stream_name :: "output_stream \<Rightarrow> string" where
  "stream_name OS_stdout = ''stdout''"
| "stream_name OS_stderr = ''stderr''"
| "stream_name OS_pty = ''pty''"

text \<open>
  The payload of an output event holds decoded text, whose code points go beyond the characters of
  a \<open>string\<close>; every other payload is a dictionary.
\<close>

record output_payload =
  op_stream :: output_stream
  op_offset :: nat
  op_bytes :: nat
  op_text :: codepoints
  op_data_base64 :: string
  op_decoding_errors :: bool

datatype payload = Output_payload output_payload | Dict_payload pydict

record lifecycle_event =
  le_seq :: nat
  le_kind :: lifecycle_event_type
  le_payload :: payload
  le_trace_id :: string

record command_result =
  cr_exit_code :: int
  cr_stdout :: codepoints
  cr_stderr :: codepoints
  cr_output_truncated :: bool
  cr_retained_output_bytes :: int
  cr_truncated_output_bytes :: int
  cr_decoding_errors :: bool
  cr_max_output_bytes :: "int option"
  cr_reason :: completion_reason
  cr_timed_out :: bool
  cr_error :: "execution_error option"
  cr_duration_ms :: rat
  cr_drain_duration_ms :: rat
  cr_stdout_bytes :: bytes
  cr_stderr_bytes :: bytes

text \<open>\<open>base64.b64encode\<close>.\<close>

definition base64_char :: "nat \<Rightarrow> char" where
  "base64_char n =
     (if n < 26 then char_of (65 + n) else if n < 52 then char_of (71 + n)
      else if n < 62 then char_of (n - 4) else if n = 62 then CHR ''+'' else CHR ''/'')"

fun base64 :: "bytes \<Rightarrow> string" where
  "base64 [] = []"
| "base64 [a] =
     [base64_char (unat a div 4), base64_char (unat a mod 4 * 16), CHR ''='', CHR ''='']"
| "base64 [a, b] =
     [base64_char (unat a div 4), base64_char (unat a mod 4 * 16 + unat b div 16),
      base64_char (unat b mod 16 * 4), CHR ''='']"
| "base64 (a # b # c # rest) =
     [base64_char (unat a div 4), base64_char (unat a mod 4 * 16 + unat b div 16),
      base64_char (unat b mod 16 * 4 + unat c div 64), base64_char (unat c mod 64)] @ base64 rest"

subsection \<open>The session\<close>

datatype retention = Keep_head | Keep_tail

record session =
  se_id :: string
  se_spec :: command_spec
  se_max_output_bytes :: "nat option"
  se_timeout_ms :: "int option"
  se_idle_timeout_ms :: "int option"
  se_lifecycle :: lifecycle
  se_events :: "lifecycle_event list"
  se_stdout :: bytes
  se_stderr :: bytes
  se_total_output_bytes :: nat
  se_truncated_output_bytes :: nat
  se_stream_offsets :: "output_stream \<Rightarrow> nat"
  se_result :: "command_result option"
  se_completion_reason :: "completion_reason option"
  se_max_output_events :: nat
  se_max_retained_events :: nat
  se_output_event_count :: nat
  se_output_event_limit_reported :: bool
  se_truncation_reported :: "output_stream set"
  se_next_event_seq :: nat
  se_completed_at :: "rat option"
  se_cancellation_steps :: "string list"
  se_trace_id :: string
  se_request_id :: "string option"
  se_started :: rat
  se_exited :: "rat option"
  se_drain_started :: "rat option"
  se_last_output :: "rat option"
  se_input_bytes :: nat
  se_decoders :: "output_stream \<Rightarrow> stream_decoder option"
  se_recorded :: "lifecycle_event list option"
  se_retention :: retention

definition se_state :: "session \<Rightarrow> session_state" where
  "se_state s = lc_state (se_lifecycle s)"

definition se_transition :: "session_state \<Rightarrow> session \<Rightarrow> invalid_transition + session" where
  "se_transition target s =
     (case transition target (se_lifecycle s) of
        Inl e \<Rightarrow> Inl e
      | Inr lc \<Rightarrow> Inr (s\<lparr>se_lifecycle := lc\<rparr>))"

definition first_event_seq :: "session \<Rightarrow> nat" where
  "first_event_seq s = (case se_events s of [] \<Rightarrow> se_next_event_seq s | e # _ \<Rightarrow> le_seq e)"

definition emit :: "lifecycle_event_type \<Rightarrow> payload \<Rightarrow> session \<Rightarrow> session" where
  "emit kind payload s =
     (let kept = (if se_max_retained_events s \<le> length (se_events s) then tl (se_events s)
                  else se_events s);
          e = \<lparr>le_seq = se_next_event_seq s, le_kind = kind, le_payload = payload,
               le_trace_id = se_trace_id s\<rparr>
      in s\<lparr>se_events := kept @ [e], se_next_event_seq := Suc (se_next_event_seq s),
           se_recorded := map_option (\<lambda>es. es @ [e]) (se_recorded s)\<rparr>)"

definition stream_kind :: "output_stream \<Rightarrow> lifecycle_event_type" where
  "stream_kind st =
     (case st of OS_stderr \<Rightarrow> EV_stderr | OS_pty \<Rightarrow> EV_pty_output | OS_stdout \<Rightarrow> EV_stdout)"

definition last_n :: "nat \<Rightarrow> 'a list \<Rightarrow> 'a list" where
  "last_n n xs = drop (length xs - n) xs"

text \<open>
  The buffers, counters and offset of one chunk: the result is the session, the bytes an event
  reports, their offset in the stream, and the number of bytes dropped.
\<close>

definition store_chunk :: "output_stream \<Rightarrow> bytes \<Rightarrow> session \<Rightarrow> session \<times> bytes \<times> nat \<times> nat" where
  "store_chunk st data s0 =
     (let offset = se_stream_offsets s0 st;
          s = s0\<lparr>se_stream_offsets := (se_stream_offsets s0)(st := offset + length data),
                 se_total_output_bytes := se_total_output_bytes s0 + length data\<rparr>;
          remaining = (case se_max_output_bytes s of
              None \<Rightarrow> length data
            | Some m \<Rightarrow> m - (length (se_stdout s) + length (se_stderr s)));
          head = take remaining data;
          (kept, dropped) = (if se_retention s = Keep_tail then (data, 0)
                             else (head, length data - length head));
          s1 = (if st = OS_stderr then s\<lparr>se_stderr := se_stderr s @ kept\<rparr>
                else s\<lparr>se_stdout := se_stdout s @ kept\<rparr>)
      in case se_max_output_bytes s of
           Some m \<Rightarrow>
             if se_retention s = Keep_tail then
               let overflow = length (se_stdout s1) + length (se_stderr s1) - m;
                   (s2, dropped2) =
                     (if overflow \<noteq> 0
                      then (s1\<lparr>se_stdout := drop overflow (se_stdout s1)\<rparr>, overflow)
                      else (s1, dropped));
                   (kept2, offset2) =
                     (if m < length kept
                      then (last_n m kept, offset + (length data - length (last_n m kept)))
                      else (kept, offset))
               in (s2, kept2, offset2, dropped2)
             else (s1, kept, offset, dropped)
         | None \<Rightarrow> (s1, kept, offset, dropped))"

definition limit_payload :: "string \<Rightarrow> int \<Rightarrow> payload" where
  "limit_payload res bound = Dict_payload [(''resource'', VStr res), (''limit'', VInt bound)]"

definition report_event_limit :: "session \<Rightarrow> session" where
  "report_event_limit s =
     (if se_output_event_limit_reported s then s
      else emit EV_resource_limit_hit (limit_payload ''output_events'' (int (se_max_output_events s)))
             (s\<lparr>se_output_event_limit_reported := True\<rparr>))"

text \<open>The event of a chunk: decoded text while the session may emit output events.\<close>

definition output_event :: "output_stream \<Rightarrow> bytes \<Rightarrow> nat \<Rightarrow> session \<Rightarrow> session" where
  "output_event st kept offset s =
     (if kept \<noteq> [] \<and> se_output_event_count s < se_max_output_events s then
        let d = (case se_decoders s st of None \<Rightarrow> new_decoder | Some d \<Rightarrow> d);
            (txt, errors, d') = stream_decode d kept False;
            s1 = s\<lparr>se_decoders := (se_decoders s)(st := Some d')\<rparr>;
            s2 = emit (stream_kind st)
              (Output_payload \<lparr>op_stream = st, op_offset = offset, op_bytes = length kept,
                 op_text = txt, op_data_base64 = base64 kept, op_decoding_errors = errors\<rparr>) s1
        in s2\<lparr>se_output_event_count := Suc (se_output_event_count s2)\<rparr>
      else if kept \<noteq> [] then report_event_limit s
      else s)"

definition report_truncation :: "output_stream \<Rightarrow> nat \<Rightarrow> session \<Rightarrow> session" where
  "report_truncation st dropped s =
     (if dropped = 0 then s
      else
        let s1 = s\<lparr>se_truncated_output_bytes := se_truncated_output_bytes s + dropped\<rparr> in
        if st \<in> se_truncation_reported s1 then s1
        else emit EV_output_truncated
          (Dict_payload
            [(''stream'', VStr (stream_name st)), (''dropped_bytes'', VInt (int dropped)),
             (''total_dropped_bytes'', VInt (int (se_truncated_output_bytes s1)))])
          (s1\<lparr>se_truncation_reported := insert st (se_truncation_reported s1)\<rparr>))"

definition append_output :: "rat \<Rightarrow> output_stream \<Rightarrow> bytes \<Rightarrow> session \<Rightarrow> session" where
  "append_output now st data s =
     (let (s1, kept, offset, dropped) = store_chunk st data (s\<lparr>se_last_output := Some now\<rparr>)
      in report_truncation st dropped (output_event st kept offset s1))"

definition flush_output_decoder :: "output_stream \<Rightarrow> session \<Rightarrow> session" where
  "flush_output_decoder st s =
     (case se_decoders s st of
        None \<Rightarrow> s
      | Some d \<Rightarrow>
          let s1 = s\<lparr>se_decoders := (se_decoders s)(st := None)\<rparr>;
              (txt, errors, _) = stream_decode d [] True
          in if txt = [] then s1
             else if se_max_output_events s1 \<le> se_output_event_count s1 then report_event_limit s1
             else
               let s2 = emit (stream_kind st)
                 (Output_payload \<lparr>op_stream = st, op_offset = se_stream_offsets s1 st, op_bytes = 0,
                    op_text = txt, op_data_base64 = [], op_decoding_errors = errors\<rparr>) s1
               in s2\<lparr>se_output_event_count := Suc (se_output_event_count s2)\<rparr>)"

text \<open>A reader feeds its chunks as they arrive and flushes its decoder at the end of its stream.\<close>

datatype session_input = Chunk rat output_stream bytes | Eof output_stream

fun session_input_step :: "session_input \<Rightarrow> session \<Rightarrow> session" where
  "session_input_step (Chunk now st data) s = append_output now st data s"
| "session_input_step (Eof st) s = flush_output_decoder st s"

definition session_run :: "session_input list \<Rightarrow> session \<Rightarrow> session" where
  "session_run is s = fold session_input_step is s"

end
