(* ===== verification/SessionOutput.thy ===== *)
theory SessionOutput
  imports Session
begin

section \<open>What a session keeps of its output\<close>

text \<open>
  Runs of output chunks and stream ends, related to the bytes the session received: the retained
  output under both policies with its exact accounting, the slices that output events report, and
  the bounds and numbering of the retained events.
\<close>

subsection \<open>Frames\<close>

lemma emit_frame [simp]:
  "se_stdout (emit k p s) = se_stdout s" "se_stderr (emit k p s) = se_stderr s"
  "se_total_output_bytes (emit k p s) = se_total_output_bytes s"
  "se_truncated_output_bytes (emit k p s) = se_truncated_output_bytes s"
  "se_stream_offsets (emit k p s) = se_stream_offsets s"
  "se_max_output_bytes (emit k p s) = se_max_output_bytes s"
  "se_retention (emit k p s) = se_retention s"
  "se_max_output_events (emit k p s) = se_max_output_events s"
  "se_max_retained_events (emit k p s) = se_max_retained_events s"
  "se_output_event_count (emit k p s) = se_output_event_count s"
  "se_truncation_reported (emit k p s) = se_truncation_reported s"
  "se_output_event_limit_reported (emit k p s) = se_output_event_limit_reported s"
  "se_lifecycle (emit k p s) = se_lifecycle s"
  "se_input_bytes (emit k p s) = se_input_bytes s"
  "se_cancellation_steps (emit k p s) = se_cancellation_steps s"
  "se_completion_reason (emit k p s) = se_completion_reason s"
  "se_completed_at (emit k p s) = se_completed_at s"
  "se_result (emit k p s) = se_result s"
  "se_id (emit k p s) = se_id s"
  "se_spec (emit k p s) = se_spec s"
  "se_next_event_seq (emit k p s) = Suc (se_next_event_seq s)"
  by (simp_all add: emit_def Let_def)

lemma report_event_limit_frame [simp]:
  "se_stdout (report_event_limit s) = se_stdout s" "se_stderr (report_event_limit s) = se_stderr s"
  "se_total_output_bytes (report_event_limit s) = se_total_output_bytes s"
  "se_truncated_output_bytes (report_event_limit s) = se_truncated_output_bytes s"
  "se_stream_offsets (report_event_limit s) = se_stream_offsets s"
  "se_max_output_bytes (report_event_limit s) = se_max_output_bytes s"
  "se_retention (report_event_limit s) = se_retention s"
  "se_max_output_events (report_event_limit s) = se_max_output_events s"
  "se_max_retained_events (report_event_limit s) = se_max_retained_events s"
  "se_output_event_count (report_event_limit s) = se_output_event_count s"
  "se_truncation_reported (report_event_limit s) = se_truncation_reported s"
  by (simp_all add: report_event_limit_def)

lemma output_event_frame [simp]:
  "se_stdout (output_event st k off s) = se_stdout s" "se_stderr (output_event st k off s) = se_stderr s"
  "se_total_output_bytes (output_event st k off s) = se_total_output_bytes s"
  "se_truncated_output_bytes (output_event st k off s) = se_truncated_output_bytes s"
  "se_stream_offsets (output_event st k off s) = se_stream_offsets s"
  "se_max_output_bytes (output_event st k off s) = se_max_output_bytes s"
  "se_retention (output_event st k off s) = se_retention s"
  "se_max_output_events (output_event st k off s) = se_max_output_events s"
  "se_max_retained_events (output_event st k off s) = se_max_retained_events s"
  "se_truncation_reported (output_event st k off s) = se_truncation_reported s"
  by (simp_all add: output_event_def Let_def split: prod.split)

lemma report_truncation_frame [simp]:
  "se_stdout (report_truncation st n s) = se_stdout s" "se_stderr (report_truncation st n s) = se_stderr s"
  "se_total_output_bytes (report_truncation st n s) = se_total_output_bytes s"
  "se_truncated_output_bytes (report_truncation st n s) = se_truncated_output_bytes s + n"
  "se_stream_offsets (report_truncation st n s) = se_stream_offsets s"
  "se_max_output_bytes (report_truncation st n s) = se_max_output_bytes s"
  "se_retention (report_truncation st n s) = se_retention s"
  "se_max_output_events (report_truncation st n s) = se_max_output_events s"
  "se_max_retained_events (report_truncation st n s) = se_max_retained_events s"
  "se_output_event_count (report_truncation st n s) = se_output_event_count s"
  by (simp_all add: report_truncation_def Let_def)

lemma flush_frame [simp]:
  "se_stdout (flush_output_decoder st s) = se_stdout s" "se_stderr (flush_output_decoder st s) = se_stderr s"
  "se_total_output_bytes (flush_output_decoder st s) = se_total_output_bytes s"
  "se_truncated_output_bytes (flush_output_decoder st s) = se_truncated_output_bytes s"
  "se_stream_offsets (flush_output_decoder st s) = se_stream_offsets s"
  "se_max_output_bytes (flush_output_decoder st s) = se_max_output_bytes s"
  "se_retention (flush_output_decoder st s) = se_retention s"
  "se_max_output_events (flush_output_decoder st s) = se_max_output_events s"
  "se_max_retained_events (flush_output_decoder st s) = se_max_retained_events s"
  "se_truncation_reported (flush_output_decoder st s) = se_truncation_reported s"
  by (simp_all add: flush_output_decoder_def Let_def split: option.split prod.split)

lemma recorded_frame [simp]:
  "se_recorded (emit k p s) = None \<longleftrightarrow> se_recorded s = None"
  "se_recorded (report_event_limit s) = None \<longleftrightarrow> se_recorded s = None"
  "se_recorded (output_event st kept off s) = None \<longleftrightarrow> se_recorded s = None"
  "se_recorded (report_truncation st n s) = None \<longleftrightarrow> se_recorded s = None"
  "se_recorded (flush_output_decoder st s) = None \<longleftrightarrow> se_recorded s = None"
  by (auto simp: emit_def report_event_limit_def output_event_def report_truncation_def
      flush_output_decoder_def Let_def split: option.split prod.split)

lemma store_chunk_frame:
  assumes "store_chunk st data s = (s1, kept, off, d)"
  shows "se_max_output_bytes s1 = se_max_output_bytes s" "se_recorded s1 = se_recorded s"
    "se_max_retained_events s1 = se_max_retained_events s"
    "se_max_output_events s1 = se_max_output_events s"
    "se_output_event_count s1 = se_output_event_count s" "se_events s1 = se_events s"
    "se_output_event_limit_reported s1 = se_output_event_limit_reported s"
  using assms by (auto simp: store_chunk_def Let_def split: option.splits if_splits)

text \<open>What no operation changes.\<close>

lemma session_step_static:
  "se_max_output_bytes (session_input_step i s) = se_max_output_bytes s"
  "se_max_retained_events (session_input_step i s) = se_max_retained_events s"
  "se_max_output_events (session_input_step i s) = se_max_output_events s"
  "se_recorded (session_input_step i s) = None \<longleftrightarrow> se_recorded s = None"
  by (cases i; auto simp: append_output_def dest: store_chunk_frame split: prod.split)+

lemma session_run_static:
  "se_max_output_bytes (session_run is s) = se_max_output_bytes s"
  "se_max_retained_events (session_run is s) = se_max_retained_events s"
  "se_max_output_events (session_run is s) = se_max_output_events s"
  "se_recorded (session_run is s) = None \<longleftrightarrow> se_recorded s = None"
  by (induction "is" arbitrary: s) (simp_all add: session_run_def session_step_static)

subsection \<open>What was received\<close>

text \<open>Every byte with the stream it came on, in the order of arrival.\<close>

fun received :: "session_input list \<Rightarrow> (output_stream \<times> byte) list" where
  "received [] = []"
| "received (Chunk _ st data # is) = map (Pair st) data @ received is"
| "received (Eof _ # is) = received is"

lemma received_append: "received (a @ b) = received a @ received b"
  by (induction a rule: received.induct) auto

lemma received_Chunk [simp]: "received [Chunk now st data] = map (Pair st) data"
  by simp

definition part :: "(output_stream \<Rightarrow> bool) \<Rightarrow> (output_stream \<times> byte) list \<Rightarrow> bytes" where
  "part p xs = map snd (filter (p \<circ> fst) xs)"

lemma part_append [simp]: "part p (xs @ ys) = part p xs @ part p ys"
  by (simp add: part_def)

lemma part_map_Pair [simp]: "part p (map (Pair st) data) = (if p st then data else [])"
  by (induction data) (auto simp: part_def)

lemma part_Nil [simp]: "part p [] = []"
  by (simp add: part_def)

lemma part_split: "length (part p xs) + length (part (\<lambda>s. \<not> p s) xs) = length xs"
  by (induction xs) (auto simp: part_def)

definition on_stderr :: "output_stream \<Rightarrow> bool" where
  "on_stderr st \<longleftrightarrow> st = OS_stderr"

lemma take_map_Pair: "take n (map (Pair st) data) = map (Pair st) (take n data)"
  by (simp add: take_map)

subsection \<open>Head retention\<close>

definition budgeted :: "nat option \<Rightarrow> 'a list \<Rightarrow> 'a list" where
  "budgeted m xs = (case m of None \<Rightarrow> xs | Some k \<Rightarrow> take k xs)"

definition head_ok :: "(output_stream \<times> byte) list \<Rightarrow> session \<Rightarrow> bool" where
  "head_ok xs s \<longleftrightarrow> se_retention s = Keep_head
     \<and> se_stderr s = part on_stderr (budgeted (se_max_output_bytes s) xs)
     \<and> se_stdout s = part (\<lambda>st. \<not> on_stderr st) (budgeted (se_max_output_bytes s) xs)
     \<and> se_total_output_bytes s = length xs
     \<and> se_total_output_bytes s
         = length (se_stdout s) + length (se_stderr s) + se_truncated_output_bytes s
     \<and> (\<forall>st. se_stream_offsets s st = length (part (\<lambda>t. t = st) xs))"

lemma head_ok_retained:
  "head_ok xs s \<Longrightarrow> length (se_stdout s) + length (se_stderr s) = length (budgeted (se_max_output_bytes s) xs)"
proof -
  assume "head_ok xs s"
  then have "se_stderr s = part on_stderr (budgeted (se_max_output_bytes s) xs)"
    "se_stdout s = part (\<lambda>st. \<not> on_stderr st) (budgeted (se_max_output_bytes s) xs)"
    unfolding head_ok_def by blast+
  then show ?thesis
    using part_split [of on_stderr "budgeted (se_max_output_bytes s) xs"] by presburger
qed

lemma head_ok_append:
  assumes "head_ok xs s"
  shows "head_ok (xs @ map (Pair st) data) (append_output now st data s)"
proof -
  let ?kept = "case se_max_output_bytes s of None \<Rightarrow> data | Some m \<Rightarrow> take (m - length xs) data"
  have b: "budgeted (se_max_output_bytes s) (xs @ map (Pair st) data)
      = budgeted (se_max_output_bytes s) xs @ map (Pair st) ?kept"
    by (simp add: budgeted_def take_map split: option.split)
  have rem: "(case se_max_output_bytes s of None \<Rightarrow> length data
      | Some m \<Rightarrow> m - (length (se_stdout s) + length (se_stderr s)))
      = (case se_max_output_bytes s of None \<Rightarrow> length data | Some m \<Rightarrow> m - length xs)"
    using head_ok_retained [OF assms] by (auto simp: budgeted_def split: option.split)
  have kept: "take (case se_max_output_bytes s of None \<Rightarrow> length data | Some m \<Rightarrow> m - length xs) data = ?kept"
    by (simp split: option.split)
  have keep: "se_retention s = Keep_head" using assms by (simp add: head_ok_def)
  have store: "store_chunk st data (s\<lparr>se_last_output := Some now\<rparr>) =
     ((if st = OS_stderr then (\<lambda>s. s\<lparr>se_stderr := se_stderr s @ ?kept\<rparr>)
       else (\<lambda>s. s\<lparr>se_stdout := se_stdout s @ ?kept\<rparr>))
       (s\<lparr>se_last_output := Some now,
          se_stream_offsets := (se_stream_offsets s)(st := se_stream_offsets s st + length data),
          se_total_output_bytes := se_total_output_bytes s + length data\<rparr>),
      ?kept, se_stream_offsets s st, length data - length ?kept)"
    using keep rem kept by (auto simp: store_chunk_def Let_def split: option.split)
  have le: "length ?kept \<le> length data" by (simp split: option.split)
  have frame: "se_retention (append_output now st data s) = Keep_head"
    "se_max_output_bytes (append_output now st data s) = se_max_output_bytes s"
    "se_stderr (append_output now st data s) = se_stderr s @ (if on_stderr st then ?kept else [])"
    "se_stdout (append_output now st data s) = se_stdout s @ (if on_stderr st then [] else ?kept)"
    "se_total_output_bytes (append_output now st data s) = se_total_output_bytes s + length data"
    "se_truncated_output_bytes (append_output now st data s)
       = se_truncated_output_bytes s + (length data - length ?kept)"
    "se_stream_offsets (append_output now st data s)
       = (se_stream_offsets s)(st := se_stream_offsets s st + length data)"
    unfolding append_output_def store using keep by (auto simp: on_stderr_def)
  define total where "total = length (se_stdout s) + length (se_stderr s) + se_truncated_output_bytes s"
  have t: "se_total_output_bytes s = total" "se_total_output_bytes s = length xs"
    "se_stderr s = part on_stderr (budgeted (se_max_output_bytes s) xs)"
    "se_stdout s = part (\<lambda>st. \<not> on_stderr st) (budgeted (se_max_output_bytes s) xs)"
    "\<And>st. se_stream_offsets s st = length (part (\<lambda>t. t = st) xs)"
    using assms unfolding head_ok_def total_def by blast+
  show ?thesis
    unfolding head_ok_def
  proof (intro conjI)
    show "se_total_output_bytes (append_output now st data s)
      = length (se_stdout (append_output now st data s)) + length (se_stderr (append_output now st data s))
        + se_truncated_output_bytes (append_output now st data s)"
      using t(1) le by (simp add: frame total_def)
  qed (use t(2-5) in \<open>auto simp: frame b\<close>)
qed

lemma head_ok_flush: "head_ok xs s \<Longrightarrow> head_ok xs (flush_output_decoder st s)"
  unfolding head_ok_def flush_frame .

lemma head_ok_run: "head_ok xs s \<Longrightarrow> head_ok (xs @ received is) (session_run is s)"
proof (induction "is" arbitrary: xs s)
  case Nil
  then show ?case by (simp add: session_run_def)
next
  case (Cons i "is")
  have "head_ok (xs @ received [i]) (session_input_step i s)"
    using Cons.prems by (cases i) (simp_all add: head_ok_append head_ok_flush)
  from Cons.IH [OF this] show ?case
    using received_append [of "[i]" "is"] by (simp add: session_run_def)
qed

subsection \<open>Tail retention\<close>

lemma length_last_n [simp]: "length (last_n n xs) = min n (length xs)"
  by (simp add: last_n_def)

lemma last_n_append:
  "drop (length (last_n m xs @ ys) - m) (last_n m xs @ ys) = last_n m (xs @ ys)"
proof -
  have "last_n m xs = drop (length xs - m) xs" by (simp add: last_n_def)
  then show ?thesis
    by (cases "length xs \<le> m") (auto simp: last_n_def min_def add.commute)
qed

text \<open>A tail session has a terminal: all its output arrives on the one merged stream.\<close>

definition tail_ok :: "nat \<Rightarrow> bytes \<Rightarrow> session \<Rightarrow> bool" where
  "tail_ok m bs s \<longleftrightarrow> se_retention s = Keep_tail \<and> se_max_output_bytes s = Some m
     \<and> se_stderr s = [] \<and> se_stdout s = last_n m bs
     \<and> se_total_output_bytes s = length bs
     \<and> se_truncated_output_bytes s = length bs - m
     \<and> se_stream_offsets s OS_pty = length bs"

lemma tail_ok_append:
  assumes "tail_ok m bs s"
  shows "tail_ok m (bs @ data) (append_output now OS_pty data s)"
proof -
  let ?over = "length (last_n m bs @ data) - m"
  have drop_le: "drop ?over (last_n m bs @ data) = last_n m (bs @ data)" by (rule last_n_append)
  have trunc: "length bs - m + ?over = length (bs @ data) - m" by (auto simp: min_def)
  obtain s1 kept off d where
    store: "store_chunk OS_pty data (s\<lparr>se_last_output := Some now\<rparr>) = (s1, kept, off, d)"
    by (cases "store_chunk OS_pty data (s\<lparr>se_last_output := Some now\<rparr>)") auto
  have fields: "se_retention s = Keep_tail" "se_max_output_bytes s = Some m" "se_stderr s = []"
    "se_stdout s = last_n m bs" "se_total_output_bytes s = length bs"
    "se_truncated_output_bytes s = length bs - m" "se_stream_offsets s OS_pty = length bs"
    using assms unfolding tail_ok_def by blast+
  have s1: "se_retention s1 = Keep_tail" "se_max_output_bytes s1 = Some m" "se_stderr s1 = []"
      "se_stdout s1 = last_n m (bs @ data)" "se_total_output_bytes s1 = length bs + length data"
      "se_truncated_output_bytes s1 = length bs - m" "se_stream_offsets s1 OS_pty = length bs + length data"
      "d = ?over"
    using store [symmetric] drop_le
    by (auto simp: store_chunk_def Let_def fields simp del: length_append length_last_n drop_append
        split: if_splits)
  show ?thesis
    unfolding append_output_def store using s1 trunc by (simp add: tail_ok_def)
qed

lemma tail_ok_run:
  "tail_ok m bs s \<Longrightarrow> (\<forall>now st data. Chunk now st data \<in> set is \<longrightarrow> st = OS_pty) \<Longrightarrow>
     tail_ok m (bs @ map snd (received is)) (session_run is s)"
proof (induction "is" arbitrary: bs s)
  case Nil
  then show ?case by (simp add: session_run_def)
next
  case (Cons i "is")
  have "tail_ok m (bs @ map snd (received [i])) (session_input_step i s)"
  proof (cases i)
    case (Chunk now st data)
    with Cons.prems have "st = OS_pty" by auto
    with Chunk Cons.prems(1) show ?thesis by (simp add: tail_ok_append comp_def)
  next
    case (Eof st)
    with Cons.prems(1) show ?thesis by (simp add: tail_ok_def)
  qed
  then have "tail_ok m ((bs @ map snd (received [i])) @ map snd (received is))
      (session_run is (session_input_step i s))"
    by (rule Cons.IH) (use Cons.prems(2) in auto)
  then show ?case using received_append [of "[i]" "is"] by (simp add: session_run_def)
qed

subsection \<open>A new session\<close>

text \<open>The state in which the manager creates a session, before its first event.\<close>

definition new_session :: "string \<Rightarrow> command_spec \<Rightarrow> nat option \<Rightarrow> int option \<Rightarrow> int option \<Rightarrow>
    nat \<Rightarrow> nat \<Rightarrow> string \<Rightarrow> string option \<Rightarrow> rat \<Rightarrow> bool \<Rightarrow> retention \<Rightarrow> session" where
  "new_session sid spec max_bytes timeout idle max_events max_retained trace req now recording keep =
     \<lparr>se_id = sid, se_spec = spec, se_max_output_bytes = max_bytes, se_timeout_ms = timeout,
      se_idle_timeout_ms = idle, se_lifecycle = new_lifecycle, se_events = [], se_stdout = [],
      se_stderr = [], se_total_output_bytes = 0, se_truncated_output_bytes = 0,
      se_stream_offsets = (\<lambda>_. 0), se_result = None, se_completion_reason = None,
      se_max_output_events = max_events, se_max_retained_events = max_retained,
      se_output_event_count = 0, se_output_event_limit_reported = False,
      se_truncation_reported = {}, se_next_event_seq = 0, se_completed_at = None,
      se_cancellation_steps = [], se_trace_id = trace, se_request_id = req, se_started = now,
      se_exited = None, se_drain_started = None, se_last_output = None, se_input_bytes = 0,
      se_decoders = (\<lambda>_. None), se_recorded = (if recording then Some [] else None),
      se_retention = keep\<rparr>"

text \<open>
  C28. With head retention, after any interleaving of output chunks and stream ends the session
  holds, on each stream, exactly what the first \<open>max_output_bytes\<close> bytes received contribute to
  it, and every byte received is either retained or counted as truncated.
\<close>

theorem head_retention_exact:
  "let s = session_run is
         (new_session sid spec max_bytes timeout idle max_events max_retained trace req now recording Keep_head);
       xs = budgeted max_bytes (received is)
   in se_stderr s = part on_stderr xs \<and> se_stdout s = part (\<lambda>st. \<not> on_stderr st) xs
      \<and> se_total_output_bytes s = length (received is)
      \<and> se_total_output_bytes s
          = length (se_stdout s) + length (se_stderr s) + se_truncated_output_bytes s"
proof -
  let ?s0 = "new_session sid spec max_bytes timeout idle max_events max_retained trace req now recording Keep_head"
  have s0: "head_ok [] ?s0" by (simp add: head_ok_def new_session_def budgeted_def split: option.split)
  have mb: "se_max_output_bytes (session_run is ?s0) = max_bytes"
    by (simp add: session_run_static new_session_def)
  from head_ok_run [OF s0, of "is"] show ?thesis
    unfolding head_ok_def Let_def append_Nil mb by blast
qed

text \<open>
  C29. With tail retention (which the manager allows for terminals only) the session holds exactly
  the last \<open>max_output_bytes\<close> bytes received, and counts all earlier ones as truncated.
\<close>

theorem tail_retention_exact:
  assumes "\<forall>now st data. Chunk now st data \<in> set is \<longrightarrow> st = OS_pty"
  shows "let s = session_run is
         (new_session sid spec (Some m) timeout idle max_events max_retained trace req t0 recording Keep_tail);
       bs = map snd (received is)
   in se_stdout s = last_n m bs \<and> se_stderr s = [] \<and> se_total_output_bytes s = length bs
      \<and> se_truncated_output_bytes s = length bs - m"
proof -
  let ?s0 = "new_session sid spec (Some m) timeout idle max_events max_retained trace req t0 recording Keep_tail"
  have "tail_ok m [] ?s0" by (simp add: tail_ok_def new_session_def last_n_def)
  from tail_ok_run [OF this assms] show ?thesis
    unfolding tail_ok_def Let_def append_Nil by blast
qed

theorem tail_retention_exact_witness:
  "let s = session_run [Chunk 1 OS_pty [97, 98, 99], Chunk 2 OS_pty [100, 101], Eof OS_pty]
       (new_session ''s'' sample_spec (Some 4) None None 10 10 ''t'' None 0 False Keep_tail)
   in se_stdout s = [98, 99, 100, 101] \<and> se_truncated_output_bytes s = 1"
  using tail_retention_exact [of "[Chunk 1 OS_pty [97, 98, 99], Chunk 2 OS_pty [100, 101], Eof OS_pty]"
      "''s''" sample_spec 4 None None 10 10 "''t''" None 0 False]
  by (simp add: Let_def last_n_def)

end
