(* ===== verification/SessionEvents.thy ===== *)
theory SessionEvents
  imports SessionOutput
begin

section \<open>The events of a session\<close>

text \<open>
  A locale for the properties of the event window that every emission keeps, interpreted on the
  numbering of the events; the slices of its streams that a session's output events report; and
  the budget of output events.
\<close>

subsection \<open>The event window\<close>

locale event_window =
  fixes window_ok :: "session \<Rightarrow> bool"
  assumes emit_keeps: "window_ok s \<Longrightarrow> window_ok (emit k p s)"
    and window_cong: "window_ok s \<Longrightarrow> se_events t = se_events s \<Longrightarrow>
      se_next_event_seq t = se_next_event_seq s \<Longrightarrow> se_recorded t = se_recorded s \<Longrightarrow>
      se_max_retained_events t = se_max_retained_events s \<Longrightarrow> window_ok t"
begin

lemma count_keeps: "window_ok s \<Longrightarrow> window_ok (s\<lparr>se_output_event_count := n\<rparr>)"
  by (erule window_cong) simp_all

lemma store_chunk_keeps:
  assumes "window_ok s" and "store_chunk st data s = (s1, kept, off, d)"
  shows "window_ok s1"
  by (rule window_cong [OF assms(1)])
    (use assms(2) in \<open>auto simp: store_chunk_def Let_def split: option.splits if_splits\<close>)

lemma report_event_limit_keeps: "window_ok s \<Longrightarrow> window_ok (report_event_limit s)"
  by (auto simp: report_event_limit_def intro!: emit_keeps intro: window_cong [of s])

lemma output_event_keeps:
  assumes "window_ok s"
  shows "window_ok (output_event st kept off s)"
proof (cases "kept \<noteq> [] \<and> se_output_event_count s < se_max_output_events s")
  case True
  obtain tx errs d' where d: "stream_decode (case se_decoders s st of None \<Rightarrow> new_decoder | Some d \<Rightarrow> d)
      kept False = (tx, errs, d')"
    by (cases "stream_decode (case se_decoders s st of None \<Rightarrow> new_decoder | Some d \<Rightarrow> d) kept False")
  have "window_ok (s\<lparr>se_decoders := (se_decoders s)(st := Some d')\<rparr>)"
    by (rule window_cong [OF assms]) auto
  from emit_keeps [OF this] show ?thesis
    using True d by (auto simp: output_event_def Let_def intro!: count_keeps)
next
  case False
  then show ?thesis using assms by (auto simp: output_event_def report_event_limit_keeps)
qed

lemma report_truncation_keeps: "window_ok s \<Longrightarrow> window_ok (report_truncation st d s)"
  by (auto simp: report_truncation_def Let_def intro!: emit_keeps intro: window_cong [of s])

lemma append_output_keeps: "window_ok s \<Longrightarrow> window_ok (append_output now st data s)"
proof -
  assume ok: "window_ok s"
  obtain s1 kept off d where sc: "store_chunk st data (s\<lparr>se_last_output := Some now\<rparr>) = (s1, kept, off, d)"
    by (cases "store_chunk st data (s\<lparr>se_last_output := Some now\<rparr>)") auto
  have "window_ok (s\<lparr>se_last_output := Some now\<rparr>)" by (rule window_cong [OF ok]) auto
  from store_chunk_keeps [OF this sc] show ?thesis
    by (simp add: append_output_def sc output_event_keeps report_truncation_keeps)
qed

lemma flush_keeps: "window_ok s \<Longrightarrow> window_ok (flush_output_decoder st s)"
proof (cases "se_decoders s st")
  case (Some d)
  assume ok: "window_ok s"
  obtain tx errs d' where d: "stream_decode d [] True = (tx, errs, d')"
    by (cases "stream_decode d [] True")
  have "window_ok (s\<lparr>se_decoders := (se_decoders s)(st := None)\<rparr>)"
    by (rule window_cong [OF ok]) auto
  from this emit_keeps [OF this] report_event_limit_keeps [OF this] show ?thesis
    using Some d by (auto simp: flush_output_decoder_def Let_def intro!: count_keeps)
qed (simp add: flush_output_decoder_def)

lemma run_keeps: "window_ok s \<Longrightarrow> window_ok (session_run is s)"
proof (induction "is" arbitrary: s)
  case (Cons i "is")
  then have "window_ok (session_input_step i s)"
    by (cases i) (auto simp: append_output_keeps flush_keeps)
  then show ?case using Cons.IH by (simp add: session_run_def)
qed (simp add: session_run_def)

end

definition numbered :: "session \<Rightarrow> bool" where
  "numbered s \<longleftrightarrow> 0 < se_max_retained_events s
     \<and> length (se_events s) = min (se_max_retained_events s) (se_next_event_seq s)
     \<and> map le_seq (se_events s) = [se_next_event_seq s - length (se_events s) ..< se_next_event_seq s]
     \<and> (case se_recorded s of None \<Rightarrow> True
        | Some es \<Rightarrow> map le_seq es = [0 ..< se_next_event_seq s]
            \<and> se_events s = last_n (se_max_retained_events s) es)"

lemma emit_numbered:
  assumes "numbered s"
  shows "numbered (emit k p s)"
proof -
  define e where "e = \<lparr>le_seq = se_next_event_seq s, le_kind = k, le_payload = p, le_trace_id = se_trace_id s\<rparr>"
  define m where "m = se_max_retained_events s"
  define n where "n = se_next_event_seq s"
  have m: "0 < m" and l: "length (se_events s) = min m n"
    and nums: "map le_seq (se_events s) = [n - min m n ..< n]"
    using assms by (auto simp: numbered_def m_def n_def)
  let ?kept = "if m \<le> length (se_events s) then tl (se_events s) else se_events s"
  have ev: "se_events (emit k p s) = ?kept @ [e]"
    by (simp add: emit_def Let_def e_def m_def)
  have len: "length (?kept @ [e]) = min m (Suc n)" using l m by (auto simp: min_def)
  have seqs: "map le_seq (?kept @ [e]) = [Suc n - min m (Suc n) ..< Suc n]"
  proof (cases "m \<le> n")
    case True
    then have "map le_seq ?kept = tl [n - m ..< n]"
      using l nums by (simp add: min_def map_tl)
    also have "\<dots> = [Suc n - m ..< n]" using True m by (simp add: Suc_diff_le)
    finally show ?thesis using True l m by (simp add: e_def n_def min_def Suc_diff_le)
  next
    case False
    then show ?thesis using l nums by (simp add: e_def n_def min_def)
  qed
  have rec: "case se_recorded (emit k p s) of None \<Rightarrow> True
     | Some es \<Rightarrow> map le_seq es = [0 ..< Suc n] \<and> ?kept @ [e] = last_n m es"
  proof (cases "se_recorded s")
    case (Some es)
    then have es: "map le_seq es = [0 ..< n]" "se_events s = last_n m es"
      using assms by (auto simp: numbered_def m_def n_def)
    then have "length es = n" using length_map [of le_seq es] by simp
    have "?kept @ [e] = last_n m (es @ [e])"
      using es(2) l m \<open>length es = n\<close>
      by (auto simp: last_n_def min_def drop_Suc tl_drop Suc_diff_le)
    with Some es(1) show ?thesis by (simp add: emit_def Let_def e_def n_def)
  qed (simp add: emit_def Let_def)
  have "se_next_event_seq (emit k p s) = Suc n" "se_max_retained_events (emit k p s) = m"
    by (simp_all add: n_def m_def)
  then show ?thesis
    using m len seqs rec unfolding numbered_def ev by (simp only: simp_thms if_distrib)
qed

interpretation numbering: event_window numbered
proof
  fix s t :: session
  assume "numbered s" "se_events t = se_events s" "se_next_event_seq t = se_next_event_seq s"
    "se_recorded t = se_recorded s" "se_max_retained_events t = se_max_retained_events s"
  then show "numbered t" unfolding numbered_def by (simp split: option.splits)
qed (rule emit_numbered)

lemma new_session_numbered:
  "0 < max_retained \<Longrightarrow> numbered (new_session sid spec max_bytes timeout idle max_events max_retained
     trace req now recording keep)"
  by (auto simp: numbered_def new_session_def last_n_def)

lemma numbered_first:
  assumes "numbered s"
  shows "first_event_seq s = se_next_event_seq s - min (se_max_retained_events s) (se_next_event_seq s)"
proof (cases "se_events s")
  case (Cons e es)
  then have "0 < se_next_event_seq s" using assms by (auto simp: numbered_def)
  moreover have "le_seq e = hd (map le_seq (se_events s))" using Cons by simp
  ultimately show ?thesis
    using assms Cons by (simp add: numbered_def first_event_seq_def del: upt_Suc list.map)
qed (use assms in \<open>auto simp: numbered_def first_event_seq_def\<close>)

text \<open>
  C31. After any interleaving of output and stream ends the session retains exactly the last
  \<open>max_retained_events\<close> events (all of them while there are fewer), numbered without gaps up to
  the next sequence number, and its recorder was given every event from number 0 on, in order.
\<close>

theorem retained_events_window:
  assumes "0 < max_retained"
  shows "let s = session_run is
         (new_session sid spec max_bytes timeout idle max_events max_retained trace req now True keep)
   in \<exists>es. se_recorded s = Some es \<and> map le_seq es = [0 ..< se_next_event_seq s]
        \<and> se_events s = last_n max_retained es
        \<and> first_event_seq s = se_next_event_seq s - min max_retained (se_next_event_seq s)"
proof -
  let ?s0 = "new_session sid spec max_bytes timeout idle max_events max_retained trace req now True keep"
  let ?s = "session_run is ?s0"
  have n: "numbered ?s" by (rule numbering.run_keeps, rule new_session_numbered, rule assms)
  have rec: "se_recorded ?s \<noteq> None" and mr: "se_max_retained_events ?s = max_retained"
    by (simp_all add: session_run_static new_session_def)
  then obtain es where es: "se_recorded ?s = Some es" by blast
  note numbered_first [OF n]
  with n es mr show ?thesis by (auto simp: numbered_def Let_def)
qed

theorem retained_events_window_witness:
  "let s = session_run [Chunk 1 OS_stdout [97], Chunk 2 OS_stdout [98], Chunk 3 OS_stderr [99]]
       (new_session ''s'' sample_spec (Some 2) None None 10 3 ''t'' None 0 True Keep_head)
   in \<exists>es. se_recorded s = Some es \<and> se_events s = last_n 3 es"
  using retained_events_window [of 3 "[Chunk 1 OS_stdout [97], Chunk 2 OS_stdout [98], Chunk 3 OS_stderr [99]]"
      "''s''" sample_spec "Some 2" None None 10 "''t''" None 0 Keep_head]
  by (auto simp: Let_def)

subsection \<open>Output events are slices of their streams\<close>

definition stream_bytes :: "output_stream \<Rightarrow> (output_stream \<times> byte) list \<Rightarrow> bytes" where
  "stream_bytes st = part (\<lambda>t. t = st)"

definition slice_ok :: "(output_stream \<times> byte) list \<Rightarrow> payload \<Rightarrow> bool" where
  "slice_ok xs p = (case p of Dict_payload _ \<Rightarrow> True
     | Output_payload q \<Rightarrow> op_offset q + op_bytes q \<le> length (stream_bytes (op_stream q) xs)
         \<and> op_data_base64 q = base64 (take (op_bytes q) (drop (op_offset q) (stream_bytes (op_stream q) xs))))"

definition slices :: "(output_stream \<times> byte) list \<Rightarrow> session \<Rightarrow> bool" where
  "slices xs s \<longleftrightarrow> (\<forall>st. se_stream_offsets s st = length (stream_bytes st xs))
     \<and> (\<forall>e \<in> set (se_events s). slice_ok xs (le_payload e))
     \<and> (\<forall>es. se_recorded s = Some es \<longrightarrow> (\<forall>e \<in> set es. slice_ok xs (le_payload e)))"

lemma slice_ok_append: "slice_ok xs p \<Longrightarrow> slice_ok (xs @ ys) p"
  by (auto simp: slice_ok_def stream_bytes_def split: payload.splits)

lemma emit_slices: "slices xs s \<Longrightarrow> slice_ok xs p \<Longrightarrow> slices xs (emit k p s)"
  by (cases "se_events s") (auto simp: slices_def emit_def Let_def)

lemma slices_cong:
  "slices xs s \<Longrightarrow> se_events t = se_events s \<Longrightarrow> se_recorded t = se_recorded s \<Longrightarrow>
     se_stream_offsets t = se_stream_offsets s \<Longrightarrow> slices xs t"
  by (simp add: slices_def)

lemma dict_slice [simp]: "slice_ok xs (Dict_payload d)"
  by (simp add: slice_ok_def)

lemma slices_count: "slices xs s \<Longrightarrow> slices xs (s\<lparr>se_output_event_count := n\<rparr>)"
  by (simp add: slices_def)

lemma report_event_limit_slices: "slices xs s \<Longrightarrow> slices xs (report_event_limit s)"
  by (auto simp: report_event_limit_def limit_payload_def intro!: emit_slices intro: slices_cong)

lemma report_truncation_slices: "slices xs s \<Longrightarrow> slices xs (report_truncation st n s)"
  by (auto simp: report_truncation_def Let_def intro!: emit_slices intro: slices_cong)

lemma output_event_slices:
  assumes "slices xs s" and "off + length kept \<le> length (stream_bytes st xs)"
    and "kept = take (length kept) (drop off (stream_bytes st xs))"
  shows "slices xs (output_event st kept off s)"
proof (cases "kept \<noteq> [] \<and> se_output_event_count s < se_max_output_events s")
  case True
  obtain tx errs d' where d: "stream_decode (case se_decoders s st of None \<Rightarrow> new_decoder | Some d \<Rightarrow> d)
      kept False = (tx, errs, d')"
    by (cases "stream_decode (case se_decoders s st of None \<Rightarrow> new_decoder | Some d \<Rightarrow> d) kept False")
  have "slices xs (s\<lparr>se_decoders := (se_decoders s)(st := Some d')\<rparr>)"
    by (rule slices_cong [OF assms(1)]) auto
  moreover have "slice_ok xs (Output_payload \<lparr>op_stream = st, op_offset = off, op_bytes = length kept,
      op_text = tx, op_data_base64 = base64 kept, op_decoding_errors = errs\<rparr>)"
    using assms(2,3) by (simp add: slice_ok_def)
  ultimately show ?thesis
    using True d by (auto simp: output_event_def Let_def intro!: emit_slices slices_count)
next
  case False
  then show ?thesis using assms by (auto simp: output_event_def report_event_limit_slices)
qed

lemma store_chunk_slice:
  assumes "store_chunk st data s = (s1, kept, off, d)" and "se_stream_offsets s st = length old"
  shows "off + length kept \<le> length (old @ data)"
    and "kept = take (length kept) (drop off (old @ data))"
    and "se_stream_offsets s1 = (se_stream_offsets s)(st := length (old @ data))"
  using assms
  by (auto simp: store_chunk_def Let_def last_n_def min_def split: option.splits if_splits)

lemma stream_bytes_append:
  "stream_bytes t (xs @ map (Pair st) data) = stream_bytes t xs @ (if t = st then data else [])"
  by (simp add: stream_bytes_def)

lemma slices_append:
  assumes "slices xs s"
  shows "slices (xs @ map (Pair st) data) (append_output now st data s)"
proof -
  let ?xs = "xs @ map (Pair st) data"
  obtain s1 kept off d where sc: "store_chunk st data (s\<lparr>se_last_output := Some now\<rparr>) = (s1, kept, off, d)"
    by (cases "store_chunk st data (s\<lparr>se_last_output := Some now\<rparr>)") auto
  have off: "se_stream_offsets (s\<lparr>se_last_output := Some now\<rparr>) st = length (stream_bytes st xs)"
    using assms by (simp add: slices_def)
  note sl = store_chunk_slice [OF sc off]
  have "slices ?xs s1"
    using assms sl(3) store_chunk_frame [OF sc]
    by (auto simp: slices_def stream_bytes_append slice_ok_append)
  then have "slices ?xs (output_event st kept off s1)"
    by (rule output_event_slices) (use sl(1,2) in \<open>simp_all add: stream_bytes_append\<close>)
  then show ?thesis by (simp add: append_output_def sc report_truncation_slices)
qed

lemma slices_flush:
  assumes "slices xs s"
  shows "slices xs (flush_output_decoder st s)"
proof (cases "se_decoders s st")
  case (Some d)
  obtain tx errs d' where d: "stream_decode d [] True = (tx, errs, d')"
    by (cases "stream_decode d [] True")
  have ok: "slices xs (s\<lparr>se_decoders := (se_decoders s)(st := None)\<rparr>)"
    by (rule slices_cong [OF assms]) auto
  have "slice_ok xs (Output_payload \<lparr>op_stream = st, op_offset = se_stream_offsets s st,
      op_bytes = 0, op_text = tx, op_data_base64 = [], op_decoding_errors = errs\<rparr>)"
    using assms by (simp add: slice_ok_def slices_def)
  from ok emit_slices [OF ok this] report_event_limit_slices [OF ok] Some d show ?thesis
    by (auto simp: flush_output_decoder_def Let_def intro!: slices_count)
qed (use assms in \<open>simp add: flush_output_decoder_def\<close>)

lemma slices_run: "slices xs s \<Longrightarrow> slices (xs @ received is) (session_run is s)"
proof (induction "is" arbitrary: xs s)
  case Nil
  then show ?case by (simp add: session_run_def)
next
  case (Cons i "is")
  have "slices (xs @ received [i]) (session_input_step i s)"
    using Cons.prems by (cases i) (simp_all add: slices_append slices_flush)
  from Cons.IH [OF this] show ?case
    using received_append [of "[i]" "is"] by (simp add: session_run_def)
qed

text \<open>
  C30. Whatever the budgets and the retention policy, every output event a session retains or
  hands to its recorder reports true bytes of its stream: its \<open>data_base64\<close> is the encoding of
  the \<open>bytes\<close> bytes received on that stream from \<open>offset\<close> on.
\<close>

theorem output_events_are_slices:
  "let s = session_run is
         (new_session sid spec max_bytes timeout idle max_events max_retained trace req now recording keep)
   in list_all (\<lambda>e. slice_ok (received is) (le_payload e))
        (se_events s @ (case se_recorded s of None \<Rightarrow> [] | Some es \<Rightarrow> es))"
proof -
  let ?s0 = "new_session sid spec max_bytes timeout idle max_events max_retained trace req now recording keep"
  have "slices [] ?s0" by (auto simp: slices_def new_session_def stream_bytes_def)
  from slices_run [OF this, of "is"] show ?thesis
    unfolding slices_def Let_def list_all_iff by (cases "se_recorded (session_run is ?s0)") auto
qed

subsection \<open>The output event budget\<close>













end
