(* ===== verification/Effects.thy ===== *)
theory Effects
  imports CoreErrors Lifecycle CoreModels
begin

section \<open>Effects: exceptions, state and the operating system\<close>

text \<open>
  Code that talks to the operating system is a function on an explicit state that returns an
  exception or a value together with the new state. The operating system is a parameter: a
  function from the calls made so far and the present call to its answer, an exception or a
  value, so that a statement about all such functions covers every behaviour of the system,
  delays, failures and task cancellation included. \<open>bs_trace\<close> records the calls in order.

  Exceptions follow Python 3.11: \<open>asyncio.TimeoutError\<close> is \<open>TimeoutError\<close>, a subclass of
  \<open>OSError\<close>, and \<open>asyncio.CancelledError\<close> is not an \<open>Exception\<close>.
\<close>

subsection \<open>Exceptions\<close>

datatype os_kind =
    Os_plain | Os_not_found | Os_permission | Os_process_lookup | Os_broken_pipe | Os_reset
  | Os_blocking | Os_interrupted | Os_timeout

datatype exn =
    X_value string | X_type string | X_runtime string | X_os os_kind "int option" string
  | X_eof | X_struct string | X_not_implemented string | X_assertion string | X_attribute string
  | X_sharkrail execution_error | X_transition invalid_transition | X_cancelled

fun is_os_error :: "exn \<Rightarrow> bool" where
  "is_os_error (X_os _ _ _) = True"
| "is_os_error _ = False"

fun is_kind :: "os_kind \<Rightarrow> exn \<Rightarrow> bool" where
  "is_kind k (X_os k' _ _) \<longleftrightarrow> k' = k"
| "is_kind k _ \<longleftrightarrow> False"

abbreviation is_timeout :: "exn \<Rightarrow> bool" where
  "is_timeout \<equiv> is_kind Os_timeout"

text \<open>\<open>except Exception\<close> does not catch the cancellation of the running task.\<close>

definition is_exception :: "exn \<Rightarrow> bool" where
  "is_exception e \<longleftrightarrow> e \<noteq> X_cancelled"

fun exn_errno :: "exn \<Rightarrow> int option" where
  "exn_errno (X_os _ n _) = n"
| "exn_errno _ = None"

text \<open>\<open>str(err)\<close> and \<open>type(err).__name__\<close>.\<close>

fun exn_str :: "exn \<Rightarrow> string" where
  "exn_str (X_value m) = m"
| "exn_str (X_type m) = m"
| "exn_str (X_runtime m) = m"
| "exn_str (X_os _ None m) = m"
| "exn_str (X_os _ (Some n) m) = ''[Errno '' @ str_of_int n @ ''] '' @ m"
| "exn_str X_eof = []"
| "exn_str (X_struct m) = m"
| "exn_str (X_not_implemented m) = m"
| "exn_str (X_assertion m) = m"
| "exn_str (X_attribute m) = m"
| "exn_str (X_sharkrail e) = ee_message e"
| "exn_str (X_transition (InvalidTransition a b)) =
     ''Cannot transition from '' @ session_state_value a @ '' to '' @ session_state_value b"
| "exn_str X_cancelled = []"

fun os_kind_name :: "os_kind \<Rightarrow> string" where
  "os_kind_name Os_plain = ''OSError''"
| "os_kind_name Os_not_found = ''FileNotFoundError''"
| "os_kind_name Os_permission = ''PermissionError''"
| "os_kind_name Os_process_lookup = ''ProcessLookupError''"
| "os_kind_name Os_broken_pipe = ''BrokenPipeError''"
| "os_kind_name Os_reset = ''ConnectionResetError''"
| "os_kind_name Os_blocking = ''BlockingIOError''"
| "os_kind_name Os_interrupted = ''InterruptedError''"
| "os_kind_name Os_timeout = ''TimeoutError''"

fun exn_name :: "exn \<Rightarrow> string" where
  "exn_name (X_value _) = ''ValueError''"
| "exn_name (X_type _) = ''TypeError''"
| "exn_name (X_runtime _) = ''RuntimeError''"
| "exn_name (X_os k _ _) = os_kind_name k"
| "exn_name X_eof = ''EOFError''"
| "exn_name (X_struct _) = ''error''"
| "exn_name (X_not_implemented _) = ''NotImplementedError''"
| "exn_name (X_assertion _) = ''AssertionError''"
| "exn_name (X_attribute _) = ''AttributeError''"
| "exn_name (X_sharkrail _) = ''SharkRailError''"
| "exn_name (X_transition _) = ''InvalidTransition''"
| "exn_name X_cancelled = ''CancelledError''"

subsection \<open>Operations\<close>

type_synonym ('s, 'a) op = "'s \<Rightarrow> (exn + 'a) \<times> 's"

definition ret :: "'a \<Rightarrow> ('s, 'a) op" where
  "ret x s = (Inr x, s)"

definition raise :: "exn \<Rightarrow> ('s, 'a) op" where
  "raise e s = (Inl e, s)"

definition bindop :: "('s, 'a) op \<Rightarrow> ('a \<Rightarrow> ('s, 'b) op) \<Rightarrow> ('s, 'b) op" where
  "bindop m f s = (case m s of (Inl e, t) \<Rightarrow> (Inl e, t) | (Inr x, t) \<Rightarrow> f x t)"

definition andthen :: "('s, 'a) op \<Rightarrow> ('s, 'b) op \<Rightarrow> ('s, 'b) op" where
  "andthen m n = bindop m (\<lambda>_. n)"

text \<open>\<open>try: m except: h\<close>; the handler re-raises what it does not catch.\<close>

definition catch :: "('s, 'a) op \<Rightarrow> (exn \<Rightarrow> ('s, 'a) op) \<Rightarrow> ('s, 'a) op" where
  "catch m h s = (case m s of (Inl e, t) \<Rightarrow> h e t | (Inr x, t) \<Rightarrow> (Inr x, t))"

text \<open>\<open>try: m finally: f\<close>: an exception of the cleanup replaces the outcome.\<close>

definition finally_do :: "('s, 'a) op \<Rightarrow> ('s, unit) op \<Rightarrow> ('s, 'a) op" where
  "finally_do m f s =
     (case m s of (r, t) \<Rightarrow> (case f t of (Inl e, u) \<Rightarrow> (Inl e, u) | (Inr _, u) \<Rightarrow> (r, u)))"

definition gets :: "('s \<Rightarrow> 'a) \<Rightarrow> ('s, 'a) op" where
  "gets f s = (Inr (f s), s)"

definition modify :: "('s \<Rightarrow> 's) \<Rightarrow> ('s, unit) op" where
  "modify f s = (Inr (), f s)"

definition whenop :: "bool \<Rightarrow> ('s, unit) op \<Rightarrow> ('s, unit) op" where
  "whenop c m = (if c then m else ret ())"

text \<open>\<open>try: m except E: pass\<close>\<close>

definition suppress :: "(exn \<Rightarrow> bool) \<Rightarrow> ('s, unit) op \<Rightarrow> ('s, unit) op" where
  "suppress c m = catch m (\<lambda>e. if c e then ret () else raise e)"

fun seq_all :: "('s, unit) op list \<Rightarrow> ('s, unit) op" where
  "seq_all [] = ret ()"
| "seq_all (m # ms) = andthen m (seq_all ms)"

text \<open>An operation with a loop that may not end: its value is \<open>None\<close> when it does not return.\<close>

type_synonym ('s, 'a) pop = "'s \<Rightarrow> ((exn + 'a) \<times> 's) option"

definition total :: "('s, 'a) op \<Rightarrow> ('s, 'a) pop" where
  "total m s = Some (m s)"

definition pbind :: "('s, 'a) pop \<Rightarrow> ('a \<Rightarrow> ('s, 'b) pop) \<Rightarrow> ('s, 'b) pop" where
  "pbind m f s = (case m s of None \<Rightarrow> None | Some (Inl e, t) \<Rightarrow> Some (Inl e, t) | Some (Inr x, t) \<Rightarrow> f x t)"

subsection \<open>Reasoning about outcomes\<close>

text \<open>
  \<open>wp m Q s\<close>: the outcome and final state of \<open>m\<close> from \<open>s\<close> satisfy \<open>Q\<close>. Its equations compute
  the condition of a composed operation from those of its parts.
\<close>

named_theorems wp_simps "conditions of composed operations"

definition wp :: "('s, 'a) op \<Rightarrow> (exn + 'a \<Rightarrow> 's \<Rightarrow> bool) \<Rightarrow> 's \<Rightarrow> bool" where
  "wp m Q s = Q (fst (m s)) (snd (m s))"

lemma wp_iff: "wp m Q s \<longleftrightarrow> (\<forall>r t. m s = (r, t) \<longrightarrow> Q r t)"
  by (cases "m s") (simp add: wp_def)

lemma wpD: "wp m Q s \<Longrightarrow> m s = (r, t) \<Longrightarrow> Q r t"
  by (simp add: wp_def)

lemma wp_ret [wp_simps]: "wp (ret x) Q s = Q (Inr x) s"
  by (simp add: wp_def ret_def)

lemma wp_raise [wp_simps]: "wp (raise e) Q s = Q (Inl e) s"
  by (simp add: wp_def raise_def)

lemma wp_bindop [wp_simps]:
  "wp (bindop m f) Q s =
     wp m (\<lambda>r t. case r of Inl e \<Rightarrow> Q (Inl e) t | Inr x \<Rightarrow> wp (f x) Q t) s"
  by (simp add: wp_def bindop_def split: prod.split sum.split)

lemma wp_andthen [wp_simps]:
  "wp (andthen m n) Q s = wp m (\<lambda>r t. case r of Inl e \<Rightarrow> Q (Inl e) t | Inr x \<Rightarrow> wp n Q t) s"
  by (simp add: andthen_def wp_bindop)

lemma wp_catch [wp_simps]:
  "wp (catch m h) Q s =
     wp m (\<lambda>r t. case r of Inl e \<Rightarrow> wp (h e) Q t | Inr x \<Rightarrow> Q (Inr x) t) s"
  by (simp add: wp_def catch_def split: prod.split sum.split)

lemma wp_finally [wp_simps]:
  "wp (finally_do m f) Q s =
     wp m (\<lambda>r t. wp f (\<lambda>q u. case q of Inl e \<Rightarrow> Q (Inl e) u | Inr _ \<Rightarrow> Q r u) t) s"
  by (simp add: wp_def finally_do_def split: prod.split sum.split)

lemma wp_gets [wp_simps]: "wp (gets f) Q s = Q (Inr (f s)) s"
  by (simp add: wp_def gets_def)

lemma wp_modify [wp_simps]: "wp (modify f) Q s = Q (Inr ()) (f s)"
  by (simp add: wp_def modify_def)

lemma wp_whenop [wp_simps]: "wp (whenop c m) Q s = (if c then wp m Q s else Q (Inr ()) s)"
  by (simp add: whenop_def wp_ret)

lemma wp_suppress [wp_simps]:
  "wp (suppress c m) Q s =
     wp m (\<lambda>r t. case r of Inl e \<Rightarrow> if c e then Q (Inr ()) t else Q (Inl e) t | Inr x \<Rightarrow> Q (Inr ()) t) s"
  by (simp add: suppress_def wp_catch wp_ret wp_raise if_distribR cong: sum.case_cong if_cong)

lemma wp_if [wp_simps]: "wp (if c then m else n) Q s = (if c then wp m Q s else wp n Q s)"
  by simp

lemma wp_mono: "wp m P s \<Longrightarrow> (\<And>r t. P r t \<Longrightarrow> Q r t) \<Longrightarrow> wp m Q s"
  by (simp add: wp_def)

lemma wp_conj: "wp m P s \<Longrightarrow> wp m Q s \<Longrightarrow> wp m (\<lambda>r t. P r t \<and> Q r t) s"
  by (simp add: wp_def)

text \<open>A composed operation returns only when each of its parts does.\<close>

lemma bindop_Inr: "bindop m f s = (Inr y, t) \<longleftrightarrow> (\<exists>x u. m s = (Inr x, u) \<and> f x u = (Inr y, t))"
  by (auto simp: bindop_def split: prod.splits sum.splits)

lemma andthen_Inr: "andthen m n s = (Inr y, t) \<longleftrightarrow> (\<exists>x u. m s = (Inr x, u) \<and> n u = (Inr y, t))"
  by (auto simp: andthen_def bindop_Inr)

lemma whenop_Inr: "whenop c m s = (Inr y, t) \<longleftrightarrow> (if c then m s = (Inr y, t) else t = s)"
  by (auto simp: whenop_def ret_def)

lemma finally_Inr: "finally_do m f s = (Inr y, t) \<longleftrightarrow> (\<exists>u. m s = (Inr y, u) \<and> f u = (Inr (), t))"
  by (auto simp: finally_do_def split: prod.splits sum.splits)

lemma bindop_step: "m s = (Inr x, u) \<Longrightarrow> bindop m f s = f x u"
  by (simp add: bindop_def)

lemma andthen_step: "m s = (Inr x, u) \<Longrightarrow> andthen m n s = n u"
  by (simp add: andthen_def bindop_def)

lemmas op_Inr = bindop_Inr andthen_Inr whenop_Inr finally_Inr

subsection \<open>Relations that operations keep\<close>

text \<open>
  A reflexive and transitive relation between the state before and after an operation is kept by
  a composed operation when its parts keep it: frames, monotone flags and growing traces.
\<close>

definition keeps :: "('s \<Rightarrow> 's \<Rightarrow> bool) \<Rightarrow> ('s, 'a) op \<Rightarrow> bool" where
  "keeps R m \<longleftrightarrow> (\<forall>s. R s (snd (m s)))"

lemma keepsD: "keeps R m \<Longrightarrow> m s = (r, t) \<Longrightarrow> R s t"
  unfolding keeps_def by (metis snd_conv)

lemma keeps_wp: "keeps R m \<Longrightarrow> wp m (\<lambda>r t. R s t) s"
  by (simp add: keeps_def wp_def)

locale state_relation =
  fixes R :: "'s \<Rightarrow> 's \<Rightarrow> bool"
  assumes R_refl: "R s s" and R_trans: "R s t \<Longrightarrow> R t u \<Longrightarrow> R s u"
begin

lemma keeps_ret: "keeps R (ret x)" and keeps_raise: "keeps R (raise e)" and keeps_gets: "keeps R (gets f)"
  by (simp_all add: keeps_def ret_def raise_def gets_def R_refl)

lemma keeps_modify: "(\<And>s. R s (f s)) \<Longrightarrow> keeps R (modify f)"
  by (simp add: keeps_def modify_def)

lemma keeps_bindop: "keeps R m \<Longrightarrow> (\<And>x. keeps R (f x)) \<Longrightarrow> keeps R (bindop m f)"
  unfolding keeps_def bindop_def
  by (auto split: prod.split sum.split) (metis R_trans snd_conv)+

lemma keeps_andthen: "keeps R m \<Longrightarrow> keeps R n \<Longrightarrow> keeps R (andthen m n)"
  unfolding andthen_def by (rule keeps_bindop)

lemma keeps_catch: "keeps R m \<Longrightarrow> (\<And>e. keeps R (h e)) \<Longrightarrow> keeps R (catch m h)"
  unfolding keeps_def catch_def
  by (auto split: prod.split sum.split) (metis R_trans snd_conv)+

lemma keeps_finally: "keeps R m \<Longrightarrow> keeps R f \<Longrightarrow> keeps R (finally_do m f)"
  unfolding keeps_def finally_do_def
  by (auto split: prod.split sum.split) (metis R_trans snd_conv)+

lemma keeps_whenop: "keeps R m \<Longrightarrow> keeps R (whenop c m)"
  by (simp add: whenop_def keeps_ret)

lemma keeps_suppress: "keeps R m \<Longrightarrow> keeps R (suppress c m)"
  unfolding suppress_def by (rule keeps_catch) (simp_all add: keeps_ret keeps_raise)

lemma keeps_seq_all: "(\<And>m. m \<in> set ms \<Longrightarrow> keeps R m) \<Longrightarrow> keeps R (seq_all ms)"
  by (induction ms) (simp_all add: keeps_ret keeps_andthen)

lemma keeps_if: "(c \<Longrightarrow> keeps R m) \<Longrightarrow> (\<not> c \<Longrightarrow> keeps R n) \<Longrightarrow> keeps R (if c then m else n)"
  by simp

lemma keeps_case_option:
  "keeps R m \<Longrightarrow> (\<And>x. keeps R (f x)) \<Longrightarrow> keeps R (case v of None \<Rightarrow> m | Some x \<Rightarrow> f x)"
  by (simp split: option.split)

lemma keeps_case_sum:
  "(\<And>x. keeps R (f x)) \<Longrightarrow> (\<And>x. keeps R (g x)) \<Longrightarrow> keeps R (case v of Inl x \<Rightarrow> f x | Inr x \<Rightarrow> g x)"
  by (simp split: sum.split)

lemma keeps_case_prod: "(\<And>x y. keeps R (f x y)) \<Longrightarrow> keeps R (case v of (x, y) \<Rightarrow> f x y)"
  by (simp split: prod.split)

lemmas keeps_rules = keeps_ret keeps_raise keeps_gets keeps_bindop keeps_andthen keeps_catch
  keeps_finally keeps_whenop keeps_suppress keeps_if keeps_case_option keeps_case_sum keeps_case_prod

end

end
