(* ===== verification/Backends.thy ===== *)
theory Backends
  imports Effects Utf8 "HOL-Library.AList"
begin

unbundle bit_operations_syntax

section \<open>Execution backends on POSIX (runtime/backends.py)\<close>

text \<open>
  The process handle, the calls a backend makes of the operating system, and the operations of
  \<open>PipeBackend\<close> (on both platforms, as the code branches on \<open>os.name\<close>) and \<open>PtyBackend\<close>.
  The state of an operation is the handle it works on and the trace of the calls made. The
  record \<open>backend\<close> is the interface \<open>ExecutionBackend\<close>, with the optional \<open>read\<close> and \<open>resize\<close>
  of terminals; the tasks' locks are left out, since an operation here runs alone.
\<close>

subsection \<open>Handles and the operating system\<close>

datatype handle_kind = Plain_handle | Pty_handle | Windows_handle | Windows_pty_handle

text \<open>
  A job, native terminal, broker or broker channel is the number under which the operating
  system created it. \<open>hd_write_pending\<close> tells whether the last ConPTY write is still running.
\<close>

record handle =
  hd_kind :: handle_kind
  hd_pid :: int
  hd_has_stdin :: bool
  hd_stdin_closed :: bool
  hd_process_tree :: string
  hd_birth_identity :: "string option"
  hd_degraded_reasons :: "string list"
  hd_disposed :: bool
  hd_tree_killed :: bool
  hd_ownership_id :: "string option"
  hd_master_fd :: int
  hd_output_closed :: bool
  hd_native_pty :: "int option"
  hd_job :: "int option"
  hd_broker_job :: "int option"
  hd_broker :: "int option"
  hd_broker_control :: "int option"
  hd_broker_output :: "int option"
  hd_broker_status :: "int option"
  hd_write_pending :: bool
  hd_control_failed :: bool
  hd_closing :: bool

definition new_handle :: handle where
  "new_handle = \<lparr>hd_kind = Plain_handle, hd_pid = 0, hd_has_stdin = False, hd_stdin_closed = False,
     hd_process_tree = ''unknown'', hd_birth_identity = None, hd_degraded_reasons = [],
     hd_disposed = False, hd_tree_killed = False, hd_ownership_id = None, hd_master_fd = -1,
     hd_output_closed = False, hd_native_pty = None, hd_job = None, hd_broker_job = None,
     hd_broker = None, hd_broker_control = None, hd_broker_output = None, hd_broker_status = None,
     hd_write_pending = False, hd_control_failed = False, hd_closing = False\<rparr>"

definition is_pty_handle :: "handle \<Rightarrow> bool" where
  "is_pty_handle h \<longleftrightarrow> hd_kind h = Pty_handle \<or> hd_kind h = Windows_pty_handle"

datatype os_signal = SIGINT | SIGTERM | SIGKILL | CTRL_BREAK_EVENT

record spawn_options =
  so_argv :: "string list"
  so_cwd :: "string option"
  so_env :: env_map
  so_terminal :: "int option"
  so_creation_flags :: int
  so_new_session :: bool
  so_rlimits :: "(string \<times> int) list option"

datatype os_call =
    Spawn spawn_options | Get_returncode
  | Stdin_write bytes | Stdin_drain | Stdin_close | Stdin_wait_closed
  | Send_signal os_signal | Killpg int os_signal | Process_terminate | Process_kill
  | Process_wait "rat option" | Taskkill int
  | Openpty | Set_nonblocking int | Close_fd int | Read_fd int nat | Write_fd int bytes
  | Wait_readable int | Wait_writable int | Tcgetattr int | Pc_vdisable int | Set_winsize int int int
  | Job_create resource_limits | Job_assign int int | Job_resume int int | Job_terminate int
  | Job_wait_empty int rat | Job_close int | Job_duplicate int int
  | Native_spawn spawn_options | Native_settimeout int rat | Native_write int codepoints
  | Native_sendeof int | Native_sendintr int | Native_terminate int bool | Native_read int
  | Native_setwinsize int int int | Native_isalive int | Native_close int | Native_exitstatus int
  | Broker_pipe bool | Broker_process | Broker_start int | Broker_pid int | Broker_exitcode int | Broker_send int string "int list"
  | Broker_bootstrap int spawn_options int | Broker_poll int | Broker_recv int | Broker_close_channel int
  | Broker_wait_ready int "rat option" | Broker_join int rat | Broker_alive int | Broker_terminate int
  | Broker_kill int | Broker_close int | Await_pending_write rat
  | Report_step string

datatype broker_message =
    Msg_ok "int option" | Msg_data codepoints | Msg_eof | Msg_exit int
  | Msg_error string string "int option" "int option" | Msg_other

datatype os_value =
    V_unit | V_int int | V_opt "int option" | V_bool bool | V_bytes bytes
  | V_fds int int | V_veof bool "int + bytes" | V_text codepoints | V_msg broker_message

type_synonym os = "os_call list \<Rightarrow> os_call \<Rightarrow> exn + os_value"

record bstate =
  bs_handle :: handle
  bs_trace :: "os_call list"

type_synonym 'a bop = "(bstate, 'a) op"
type_synonym 'a bpop = "(bstate, 'a) pop"

definition os_call :: "os \<Rightarrow> os_call \<Rightarrow> os_value bop" where
  "os_call os c s =
     (os (bs_trace s) c, s\<lparr>bs_trace := bs_trace s @ [c]\<rparr>)"

definition os_do :: "os \<Rightarrow> os_call \<Rightarrow> unit bop" where
  "os_do os c = bindop (os_call os c) (\<lambda>_. ret ())"

definition os_opt :: "os \<Rightarrow> os_call \<Rightarrow> int option bop" where
  "os_opt os c = bindop (os_call os c) (\<lambda>v. case v of V_opt i \<Rightarrow> ret i | _ \<Rightarrow> ret None)"

definition os_int :: "os \<Rightarrow> os_call \<Rightarrow> int bop" where
  "os_int os c = bindop (os_call os c) (\<lambda>v. case v of V_int i \<Rightarrow> ret i | _ \<Rightarrow> ret 0)"

definition os_bool :: "os \<Rightarrow> os_call \<Rightarrow> bool bop" where
  "os_bool os c = bindop (os_call os c) (\<lambda>v. ret (v = V_bool True))"

definition os_bytes :: "os \<Rightarrow> os_call \<Rightarrow> bytes bop" where
  "os_bytes os c = bindop (os_call os c) (\<lambda>v. case v of V_bytes b \<Rightarrow> ret b | _ \<Rightarrow> ret [])"

definition hget :: "(handle \<Rightarrow> 'a) \<Rightarrow> 'a bop" where
  "hget f = gets (f \<circ> bs_handle)"

definition hmod :: "(handle \<Rightarrow> handle) \<Rightarrow> unit bop" where
  "hmod f = modify (\<lambda>s. s\<lparr>bs_handle := f (bs_handle s)\<rparr>)"

definition returncode :: "os \<Rightarrow> int option bop" where
  "returncode os = os_opt os Get_returncode"

record backend =
  be_start :: "command_spec \<Rightarrow> unit bop"
  be_write :: "bytes \<Rightarrow> unit bpop"
  be_close_stdin :: "unit bpop"
  be_interrupt :: "unit bop"
  be_terminate :: "unit bop"
  be_kill_tree :: "unit bop"
  be_dispose :: "unit bop"
  be_read :: "bytes bpop option"
  be_resize :: "(int \<Rightarrow> int \<Rightarrow> unit bop) option"

subsection \<open>Starting a command\<close>

definition child_environment :: "bool \<Rightarrow> env_map \<Rightarrow> command_spec \<Rightarrow> env_map" where
  "child_environment nt environ spec =
     (let base = (if cs_inherit_env spec then environ
                  else if nt then
                    (case map_of environ ''SYSTEMROOT'' of
                       Some (c # cs) \<Rightarrow> [(''SYSTEMROOT'', c # cs)]
                     | _ \<Rightarrow> [])
                  else [])
      in case cs_env spec of
           None \<Rightarrow> base
         | Some e \<Rightarrow> fold (\<lambda>(k, v). AList.update k v) e base)"

definition resource_limiter :: "bool \<Rightarrow> command_spec \<Rightarrow> (string \<times> int) list option" where
  "resource_limiter has_nproc spec =
     (let l = cs_resources spec in
      if rl_memory_bytes l = None \<and> rl_cpu_time_seconds l = None \<and> rl_process_count l = None
      then None
      else Some ((case rl_memory_bytes l of None \<Rightarrow> [] | Some m \<Rightarrow> [(''RLIMIT_AS'', m)])
               @ (case rl_cpu_time_seconds l of None \<Rightarrow> [] | Some c \<Rightarrow> [(''RLIMIT_CPU'', c)])
               @ (case rl_process_count l of None \<Rightarrow> []
                  | Some n \<Rightarrow> if has_nproc then [(''RLIMIT_NPROC'', n)] else [])))"

definition new_process_group_flag :: int where
  "new_process_group_flag = 0x200"

definition create_suspended_flag :: int where
  "create_suspended_flag = 0x4"

definition windows_suspended_flags :: int where
  "windows_suspended_flags = new_process_group_flag OR create_suspended_flag"

text \<open>
  The host: \<open>os.name\<close>, the environment, whether \<open>RLIMIT_NPROC\<close> exists, and the birth identity of
  a process, which the code computes without raising (\<open>None\<close> when it is not available).
\<close>

record platform =
  pf_nt :: bool
  pf_environ :: env_map
  pf_has_nproc :: bool
  pf_birth :: "int \<Rightarrow> string option"

definition argv_strings :: "command_spec \<Rightarrow> string list" where
  "argv_strings spec = map str_val (argv_list spec)"

definition pipe_start :: "platform \<Rightarrow> int \<Rightarrow> os \<Rightarrow> command_spec \<Rightarrow> unit bop" where
  "pipe_start pf flags os spec =
     bindop (os_int os (Spawn
       \<lparr>so_argv = argv_strings spec, so_cwd = cs_cwd spec,
        so_env = child_environment (pf_nt pf) (pf_environ pf) spec, so_terminal = None,
        so_creation_flags = (if pf_nt pf then flags else 0), so_new_session = \<not> pf_nt pf,
        so_rlimits = (if pf_nt pf then None else resource_limiter (pf_has_nproc pf) spec)\<rparr>)) (\<lambda>pid.
     hmod (\<lambda>_. new_handle\<lparr>hd_pid := pid, hd_has_stdin := True,
       hd_process_tree := (if pf_nt pf then ''taskkill_fallback'' else ''process_group''),
       hd_birth_identity := pf_birth pf pid\<rparr>))"

subsection \<open>Pipes\<close>

definition pipe_write :: "os \<Rightarrow> bytes \<Rightarrow> unit bop" where
  "pipe_write os data =
     bindop (hget (\<lambda>h. hd_stdin_closed h \<or> \<not> hd_has_stdin h)) (\<lambda>closed.
     if closed then raise (X_runtime ''stdin is closed'')
     else andthen (os_do os (Stdin_write data)) (os_do os Stdin_drain))"

definition pipe_close_stdin :: "os \<Rightarrow> unit bop" where
  "pipe_close_stdin os =
     bindop (hget id) (\<lambda>h.
     whenop (\<not> hd_stdin_closed h)
       (andthen (hmod (\<lambda>h. h\<lparr>hd_stdin_closed := True\<rparr>))
         (whenop (hd_has_stdin h)
           (andthen (os_do os Stdin_close) (os_do os Stdin_wait_closed)))))"

definition pipe_interrupt :: "bool \<Rightarrow> os \<Rightarrow> unit bop" where
  "pipe_interrupt nt os =
     bindop (returncode os) (\<lambda>rc.
     whenop (rc = None)
       (if nt then os_do os (Send_signal CTRL_BREAK_EVENT)
        else bindop (hget hd_pid) (\<lambda>pid. os_do os (Killpg pid SIGINT))))"

definition pipe_terminate :: "bool \<Rightarrow> os \<Rightarrow> unit bop" where
  "pipe_terminate nt os =
     bindop (returncode os) (\<lambda>rc.
     whenop (rc = None)
       (if nt then os_do os Process_terminate
        else bindop (hget hd_pid) (\<lambda>pid. os_do os (Killpg pid SIGTERM))))"

definition mark_tree_killed :: "unit bop" where
  "mark_tree_killed = hmod (\<lambda>h. h\<lparr>hd_tree_killed := True\<rparr>)"

definition posix_killpg :: "os \<Rightarrow> unit bop" where
  "posix_killpg os =
     bindop (hget hd_pid) (\<lambda>pid.
     suppress (is_kind Os_process_lookup) (os_do os (Killpg pid SIGKILL)))"

definition taskkill_tree :: "os \<Rightarrow> unit bop" where
  "taskkill_tree os =
     bindop (hget hd_pid) (\<lambda>pid.
     andthen (os_do os (Taskkill pid))
       (bindop (returncode os) (\<lambda>rc.
        whenop (rc = None) (suppress (is_kind Os_process_lookup) (os_do os Process_kill)))))"

definition pipe_kill_tree :: "bool \<Rightarrow> os \<Rightarrow> unit bop" where
  "pipe_kill_tree nt os =
     bindop (hget hd_tree_killed) (\<lambda>killed.
     whenop (\<not> killed)
       (if nt then
          bindop (returncode os) (\<lambda>rc.
          if rc \<noteq> None then mark_tree_killed
          else andthen (taskkill_tree os) mark_tree_killed)
        else andthen (posix_killpg os) mark_tree_killed))"

definition close_pipe_stdin :: "os \<Rightarrow> unit bop" where
  "close_pipe_stdin os =
     bindop (hget id) (\<lambda>h.
     whenop (\<not> hd_stdin_closed h \<and> hd_has_stdin h)
       (andthen (hmod (\<lambda>h. h\<lparr>hd_stdin_closed := True\<rparr>))
         (andthen (os_do os Stdin_close)
           (suppress (\<lambda>e. is_kind Os_broken_pipe e \<or> is_kind Os_reset e) (os_do os Stdin_wait_closed)))))"

text \<open>\<open>self.kill_tree\<close> is the one of the class of the object, so disposal takes it as an argument.\<close>

definition pipe_dispose :: "unit bop \<Rightarrow> os \<Rightarrow> unit bop" where
  "pipe_dispose kill os =
     bindop (hget hd_disposed) (\<lambda>disposed.
     whenop (\<not> disposed)
       (andthen
         (finally_do
           (bindop (hget hd_process_tree) (\<lambda>tree. whenop (tree \<noteq> ''unknown'') kill))
           (close_pipe_stdin os))
         (hmod (\<lambda>h. h\<lparr>hd_disposed := True\<rparr>))))"

definition pipe_backend :: "platform \<Rightarrow> os \<Rightarrow> backend" where
  "pipe_backend pf os =
     \<lparr>be_start = pipe_start pf new_process_group_flag os, be_write = (\<lambda>data. total (pipe_write os data)),
      be_close_stdin = total (pipe_close_stdin os), be_interrupt = pipe_interrupt (pf_nt pf) os,
      be_terminate = pipe_terminate (pf_nt pf) os, be_kill_tree = pipe_kill_tree (pf_nt pf) os,
      be_dispose = pipe_dispose (pipe_kill_tree (pf_nt pf) os) os,
      be_read = None, be_resize = None\<rparr>"

subsection \<open>Terminals\<close>

text \<open>
  \<open>_write_fd\<close> writes to a non-blocking descriptor until nothing remains; it waits when the
  descriptor is full, so it may never return.
\<close>

partial_function (option) write_fd :: "os \<Rightarrow> int \<Rightarrow> bytes \<Rightarrow> bstate \<Rightarrow> ((exn + unit) \<times> bstate) option" where
  "write_fd os fd data s =
     (if data = [] then Some (Inr (), s)
      else case os_int os (Write_fd fd data) s of (r, t) \<Rightarrow>
        (case r of
           Inl e \<Rightarrow>
             if is_kind Os_blocking e then
               (case os_do os (Wait_writable fd) t of (w, u) \<Rightarrow>
                 (case w of Inl e' \<Rightarrow> Some (Inl e', u) | Inr _ \<Rightarrow> write_fd os fd data u))
             else if is_kind Os_interrupted e then write_fd os fd data t
             else Some (Inl e, t)
         | Inr n \<Rightarrow>
             if n = 0 then
               (case os_do os (Wait_writable fd) t of (w, u) \<Rightarrow>
                 (case w of Inl e' \<Rightarrow> Some (Inl e', u) | Inr _ \<Rightarrow> write_fd os fd data u))
             else write_fd os fd (drop (nat n) data) t))"

text \<open>\<open>PtyBackend.read\<close> after the check of \<open>output_closed\<close>: a read that waits for input.\<close>

partial_function (option) read_fd :: "os \<Rightarrow> int \<Rightarrow> nat \<Rightarrow> bstate \<Rightarrow> ((exn + bytes) \<times> bstate) option" where
  "read_fd os fd amount s =
     (case os_bytes os (Read_fd fd amount) s of (r, t) \<Rightarrow>
        (case r of
           Inr b \<Rightarrow> Some (Inr b, t)
         | Inl e \<Rightarrow>
             if is_kind Os_blocking e then
               (case os_do os (Wait_readable fd) t of (w, u) \<Rightarrow>
                 (case w of Inl e' \<Rightarrow> Some (Inl e', u) | Inr _ \<Rightarrow> read_fd os fd amount u))
             else if is_kind Os_interrupted e then read_fd os fd amount t
             else if exn_errno e = Some 5 \<and> is_os_error e then Some (Inr [], t)
             else Some (Inl e, t)))"

definition os_fds :: "os \<Rightarrow> os_call \<Rightarrow> (int \<times> int) bop" where
  "os_fds os c = bindop (os_call os c) (\<lambda>v. case v of V_fds a b \<Rightarrow> ret (a, b) | _ \<Rightarrow> ret (0, 0))"

definition pty_start :: "platform \<Rightarrow> os \<Rightarrow> command_spec \<Rightarrow> unit bop" where
  "pty_start pf os spec =
     (if pf_nt pf then raise (X_not_implemented ''ConPTY backend is not available in this build'')
      else bindop (os_fds os Openpty) (\<lambda>(master, slave).
       bindop
        (finally_do
          (catch
            (andthen (os_do os (Set_nonblocking master))
              (os_int os (Spawn
                 \<lparr>so_argv = argv_strings spec, so_cwd = cs_cwd spec,
                  so_env = child_environment (pf_nt pf) (pf_environ pf) spec, so_terminal = Some slave,
                  so_creation_flags = 0, so_new_session = True,
                  so_rlimits = resource_limiter (pf_has_nproc pf) spec\<rparr>)))
            (\<lambda>e. andthen (os_do os (Close_fd master)) (raise e)))
          (os_do os (Close_fd slave))) (\<lambda>pid.
       hmod (\<lambda>_. new_handle\<lparr>hd_kind := Pty_handle, hd_pid := pid,
         hd_process_tree := ''process_group'', hd_birth_identity := pf_birth pf pid, hd_master_fd := master\<rparr>))))"

definition as_pty :: "unit bop" where
  "as_pty = bindop (hget is_pty_handle) (\<lambda>pty.
     if pty then ret () else raise (X_type ''PTY operation requires a PtyProcessHandle''))"

definition pty_write :: "os \<Rightarrow> bytes \<Rightarrow> unit bpop" where
  "pty_write os data =
     pbind (total (andthen as_pty (hget id))) (\<lambda>h.
     if hd_stdin_closed h then total (raise (X_runtime ''stdin is closed''))
     else write_fd os (hd_master_fd h) data)"

definition veof_number :: "int + bytes \<Rightarrow> int" where
  "veof_number v = (case v of Inl i \<Rightarrow> i | Inr bs \<Rightarrow> foldr (\<lambda>b n. uint b + 256 * n) bs 0)"

definition veof_bytes :: "int + bytes \<Rightarrow> bytes" where
  "veof_bytes v = (case v of Inl i \<Rightarrow> [word_of_int i] | Inr bs \<Rightarrow> bs)"

definition os_veof :: "os \<Rightarrow> int \<Rightarrow> (bool \<times> (int + bytes)) bop" where
  "os_veof os fd = bindop (os_call os (Tcgetattr fd)) (\<lambda>v.
     case v of V_veof canon ch \<Rightarrow> ret (canon, ch) | _ \<Rightarrow> ret (False, Inr []))"

definition pty_close_stdin :: "os \<Rightarrow> unit bpop" where
  "pty_close_stdin os =
     pbind (total (andthen as_pty (hget id))) (\<lambda>h.
     if hd_stdin_closed h then total (ret ())
     else
       pbind (total (os_veof os (hd_master_fd h))) (\<lambda>(canonical, veof).
       if \<not> canonical then
         total (raise (X_runtime ''stdin EOF is unavailable for a POSIX PTY in non-canonical mode''))
       else
         pbind (total (os_int os (Pc_vdisable (hd_master_fd h)))) (\<lambda>disabled.
         if veof_number veof = disabled then
           total (raise (X_runtime ''stdin EOF is disabled for this POSIX PTY''))
         else
           pbind (write_fd os (hd_master_fd h) (veof_bytes veof @ veof_bytes veof)) (\<lambda>_.
           total (hmod (\<lambda>h. h\<lparr>hd_stdin_closed := True\<rparr>))))))"

definition pty_signal :: "os_signal \<Rightarrow> os \<Rightarrow> unit bop" where
  "pty_signal sig os =
     bindop (returncode os) (\<lambda>rc.
     whenop (rc = None) (bindop (hget hd_pid) (\<lambda>pid. os_do os (Killpg pid sig))))"

definition pty_interrupt :: "os \<Rightarrow> unit bop" where
  "pty_interrupt = pty_signal SIGINT"

definition pty_terminate :: "os \<Rightarrow> unit bop" where
  "pty_terminate = pty_signal SIGTERM"

definition pty_kill_tree :: "os \<Rightarrow> unit bop" where
  "pty_kill_tree os =
     bindop (hget hd_tree_killed) (\<lambda>killed.
     whenop (\<not> killed) (andthen (posix_killpg os) mark_tree_killed))"

definition pty_read :: "os \<Rightarrow> bytes bpop" where
  "pty_read os =
     pbind (total (hget id)) (\<lambda>h.
     if hd_output_closed h then total (ret []) else read_fd os (hd_master_fd h) 65536)"

definition pty_resize :: "os \<Rightarrow> int \<Rightarrow> int \<Rightarrow> unit bop" where
  "pty_resize os cols rows =
     (if cols \<le> 0 \<or> rows \<le> 0 then raise (X_value ''terminal dimensions must be positive'')
      else if 65535 < cols \<or> 65535 < rows then
        raise (X_struct ''ushort format requires 0 <= number <= 65535'')
      else bindop (hget hd_master_fd) (\<lambda>fd. os_do os (Set_winsize fd rows cols)))"

definition pty_dispose :: "os \<Rightarrow> unit bop" where
  "pty_dispose os =
     andthen as_pty
     (bindop (hget hd_disposed) (\<lambda>disposed.
      whenop (\<not> disposed)
       (andthen
         (finally_do (pty_kill_tree os)
           (bindop (hget id) (\<lambda>h.
            whenop (\<not> hd_output_closed h)
              (andthen (hmod (\<lambda>h. h\<lparr>hd_output_closed := True\<rparr>)) (os_do os (Close_fd (hd_master_fd h)))))))
         (hmod (\<lambda>h. h\<lparr>hd_disposed := True\<rparr>)))))"

definition pty_backend :: "platform \<Rightarrow> os \<Rightarrow> backend" where
  "pty_backend pf os =
     \<lparr>be_start = pty_start pf os, be_write = pty_write os, be_close_stdin = pty_close_stdin os,
      be_interrupt = pty_interrupt os, be_terminate = pty_terminate os,
      be_kill_tree = pty_kill_tree os, be_dispose = pty_dispose os,
      be_read = Some (pty_read os), be_resize = Some (pty_resize os)\<rparr>"

end
