(* ===== verification/Ownership.thy ===== *)
theory Ownership
  imports Backends
begin

section \<open>Registration of process trees with the Master (service/ownership.py)\<close>

text \<open>
  The Worker's side of process ownership. A request is sent over a connection and waits for the
  acknowledgement that carries its identifier; the connection is a parameter: whether sending
  fails, and what each poll until the deadline finds. \<open>register_process\<close> and
  \<open>unregister_process\<close> work on the handle of a backend state, with the answered request as the
  function \<open>link\<close>.
\<close>

record ownership_record =
  ow_ownership_id :: string
  ow_pid :: int
  ow_pgid :: "int option"
  ow_process_tree :: string
  ow_birth_identity :: string
  ow_source_pid :: int
  ow_source_job_handle :: "int option"

datatype link_message = Ack string bool "string option" | Other_message

datatype link_poll = Poll_expired | Poll_message link_message

text \<open>The list holds the polls made before the deadline; after it the request has failed.\<close>

fun await_ack :: "string \<Rightarrow> string \<Rightarrow> link_poll list \<Rightarrow> exn + unit" where
  "await_ack operation request_id [] =
     Inl (X_os Os_timeout None (''Master did not acknowledge process '' @ operation))"
| "await_ack operation request_id (Poll_expired # ps) =
     Inl (X_os Os_timeout None (''Master did not acknowledge process '' @ operation))"
| "await_ack operation request_id (Poll_message (Ack rid ok detail) # ps) =
     (if rid \<noteq> request_id then await_ack operation request_id ps
      else if ok then Inr ()
      else Inl (X_runtime (''Master process '' @ operation @ '' failed: ''
             @ (case detail of Some d \<Rightarrow> d | None \<Rightarrow> ''request rejected''))))"
| "await_ack operation request_id (Poll_message Other_message # ps) = await_ack operation request_id ps"

record ownership_client =
  oc_closed :: bool
  oc_sent :: "(string \<times> string) list"

definition ownership_request :: "string \<Rightarrow> string \<Rightarrow> exn option \<Rightarrow> link_poll list
    \<Rightarrow> (ownership_client, unit) op" where
  "ownership_request operation request_id send_error polls =
     bindop (gets oc_closed) (\<lambda>closed.
     if closed then raise (X_runtime ''Master ownership channel is closed'')
     else (case send_error of
         Some e \<Rightarrow> raise e
       | None \<Rightarrow>
           andthen (modify (\<lambda>k. k\<lparr>oc_sent := oc_sent k @ [(operation, request_id)]\<rparr>))
             (case await_ack operation request_id polls of Inl e \<Rightarrow> raise e | Inr _ \<Rightarrow> ret ())))"

definition ownership_close :: "exn option \<Rightarrow> (ownership_client, unit) op" where
  "ownership_close close_error =
     bindop (gets oc_closed) (\<lambda>closed.
     whenop (\<not> closed)
       (case close_error of
          Some e \<Rightarrow> raise e
        | None \<Rightarrow> modify (\<lambda>k. k\<lparr>oc_closed := True\<rparr>)))"

text \<open>What a manager sees of the client.\<close>

record ownership =
  on_nt :: bool
  on_source_pid :: int
  on_register :: "ownership_record \<Rightarrow> exn + unit"
  on_unregister :: "string \<Rightarrow> exn + unit"

definition source_job :: "bool \<Rightarrow> handle \<Rightarrow> exn + int option" where
  "source_job nt h =
     (if \<not> nt then Inr None
      else case (if hd_kind h = Windows_pty_handle then hd_broker_job h else hd_job h) of
          None \<Rightarrow> Inl (X_runtime ''Windows process tree has no stable Job owner'')
        | Some j \<Rightarrow> Inr (Some j))"

definition register_process :: "ownership \<Rightarrow> string \<Rightarrow> unit bop" where
  "register_process link uid =
     bindop (hget id) (\<lambda>h.
     if hd_ownership_id h \<noteq> None then ret ()
     else case hd_birth_identity h of
         None \<Rightarrow> raise (X_runtime ''process birth identity is unavailable'')
       | Some birth \<Rightarrow>
           (case source_job (on_nt link) h of
              Inl e \<Rightarrow> raise e
            | Inr job \<Rightarrow>
                andthen (hmod (\<lambda>h. h\<lparr>hd_ownership_id := Some (''owner_'' @ uid)\<rparr>))
                  (case on_register link
                     \<lparr>ow_ownership_id = ''owner_'' @ uid, ow_pid = hd_pid h,
                      ow_pgid = (if hd_process_tree h = ''process_group'' then Some (hd_pid h) else None),
                      ow_process_tree = hd_process_tree h, ow_birth_identity = birth,
                      ow_source_pid = on_source_pid link, ow_source_job_handle = job\<rparr> of
                    Inl e \<Rightarrow> raise e | Inr _ \<Rightarrow> ret ())))"

definition unregister_process :: "ownership \<Rightarrow> unit bop" where
  "unregister_process link =
     bindop (hget hd_ownership_id) (\<lambda>oid.
     case oid of
       None \<Rightarrow> ret ()
     | Some i \<Rightarrow>
         (case on_unregister link i of
            Inl e \<Rightarrow> raise e
          | Inr _ \<Rightarrow> hmod (\<lambda>h. h\<lparr>hd_ownership_id := None\<rparr>)))"

text \<open>
  A request succeeds exactly when its own acknowledgement is the first with its identifier, comes
  before an expired poll, and is positive; acknowledgements of other requests are skipped.
\<close>

fun answers :: "string \<Rightarrow> link_poll \<Rightarrow> bool" where
  "answers rid (Poll_message (Ack r _ _)) = (r = rid)"
| "answers rid Poll_expired = True"
| "answers rid (Poll_message Other_message) = False"

fun positive_ack :: "string \<Rightarrow> link_poll \<Rightarrow> bool" where
  "positive_ack rid (Poll_message (Ack r ok _)) = (r = rid \<and> ok)"
| "positive_ack rid _ = False"

lemma await_ack_first:
  "await_ack operation rid ps = Inr () \<longleftrightarrow>
     (case find (answers rid) ps of None \<Rightarrow> False | Some p \<Rightarrow> positive_ack rid p)"
  by (induction operation rid ps rule: await_ack.induct) auto

end
