(* ===== verification/Cancellation.thy ===== *)
theory Cancellation
  imports Backends
begin

section \<open>Cancelling a process tree (runtime/backends.py)\<close>

text \<open>
  \<open>CancellationPolicy\<close> and \<open>cancel_process\<close>, the escalation from interrupt to terminate to
  kill-tree over any backend. The contract of a backend that the escalation and the session
  manager rely on is the locale \<open>tree_backend\<close>; it is interpreted on the two POSIX backends here
  and on the two Windows backends in \<open>WindowsBackends\<close>.
\<close>

datatype cancellation_step = INTERRUPT | TERMINATE | KILL_TREE

fun cancellation_step_value :: "cancellation_step \<Rightarrow> string" where
  "cancellation_step_value INTERRUPT = ''interrupt''"
| "cancellation_step_value TERMINATE = ''terminate''"
| "cancellation_step_value KILL_TREE = ''kill_tree''"

record cancellation_policy =
  cp_interrupt_grace_ms :: int
  cp_terminate_grace_ms :: int
  cp_kill_tree_grace_ms :: int
  cp_skip_interrupt :: bool

definition default_cancellation :: cancellation_policy where
  "default_cancellation = \<lparr>cp_interrupt_grace_ms = 1000, cp_terminate_grace_ms = 1000,
     cp_kill_tree_grace_ms = 2000, cp_skip_interrupt = False\<rparr>"

definition cancellation_validate :: "cancellation_policy \<Rightarrow> unit bop" where
  "cancellation_validate p =
     (if cp_interrupt_grace_ms p < 0 \<or> cp_terminate_grace_ms p < 0 \<or> cp_kill_tree_grace_ms p \<le> 0
      then raise (X_value (''interrupt and terminate grace periods must be non-negative; ''
                        @ ''kill-tree grace period must be positive''))
      else ret ())"

text \<open>A wait that ends in an exit is True, one that ends at its deadline False.\<close>

definition wait_for_exit :: "os \<Rightarrow> rat option \<Rightarrow> bool bop" where
  "wait_for_exit os timeout =
     catch (andthen (os_do os (Process_wait timeout)) (ret True))
       (\<lambda>e. if is_timeout e then ret False else raise e)"

definition grace :: "int \<Rightarrow> rat option" where
  "grace ms = Some (of_int ms / 1000)"

text \<open>
  The steps taken so far are an argument; \<open>step_handler\<close> is the call \<open>Report_step\<close>, made when
  \<open>reporting\<close>, before the step itself.
\<close>

definition take_step :: "os \<Rightarrow> bool \<Rightarrow> cancellation_step \<Rightarrow> unit bop \<Rightarrow> unit bop" where
  "take_step os reporting st act =
     andthen (whenop reporting (os_do os (Report_step (cancellation_step_value st)))) act"

definition kill_known_tree :: "os \<Rightarrow> bool \<Rightarrow> backend \<Rightarrow> cancellation_step list \<Rightarrow> cancellation_step list bop" where
  "kill_known_tree os reporting be steps =
     bindop (hget hd_process_tree) (\<lambda>tree.
     if tree \<noteq> ''unknown'' then
       andthen (take_step os reporting KILL_TREE (be_kill_tree be)) (ret (steps @ [KILL_TREE]))
     else ret steps)"

definition cancel_terminate ::
    "os \<Rightarrow> bool \<Rightarrow> backend \<Rightarrow> cancellation_policy \<Rightarrow> cancellation_step list \<Rightarrow> cancellation_step list bop" where
  "cancel_terminate os reporting be p steps =
     andthen (take_step os reporting TERMINATE (be_terminate be))
     (bindop (wait_for_exit os (grace (cp_terminate_grace_ms p))) (\<lambda>exited.
      if exited then kill_known_tree os reporting be (steps @ [TERMINATE])
      else
        andthen (take_step os reporting KILL_TREE (be_kill_tree be))
        (bindop (wait_for_exit os (grace (cp_kill_tree_grace_ms p))) (\<lambda>exited.
         if exited then ret (steps @ [TERMINATE, KILL_TREE])
         else raise (X_os Os_timeout None ''process tree did not exit after forced termination'')))))"

definition cancel_process ::
    "os \<Rightarrow> bool \<Rightarrow> backend \<Rightarrow> cancellation_policy option \<Rightarrow> cancellation_step list bop" where
  "cancel_process os reporting be policy =
     (let p = (case policy of None \<Rightarrow> default_cancellation | Some p \<Rightarrow> p) in
      andthen (cancellation_validate p)
      (bindop (returncode os) (\<lambda>rc.
       if rc \<noteq> None then kill_known_tree os reporting be []
       else if cp_skip_interrupt p then cancel_terminate os reporting be p []
       else
         andthen (take_step os reporting INTERRUPT (be_interrupt be))
         (bindop (wait_for_exit os (grace (cp_interrupt_grace_ms p))) (\<lambda>exited.
          if exited then kill_known_tree os reporting be [INTERRUPT]
          else cancel_terminate os reporting be p [INTERRUPT])))))"

subsection \<open>Calls and their traces\<close>

lemma wp_os_call [wp_simps]:
  "wp (os_call os c) Q s = Q (os (bs_trace s) c) (s\<lparr>bs_trace := bs_trace s @ [c]\<rparr>)"
  by (simp add: wp_def os_call_def)

lemma wp_os_do [wp_simps]:
  "wp (os_do os c) Q s =
     Q (case os (bs_trace s) c of Inl e \<Rightarrow> Inl e | Inr _ \<Rightarrow> Inr ()) (s\<lparr>bs_trace := bs_trace s @ [c]\<rparr>)"
  by (simp add: os_do_def wp_simps split: sum.split)

lemma wp_os_int [wp_simps]:
  "wp (os_int os c) Q s =
     Q (case os (bs_trace s) c of Inl e \<Rightarrow> Inl e | Inr v \<Rightarrow> Inr (case v of V_int i \<Rightarrow> i | _ \<Rightarrow> 0))
       (s\<lparr>bs_trace := bs_trace s @ [c]\<rparr>)"
  by (simp add: os_int_def wp_simps split: sum.split os_value.split)

lemma wp_os_opt [wp_simps]:
  "wp (os_opt os c) Q s =
     Q (case os (bs_trace s) c of Inl e \<Rightarrow> Inl e | Inr v \<Rightarrow> Inr (case v of V_opt i \<Rightarrow> i | _ \<Rightarrow> None))
       (s\<lparr>bs_trace := bs_trace s @ [c]\<rparr>)"
  by (simp add: os_opt_def wp_simps split: sum.split os_value.split)

lemma wp_os_bool [wp_simps]:
  "wp (os_bool os c) Q s =
     Q (case os (bs_trace s) c of Inl e \<Rightarrow> Inl e | Inr v \<Rightarrow> Inr (v = V_bool True))
       (s\<lparr>bs_trace := bs_trace s @ [c]\<rparr>)"
  by (simp add: os_bool_def wp_simps split: sum.split)

lemma wp_os_fds [wp_simps]:
  "wp (os_fds os c) Q s =
     Q (case os (bs_trace s) c of Inl e \<Rightarrow> Inl e | Inr v \<Rightarrow> Inr (case v of V_fds a b \<Rightarrow> (a, b) | _ \<Rightarrow> (0, 0)))
       (s\<lparr>bs_trace := bs_trace s @ [c]\<rparr>)"
  by (simp add: os_fds_def wp_simps split: sum.split os_value.split)

lemma wp_hget [wp_simps]: "wp (hget f) Q s = Q (Inr (f (bs_handle s))) s"
  by (simp add: hget_def wp_simps)

lemma wp_hmod [wp_simps]: "wp (hmod f) Q s = Q (Inr ()) (s\<lparr>bs_handle := f (bs_handle s)\<rparr>)"
  by (simp add: hmod_def wp_simps)

lemma wp_returncode [wp_simps]:
  "wp (returncode os) Q s =
     Q (case os (bs_trace s) Get_returncode of Inl e \<Rightarrow> Inl e
        | Inr v \<Rightarrow> Inr (case v of V_opt i \<Rightarrow> i | _ \<Rightarrow> None))
       (s\<lparr>bs_trace := bs_trace s @ [Get_returncode]\<rparr>)"
  by (simp add: returncode_def wp_simps)

lemma wp_wait_for_exit [wp_simps]:
  "wp (wait_for_exit os t) Q s =
     Q (case os (bs_trace s) (Process_wait t) of
          Inl e \<Rightarrow> if is_timeout e then Inr False else Inl e | Inr _ \<Rightarrow> Inr True)
       (s\<lparr>bs_trace := bs_trace s @ [Process_wait t]\<rparr>)"
  by (simp add: wait_for_exit_def wp_simps split: sum.split)

lemma wp_mark [wp_simps]:
  "wp mark_tree_killed Q s = Q (Inr ()) (s\<lparr>bs_handle := (bs_handle s)\<lparr>hd_tree_killed := True\<rparr>\<rparr>)"
  by (simp add: mark_tree_killed_def wp_simps)

subsection \<open>The contract of a backend\<close>

text \<open>
  What no operation on a running handle changes: its process, the kind of its tree, and a tree
  that is dead or a handle that is disposed stay so. \<open>ready\<close> says when an operation may be called.
\<close>

definition same_process :: "handle \<Rightarrow> handle \<Rightarrow> bool" where
  "same_process h k \<longleftrightarrow> hd_kind k = hd_kind h \<and> hd_pid k = hd_pid h
     \<and> hd_process_tree k = hd_process_tree h \<and> hd_birth_identity k = hd_birth_identity h
     \<and> (hd_tree_killed h \<longrightarrow> hd_tree_killed k) \<and> (hd_disposed h \<longrightarrow> hd_disposed k)"

lemma same_process_refl [simp, intro]: "same_process h h"
  by (simp add: same_process_def)

lemma same_process_trans: "same_process h k \<Longrightarrow> same_process k l \<Longrightarrow> same_process h l"
  by (auto simp: same_process_def)

definition process_kept :: "bstate \<Rightarrow> bstate \<Rightarrow> bool" where
  "process_kept s t \<longleftrightarrow> same_process (bs_handle s) (bs_handle t)"

definition handle_kept :: "bstate \<Rightarrow> bstate \<Rightarrow> bool" where
  "handle_kept s t \<longleftrightarrow> bs_handle t = bs_handle s"

definition trace_grows :: "bstate \<Rightarrow> bstate \<Rightarrow> bool" where
  "trace_grows s t \<longleftrightarrow> prefix (bs_trace s) (bs_trace t)"

interpretation process: state_relation process_kept
  by unfold_locales (auto simp: process_kept_def intro: same_process_trans)

interpretation kept: state_relation handle_kept
  by unfold_locales (auto simp: handle_kept_def)

interpretation trace: state_relation trace_grows
  by unfold_locales (auto simp: trace_grows_def)

abbreviation keeps_process :: "'a bop \<Rightarrow> bool" where
  "keeps_process \<equiv> keeps process_kept"

lemma keeps_processD: "keeps_process m \<Longrightarrow> m s = (r, t) \<Longrightarrow> same_process (bs_handle s) (bs_handle t)"
  using keepsD by (fastforce simp: process_kept_def)

lemma os_calls_keep:
  "keeps handle_kept (os_call os c)" "keeps handle_kept (os_do os c)" "keeps handle_kept (os_opt os c)"
  "keeps handle_kept (os_int os c)" "keeps handle_kept (os_bool os c)" "keeps handle_kept (os_fds os c)"
  "keeps handle_kept (returncode os)" "keeps handle_kept (wait_for_exit os t)" "keeps handle_kept (hget f)"
  using wp_os_call [of os c "\<lambda>_ t. handle_kept _ t"] wp_os_do [of os c "\<lambda>_ t. handle_kept _ t"]
  by (simp_all add: keeps_def wp_def [symmetric] handle_kept_def os_do_def os_opt_def os_int_def
      os_bool_def os_fds_def os_call_def returncode_def wait_for_exit_def hget_def gets_def bindop_def
      ret_def catch_def raise_def andthen_def split: sum.split os_value.split)

lemma os_calls_grow:
  "keeps trace_grows (os_call os c)" "keeps trace_grows (os_do os c)" "keeps trace_grows (os_opt os c)"
  "keeps trace_grows (os_int os c)" "keeps trace_grows (os_bool os c)" "keeps trace_grows (os_fds os c)"
  "keeps trace_grows (returncode os)" "keeps trace_grows (wait_for_exit os t)" "keeps trace_grows (hget f)"
  "keeps trace_grows (hmod g)"
  by (simp_all add: keeps_def trace_grows_def os_do_def os_opt_def os_int_def hmod_def modify_def
      os_bool_def os_fds_def os_call_def returncode_def wait_for_exit_def hget_def gets_def bindop_def
      ret_def catch_def raise_def andthen_def split: sum.split os_value.split)

lemma kept_process: "keeps handle_kept m \<Longrightarrow> keeps_process m"
  by (auto simp: keeps_def handle_kept_def process_kept_def)

lemmas keeps_os = os_calls_keep(2) [THEN kept_process] os_calls_keep(3) [THEN kept_process]
  os_calls_keep(4) [THEN kept_process] os_calls_keep(5) [THEN kept_process]
  os_calls_keep(7) [THEN kept_process] os_calls_keep(8) [THEN kept_process]
  os_calls_keep(1) [THEN kept_process] os_calls_keep(6) [THEN kept_process]

lemmas keeps_hget = os_calls_keep(9) [THEN kept_process]

lemma keeps_hmod: "(\<And>h. same_process h (f h)) \<Longrightarrow> keeps_process (hmod f)"
  by (simp add: keeps_def process_kept_def hmod_def modify_def)

lemma keeps_mark: "keeps_process mark_tree_killed"
  by (auto simp: mark_tree_killed_def same_process_def intro!: keeps_hmod)

lemmas keeps_rules = process.keeps_rules keeps_os keeps_hget keeps_mark

locale tree_backend =
  fixes be :: backend and accepts :: "handle \<Rightarrow> bool"
  assumes interrupt_keeps: "keeps_process (be_interrupt be)"
    and terminate_keeps: "keeps_process (be_terminate be)"
    and kill_keeps: "keeps_process (be_kill_tree be)"
    and dispose_keeps: "keeps_process (be_dispose be)"
    and kill_done: "be_kill_tree be s = (Inr (), t) \<Longrightarrow> hd_tree_killed (bs_handle t)"
    and accepts_keeps: "accepts h \<Longrightarrow> same_process h k \<Longrightarrow> accepts k"
    and kill_once: "accepts (bs_handle s) \<Longrightarrow> hd_tree_killed (bs_handle s) \<Longrightarrow> be_kill_tree be s = (Inr (), s)"
    and dispose_done: "be_dispose be s = (Inr (), t) \<Longrightarrow> hd_disposed (bs_handle t)"
    and dispose_kills: "be_dispose be s = (Inr (), t) \<Longrightarrow> \<not> hd_disposed (bs_handle s) \<Longrightarrow>
      hd_process_tree (bs_handle s) \<noteq> ''unknown'' \<Longrightarrow> hd_tree_killed (bs_handle t)"
begin

lemma kill_known_tree_result:
  assumes "kill_known_tree os rep be steps s = (Inr out, t)"
  shows "if hd_process_tree (bs_handle s) = ''unknown'' then out = steps
    else out = steps @ [KILL_TREE] \<and> hd_tree_killed (bs_handle t)"
  using assms
  by (auto simp: kill_known_tree_def take_step_def op_Inr hget_def gets_def ret_def dest: kill_done
      split: if_splits)

lemma take_step_keeps: "keeps_process m \<Longrightarrow> keeps_process (take_step os rep st m)"
  unfolding take_step_def by (intro keeps_rules)

lemma cancel_terminate_result:
  assumes "cancel_terminate os rep be p steps s = (Inr out, t)"
  shows "out \<in> {steps @ [TERMINATE], steps @ [TERMINATE, KILL_TREE]}
    \<and> (hd_process_tree (bs_handle s) \<noteq> ''unknown'' \<longrightarrow>
         out = steps @ [TERMINATE, KILL_TREE] \<and> hd_tree_killed (bs_handle t))"
proof -
  obtain u where u: "take_step os rep TERMINATE (be_terminate be) s = (Inr (), u)"
    using assms by (auto simp: cancel_terminate_def op_Inr)
  have tree: "hd_process_tree (bs_handle u) = hd_process_tree (bs_handle s)"
    using keeps_processD [OF take_step_keeps [OF terminate_keeps] u] by (simp add: same_process_def)
  obtain ex v where v: "wait_for_exit os (grace (cp_terminate_grace_ms p)) u = (Inr ex, v)"
    using assms u by (auto simp: cancel_terminate_def op_Inr)
  have tree': "hd_process_tree (bs_handle v) = hd_process_tree (bs_handle s)"
    using keeps_processD [OF keeps_os(6) v] tree by (simp add: same_process_def)
  show ?thesis
  proof (cases ex)
    case True
    then have "kill_known_tree os rep be (steps @ [TERMINATE]) v = (Inr out, t)"
      using assms by (simp add: cancel_terminate_def andthen_step [where m = "take_step os rep TERMINATE (be_terminate be)", OF u]
        bindop_step [where m = "wait_for_exit os (grace (cp_terminate_grace_ms p))", OF v])
    from kill_known_tree_result [OF this] tree' show ?thesis by (auto split: if_splits)
  next
    case False
    then have rest: "andthen (take_step os rep KILL_TREE (be_kill_tree be))
        (bindop (wait_for_exit os (grace (cp_kill_tree_grace_ms p))) (\<lambda>exited.
         if exited then ret (steps @ [TERMINATE, KILL_TREE])
         else raise (X_os Os_timeout None ''process tree did not exit after forced termination''))) v
       = (Inr out, t)"
      using assms by (simp add: cancel_terminate_def andthen_step [where m = "take_step os rep TERMINATE (be_terminate be)", OF u]
        bindop_step [where m = "wait_for_exit os (grace (cp_terminate_grace_ms p))", OF v])
    then obtain w ex' x where w: "take_step os rep KILL_TREE (be_kill_tree be) v = (Inr (), w)"
      and x: "wait_for_exit os (grace (cp_kill_tree_grace_ms p)) w = (Inr ex', x)"
      and out: "(if ex' then ret (steps @ [TERMINATE, KILL_TREE])
         else raise (X_os Os_timeout None ''process tree did not exit after forced termination'')) x
       = (Inr out, t)"
      by (auto simp: op_Inr)
    have "hd_tree_killed (bs_handle w)"
      using w kill_done by (auto simp: take_step_def op_Inr split: if_splits)
    then have "hd_tree_killed (bs_handle x)"
      using keeps_processD [OF keeps_os(6) x] by (simp add: same_process_def)
    then show ?thesis using out by (auto simp: ret_def raise_def split: if_splits)
  qed
qed

text \<open>
  A cancellation that returns has taken its steps in escalation order, and when the process tree
  is known it has ended by killing that tree, even if the root process exited earlier.
\<close>

lemma cancel_process_result:
  assumes "cancel_process os rep be policy s = (Inr out, t)"
  shows "subseq out [INTERRUPT, TERMINATE, KILL_TREE]
    \<and> (hd_process_tree (bs_handle s) \<noteq> ''unknown'' \<longrightarrow>
         out \<noteq> [] \<and> last out = KILL_TREE \<and> hd_tree_killed (bs_handle t))"
proof -
  define p where "p = (case policy of None \<Rightarrow> default_cancellation | Some p \<Rightarrow> p)"
  let ?F = "\<lambda>rc. if rc \<noteq> None then kill_known_tree os rep be []
       else if cp_skip_interrupt p then cancel_terminate os rep be p []
       else
         andthen (take_step os rep INTERRUPT (be_interrupt be))
         (bindop (wait_for_exit os (grace (cp_interrupt_grace_ms p))) (\<lambda>exited.
          if exited then kill_known_tree os rep be [INTERRUPT]
          else cancel_terminate os rep be p [INTERRUPT]))"
  have "andthen (cancellation_validate p) (bindop (returncode os) ?F) s = (Inr out, t)"
    using assms unfolding cancel_process_def Let_def p_def .
  then obtain x0 s0 rc u where valid: "cancellation_validate p s = (Inr x0, s0)"
    and u0: "returncode os s0 = (Inr rc, u)" and rest: "?F rc u = (Inr out, t)"
    unfolding andthen_Inr bindop_Inr by blast
  have "s0 = s" using valid by (simp add: cancellation_validate_def raise_def ret_def split: if_splits)
  then have u: "returncode os s = (Inr rc, u)" using u0 by simp
  have tree: "hd_process_tree (bs_handle u) = hd_process_tree (bs_handle s)"
    using keeps_processD [OF keeps_os(5) u] by (simp add: same_process_def)
  consider (exited) "kill_known_tree os rep be [] u = (Inr out, t)"
    | (terminate) "cancel_terminate os rep be p [] u = (Inr out, t)"
    | (interrupt) "andthen (take_step os rep INTERRUPT (be_interrupt be))
         (bindop (wait_for_exit os (grace (cp_interrupt_grace_ms p))) (\<lambda>exited.
          if exited then kill_known_tree os rep be [INTERRUPT]
          else cancel_terminate os rep be p [INTERRUPT])) u = (Inr out, t)"
    using rest by (auto split: if_splits)
  then show ?thesis
  proof cases
    case exited
    from kill_known_tree_result [OF this] tree show ?thesis by (auto split: if_splits)
  next
    case terminate
    from cancel_terminate_result [OF this] tree show ?thesis by auto
  next
    case interrupt
    then obtain v ex w where interrupt: "take_step os rep INTERRUPT (be_interrupt be) u = (Inr (), v)"
      "wait_for_exit os (grace (cp_interrupt_grace_ms p)) v = (Inr ex, w)"
      "(if ex then kill_known_tree os rep be [INTERRUPT] else cancel_terminate os rep be p [INTERRUPT]) w
        = (Inr out, t)"
      unfolding andthen_Inr bindop_Inr by auto
    have tree': "hd_process_tree (bs_handle w) = hd_process_tree (bs_handle s)"
      using keeps_processD [OF take_step_keeps [OF interrupt_keeps] interrupt(1)]
        keeps_processD [OF keeps_os(6) interrupt(2)] tree by (simp add: same_process_def)
    show ?thesis
    proof (cases ex)
      case True
      then have "kill_known_tree os rep be [INTERRUPT] w = (Inr out, t)" using interrupt(3) by simp
      from kill_known_tree_result [OF this] tree' show ?thesis by (auto split: if_splits)
    next
      case False
      then have "cancel_terminate os rep be p [INTERRUPT] w = (Inr out, t)" using interrupt(3) by simp
      from cancel_terminate_result [OF this] tree' show ?thesis by auto
    qed
  qed
qed

text \<open>Disposal of a running handle ends its process tree, and is then a no-op.\<close>

lemma dispose_after_kill:
  assumes "be_dispose be s = (Inr (), t)" and "\<not> hd_disposed (bs_handle s)"
    and "hd_process_tree (bs_handle s) \<noteq> ''unknown''" and "accepts (bs_handle s)"
  shows "hd_disposed (bs_handle t) \<and> hd_tree_killed (bs_handle t) \<and> be_kill_tree be t = (Inr (), t)"
  using dispose_done [OF assms(1)] dispose_kills [OF assms(1-3)] kill_once
    accepts_keeps [OF assms(4) keeps_processD [OF dispose_keeps assms(1)]] by blast

end

lemma keeps_pipe_signals: "keeps_process (pipe_interrupt nt os)" "keeps_process (pipe_terminate nt os)"
  unfolding pipe_interrupt_def pipe_terminate_def
  by (auto intro!: keeps_rules)

lemma keeps_killpg: "keeps_process (posix_killpg os)"
  unfolding posix_killpg_def by (auto intro!: keeps_rules)

lemma keeps_pipe_kill: "keeps_process (pipe_kill_tree nt os)"
  unfolding pipe_kill_tree_def taskkill_tree_def
  by (auto intro!: keeps_rules keeps_killpg)

lemma keeps_close_pipe_stdin: "keeps_process (close_pipe_stdin os)"
  unfolding close_pipe_stdin_def
  by (auto intro!: keeps_rules keeps_hmod simp: same_process_def)

lemma keeps_pipe_dispose: "keeps_process kill \<Longrightarrow> keeps_process (pipe_dispose kill os)"
  unfolding pipe_dispose_def
  by (auto intro!: keeps_rules keeps_killpg keeps_close_pipe_stdin keeps_hmod simp: same_process_def)

lemma pipe_dispose_done:
  assumes "pipe_dispose kill os s = (Inr (), t)"
  shows "hd_disposed (bs_handle t)"
  using assms
  by (auto simp: pipe_dispose_def op_Inr hget_def hmod_def gets_def modify_def split: if_splits)

lemma pipe_dispose_kills:
  assumes "pipe_dispose kill os s = (Inr (), t)" and "\<not> hd_disposed (bs_handle s)"
    and "hd_process_tree (bs_handle s) \<noteq> ''unknown''"
    and "\<And>s t. kill s = (Inr (), t) \<Longrightarrow> hd_tree_killed (bs_handle t)"
  shows "hd_tree_killed (bs_handle t)"
proof -
  obtain u v where "kill s = (Inr (), u)" and v: "close_pipe_stdin os u = (Inr (), v)"
    and t: "hmod (\<lambda>h. h\<lparr>hd_disposed := True\<rparr>) v = (Inr (), t)"
    using assms(1-3) by (auto simp: pipe_dispose_def op_Inr hget_def gets_def)
  then have "hd_tree_killed (bs_handle u)" using assms(4) by blast
  moreover have "same_process (bs_handle u) (bs_handle v)"
    by (rule keeps_processD [OF keeps_close_pipe_stdin v])
  ultimately show ?thesis using t by (auto simp: same_process_def hmod_def modify_def)
qed

lemma pipe_kill_done: "pipe_kill_tree nt os s = (Inr (), t) \<Longrightarrow> hd_tree_killed (bs_handle t)"
  by (auto simp: pipe_kill_tree_def op_Inr hget_def gets_def mark_tree_killed_def hmod_def modify_def
      split: if_splits)

lemma pipe_kill_once: "hd_tree_killed (bs_handle s) \<Longrightarrow> pipe_kill_tree nt os s = (Inr (), s)"
  by (simp add: pipe_kill_tree_def bindop_def hget_def gets_def whenop_def ret_def)

interpretation pipe: tree_backend "pipe_backend pf os" "\<lambda>_. True" for pf os
proof
  fix s t
  show "be_kill_tree (pipe_backend pf os) s = (Inr (), t) \<Longrightarrow> hd_tree_killed (bs_handle t)"
    by (auto simp: pipe_backend_def dest: pipe_kill_done)
  show "hd_tree_killed (bs_handle s) \<Longrightarrow> be_kill_tree (pipe_backend pf os) s = (Inr (), s)"
    by (simp add: pipe_backend_def pipe_kill_once)
  show "be_dispose (pipe_backend pf os) s = (Inr (), t) \<Longrightarrow> hd_disposed (bs_handle t)"
    by (auto simp: pipe_backend_def dest: pipe_dispose_done)
  show "be_dispose (pipe_backend pf os) s = (Inr (), t) \<Longrightarrow> \<not> hd_disposed (bs_handle s) \<Longrightarrow>
      hd_process_tree (bs_handle s) \<noteq> ''unknown'' \<Longrightarrow> hd_tree_killed (bs_handle t)"
    by (rule pipe_dispose_kills) (auto simp: pipe_backend_def dest: pipe_kill_done)
qed (simp_all add: pipe_backend_def keeps_pipe_signals keeps_pipe_kill keeps_pipe_dispose)

lemma keeps_pty: "keeps_process (pty_signal sig os)" "keeps_process (pty_kill_tree os)"
    "keeps_process as_pty" "keeps_process (pty_dispose os)"
  unfolding pty_signal_def pty_kill_tree_def as_pty_def pty_dispose_def
  by (auto intro!: keeps_rules keeps_killpg keeps_hmod simp: same_process_def)

lemma pty_kill_done: "pty_kill_tree os s = (Inr (), t) \<Longrightarrow> hd_tree_killed (bs_handle t)"
  by (auto simp: pty_kill_tree_def op_Inr hget_def gets_def mark_tree_killed_def hmod_def modify_def
      split: if_splits)

lemma pty_kill_once: "hd_tree_killed (bs_handle s) \<Longrightarrow> pty_kill_tree os s = (Inr (), s)"
  by (simp add: pty_kill_tree_def bindop_def hget_def gets_def whenop_def ret_def)

end
