(* ===== verification/PtyFacts.thy ===== *)
theory PtyFacts
  imports Cancellation
begin

section \<open>Terminals: complete writes and owned descriptors\<close>

text \<open>
  The write loop of a terminal hands the operating system exactly the bytes it was given, in
  order, however the system splits, blocks or interrupts the writes, and it returns as soon as the
  system makes progress; a terminal backend honours the contract of \<open>tree_backend\<close> and owns its
  descriptors on every path.
\<close>

subsection \<open>The write loop\<close>

text \<open>The bytes that the calls of a trace made the descriptor accept.\<close>

definition accepted_by :: "os \<Rightarrow> int \<Rightarrow> os_call list \<Rightarrow> os_call \<Rightarrow> bytes" where
  "accepted_by os fd hist c =
     (case c of
        Write_fd f d \<Rightarrow> if f = fd then (case os hist c of Inr (V_int n) \<Rightarrow> take (nat n) d | _ \<Rightarrow> []) else []
      | _ \<Rightarrow> [])"

fun accepted :: "os \<Rightarrow> int \<Rightarrow> os_call list \<Rightarrow> os_call list \<Rightarrow> bytes" where
  "accepted os fd hist [] = []"
| "accepted os fd hist (c # cs) = accepted_by os fd hist c @ accepted os fd (hist @ [c]) cs"

definition wrote :: "os \<Rightarrow> int \<Rightarrow> bytes \<Rightarrow> bstate \<Rightarrow> (exn + unit) \<times> bstate \<Rightarrow> bool" where
  "wrote os fd data s z \<longleftrightarrow>
     (\<exists>cs. bs_trace (snd z) = bs_trace s @ cs \<and> bs_handle (snd z) = bs_handle s
        \<and> (case fst z of Inr _ \<Rightarrow> accepted os fd (bs_trace s) cs = data
           | Inl _ \<Rightarrow> prefix (accepted os fd (bs_trace s) cs) data))"

lemma os_int_run:
  "os_int os c s = (case os (bs_trace s) c of Inl e \<Rightarrow> Inl e | Inr v \<Rightarrow> Inr (case v of V_int i \<Rightarrow> i | _ \<Rightarrow> 0),
     s\<lparr>bs_trace := bs_trace s @ [c]\<rparr>)"
  by (simp add: os_int_def os_call_def bindop_def ret_def split: sum.split os_value.split)

lemma os_do_run:
  "os_do os c s = (case os (bs_trace s) c of Inl e \<Rightarrow> Inl e | Inr v \<Rightarrow> Inr (),
     s\<lparr>bs_trace := bs_trace s @ [c]\<rparr>)"
  by (simp add: os_do_def os_call_def bindop_def ret_def split: sum.split)

lemma wrote_after:
  assumes "wrote os fd (drop n data) t z" and "bs_trace t = bs_trace s @ cs" and "bs_handle t = bs_handle s"
    and "accepted os fd (bs_trace s) cs = take n data"
  shows "wrote os fd data s z"
proof -
  obtain ds where ds: "bs_trace (snd z) = bs_trace t @ ds" "bs_handle (snd z) = bs_handle t"
    "case fst z of Inr _ \<Rightarrow> accepted os fd (bs_trace t) ds = drop n data
       | Inl _ \<Rightarrow> prefix (accepted os fd (bs_trace t) ds) (drop n data)"
    using assms(1) by (auto simp: wrote_def)
  have app: "accepted os fd h (as @ bs) = accepted os fd h as @ accepted os fd (h @ as) bs" for h as bs
    by (induction "as" arbitrary: h) simp_all
  have all: "accepted os fd (bs_trace s) (cs @ ds) = take n data @ accepted os fd (bs_trace t) ds"
    using assms(2,4) by (simp add: app)
  show ?thesis unfolding wrote_def
  proof (intro exI conjI)
    show "bs_trace (snd z) = bs_trace s @ (cs @ ds)" using ds(1) assms(2) by simp
    show "bs_handle (snd z) = bs_handle s" using ds(2) assms(3) by simp
    show "case fst z of Inr _ \<Rightarrow> accepted os fd (bs_trace s) (cs @ ds) = data
        | Inl _ \<Rightarrow> prefix (accepted os fd (bs_trace s) (cs @ ds)) data"
      using ds(3) unfolding all
      by (auto split: sum.splits simp: prefix_def) (metis append_assoc append_take_drop_id)
  qed
qed

lemma wrote_retry:
  "wrote os fd data t z \<Longrightarrow> bs_trace t = bs_trace s @ cs \<Longrightarrow> bs_handle t = bs_handle s \<Longrightarrow>
     accepted os fd (bs_trace s) cs = [] \<Longrightarrow> wrote os fd data s z"
  using wrote_after [of os fd 0 data t z s cs] by simp

text \<open>One round of the loop: blocked, to be repeated, failed, or some bytes accepted.\<close>

datatype write_answer = Blocked | Again | Failed_write exn | Took int

definition write_answer :: "os \<Rightarrow> int \<Rightarrow> bytes \<Rightarrow> os_call list \<Rightarrow> write_answer" where
  "write_answer os fd data hist =
     (case os hist (Write_fd fd data) of
        Inl e \<Rightarrow> if is_kind Os_blocking e then Blocked
          else if is_kind Os_interrupted e then Again else Failed_write e
      | Inr v \<Rightarrow> (case v of V_int n \<Rightarrow> if n = 0 then Blocked else Took n | _ \<Rightarrow> Blocked))"

definition called :: "os_call list \<Rightarrow> bstate \<Rightarrow> bstate" where
  "called cs s = s\<lparr>bs_trace := bs_trace s @ cs\<rparr>"

lemma called_simps [simp]:
  "bs_trace (called cs s) = bs_trace s @ cs" "bs_handle (called cs s) = bs_handle s"
  by (simp_all add: called_def)

lemma write_round:
  assumes "data \<noteq> []"
  shows "(if data = [] then Some (Inr (), s)
      else case os_int os (Write_fd fd data) s of (r, t) \<Rightarrow>
        (case r of
           Inl e \<Rightarrow>
             if is_kind Os_blocking e then
               (case os_do os (Wait_writable fd) t of (w, u) \<Rightarrow>
                 (case w of Inl e' \<Rightarrow> Some (Inl e', u) | Inr _ \<Rightarrow> f os fd data u))
             else if is_kind Os_interrupted e then f os fd data t
             else Some (Inl e, t)
         | Inr n \<Rightarrow>
             if n = 0 then
               (case os_do os (Wait_writable fd) t of (w, u) \<Rightarrow>
                 (case w of Inl e' \<Rightarrow> Some (Inl e', u) | Inr _ \<Rightarrow> f os fd data u))
             else f os fd (drop (nat n) data) t))
    = (case write_answer os fd data (bs_trace s) of
         Blocked \<Rightarrow>
           (case os (bs_trace s @ [Write_fd fd data]) (Wait_writable fd) of
              Inl e \<Rightarrow> Some (Inl e, called [Write_fd fd data, Wait_writable fd] s)
            | Inr _ \<Rightarrow> f os fd data (called [Write_fd fd data, Wait_writable fd] s))
       | Again \<Rightarrow> f os fd data (called [Write_fd fd data] s)
       | Failed_write e \<Rightarrow> Some (Inl e, called [Write_fd fd data] s)
       | Took n \<Rightarrow> f os fd (drop (nat n) data) (called [Write_fd fd data] s))"
  using assms
  by (auto simp: os_int_run os_do_run write_answer_def called_def split: sum.split os_value.split)

lemma write_answer_accepted:
  "accepted_by os fd hist (Write_fd fd data) =
     (case write_answer os fd data hist of Took n \<Rightarrow> take (nat n) data | _ \<Rightarrow> [])"
  by (auto simp: accepted_by_def write_answer_def split: sum.split os_value.split)

lemma write_fd_wrote:
  assumes "write_fd os fd data s = Some z"
  shows "wrote os fd data s z"
proof (rule write_fd.raw_induct [of wrote, OF _ assms], goal_cases)
  case (1 f os fd data s z)
  let ?c = "Write_fd fd data"
  show ?case
  proof (cases "data = []")
    case True
    then show ?thesis using 1(2) by (auto simp: wrote_def intro!: exI [of _ "[]"])
  next
    case False
    note round = "1"(2) [unfolded write_round [OF False]]
    have waits: "accepted os fd (bs_trace s) [?c, Wait_writable fd] = accepted os fd (bs_trace s) [?c]"
      by (simp add: accepted_by_def)
    show ?thesis
    proof (cases "write_answer os fd data (bs_trace s)")
      case Blocked
      then have none: "accepted os fd (bs_trace s) [?c, Wait_writable fd] = []"
        unfolding waits by (simp add: write_answer_accepted)
      show ?thesis
      proof (cases "os (bs_trace s @ [?c]) (Wait_writable fd)")
        case (Inl e)
        then have "z = (Inl e, called [?c, Wait_writable fd] s)" using round Blocked by simp
        then show ?thesis using none by (auto simp: wrote_def intro!: exI [of _ "[?c, Wait_writable fd]"])
      next
        case (Inr v)
        have "wrote os fd data (called [?c, Wait_writable fd] s) z"
          by (rule "1"(1)) (use round Blocked Inr in simp)
        then show ?thesis by (rule wrote_retry) (simp, simp, rule none)
      qed
    next
      case Again
      then have "f os fd data (called [?c] s) = Some z" using round by simp
      from "1"(1) [OF this] show ?thesis
        by (rule wrote_retry [where cs = "[?c]"]) (use Again in \<open>simp_all add: write_answer_accepted\<close>)
    next
      case (Failed_write e)
      then have "z = (Inl e, called [?c] s)" using round by simp
      then show ?thesis
        using Failed_write by (auto simp: wrote_def write_answer_accepted intro!: exI [of _ "[?c]"])
    next
      case (Took n)
      then have "f os fd (drop (nat n) data) (called [?c] s) = Some z" using round by simp
      from "1"(1) [OF this] show ?thesis
        by (rule wrote_after [where cs = "[?c]"]) (use Took in \<open>simp_all add: write_answer_accepted\<close>)
    qed
  qed
qed

text \<open>
  C34. However the operating system splits, blocks or interrupts the writes to a terminal, a
  write that returns has made the descriptor accept exactly the given bytes in order, and one
  that fails has made it accept a prefix of them; the handle is not changed.
\<close>

theorem pty_write_exact:
  "case write_fd os fd data s of
     None \<Rightarrow> True
   | Some (r, t) \<Rightarrow>
       \<exists>cs. bs_trace t = bs_trace s @ cs \<and> bs_handle t = bs_handle s
         \<and> (case r of Inr _ \<Rightarrow> accepted os fd (bs_trace s) cs = data
            | Inl _ \<Rightarrow> prefix (accepted os fd (bs_trace s) cs) data)"
  using write_fd_wrote [of os fd data s] by (auto simp: wrote_def split: option.split)

text \<open>The loop returns once the operating system no longer blocks, interrupts or takes nothing.\<close>

lemma write_fd_returns:
  assumes "\<And>hist d. k \<le> length hist \<Longrightarrow> d \<noteq> [] \<Longrightarrow>
      (case write_answer os fd d hist of Took n \<Rightarrow> 0 < n | Failed_write _ \<Rightarrow> True | _ \<Rightarrow> False)"
  shows "write_fd os fd data s \<noteq> None"
proof (induction "Suc k - length (bs_trace s) + length data" arbitrary: data s rule: less_induct)
  case less
  show ?case
  proof (cases "data = []")
    case True
    then show ?thesis by (subst write_fd.simps) simp
  next
    case False
    note round = write_fd.simps [of os fd data s, unfolded write_round [OF False]]
    show ?thesis
    proof (cases "k \<le> length (bs_trace s)")
      case True
      from assms [OF True False] show ?thesis
      proof (cases "write_answer os fd data (bs_trace s)")
        case (Took n)
        then have "0 < n" using assms [OF True False] by simp
        then have "length (drop (nat n) data) < length data" using False by (cases data) auto
        then have "write_fd os fd (drop (nat n) data) (called [Write_fd fd data] s) \<noteq> None"
          by (intro less) simp
        with Took round show ?thesis by simp
      qed (auto simp: round)
    next
      case before: False
      have sub: "write_fd os fd d (called (c # cs) s) \<noteq> None" if "length d \<le> length data" for d c cs
        by (rule less) (use before that in simp)
      show ?thesis
        using sub [of data] sub [of "drop _ data"]
        by (auto simp: round split: write_answer.split sum.split)
    qed
  qed
qed

text \<open>
  C35. A write to a terminal returns whenever the operating system eventually makes progress:
  from some point of its history on, it accepts at least one byte of each write or refuses it.
\<close>

theorem pty_write_returns:
  assumes "\<forall>hist d. k \<le> length hist \<longrightarrow> d \<noteq> [] \<longrightarrow>
      (case write_answer os fd d hist of Took n \<Rightarrow> 0 < n | Failed_write _ \<Rightarrow> True | _ \<Rightarrow> False)"
  shows "\<exists>r t. write_fd os fd data s = Some (r, t)"
  using write_fd_returns [of k os fd data s] assms by auto

definition slow_os :: os where
  "slow_os hist c =
     (case c of
        Write_fd fd d \<Rightarrow> if length hist < 3 then Inl (X_os Os_blocking (Some 11) ''busy'') else Inr (V_int 1)
      | _ \<Rightarrow> Inr V_unit)"

theorem pty_write_returns_witness:
  "\<exists>r t. write_fd slow_os 7 [104, 105] \<lparr>bs_handle = new_handle, bs_trace = []\<rparr> = Some (r, t)"
  by (rule pty_write_returns [of 3]) (simp add: write_answer_def slow_os_def)

subsection \<open>The terminal backend\<close>

lemma pty_dispose_done: "pty_dispose os s = (Inr (), t) \<Longrightarrow> hd_disposed (bs_handle t)"
  by (auto simp: pty_dispose_def op_Inr hget_def hmod_def gets_def modify_def split: if_splits)

lemma pty_dispose_kills:
  assumes "pty_dispose os s = (Inr (), t)" and "\<not> hd_disposed (bs_handle s)"
  shows "hd_tree_killed (bs_handle t)"
proof -
  let ?cleanup = "bindop (hget id) (\<lambda>h. whenop (\<not> hd_output_closed h)
     (andthen (hmod (\<lambda>h. h\<lparr>hd_output_closed := True\<rparr>)) (os_do os (Close_fd (hd_master_fd h)))))"
  have as: "as_pty s = (Inr (), u) \<Longrightarrow> u = s" for u
    by (auto simp: as_pty_def op_Inr hget_def gets_def ret_def raise_def split: if_splits)
  have "keeps_process ?cleanup"
    by (auto intro!: keeps_rules keeps_hmod
        simp: same_process_def)
  moreover obtain u v where u: "pty_kill_tree os s = (Inr (), u)" and v: "?cleanup u = (Inr (), v)"
    and t: "hmod (\<lambda>h. h\<lparr>hd_disposed := True\<rparr>) v = (Inr (), t)"
    using assms as unfolding pty_dispose_def andthen_Inr bindop_Inr whenop_Inr finally_Inr
    by (fastforce simp: hget_def gets_def)
  ultimately have "same_process (bs_handle u) (bs_handle v)" using keeps_processD by blast
  then show ?thesis
    using pty_kill_done [OF u] t by (auto simp: same_process_def hmod_def modify_def)
qed

interpretation pty: tree_backend "pty_backend pf os" "\<lambda>_. True" for pf os
proof
  fix s t
  show "be_kill_tree (pty_backend pf os) s = (Inr (), t) \<Longrightarrow> hd_tree_killed (bs_handle t)"
    by (auto simp: pty_backend_def dest: pty_kill_done)
  show "hd_tree_killed (bs_handle s) \<Longrightarrow> be_kill_tree (pty_backend pf os) s = (Inr (), s)"
    by (simp add: pty_backend_def pty_kill_once)
  show "be_dispose (pty_backend pf os) s = (Inr (), t) \<Longrightarrow> hd_disposed (bs_handle t)"
    by (auto simp: pty_backend_def dest: pty_dispose_done)
  show "be_dispose (pty_backend pf os) s = (Inr (), t) \<Longrightarrow> \<not> hd_disposed (bs_handle s) \<Longrightarrow>
      hd_process_tree (bs_handle s) \<noteq> ''unknown'' \<Longrightarrow> hd_tree_killed (bs_handle t)"
    by (auto simp: pty_backend_def dest: pty_dispose_kills)
qed (simp_all add: pty_backend_def keeps_pty pty_interrupt_def pty_terminate_def)

end
