(* ===== verification/WindowsBackends.thy ===== *)
theory WindowsBackends
  imports PtyFacts CoreOutput
begin

section \<open>Execution backends on Windows (runtime/backends.py)\<close>

text \<open>
  \<open>WindowsPipeBackend\<close>, whose process tree is owned by a Job Object created before the process,
  and \<open>WindowsPtyBackend\<close>, whose ConPTY lives in a broker process. The methods of a
  \<open>WindowsJob\<close> and of the broker's connections are calls of the operating system here. Waiting for
  a reply of the broker polls until a message or the broker's exit; the call
  \<open>Broker_wait_ready\<close> answers True for a message and False for the exit.
\<close>

subsection \<open>Pipes with a Job Object\<close>

definition job_create_call :: "os \<Rightarrow> resource_limits \<Rightarrow> int bop" where
  "job_create_call os l = os_int os (Job_create l)"

definition reap_unassigned_process :: "os \<Rightarrow> unit bop" where
  "reap_unassigned_process os =
     finally_do (pipe_kill_tree True os)
       (bindop (returncode os) (\<lambda>rc.
        andthen (whenop (rc = None) (suppress (is_kind Os_process_lookup) (os_do os Process_kill)))
          (os_do os (Process_wait None))))"

definition reap_assigned_process :: "os \<Rightarrow> int \<Rightarrow> unit bop" where
  "reap_assigned_process os job =
     andthen
       (finally_do (suppress is_os_error (os_do os (Job_terminate job)))
         (suppress is_os_error (os_do os (Job_close job))))
       (bindop (returncode os) (\<lambda>rc.
        andthen (whenop (rc = None) (suppress (is_kind Os_process_lookup) (os_do os Process_kill)))
          (suppress is_timeout (os_do os (Process_wait (Some 1))))))"

definition windows_pipe_start :: "platform \<Rightarrow> os \<Rightarrow> command_spec \<Rightarrow> unit bop" where
  "windows_pipe_start pf os spec =
     bindop (job_create_call os (cs_resources spec)) (\<lambda>job.
     andthen
       (catch (pipe_start pf windows_suspended_flags os spec)
         (\<lambda>e. andthen (os_do os (Job_close job)) (raise e)))
     (bindop (hget hd_pid) (\<lambda>pid.
     andthen
       (catch (os_do os (Job_assign job pid))
         (\<lambda>e. andthen (suppress is_os_error (os_do os (Job_close job)))
            (andthen (reap_unassigned_process os) (raise e))))
     (andthen
       (catch (os_do os (Job_resume job pid))
         (\<lambda>e. andthen (reap_assigned_process os job) (raise e)))
     (hmod (\<lambda>h. new_handle\<lparr>hd_kind := Windows_handle, hd_pid := hd_pid h,
        hd_has_stdin := hd_has_stdin h, hd_process_tree := ''job_object'',
        hd_birth_identity := hd_birth_identity h, hd_job := Some job\<rparr>))))))"

definition terminate_and_wait_empty :: "os \<Rightarrow> int \<Rightarrow> unit bop" where
  "terminate_and_wait_empty os job =
     andthen (os_do os (Job_terminate job))
     (bindop (os_bool os (Job_wait_empty job 1)) (\<lambda>emptied.
      if emptied then ret ()
      else raise (X_os Os_timeout None ''Windows Job still contains active processes'')))"

definition windows_pipe_kill_tree :: "os \<Rightarrow> unit bop" where
  "windows_pipe_kill_tree os =
     bindop (hget id) (\<lambda>h.
     case (hd_kind h, hd_job h) of
       (Windows_handle, Some job) \<Rightarrow>
         whenop (\<not> hd_tree_killed h) (andthen (terminate_and_wait_empty os job) mark_tree_killed)
     | _ \<Rightarrow> pipe_kill_tree True os)"

definition windows_pipe_dispose :: "os \<Rightarrow> unit bop" where
  "windows_pipe_dispose os =
     finally_do (pipe_dispose (windows_pipe_kill_tree os) os)
       (bindop (hget id) (\<lambda>h.
        case (hd_kind h, hd_job h) of
          (Windows_handle, Some job) \<Rightarrow>
            andthen (os_do os (Job_close job)) (hmod (\<lambda>h. h\<lparr>hd_job := None\<rparr>))
        | _ \<Rightarrow> ret ()))"

definition windows_pipe_backend :: "platform \<Rightarrow> os \<Rightarrow> backend" where
  "windows_pipe_backend pf os =
     \<lparr>be_start = windows_pipe_start pf os, be_write = (\<lambda>data. total (pipe_write os data)),
      be_close_stdin = total (pipe_close_stdin os), be_interrupt = pipe_interrupt True os,
      be_terminate = pipe_terminate True os, be_kill_tree = windows_pipe_kill_tree os,
      be_dispose = windows_pipe_dispose os, be_read = None, be_resize = None\<rparr>"

text \<open>\<open>pipe_backend()\<close> and \<open>pty_backend()\<close> choose by platform; the latter below.\<close>

definition host_pipe_backend :: "platform \<Rightarrow> os \<Rightarrow> backend" where
  "host_pipe_backend pf os = (if pf_nt pf then windows_pipe_backend pf os else pipe_backend pf os)"

subsection \<open>The broker protocol\<close>

definition os_msg :: "os \<Rightarrow> os_call \<Rightarrow> broker_message bop" where
  "os_msg os c = bindop (os_call os c) (\<lambda>v. case v of V_msg m \<Rightarrow> ret m | _ \<Rightarrow> ret Msg_other)"

definition broker_error_message :: "broker_message \<Rightarrow> string" where
  "broker_error_message m =
     (case m of
        Msg_error name detail _ _ \<Rightarrow> ''ConPTY broker '' @ name @ '': '' @ detail
      | _ \<Rightarrow> ''invalid response from ConPTY broker'')"

definition broker_error :: "broker_message \<Rightarrow> exn" where
  "broker_error m =
     (case m of
        Msg_error name detail errno winerror \<Rightarrow>
          if name = ''FileNotFoundError'' then X_os Os_not_found errno detail
          else if name = ''PermissionError'' then X_os Os_permission errno detail
          else if name = ''OSError'' then X_os Os_plain errno detail
          else X_runtime (broker_error_message m)
      | _ \<Rightarrow> X_runtime (broker_error_message m))"

definition receive_broker_message :: "os \<Rightarrow> int \<Rightarrow> int \<Rightarrow> rat option \<Rightarrow> broker_message bop" where
  "receive_broker_message os control broker timeout =
     bindop (os_bool os (Broker_wait_ready control timeout)) (\<lambda>ready.
     if \<not> ready then
       bindop (os_opt os (Broker_exitcode broker)) (\<lambda>code.
       raise (X_runtime (''ConPTY broker exited before replying (exit code ''
         @ (case code of None \<Rightarrow> ''None'' | Some c \<Rightarrow> str_of_int c) @ '')'')))
     else
       bindop (os_msg os (Broker_recv control)) (\<lambda>m.
       if m = Msg_other then raise (X_type ''invalid response from ConPTY broker'') else ret m))"

definition broker_request :: "os \<Rightarrow> string \<Rightarrow> int list \<Rightarrow> int option bop" where
  "broker_request os operation args =
     bindop (hget id) (\<lambda>h.
     case (hd_broker_control h, hd_broker h) of
       (Some control, Some broker) \<Rightarrow>
         if hd_control_failed h then
           raise (X_runtime ''ConPTY broker control channel requires disposal'')
         else
           bindop
             (catch
               (bindop
                 (andthen (os_do os (Broker_send control operation args))
                   (receive_broker_message os control broker None))
                 (\<lambda>m. ret (Some m)))
               (\<lambda>e.
                 if is_os_error e \<or> e = X_eof then
                   bindop (if operation \<in> {''sendintr'', ''terminate'', ''close''}
                           then bindop (returncode os) (\<lambda>rc. bindop (hget hd_tree_killed) (\<lambda>k.
                                  ret (rc \<noteq> None \<or> k)))
                           else ret False) (\<lambda>gone.
                   if gone then ret None
                   else andthen (hmod (\<lambda>h. h\<lparr>hd_control_failed := True\<rparr>)) (raise e))
                 else andthen (hmod (\<lambda>h. h\<lparr>hd_control_failed := True\<rparr>)) (raise e)))
             (\<lambda>response.
               case response of
                 None \<Rightarrow> ret None
               | Some (Msg_ok v) \<Rightarrow> ret v
               | Some m \<Rightarrow> raise (broker_error m))
     | _ \<Rightarrow> raise (X_runtime ''ConPTY broker is unavailable''))"

text \<open>Portable LF input becomes the enter sequence CR LF, an existing CR LF is kept.\<close>

fun crlf_to_lf :: "bytes \<Rightarrow> bytes" where
  "crlf_to_lf [] = []"
| "crlf_to_lf [b] = [b]"
| "crlf_to_lf (b # c # bs) =
     (if b = 13 \<and> c = 10 then 10 # crlf_to_lf bs else b # crlf_to_lf (c # bs))"

fun lf_to_crlf :: "bytes \<Rightarrow> bytes" where
  "lf_to_crlf [] = []"
| "lf_to_crlf (b # bs) = (if b = 10 then 13 # 10 # lf_to_crlf bs else b # lf_to_crlf bs)"

definition windows_terminal_input :: "bytes \<Rightarrow> bytes" where
  "windows_terminal_input data = lf_to_crlf (crlf_to_lf data)"

subsection \<open>ConPTY\<close>

definition as_windows_pty :: "unit bop" where
  "as_windows_pty = bindop (hget hd_kind) (\<lambda>k.
     if k = Windows_pty_handle then ret ()
     else raise (X_type ''ConPTY operation requires a WindowsPtyProcessHandle''))"

definition brokered :: "os \<Rightarrow> string \<Rightarrow> int list \<Rightarrow> (int \<Rightarrow> os_call) \<Rightarrow> unit bop" where
  "brokered os operation args native =
     bindop (hget id) (\<lambda>h.
     case hd_broker h of
       Some _ \<Rightarrow> andthen (broker_request os operation args) (ret ())
     | None \<Rightarrow> (case hd_native_pty h of
         Some n \<Rightarrow> os_do os (native n)
       | None \<Rightarrow> raise (X_attribute ''native_pty'')))"

definition windows_pty_close_stdin :: "os \<Rightarrow> unit bop" where
  "windows_pty_close_stdin os =
     andthen as_windows_pty
     (bindop (hget id) (\<lambda>h.
      whenop (\<not> hd_stdin_closed h)
        (if hd_closing h then raise (X_runtime ''ConPTY is closing'')
         else andthen (brokered os ''sendeof'' [] Native_sendeof)
           (hmod (\<lambda>h. h\<lparr>hd_stdin_closed := True\<rparr>)))))"

definition windows_pty_interrupt :: "os \<Rightarrow> unit bop" where
  "windows_pty_interrupt os =
     andthen as_windows_pty
     (bindop (returncode os) (\<lambda>rc. whenop (rc = None) (brokered os ''sendintr'' [] Native_sendintr)))"

definition windows_pty_terminate :: "os \<Rightarrow> unit bop" where
  "windows_pty_terminate os =
     andthen as_windows_pty
     (bindop (returncode os) (\<lambda>rc.
      whenop (rc = None) (brokered os ''terminate'' [0] (\<lambda>n. Native_terminate n False))))"

definition windows_pty_kill_tree :: "os \<Rightarrow> unit bop" where
  "windows_pty_kill_tree os =
     andthen as_windows_pty
     (bindop (hget id) (\<lambda>h.
      whenop (\<not> hd_tree_killed h)
       (andthen
         (case hd_job h of
            Some job \<Rightarrow> terminate_and_wait_empty os job
          | None \<Rightarrow>
              bindop (returncode os) (\<lambda>rc.
              whenop (rc = None)
                (case hd_native_pty h of
                   Some n \<Rightarrow> os_do os (Native_terminate n True)
                 | None \<Rightarrow> raise (X_attribute ''native_pty''))))
         mark_tree_killed)))"

definition windows_pty_resize :: "os \<Rightarrow> int \<Rightarrow> int \<Rightarrow> unit bop" where
  "windows_pty_resize os cols rows =
     (if cols \<le> 0 \<or> rows \<le> 0 then raise (X_value ''terminal dimensions must be positive'')
      else brokered os ''setwinsize'' [rows, cols] (\<lambda>n. Native_setwinsize n rows cols))"

text \<open>
  A write leaves \<open>hd_write_pending\<close> set when its waiter is cancelled before the terminal took it.
\<close>

definition windows_pty_write :: "os \<Rightarrow> bytes \<Rightarrow> unit bop" where
  "windows_pty_write os data =
     andthen as_windows_pty
     (bindop (hget id) (\<lambda>h.
      if hd_stdin_closed h \<or> hd_closing h then raise (X_runtime ''stdin is closed'')
      else if hd_write_pending h then raise (X_runtime ''a previous ConPTY write is still pending'')
      else
        let txt = fst (decode_output (windows_terminal_input data)) in
        andthen (hmod (\<lambda>h. h\<lparr>hd_write_pending := True\<rparr>))
        (andthen
          (catch (brokered os ''write'' (map int txt) (\<lambda>n. Native_write n txt))
            (\<lambda>e. andthen (whenop (is_exception e) (hmod (\<lambda>h. h\<lparr>hd_write_pending := False\<rparr>))) (raise e)))
          (hmod (\<lambda>h. h\<lparr>hd_write_pending := False\<rparr>)))))"

definition os_text :: "os \<Rightarrow> os_call \<Rightarrow> codepoints bop" where
  "os_text os c = bindop (os_call os c) (\<lambda>v. case v of V_text t \<Rightarrow> ret t | _ \<Rightarrow> ret [])"

text \<open>One round of \<open>read\<close>: a result, or \<open>None\<close> when the loop polls again.\<close>

definition broker_read_round :: "os \<Rightarrow> int \<Rightarrow> int \<Rightarrow> bytes option bop" where
  "broker_read_round os output broker =
     bindop
       (catch
         (bindop (os_bool os (Broker_poll output)) (\<lambda>available.
          if available then bindop (os_msg os (Broker_recv output)) (\<lambda>m. ret (Inl (Some m)))
          else ret (Inl None)))
         (\<lambda>e.
           if is_os_error e \<or> e = X_eof then
             bindop (returncode os) (\<lambda>rc.
             bindop (os_opt os (Broker_exitcode broker)) (\<lambda>code.
             if rc \<noteq> None \<or> code \<noteq> None then ret (Inr ()) else raise e))
           else raise e))
       (\<lambda>r.
         case r of
           Inr _ \<Rightarrow> ret (Some [])
         | Inl (Some m) \<Rightarrow>
             (case m of
                Msg_data txt \<Rightarrow> ret (Some (encode_utf8 txt))
              | Msg_eof \<Rightarrow> ret (Some [])
              | m \<Rightarrow> raise (X_runtime (broker_error_message m)))
         | Inl None \<Rightarrow>
             bindop (os_opt os (Broker_exitcode broker)) (\<lambda>code.
             ret (if code \<noteq> None then Some [] else None)))"

definition native_read_round :: "os \<Rightarrow> int \<Rightarrow> bytes option bop" where
  "native_read_round os n =
     bindop
       (catch (bindop (os_text os (Native_read n)) (\<lambda>t. ret (Inl t)))
         (\<lambda>e.
           if e = X_eof then ret (Inr (Some []))
           else if is_timeout e then
             bindop (returncode os) (\<lambda>rc. ret (Inr (if rc \<noteq> None then Some [] else None)))
           else raise e))
       (\<lambda>r.
         case r of
           Inr out \<Rightarrow> ret out
         | Inl t \<Rightarrow>
             if t \<noteq> [] then ret (Some (encode_utf8 t))
             else bindop (returncode os) (\<lambda>rc. ret (if rc \<noteq> None then Some [] else None)))"

partial_function (option) repeat_round :: "bytes option bop \<Rightarrow> bstate \<Rightarrow> ((exn + bytes) \<times> bstate) option" where
  "repeat_round m s =
     (case m s of (r, t) \<Rightarrow>
        (case r of
           Inl e \<Rightarrow> Some (Inl e, t)
         | Inr out \<Rightarrow> (case out of Some b \<Rightarrow> Some (Inr b, t) | None \<Rightarrow> repeat_round m t)))"

definition windows_pty_read :: "os \<Rightarrow> bytes bpop" where
  "windows_pty_read os =
     pbind (total (hget id)) (\<lambda>h.
     if hd_output_closed h then total (ret [])
     else case (hd_broker h, hd_broker_output h, hd_native_pty h) of
         (Some broker, Some output, _) \<Rightarrow> repeat_round (broker_read_round os output broker)
       | (Some _, None, _) \<Rightarrow> total (raise (X_assertion []))
       | (None, _, Some n) \<Rightarrow> repeat_round (native_read_round os n)
       | (None, _, None) \<Rightarrow> total (raise (X_attribute ''native_pty'')))"

text \<open>The outcome of a cleanup step as a value.\<close>

definition attempt :: "unit bop \<Rightarrow> exn option bop" where
  "attempt m = catch (andthen m (ret None)) (\<lambda>e. ret (Some e))"

definition first_error :: "exn option \<Rightarrow> exn option \<Rightarrow> exn option" where
  "first_error a b = (case a of None \<Rightarrow> b | Some e \<Rightarrow> Some e)"

definition is_close_misuse :: "exn \<Rightarrow> bool" where
  "is_close_misuse e \<longleftrightarrow> (case e of X_attribute _ \<Rightarrow> True | X_value _ \<Rightarrow> True | _ \<Rightarrow> False)"

definition is_runtime_error :: "exn \<Rightarrow> bool" where
  "is_runtime_error e \<longleftrightarrow> (case e of X_runtime _ \<Rightarrow> True | _ \<Rightarrow> False)"

definition is_process_misuse :: "exn \<Rightarrow> bool" where
  "is_process_misuse e \<longleftrightarrow> (case e of X_assertion _ \<Rightarrow> True | X_value _ \<Rightarrow> True | _ \<Rightarrow> False)"

definition broker_alive :: "os \<Rightarrow> int \<Rightarrow> bool bop" where
  "broker_alive os b = os_bool os (Broker_alive b)"

definition reap_broker_process :: "os \<Rightarrow> int \<Rightarrow> unit bop" where
  "reap_broker_process os b =
     bindop
      (catch
       (bindop
        (bindop (attempt (os_do os (Broker_join b 1))) (\<lambda>joined.
         case joined of
           Some e \<Rightarrow> if is_process_misuse e then ret (Some e) else raise e
         | None \<Rightarrow> ret None)) (\<lambda>err.
        bindop (catch (broker_alive os b) (\<lambda>e. if is_process_misuse e then ret False else raise e)) (\<lambda>alive.
        bindop (if alive then
                  andthen (os_do os (Broker_terminate b)) (andthen (os_do os (Broker_join b 1)) (broker_alive os b))
                else ret False) (\<lambda>alive.
        bindop (if alive then
                  andthen (os_do os (Broker_kill b)) (andthen (os_do os (Broker_join b 1)) (broker_alive os b))
                else ret False) (\<lambda>alive.
        ret (if alive then Some (X_os Os_timeout None ''ConPTY broker did not exit after kill'')
             else err))))))
       (\<lambda>e. andthen (suppress is_close_misuse (os_do os (Broker_close b)))
          (raise e)))
      (\<lambda>err.
       bindop (attempt (os_do os (Broker_close b))) (\<lambda>closed.
       case closed of
         Some e \<Rightarrow>
           if is_close_misuse e
           then (case first_error err (Some e) of
                   Some f \<Rightarrow> if is_process_misuse f then ret () else raise f
                 | None \<Rightarrow> ret ())
           else raise e
       | None \<Rightarrow>
           (case err of
              Some f \<Rightarrow> if is_process_misuse f then ret () else raise f
            | None \<Rightarrow> ret ())))"

definition close_owned_job ::
    "os \<Rightarrow> (handle \<Rightarrow> int option) \<Rightarrow> (handle \<Rightarrow> handle) \<Rightarrow> exn option \<Rightarrow> exn option bop" where
  "close_owned_job os field clear err =
     bindop (hget field) (\<lambda>job.
     case job of
       None \<Rightarrow> ret err
     | Some j \<Rightarrow>
         bindop (attempt (os_do os (Job_close j))) (\<lambda>e.
         andthen (hmod clear) (ret (first_error err e))))"

definition close_channels :: "os \<Rightarrow> int option list \<Rightarrow> unit bop" where
  "close_channels os cs =
     seq_all (map (\<lambda>c. case c of None \<Rightarrow> ret ()
       | Some ch \<Rightarrow> suppress is_os_error (os_do os (Broker_close_channel ch))) cs)"

definition release_terminal :: "os \<Rightarrow> exn option \<Rightarrow> exn option bop" where
  "release_terminal os err =
     bindop (hget id) (\<lambda>h.
     case hd_broker h of
       Some b \<Rightarrow>
         andthen (close_channels os [hd_broker_control h, hd_broker_output h, hd_broker_status h])
         (bindop (attempt (reap_broker_process os b)) (\<lambda>e. ret (first_error err e)))
     | None \<Rightarrow>
         (case hd_native_pty h of
            None \<Rightarrow> ret err
          | Some n \<Rightarrow>
              bindop (attempt
                (bindop (os_bool os (Native_isalive n)) (\<lambda>alive. whenop alive (os_do os (Native_close n))))) (\<lambda>e.
              ret (first_error err e))))"

definition dispose_owned_pty :: "os \<Rightarrow> unit bop" where
  "dispose_owned_pty os =
     bindop (hget hd_disposed) (\<lambda>disposed.
     whenop (\<not> disposed)
      (andthen (hmod (\<lambda>h. h\<lparr>hd_closing := True\<rparr>))
      (bindop (attempt (windows_pty_kill_tree os)) (\<lambda>err.
       bindop (close_owned_job os hd_job (\<lambda>h. h\<lparr>hd_job := None\<rparr>) err) (\<lambda>err.
       bindop (close_owned_job os hd_broker_job (\<lambda>h. h\<lparr>hd_broker_job := None\<rparr>) err) (\<lambda>err.
       andthen (hmod (\<lambda>h. h\<lparr>hd_output_closed := True, hd_tree_killed := True, hd_disposed := True\<rparr>))
       (bindop (release_terminal os err) (\<lambda>err.
        bindop (hget hd_write_pending) (\<lambda>pending.
        andthen (whenop pending
           (suppress (\<lambda>e. is_os_error e \<or> is_runtime_error e) (os_do os (Await_pending_write (1/4)))))
         (case err of None \<Rightarrow> ret () | Some e \<Rightarrow> raise e))))))))))"

definition windows_pty_dispose :: "os \<Rightarrow> unit bop" where
  "windows_pty_dispose os =
     andthen as_windows_pty
     (bindop (hget hd_disposed) (\<lambda>disposed. whenop (\<not> disposed) (dispose_owned_pty os)))"

definition host_pty_backend_start :: "bool \<Rightarrow> unit bop \<Rightarrow> unit bop" where
  "host_pty_backend_start nt m =
     (if nt then m else raise (X_not_implemented ''ConPTY is only available on Windows''))"

text \<open>Starting the broker: both Jobs exist before any process, and every failure closes them.\<close>

definition release_broker_start :: "os \<Rightarrow> int \<Rightarrow> int \<Rightarrow> int \<Rightarrow> int list \<Rightarrow> unit bop" where
  "release_broker_start os user_job broker_job broker channels =
     andthen
       (finally_do (os_do os (Job_terminate user_job))
         (andthen (os_do os (Job_close user_job))
           (andthen (os_do os (Job_close broker_job))
             (close_channels os (map Some channels)))))
       (reap_broker_process os broker)"

definition broker_handshake :: "platform \<Rightarrow> os \<Rightarrow> command_spec \<Rightarrow> int \<Rightarrow> int \<Rightarrow> int \<Rightarrow> int \<Rightarrow> int list \<Rightarrow> int bop" where
  "broker_handshake pf os spec user_job broker_job broker control children =
     andthen (os_do os (Broker_start broker))
     (andthen (seq_all (map (\<lambda>c. os_do os (Broker_close_channel c)) children))
     (bindop (os_opt os (Broker_pid broker)) (\<lambda>pid.
      case pid of
        None \<Rightarrow> raise (X_runtime ''ConPTY broker did not publish a process ID'')
      | Some broker_pid \<Rightarrow>
          andthen (os_do os (Job_assign broker_job broker_pid))
          (bindop (os_int os (Job_duplicate user_job broker_pid)) (\<lambda>job_handle.
           andthen (os_do os (Broker_bootstrap control
             \<lparr>so_argv = argv_strings spec, so_cwd = cs_cwd spec,
              so_env = child_environment (pf_nt pf) (pf_environ pf) spec, so_terminal = Some control,
              so_creation_flags = 0, so_new_session = False, so_rlimits = None\<rparr> job_handle))
           (bindop (receive_broker_message os control broker (Some 30)) (\<lambda>m.
            case m of
              Msg_ok (Some child) \<Rightarrow> ret child
            | Msg_ok None \<Rightarrow> raise (X_type ''int() argument must be a number'')
            | m \<Rightarrow> raise (broker_error m))))))))"

definition windows_pty_start :: "platform \<Rightarrow> os \<Rightarrow> command_spec \<Rightarrow> unit bop" where
  "windows_pty_start pf os spec =
     host_pty_backend_start (pf_nt pf)
     (bindop (job_create_call os no_limits) (\<lambda>broker_job.
      bindop (catch (job_create_call os (cs_resources spec))
        (\<lambda>e. andthen (os_do os (Job_close broker_job)) (raise e))) (\<lambda>user_job.
      bindop (os_fds os (Broker_pipe True)) (\<lambda>(control, child_control).
      bindop (os_fds os (Broker_pipe False)) (\<lambda>(output, child_output).
      bindop (os_fds os (Broker_pipe False)) (\<lambda>(status, child_status).
      bindop (os_int os Broker_process) (\<lambda>broker.
      bindop
       (catch (broker_handshake pf os spec user_job broker_job broker control
                [child_control, child_output, child_status])
        (\<lambda>e. andthen (release_broker_start os user_job broker_job broker
                [control, output, status, child_control, child_output, child_status]) (raise e))) (\<lambda>pid.
      hmod (\<lambda>_. new_handle\<lparr>hd_kind := Windows_pty_handle, hd_pid := pid,
        hd_process_tree := ''job_object'', hd_birth_identity := pf_birth pf pid,
        hd_job := Some user_job, hd_broker_job := Some broker_job, hd_broker := Some broker,
        hd_broker_control := Some control, hd_broker_output := Some output,
        hd_broker_status := Some status\<rparr>)))))))))"

definition windows_pty_backend :: "platform \<Rightarrow> os \<Rightarrow> backend" where
  "windows_pty_backend pf os =
     \<lparr>be_start = windows_pty_start pf os, be_write = (\<lambda>data. total (windows_pty_write os data)),
      be_close_stdin = total (windows_pty_close_stdin os), be_interrupt = windows_pty_interrupt os,
      be_terminate = windows_pty_terminate os, be_kill_tree = windows_pty_kill_tree os,
      be_dispose = windows_pty_dispose os, be_read = Some (windows_pty_read os),
      be_resize = Some (windows_pty_resize os)\<rparr>"

definition host_pty_backend :: "platform \<Rightarrow> os \<Rightarrow> backend" where
  "host_pty_backend pf os = (if pf_nt pf then windows_pty_backend pf os else pty_backend pf os)"

subsection \<open>The process facades and the broker process\<close>

text \<open>\<open>_BrokeredWinPtyProcess.returncode\<close>: the first exit message, else the broker's own exit.\<close>

fun drain_status :: "int option \<Rightarrow> broker_message list \<Rightarrow> int option \<times> broker_message list" where
  "drain_status (Some code) ms = (Some code, ms)"
| "drain_status None [] = (None, [])"
| "drain_status None (m # ms) =
     drain_status (case m of Msg_exit code \<Rightarrow> Some code | _ \<Rightarrow> None) ms"

definition brokered_returncode :: "int option \<Rightarrow> broker_message list \<Rightarrow> int option \<Rightarrow> int option \<times> broker_message list" where
  "brokered_returncode cached ms broker_exit =
     (case drain_status cached ms of
        (Some code, rest) \<Rightarrow> (Some code, rest)
      | (None, rest) \<Rightarrow> (broker_exit, rest))"

text \<open>\<open>_WinPtyAsyncProcess.returncode\<close>: the cached code, the child's status, or a dead relay.\<close>

definition native_returncode :: "int option \<Rightarrow> int option \<Rightarrow> bool \<Rightarrow> int option" where
  "native_returncode cached exitstatus alive =
     (case cached of Some c \<Rightarrow> Some c
      | None \<Rightarrow> (case exitstatus of Some c \<Rightarrow> Some c | None \<Rightarrow> if alive then None else Some 0))"

text \<open>
  The relay of the broker process: each round reads the terminal (a text, no text, its end or a
  failure) and the child's exit status; it publishes text, the exit once, and always an end.
\<close>

datatype relay_read = Read_text codepoints | Read_timeout | Read_eof | Read_error exn

fun relay_output :: "(relay_read \<times> int option) list \<Rightarrow> bool \<Rightarrow> broker_message list \<times> broker_message list \<times> bool" where
  "relay_output [] sent = ([], [], sent)"
| "relay_output ((r, code) # rest) sent =
     (case r of
        Read_eof \<Rightarrow> ([], [], sent)
      | Read_error e \<Rightarrow> ([Msg_error (exn_name e) (exn_str e) None None], [], sent)
      | _ \<Rightarrow>
        let txt = (case r of Read_text t \<Rightarrow> t | _ \<Rightarrow> []);
            data = (if txt = [] then [] else [Msg_data txt]);
            statuses = (case code of Some c \<Rightarrow> if sent then [] else [Msg_exit c] | None \<Rightarrow> []);
            sent' = (sent \<or> code \<noteq> None)
        in if code \<noteq> None \<and> txt = [] then (data, statuses, sent')
           else (case relay_output rest sent' of (out, sts, s) \<Rightarrow> (data @ out, statuses @ sts, s)))"

definition relay_run :: "(relay_read \<times> int option) list \<Rightarrow> int option \<Rightarrow> broker_message list \<times> broker_message list" where
  "relay_run rounds exit_at_end =
     (case relay_output rounds False of (out, statuses, sent) \<Rightarrow>
        (out @ [Msg_eof],
         statuses @ (case exit_at_end of Some c \<Rightarrow> if sent then [] else [Msg_exit c] | None \<Rightarrow> [])))"

text \<open>
  The control loop: one reply per request; \<open>close\<close> ends the loop after its reply, a malformed
  request ends it with an error.
\<close>

datatype broker_request_message = Request string "int list" | Malformed

definition send_broker_error :: "exn \<Rightarrow> broker_message" where
  "send_broker_error e = Msg_error (exn_name e) (exn_str e) (exn_errno e) None"

definition broker_operations :: "string list" where
  "broker_operations = [''write'', ''sendeof'', ''sendintr'', ''terminate'', ''setwinsize'', ''close'']"

fun broker_serve :: "(string \<Rightarrow> int list \<Rightarrow> exn + int option) \<Rightarrow> broker_request_message list \<Rightarrow> broker_message list" where
  "broker_serve native [] = []"
| "broker_serve native (Malformed # rest) =
     [send_broker_error (X_runtime ''invalid ConPTY broker request'')]"
| "broker_serve native (Request operation args # rest) =
     (let result = (if operation \<in> set broker_operations then native operation args
                    else Inl (X_runtime (''unknown ConPTY broker operation: '' @ operation)))
      in case result of
           Inl e \<Rightarrow> send_broker_error e # broker_serve native rest
         | Inr v \<Rightarrow> Msg_ok v # (if operation = ''close'' then [] else broker_serve native rest))"

end
