(* ===== verification/SessionManager.thy ===== *)
theory SessionManager
  imports SessionEvents Ownership Policy WindowsBackends
begin

section \<open>The session manager (runtime/sessions.py, class SessionManager)\<close>

text \<open>
  The manager keeps session objects, each with its backend, process and monitor, in a dictionary
  by identifier. \<open>mg_objects\<close> holds every object ever registered, at its address, so that an
  object that left the dictionary while its monitor still runs is still there; \<open>mg_sessions\<close> is
  the dictionary, in insertion order. A method is cut where it waits for something that lets
  other methods run: \<open>start\<close> into \<open>start_reserve\<close> and \<open>start_complete\<close>, whose local variables
  wait in \<open>mg_pending\<close>; a method that takes the session's lock into \<open>get\<close> and the locked body;
  \<open>dispose\<close> into \<open>dispose_begin\<close> and \<open>dispose_finish\<close>; the monitor into its phases, with its
  local variables in \<open>ma_monitor\<close>. The method itself is the composition of its pieces.

  Clock readings and fresh identifiers are arguments. A backend operation runs on the process
  state of its object, with the object's own operating system. A deadline
  (\<open>asyncio.wait_for\<close>) cancels the operation at one of its calls: that call answers
  \<open>X_cancelled\<close>, which \<open>deadline\<close> turns into the \<open>TimeoutError\<close> the caller sees; cancellation
  of the caller itself is not modelled, except in \<open>start_complete\<close>.
\<close>

subsection \<open>Configuration\<close>

record manager_config =
  mc_default_max_output_bytes :: int
  mc_max_active_sessions :: int
  mc_max_input_bytes :: int
  mc_max_total_input_bytes :: int
  mc_max_output_events :: int
  mc_backend :: "(os \<Rightarrow> backend) option"
  mc_drain_timeout_ms :: int
  mc_termination_timeout_ms :: int
  mc_shutdown_timeout_ms :: int
  mc_max_retained_events :: int
  mc_max_completed_sessions :: int
  mc_completed_session_ttl_ms :: int
  mc_max_event_page_size :: int
  mc_max_event_page_bytes :: int
  mc_recording :: bool
  mc_policy :: "policy option"
  mc_ownership :: "ownership option"

definition config_validate :: "manager_config \<Rightarrow> unit res" where
  "config_validate c =
     (if mc_default_max_output_bytes c < 0
      then Inl (ValueError ''default_max_output_bytes must be non-negative'')
      else if mc_max_active_sessions c \<le> 0 \<or> mc_max_input_bytes c \<le> 0
        \<or> mc_max_total_input_bytes c \<le> 0 \<or> mc_max_output_events c \<le> 0
        \<or> mc_drain_timeout_ms c < 0 \<or> mc_termination_timeout_ms c \<le> 0
        \<or> mc_shutdown_timeout_ms c \<le> 0 \<or> mc_max_retained_events c \<le> 0
        \<or> mc_max_completed_sessions c \<le> 0 \<or> mc_completed_session_ttl_ms c < 0
        \<or> mc_max_event_page_size c \<le> 0 \<or> mc_max_event_page_bytes c \<le> 0
      then Inl (ValueError ''session resource limits must be positive'')
      else Inr ())"

subsection \<open>State\<close>

datatype monitor_phase =
    Monitor_absent
  | Monitor_waiting
  | Monitor_draining "execution_error option"
  | Monitor_disposing "execution_error option"
  | Monitor_done

record managed =
  ma_session :: session
  ma_backend :: backend
  ma_os :: os
  ma_process :: bstate
  ma_monitor :: monitor_phase
  ma_dispose_task :: "exn option option"

record start_request =
  sr_spec :: command_spec
  sr_timeout_ms :: "int option"
  sr_idle_timeout_ms :: "int option"
  sr_max_output_bytes :: "int option"
  sr_trace_id :: "string option"
  sr_request_id :: "string option"
  sr_output_retention :: string

record pending_start =
  ps_spec :: command_spec
  ps_request :: start_request

record manager =
  mg_objects :: "managed list"
  mg_sessions :: "(string \<times> nat) list"
  mg_disposed_ids :: "string list"
  mg_expired_ids :: "string list"
  mg_pending :: "pending_start list"
  mg_starting :: nat
  mg_started :: nat
  mg_completions :: "completion_reason \<Rightarrow> nat"
  mg_errors :: "error_code \<Rightarrow> nat"
  mg_total_input :: nat
  mg_total_output :: nat
  mg_total_retained :: nat
  mg_total_dropped :: nat
  mg_cancellations :: nat
  mg_created :: rat

type_synonym 'a mop = "(manager, 'a) op"

definition new_manager :: "rat \<Rightarrow> manager" where
  "new_manager now = \<lparr>mg_objects = [], mg_sessions = [], mg_disposed_ids = [], mg_expired_ids = [],
     mg_pending = [], mg_starting = 0, mg_started = 0, mg_completions = (\<lambda>_. 0),
     mg_errors = (\<lambda>_. 0), mg_total_input = 0, mg_total_output = 0, mg_total_retained = 0,
     mg_total_dropped = 0, mg_cancellations = 0, mg_created = now\<rparr>"

definition modobj :: "nat \<Rightarrow> (managed \<Rightarrow> managed) \<Rightarrow> unit mop" where
  "modobj a f = modify (\<lambda>m. m\<lparr>mg_objects := (mg_objects m)[a := f (mg_objects m ! a)]\<rparr>)"

definition modses :: "nat \<Rightarrow> (session \<Rightarrow> session) \<Rightarrow> unit mop" where
  "modses a f = modobj a (\<lambda>e. e\<lparr>ma_session := f (ma_session e)\<rparr>)"

definition getobj :: "nat \<Rightarrow> (managed \<Rightarrow> 'a) \<Rightarrow> 'a mop" where
  "getobj a f = gets (\<lambda>m. f (mg_objects m ! a))"

definition session_at :: "manager \<Rightarrow> nat \<Rightarrow> session" where
  "session_at m a = ma_session (mg_objects m ! a)"

definition getses :: "nat \<Rightarrow> (session \<Rightarrow> 'a) \<Rightarrow> 'a mop" where
  "getses a f = gets (\<lambda>m. f (session_at m a))"

definition emit_to :: "nat \<Rightarrow> lifecycle_event_type \<Rightarrow> pydict \<Rightarrow> unit mop" where
  "emit_to a kind d = modses a (emit kind (Dict_payload d))"

definition move :: "nat \<Rightarrow> session_state \<Rightarrow> unit mop" where
  "move a target =
     bindop (getses a (se_transition target)) (\<lambda>r.
     case r of Inl e \<Rightarrow> raise (X_transition e) | Inr s \<Rightarrow> modses a (\<lambda>_. s))"

definition on_process :: "nat \<Rightarrow> (os \<Rightarrow> backend \<Rightarrow> 'a bop) \<Rightarrow> 'a mop" where
  "on_process a f m =
     (let e = mg_objects m ! a; (r, p) = f (ma_os e) (ma_backend e) (ma_process e)
      in (r, m\<lparr>mg_objects := (mg_objects m)[a := e\<lparr>ma_process := p\<rparr>]\<rparr>))"

definition timed_out :: exn where
  "timed_out = X_os Os_timeout None []"

definition deadline :: "('s, 'a) op \<Rightarrow> ('s, 'a) op" where
  "deadline m = catch m (\<lambda>e. if e = X_cancelled then raise timed_out else raise e)"

text \<open>A loop that does not return runs into the deadline; its calls are not recorded.\<close>

definition bounded :: "('s, 'a) pop \<Rightarrow> ('s, 'a) op" where
  "bounded m s = (case m s of None \<Rightarrow> (Inl X_cancelled, s) | Some r \<Rightarrow> r)"

text \<open>The outcome of an operation as a value.\<close>

definition outcome :: "('s, 'a) op \<Rightarrow> ('s, exn + 'a) op" where
  "outcome m s = (case m s of (r, t) \<Rightarrow> (Inr r, t))"

text \<open>A task protected by \<open>asyncio.shield\<close>: \<open>late\<close> tells whether its caller's deadline passed.\<close>

definition shielded :: "bool \<Rightarrow> ('s, 'a) op \<Rightarrow> ('s, 'a) op" where
  "shielded late m s = (case m s of (r, t) \<Rightarrow> if late then (Inl timed_out, t) else (r, t))"

definition exn_of_py :: "py_error \<Rightarrow> exn" where
  "exn_of_py e =
     (case e of ValueError m \<Rightarrow> X_value m | TypeError m \<Rightarrow> X_type m | KeyError m \<Rightarrow> X_value m
      | OSError m \<Rightarrow> X_os Os_plain None m | RuntimeError m \<Rightarrow> X_runtime m
      | TimeoutError m \<Rightarrow> X_os Os_timeout None m | FileNotFoundError m \<Rightarrow> X_os Os_not_found None m)"

definition fail_with :: "error_code \<Rightarrow> error_stage \<Rightarrow> string \<Rightarrow> exn" where
  "fail_with code stage msg = X_sharkrail (exec_error code stage msg)"

definition request_error :: "string \<Rightarrow> exn" where
  "request_error msg = fail_with INVALID_REQUEST VALIDATE msg"

text \<open>\<open>t or d\<close> for a clock reading: a reading of zero counts as missing.\<close>

definition or_time :: "rat option \<Rightarrow> rat \<Rightarrow> rat" where
  "or_time t d = (case t of None \<Rightarrow> d | Some x \<Rightarrow> if x = 0 then d else x)"

subsection \<open>Retention of completed sessions\<close>

definition final_states :: "session_state set" where
  "final_states = {COMPLETED, FAILED}"

definition completed_addresses :: "manager \<Rightarrow> nat list" where
  "completed_addresses m =
     sort_by (\<lambda>a. or_time (se_completed_at (session_at m a)) 0)
       (filter (\<lambda>a. se_state (session_at m a) \<in> final_states
                  \<and> se_completed_at (session_at m a) \<noteq> None) (map snd (mg_sessions m)))"

definition to_prune :: "manager_config \<Rightarrow> rat \<Rightarrow> manager \<Rightarrow> nat list" where
  "to_prune c now m =
     (let completed = completed_addresses m;
          expired = filter (\<lambda>a. of_int (mc_completed_session_ttl_ms c)
              \<le> (now - or_time (se_completed_at (session_at m a)) now) * 1000) completed;
          retained = filter (\<lambda>a. a \<notin> set expired) completed;
          overflow = length retained - nat (mc_max_completed_sessions c)
      in expired @ take overflow retained)"

definition prune_one :: "nat \<Rightarrow> unit mop" where
  "prune_one a =
     bindop (getses a se_id) (\<lambda>sid.
     bindop (gets (\<lambda>m. sid \<in> fst ` set (mg_sessions m))) (\<lambda>present.
     whenop present
       (andthen (move a DISPOSED)
         (modify (\<lambda>m. m\<lparr>mg_sessions := AList.delete sid (mg_sessions m),
            mg_expired_ids := last_n 1024 (mg_expired_ids m @ [sid])\<rparr>)))))"

definition prune_completed :: "manager_config \<Rightarrow> rat \<Rightarrow> unit mop" where
  "prune_completed c now = bindop (gets (to_prune c now)) (\<lambda>as. seq_all (map prune_one as))"

definition get_session :: "manager_config \<Rightarrow> rat \<Rightarrow> string \<Rightarrow> nat mop" where
  "get_session c now sid =
     andthen (prune_completed c now)
     (bindop (gets (\<lambda>m. map_of (mg_sessions m) sid)) (\<lambda>found.
      case found of
        Some a \<Rightarrow> ret a
      | None \<Rightarrow>
          bindop (gets (\<lambda>m. sid \<in> set (mg_expired_ids m))) (\<lambda>expired.
          raise (if expired then fail_with SESSION_EXPIRED RUN (''Session expired: '' @ sid)
                 else fail_with SESSION_NOT_FOUND RUN (''Session not found: '' @ sid)))))"

definition active_states :: "session_state set" where
  "active_states = {RUNNING, CANCELLING}"

definition require_active :: "manager_config \<Rightarrow> rat \<Rightarrow> string \<Rightarrow> nat mop" where
  "require_active c now sid =
     bindop (get_session c now sid) (\<lambda>a.
     bindop (getses a se_state) (\<lambda>st.
     if st \<in> active_states then ret a
     else raise (fail_with INVALID_SESSION_STATE RUN
                   (''Session '' @ sid @ '' is '' @ session_state_value st))))"

subsection \<open>Starting a session\<close>

definition choose_backend :: "platform \<Rightarrow> manager_config \<Rightarrow> command_spec \<Rightarrow> os \<Rightarrow> backend" where
  "choose_backend pf c spec os =
     (case mc_backend c of
        Some b \<Rightarrow> b os
      | None \<Rightarrow> if cs_mode spec = PTY then host_pty_backend pf os else host_pipe_backend pf os)"

definition policy_spec :: "host \<Rightarrow> manager_config \<Rightarrow> start_request \<Rightarrow> exn + command_spec" where
  "policy_spec h c r =
     (case mc_policy c of
        None \<Rightarrow> Inr (sr_spec r)
      | Some p \<Rightarrow>
          (case effective_spec h p (sr_spec r) (sr_timeout_ms r)
             (Some (case sr_max_output_bytes r of None \<Rightarrow> mc_default_max_output_bytes c | Some b \<Rightarrow> b)) of
             Inl rule \<Rightarrow> Inl (X_sharkrail
               ((exec_error POLICY_DENIED VALIDATE (''execution denied by policy rule: '' @ rule))
                  \<lparr>ee_native := [(''rule'', VStr rule)]\<rparr>))
           | Inr s \<Rightarrow> Inr s))"

definition start_check :: "start_request \<Rightarrow> command_spec \<Rightarrow> exn option" where
  "start_check r spec =
     (if (case sr_timeout_ms r of None \<Rightarrow> False | Some t \<Rightarrow> t < 0)
      then Some (request_error ''timeout_ms must be non-negative'')
      else if (case sr_idle_timeout_ms r of None \<Rightarrow> False | Some t \<Rightarrow> t \<le> 0)
      then Some (request_error ''idle_timeout_ms must be positive'')
      else if (case sr_max_output_bytes r of None \<Rightarrow> False | Some b \<Rightarrow> b < 0)
      then Some (request_error ''max_output_bytes must be non-negative'')
      else if sr_output_retention r \<notin> {''head'', ''tail''}
      then Some (request_error ''output_retention must be head or tail'')
      else if sr_output_retention r = ''tail'' \<and> cs_mode spec \<noteq> PTY
      then Some (request_error ''tail output retention requires PTY mode'')
      else None)"

definition active_count :: "manager \<Rightarrow> nat" where
  "active_count m =
     length (filter (\<lambda>(_, a). se_state (session_at m a) \<notin> {COMPLETED, FAILED, DISPOSED}) (mg_sessions m))"

definition session_limit :: "manager_config \<Rightarrow> exn" where
  "session_limit c = X_sharkrail
     ((exec_error RESOURCE_LIMITED START
        (''active session limit reached ('' @ str_of_int (mc_max_active_sessions c) @ '')''))
      \<lparr>ee_retryable := True\<rparr>)"

definition start_reserve :: "host \<Rightarrow> manager_config \<Rightarrow> rat \<Rightarrow> start_request \<Rightarrow> unit mop" where
  "start_reserve h c now r =
     andthen (prune_completed c now)
     (case spec_validate (sr_spec r) of
        Inl e \<Rightarrow> raise (exn_of_py e)
      | Inr _ \<Rightarrow>
          (case policy_spec h c r of
             Inl e \<Rightarrow> raise e
           | Inr spec \<Rightarrow>
               (case start_check r spec of
                  Some e \<Rightarrow> raise e
                | None \<Rightarrow>
                    bindop (gets (\<lambda>m. int (active_count m + mg_starting m))) (\<lambda>n.
                    if mc_max_active_sessions c \<le> n then raise (session_limit c)
                    else modify (\<lambda>m. m\<lparr>mg_starting := Suc (mg_starting m),
                           mg_pending := mg_pending m @ [\<lparr>ps_spec = spec, ps_request = r\<rparr>]\<rparr>)))))"

definition spawn_error :: "exn \<Rightarrow> exn" where
  "spawn_error err =
     (case err of
        X_os k n msg \<Rightarrow> X_sharkrail
          ((exec_error (if k = Os_not_found then EXECUTABLE_NOT_FOUND else START_FAILED) START (exn_str err))
             \<lparr>ee_native := (case n of Some i \<Rightarrow> [(''errno'', VInt i)] | None \<Rightarrow> [])\<rparr>)
      | _ \<Rightarrow> err)"

text \<open>
  Waiting for the process: a terminal's \<open>wait\<close>, or the polling of \<open>returncode\<close>, which is one
  call here that answers when the code is set.
\<close>

definition wait_for_process_exit :: "os \<Rightarrow> unit bop" where
  "wait_for_process_exit os = os_do os (Process_wait None)"

definition dispose_registered_handle :: "ownership option \<Rightarrow> backend \<Rightarrow> unit bop" where
  "dispose_registered_handle own be =
     finally_do (be_dispose be)
       (bindop (hget id) (\<lambda>h.
        case own of
          None \<Rightarrow> ret ()
        | Some link \<Rightarrow>
            whenop (hd_disposed h \<and> hd_ownership_id h \<noteq> None) (unregister_process link)))"

definition cleanup_abandoned_start :: "ownership option \<Rightarrow> os \<Rightarrow> backend \<Rightarrow> unit bop" where
  "cleanup_abandoned_start own os be =
     finally_do
       (andthen (deadline (be_kill_tree be))
         (bindop (returncode os) (\<lambda>rc.
          whenop (rc = None) (deadline (wait_for_process_exit os)))))
       (deadline (dispose_registered_handle own be))"

definition take_pending :: "nat \<Rightarrow> pending_start mop" where
  "take_pending i =
     bindop (gets (\<lambda>m. mg_pending m ! i)) (\<lambda>p.
     andthen (modify (\<lambda>m. m\<lparr>mg_pending := take i (mg_pending m) @ drop (Suc i) (mg_pending m)\<rparr>))
       (ret p))"

definition release_start :: "unit mop" where
  "release_start = modify (\<lambda>m. m\<lparr>mg_starting := mg_starting m - 1\<rparr>)"

definition started_session ::
  "manager_config \<Rightarrow> string \<Rightarrow> string \<Rightarrow> rat \<Rightarrow> pending_start \<Rightarrow> session" where
  "started_session c uid trace now p =
     (let r = ps_request p in
      \<lparr>se_id = uid, se_spec = ps_spec p,
       se_max_output_bytes = Some (nat (case sr_max_output_bytes r of
           None \<Rightarrow> mc_default_max_output_bytes c | Some b \<Rightarrow> b)),
       se_timeout_ms = sr_timeout_ms r, se_idle_timeout_ms = sr_idle_timeout_ms r,
       se_lifecycle = new_lifecycle, se_events = [], se_stdout = [], se_stderr = [],
       se_total_output_bytes = 0, se_truncated_output_bytes = 0, se_stream_offsets = (\<lambda>_. 0),
       se_result = None, se_completion_reason = None,
       se_max_output_events = nat (mc_max_output_events c),
       se_max_retained_events = nat (mc_max_retained_events c), se_output_event_count = 0,
       se_output_event_limit_reported = False, se_truncation_reported = {}, se_next_event_seq = 0,
       se_completed_at = None, se_cancellation_steps = [],
       se_trace_id = (case sr_trace_id r of Some (ch # cs) \<Rightarrow> ch # cs | _ \<Rightarrow> trace),
       se_request_id = sr_request_id r, se_started = now, se_exited = None,
       se_drain_started = None, se_last_output = None, se_input_bytes = 0,
       se_decoders = (\<lambda>_. None), se_recorded = (if mc_recording c then Some [] else None),
       se_retention = (if sr_output_retention r = ''tail'' then Keep_tail else Keep_head)\<rparr>)"

text \<open>
  The state changes and events of a new session; \<open>late\<close> is an exception of one of the awaited
  events. Then the session leaves the dictionary again, and its object stays without a monitor.
\<close>

definition announce :: "nat \<Rightarrow> unit mop" where
  "announce a =
     andthen (move a ACCEPTED)
     (bindop (getses a se_id) (\<lambda>sid.
      andthen (emit_to a EV_accepted [(''session_id'', VStr sid)])
      (andthen (move a STARTING)
      (andthen (move a RUNNING)
      (bindop (getses a se_spec) (\<lambda>spec.
       bindop (getobj a (bs_handle \<circ> ma_process)) (\<lambda>h.
       andthen (emit_to a EV_process_started
           [(''pid'', VInt (hd_pid h)), (''mode'', VStr (command_mode_value (cs_mode spec))),
            (''process_tree'', VStr (hd_process_tree h))])
         (seq_all (map (\<lambda>reason. emit_to a EV_capability_degraded
             [(''capability'', VStr ''process_tree''), (''reason'', VStr reason)])
           (hd_degraded_reasons h))))))))))"

definition withdraw :: "manager_config \<Rightarrow> nat \<Rightarrow> string \<Rightarrow> exn \<Rightarrow> nat mop" where
  "withdraw c a uid e =
     andthen (modify (\<lambda>m. m\<lparr>mg_sessions := AList.delete uid (mg_sessions m),
         mg_started := mg_started m - 1\<rparr>))
     (andthen (outcome (on_process a (cleanup_abandoned_start (mc_ownership c)))) (raise e))"

definition start_register :: "manager_config \<Rightarrow> string \<Rightarrow> string \<Rightarrow> rat \<Rightarrow> exn option
    \<Rightarrow> pending_start \<Rightarrow> backend \<Rightarrow> os \<Rightarrow> bstate \<Rightarrow> nat mop" where
  "start_register c uid trace now late p be os proc =
     bindop (gets (\<lambda>m. length (mg_objects m))) (\<lambda>a.
     andthen (modify (\<lambda>m. m
       \<lparr>mg_objects := mg_objects m @ [\<lparr>ma_session = started_session c uid trace now p,
           ma_backend = be, ma_os = os, ma_process = proc, ma_monitor = Monitor_absent,
           ma_dispose_task = None\<rparr>],
        mg_sessions := AList.update uid a (mg_sessions m),
        mg_starting := mg_starting m - 1, mg_started := Suc (mg_started m)\<rparr>))
     (case late of
        Some e \<Rightarrow> withdraw c a uid e
      | None \<Rightarrow>
          catch
            (andthen (announce a)
              (andthen (modobj a (\<lambda>e. e\<lparr>ma_monitor := Monitor_waiting\<rparr>)) (ret a)))
            (withdraw c a uid)))"

text \<open>
  The process side of a start. \<open>cancelled\<close> tells that the caller was cancelled while the backend
  worked; a process that did start is then torn down, as it is when its registration fails.
\<close>

definition start_process :: "platform \<Rightarrow> manager_config \<Rightarrow> os \<Rightarrow> string \<Rightarrow> bool \<Rightarrow> command_spec
    \<Rightarrow> (exn + unit) \<times> bstate" where
  "start_process pf c os oid cancelled spec =
     (let be = choose_backend pf c spec os;
          cleanup = cleanup_abandoned_start (mc_ownership c) os be
      in case be_start be spec \<lparr>bs_handle = new_handle, bs_trace = []\<rparr> of
           (Inl e, p) \<Rightarrow> (Inl (if cancelled then X_cancelled else spawn_error e), p)
         | (Inr _, p) \<Rightarrow>
             if cancelled then (Inl X_cancelled, snd (cleanup p))
             else
               (case mc_ownership c of
                  None \<Rightarrow> (Inr (), p)
                | Some link \<Rightarrow>
                    (case register_process link oid p of
                       (Inl e, q) \<Rightarrow> (Inl e, snd (cleanup q))
                     | (Inr _, q) \<Rightarrow> (Inr (), q))))"

text \<open>The rest of \<open>start\<close>, for the i-th of the waiting starts.\<close>

definition start_complete :: "platform \<Rightarrow> manager_config \<Rightarrow> os \<Rightarrow> string \<Rightarrow> string \<Rightarrow> string \<Rightarrow> rat
    \<Rightarrow> bool \<Rightarrow> exn option \<Rightarrow> nat \<Rightarrow> nat mop" where
  "start_complete pf c os uid trace oid now cancelled late i =
     bindop (take_pending i) (\<lambda>p.
     case start_process pf c os oid cancelled (ps_spec p) of
       (Inl e, proc) \<Rightarrow> andthen release_start (raise e)
     | (Inr _, proc) \<Rightarrow>
         start_register c uid trace now late p (choose_backend pf c (ps_spec p) os) os proc)"

subsection \<open>Input and signals\<close>

text \<open>The bodies that hold the session's lock; \<open>a\<close> is the object \<open>get\<close> returned before.\<close>

definition write_quota_hit :: "manager_config \<Rightarrow> nat \<Rightarrow> unit mop" where
  "write_quota_hit c a =
     andthen
       (emit_to a EV_resource_limit_hit
          [(''resource'', VStr ''total_input_bytes''), (''limit'', VInt (mc_max_total_input_bytes c))])
       (raise (fail_with RESOURCE_LIMITED RUN
          (''session input exceeds total limit ('' @ str_of_int (mc_max_total_input_bytes c)
            @ '' bytes)'')))"

text \<open>The quota is reserved before the backend gets the bytes, and stays reserved if it fails.\<close>

definition write_reserved :: "nat \<Rightarrow> bytes \<Rightarrow> unit mop" where
  "write_reserved a data =
     andthen (modify (\<lambda>m. m\<lparr>mg_total_input := mg_total_input m + length data\<rparr>))
     (andthen (modses a (\<lambda>s. s\<lparr>se_input_bytes := se_input_bytes s + length data\<rparr>))
       (deadline (on_process a (\<lambda>os be. bounded (be_write be data)))))"

definition write_locked :: "manager_config \<Rightarrow> rat \<Rightarrow> nat \<Rightarrow> string \<Rightarrow> bytes \<Rightarrow> unit mop" where
  "write_locked c now a sid data =
     andthen (require_active c now sid)
     (if mc_max_input_bytes c < int (length data)
      then raise (fail_with RESOURCE_LIMITED RUN
        (''input exceeds per-write limit ('' @ str_of_int (mc_max_input_bytes c) @ '' bytes)''))
      else
        bindop (getses a se_input_bytes) (\<lambda>used.
        if mc_max_total_input_bytes c < int (used + length data) then write_quota_hit c a
        else write_reserved a data))"

definition write_input :: "manager_config \<Rightarrow> rat \<Rightarrow> rat \<Rightarrow> string \<Rightarrow> bytes \<Rightarrow> unit mop" where
  "write_input c now now' sid data =
     bindop (get_session c now sid) (\<lambda>a. write_locked c now' a sid data)"

definition close_stdin_locked :: "manager_config \<Rightarrow> rat \<Rightarrow> nat \<Rightarrow> string \<Rightarrow> unit mop" where
  "close_stdin_locked c now a sid =
     andthen (require_active c now sid)
       (deadline (on_process a (\<lambda>os be. bounded (be_close_stdin be))))"

definition close_stdin :: "manager_config \<Rightarrow> rat \<Rightarrow> rat \<Rightarrow> string \<Rightarrow> unit mop" where
  "close_stdin c now now' sid = bindop (get_session c now sid) (\<lambda>a. close_stdin_locked c now' a sid)"

definition resize_locked :: "manager_config \<Rightarrow> rat \<Rightarrow> nat \<Rightarrow> string \<Rightarrow> int \<Rightarrow> int \<Rightarrow> unit mop" where
  "resize_locked c now a sid cols rows =
     andthen (require_active c now sid)
     (bindop (getobj a (\<lambda>e. (be_resize (ma_backend e), is_pty_handle (bs_handle (ma_process e)))))
       (\<lambda>(resizer, pty).
        case resizer of
          None \<Rightarrow> raise (fail_with CAPABILITY_NOT_SUPPORTED RUN ''resize is only supported for PTY sessions'')
        | Some f \<Rightarrow>
            if \<not> pty
            then raise (fail_with CAPABILITY_NOT_SUPPORTED RUN ''resize is only supported for PTY sessions'')
            else deadline (on_process a (\<lambda>os be. f cols rows))))"

definition resize :: "manager_config \<Rightarrow> rat \<Rightarrow> rat \<Rightarrow> string \<Rightarrow> int \<Rightarrow> int \<Rightarrow> unit mop" where
  "resize c now now' sid cols rows =
     bindop (get_session c now sid) (\<lambda>a. resize_locked c now' a sid cols rows)"

definition interrupt_locked :: "manager_config \<Rightarrow> rat \<Rightarrow> nat \<Rightarrow> string \<Rightarrow> unit mop" where
  "interrupt_locked c now a sid =
     andthen (require_active c now sid)
     (andthen (emit_to a EV_cancellation_step [(''step'', VStr ''interrupt'')])
       (deadline (on_process a (\<lambda>os be. be_interrupt be))))"

definition interrupt :: "manager_config \<Rightarrow> rat \<Rightarrow> rat \<Rightarrow> string \<Rightarrow> unit mop" where
  "interrupt c now now' sid = bindop (get_session c now sid) (\<lambda>a. interrupt_locked c now' a sid)"

end
