(* ===== verification/SessionControl.thy ===== *)
theory SessionControl
  imports SessionManager
begin

section \<open>Cancellation, disposal and inspection of sessions (runtime/sessions.py)\<close>

text \<open>
  \<open>cancel_locked\<close> runs the escalation of \<open>Cancellation\<close> on the process of the session; the steps
  it reports are the \<open>Report_step\<close> calls of its trace, which become cancellation steps and events
  of the session. The disposal of a backend is a task of the session, made once: its outcome is
  kept and returned to every later caller.
\<close>

subsection \<open>Cancellation\<close>

definition round_even :: "rat \<Rightarrow> int" where
  "round_even x =
     (let f = \<lfloor>x\<rfloor>; d = x - of_int f in
      if d < 1/2 then f else if 1/2 < d then f + 1 else if even f then f else f + 1)"

definition round3 :: "rat \<Rightarrow> rat" where
  "round3 x = of_int (round_even (x * 1000)) / 1000"

definition float_value :: "rat \<Rightarrow> pyval" where
  "float_value x = VFloat (Fin x)"

definition steps_value :: "string list \<Rightarrow> pyval" where
  "steps_value steps = VList (map VStr steps)"

definition report_step :: "nat \<Rightarrow> string \<Rightarrow> unit mop" where
  "report_step a v =
     andthen (modses a (\<lambda>s. s\<lparr>se_cancellation_steps := se_cancellation_steps s @ [v]\<rparr>))
       (emit_to a EV_cancellation_step [(''step'', VStr v)])"

definition reported_steps :: "os_call list \<Rightarrow> string list" where
  "reported_steps cs = concat (map (\<lambda>k. case k of Report_step v \<Rightarrow> [v] | _ \<Rightarrow> []) cs)"

text \<open>The operation of the process, with the steps it reported passed on to the session.\<close>

definition reporting_steps :: "nat \<Rightarrow> (os \<Rightarrow> backend \<Rightarrow> 'a bop) \<Rightarrow> 'a mop" where
  "reporting_steps a f =
     bindop (getobj a (\<lambda>e. length (bs_trace (ma_process e)))) (\<lambda>n.
     bindop (outcome (on_process a f)) (\<lambda>r.
     bindop (getobj a (\<lambda>e. reported_steps (drop n (bs_trace (ma_process e))))) (\<lambda>steps.
     andthen (seq_all (map (report_step a) steps))
       (case r of Inl e \<Rightarrow> raise e | Inr x \<Rightarrow> ret x))))"

definition cancellation_report :: "nat \<Rightarrow> bool \<Rightarrow> pydict \<Rightarrow> rat \<Rightarrow> rat \<Rightarrow> unit mop" where
  "cancellation_report a success extra started ended =
     bindop (getses a se_cancellation_steps) (\<lambda>steps.
     emit_to a EV_cancellation_completed
       ([(''success'', VBool success), (''steps'', steps_value steps)] @ extra
        @ [(''duration_ms'', float_value (round3 ((ended - started) * 1000)))]))"

text \<open>The forced cleanup after a failed escalation, with the text of its own failure, if any.\<close>

definition cancel_cleanup :: "nat \<Rightarrow> unit mop" where
  "cancel_cleanup a =
     bindop (getses a se_cancellation_steps) (\<lambda>steps.
     andthen (whenop (cancellation_step_value KILL_TREE \<notin> set steps)
         (report_step a (cancellation_step_value KILL_TREE)))
     (andthen (deadline (on_process a (\<lambda>os be. be_kill_tree be)))
     (bindop (on_process a (\<lambda>os be. returncode os)) (\<lambda>rc.
      whenop (rc = None) (deadline (on_process a (\<lambda>os be. wait_for_process_exit os)))))))"

definition cancel_failed :: "nat \<Rightarrow> rat \<Rightarrow> rat \<Rightarrow> exn \<Rightarrow> string list mop" where
  "cancel_failed a started ended err =
     bindop (outcome (cancel_cleanup a)) (\<lambda>r.
     let cleaned = (case r of Inl _ \<Rightarrow> False | Inr _ \<Rightarrow> True) in
     andthen (cancellation_report a False [(''cleanup_succeeded'', VBool cleaned)] started ended)
       (raise (X_sharkrail
          ((exec_error TERMINATION_FAILED RUN (exn_str err))
             \<lparr>ee_native := (''cleanup_succeeded'', VBool cleaned)
                # (case r of Inl e \<Rightarrow> [(''cleanup_error'', VStr (exn_str e))] | Inr _ \<Rightarrow> [])\<rparr>))))"

definition cancel_locked :: "manager_config \<Rightarrow> rat \<Rightarrow> rat \<Rightarrow> rat \<Rightarrow> nat \<Rightarrow> string
    \<Rightarrow> cancellation_policy option \<Rightarrow> string list mop" where
  "cancel_locked c now started ended a sid policy =
     bindop (getses a id) (\<lambda>s.
     if se_cancellation_steps s \<noteq> [] \<or> se_state s \<in> final_states
     then ret (se_cancellation_steps s)
     else
       let p = (case policy of None \<Rightarrow> default_cancellation | Some p \<Rightarrow> p) in
       andthen (on_process a (\<lambda>os be. cancellation_validate p))
       (andthen (require_active c now sid)
       (bindop (getses a se_state) (\<lambda>st.
        andthen (whenop (st = RUNNING) (move a CANCELLING))
        (andthen (modses a (\<lambda>s. s\<lparr>se_completion_reason := Some CR_cancelled\<rparr>))
        (andthen (modify (\<lambda>m. m\<lparr>mg_cancellations := Suc (mg_cancellations m)\<rparr>))
        (bindop (outcome (deadline (reporting_steps a (\<lambda>os be. cancel_process os True be (Some p))))) (\<lambda>r.
         case r of
           Inl err \<Rightarrow> cancel_failed a started ended err
         | Inr _ \<Rightarrow>
             andthen (cancellation_report a True [] started ended)
               (getses a se_cancellation_steps)))))))))"

definition cancel :: "manager_config \<Rightarrow> (nat \<Rightarrow> rat) \<Rightarrow> string \<Rightarrow> cancellation_policy option
    \<Rightarrow> string list mop" where
  "cancel c ck sid policy =
     bindop (get_session c (ck 0) sid) (\<lambda>a. cancel_locked c (ck 1) (ck 2) (ck 3) a sid policy)"

subsection \<open>Waiting\<close>

text \<open>What \<open>wait\<close> returns when it ends now: without a result it has run into its timeout.\<close>

definition wait_session :: "manager_config \<Rightarrow> rat \<Rightarrow> string \<Rightarrow> command_result option mop" where
  "wait_session c now sid =
     bindop (get_session c now sid) (\<lambda>a.
     getobj a (\<lambda>e. if ma_monitor e \<in> {Monitor_absent, Monitor_done} then se_result (ma_session e)
                   else None))"

subsection \<open>Disposal\<close>

definition backend_error :: "exn \<Rightarrow> error_stage \<Rightarrow> execution_error" where
  "backend_error err stage =
     (exec_error INTERNAL_ERROR stage (if exn_str err = [] then exn_name err else exn_str err))
       \<lparr>ee_native := (''exception'', VStr (exn_name err))
          # (case exn_errno err of None \<Rightarrow> [] | Some n \<Rightarrow> [(''errno'', VInt n)])\<rparr>"

definition dispose_session_backend :: "manager_config \<Rightarrow> nat \<Rightarrow> unit mop" where
  "dispose_session_backend c a =
     bindop (getobj a id) (\<lambda>e.
     let h = bs_handle (ma_process e) in
     if hd_disposed h \<and> (mc_ownership c = None \<or> hd_ownership_id h = None) then ret ()
     else
       case ma_dispose_task e of
         Some None \<Rightarrow> ret ()
       | Some (Some err) \<Rightarrow> raise err
       | None \<Rightarrow>
           bindop (outcome (on_process a (\<lambda>os be. dispose_registered_handle (mc_ownership c) be))) (\<lambda>r.
           let err = (case r of Inl x \<Rightarrow> Some x | Inr _ \<Rightarrow> None) in
           andthen (modobj a (\<lambda>e. e\<lparr>ma_dispose_task := Some err\<rparr>))
             (case err of None \<Rightarrow> ret () | Some x \<Rightarrow> raise x)))"

definition dispose_cancel_error :: "exn + string list \<Rightarrow> exn option" where
  "dispose_cancel_error r =
     (case r of
        Inr _ \<Rightarrow> None
      | Inl (X_sharkrail e) \<Rightarrow>
          if ee_code e \<noteq> INVALID_SESSION_STATE then Some (X_sharkrail e) else None
      | Inl e \<Rightarrow> Some (X_sharkrail (backend_error e DISPOSE)))"

definition forced_cancellation :: cancellation_policy where
  "forced_cancellation = default_cancellation\<lparr>cp_skip_interrupt := True\<rparr>"

text \<open>The first half of \<open>dispose\<close>: nothing for a session that was disposed of before;
  otherwise its object, whether the caller waits for it, and the failure of its cancellation.\<close>

definition dispose_begin ::
  "manager_config \<Rightarrow> (nat \<Rightarrow> rat) \<Rightarrow> string \<Rightarrow> (nat \<times> bool \<times> exn option) option mop" where
  "dispose_begin c ck sid =
     bindop (gets (\<lambda>m. sid \<in> set (mg_disposed_ids m))) (\<lambda>again.
     if again then ret None
     else
       bindop (get_session c (ck 0) sid) (\<lambda>a.
       bindop (getses a se_state) (\<lambda>st.
       if st \<notin> {COMPLETED, FAILED, DISPOSED}
       then bindop (outcome (cancel c (\<lambda>k. ck (Suc k)) sid (Some forced_cancellation)))
              (\<lambda>r. ret (Some (a, True, dispose_cancel_error r)))
       else ret (Some (a, False, None)))))"

definition dispose_finish ::
  "manager_config \<Rightarrow> bool \<Rightarrow> nat \<Rightarrow> string \<Rightarrow> exn option \<Rightarrow> unit mop" where
  "dispose_finish c late a sid err =
     andthen
       (catch (shielded late (dispose_session_backend c a))
         (\<lambda>e. raise (if is_timeout e
            then fail_with TERMINATION_FAILED DISPOSE ''backend disposal exceeded its deadline'' else e)))
     (bindop (getses a se_state) (\<lambda>st.
      andthen (whenop (st \<noteq> DISPOSED) (move a DISPOSED))
      (andthen (modify (\<lambda>m. m\<lparr>mg_sessions := AList.delete sid (mg_sessions m),
          mg_disposed_ids := last_n 1024 (mg_disposed_ids m @ [sid])\<rparr>))
        (case err of None \<Rightarrow> ret () | Some e \<Rightarrow> raise e))))"

text \<open>
  The whole of \<open>dispose\<close> when nothing runs meanwhile; \<open>wait\<close> reads the dictionary again and
  raises when the session is no longer there.
\<close>

definition dispose :: "manager_config \<Rightarrow> (nat \<Rightarrow> rat) \<Rightarrow> bool \<Rightarrow> string \<Rightarrow> unit mop" where
  "dispose c ck late sid =
     bindop (dispose_begin c ck sid) (\<lambda>r.
     case r of
       None \<Rightarrow> ret ()
     | Some (a, waits, err) \<Rightarrow>
         andthen (if waits then wait_session c (ck 5) sid else ret None)
           (dispose_finish c late a sid err))"

fun shutdown_sessions :: "manager_config \<Rightarrow> (nat \<Rightarrow> nat \<Rightarrow> rat) \<Rightarrow> (nat \<Rightarrow> bool) \<Rightarrow> nat
    \<Rightarrow> string list \<Rightarrow> unit mop" where
  "shutdown_sessions c ck late k [] = ret ()"
| "shutdown_sessions c ck late k (sid # sids) =
     andthen (outcome (dispose c (ck k) (late k) sid)) (shutdown_sessions c ck late (Suc k) sids)"

text \<open>
  \<open>shutdown\<close> disposes of every session and swallows their errors; the disposals run one after
  the other here.
\<close>

definition shutdown :: "manager_config \<Rightarrow> (nat \<Rightarrow> nat \<Rightarrow> rat) \<Rightarrow> (nat \<Rightarrow> bool) \<Rightarrow> unit mop" where
  "shutdown c ck late =
     bindop (gets (map fst \<circ> mg_sessions)) (\<lambda>sids. shutdown_sessions c ck late 0 sids)"

end
