(* ===== verification/SessionMonitor.thy ===== *)
theory SessionMonitor
  imports SessionControl
begin

section \<open>The monitor of a session and the manager's reports (runtime/sessions.py)\<close>

text \<open>
  \<open>wait_reason\<close> decides between the exit of the process and the two timeouts, one round per wait;
  \<open>monitor_exited\<close>, \<open>monitor_drained\<close> and \<open>monitor_disposed\<close> are the three stretches of
  \<open>_monitor\<close> between its waits for the process, for the readers and for the disposal. While they
  wait, readers append output and other methods run.
\<close>

subsection \<open>Waiting for the process\<close>

text \<open>
  One round: the clock and the last output when the wait starts, whether the process exits before
  the deadline, and the clock and the last output when the deadline passed.
\<close>

record wait_round =
  wr_now :: rat
  wr_last_output :: "rat option"
  wr_exited :: bool
  wr_current :: rat
  wr_last_output_after :: "rat option"

definition wait_deadlines :: "session \<Rightarrow> rat option \<Rightarrow> (rat \<times> completion_reason) list" where
  "wait_deadlines s last_output =
     (case se_timeout_ms s of None \<Rightarrow> []
        | Some t \<Rightarrow> [(se_started s + of_int t / 1000, CR_timeout)])
     @ (case se_idle_timeout_ms s of None \<Rightarrow> []
        | Some t \<Rightarrow> [(or_time last_output (se_started s) + of_int t / 1000, CR_idle_timeout)])"

fun first_deadline :: "(rat \<times> completion_reason) list \<Rightarrow> (rat \<times> completion_reason) option" where
  "first_deadline [] = None"
| "first_deadline (d # ds) =
     (case first_deadline ds of None \<Rightarrow> Some d | Some b \<Rightarrow> if fst d \<le> fst b then Some d else Some b)"

definition deadline_reached :: "session \<Rightarrow> wait_round \<Rightarrow> rat \<times> completion_reason \<Rightarrow> bool" where
  "deadline_reached s r d =
     (case d of (limit, reason) \<Rightarrow>
       (if reason = CR_timeout then limit \<le> wr_current r
        else if reason = CR_idle_timeout
        then or_time (wr_last_output_after r) (se_started s)
               + of_int (case se_idle_timeout_ms s of None \<Rightarrow> 0 | Some t \<Rightarrow> t) / 1000 \<le> wr_current r
        else False))"

text \<open>\<open>None\<close> while it still waits after the given rounds, else the reason, if a timeout hit.\<close>

fun wait_reason :: "session \<Rightarrow> wait_round list \<Rightarrow> completion_reason option option" where
  "wait_reason s [] = None"
| "wait_reason s (r # rs) =
     (case first_deadline (wait_deadlines s (wr_last_output r)) of
        None \<Rightarrow> if wr_exited r then Some None else wait_reason s rs
      | Some d \<Rightarrow>
          if wr_exited r then Some None
          else if deadline_reached s r d then Some (Some (snd d))
          else wait_reason s rs)"

subsection \<open>Exit, drain and disposal\<close>

definition note_kill_step :: "nat \<Rightarrow> unit mop" where
  "note_kill_step a =
     bindop (getses a se_cancellation_steps) (\<lambda>steps.
     whenop (cancellation_step_value KILL_TREE \<notin> set steps)
       (report_step a (cancellation_step_value KILL_TREE)))"

definition kill_for_timeout :: "nat \<Rightarrow> bool \<Rightarrow> completion_reason \<Rightarrow> unit mop" where
  "kill_for_timeout a late reason =
     andthen (modses a (\<lambda>s. s\<lparr>se_completion_reason := Some reason\<rparr>))
     (andthen (note_kill_step a)
     (andthen (deadline (on_process a (\<lambda>os be. be_kill_tree be)))
       (shielded late (on_process a (\<lambda>os be. wait_for_process_exit os)))))"

definition kill_error :: "exn + unit \<Rightarrow> execution_error option" where
  "kill_error r =
     (case r of
        Inr _ \<Rightarrow> None
      | Inl e \<Rightarrow>
          Some (if is_timeout e
            then exec_error TERMINATION_FAILED RUN ''process did not exit after forced termination''
            else backend_error e RUN))"

text \<open>The exit code as JSON, \<open>None\<close> while the process has none.\<close>

definition code_value :: "int option \<Rightarrow> pyval" where
  "code_value rc = (case rc of None \<Rightarrow> VNone | Some i \<Rightarrow> VInt i)"

definition enter_drain :: "nat \<Rightarrow> rat \<Rightarrow> rat \<Rightarrow> unit mop" where
  "enter_drain a exited drain =
     bindop (getses a se_state) (\<lambda>st.
     andthen (whenop (st = RUNNING) (move a EXITING))
     (andthen (modses a (\<lambda>s. s\<lparr>se_exited := Some exited\<rparr>))
     (andthen (move a DRAINING)
     (andthen (modses a (\<lambda>s. s\<lparr>se_drain_started := Some drain\<rparr>))
     (bindop (on_process a (\<lambda>os be. returncode os)) (\<lambda>rc.
      emit_to a EV_process_exited [(''exit_code'', code_value rc)]))))))"

definition drain_error :: "exn + unit \<Rightarrow> execution_error option" where
  "drain_error r =
     (case r of
        Inr _ \<Rightarrow> None
      | Inl (X_sharkrail e) \<Rightarrow> Some e
      | Inl e \<Rightarrow> Some (backend_error e DRAIN))"

text \<open>
  From the end of \<open>_wait_reason\<close>, with its reason or the exception it raised, to the wait for the
  readers. A failed step leaves its error for the end; then the readers are not waited for.
\<close>

definition monitor_exited ::
  "nat \<Rightarrow> bool \<Rightarrow> rat \<Rightarrow> rat \<Rightarrow> exn + completion_reason option \<Rightarrow> unit mop" where
  "monitor_exited a late exited drain waited =
     bindop
       (case waited of
          Inl e \<Rightarrow> ret (Some (backend_error e RUN))
        | Inr None \<Rightarrow> ret None
        | Inr (Some reason) \<Rightarrow>
            bindop (outcome (kill_for_timeout a late reason)) (\<lambda>r. ret (kill_error r))) (\<lambda>err.
     case err of
       Some e \<Rightarrow> modobj a (\<lambda>o'. o'\<lparr>ma_monitor := Monitor_disposing (Some e)\<rparr>)
     | None \<Rightarrow>
         bindop (outcome (enter_drain a exited drain)) (\<lambda>r.
         modobj a (\<lambda>o'. o'\<lparr>ma_monitor :=
           (case drain_error r of
              None \<Rightarrow> Monitor_draining None | Some e \<Rightarrow> Monitor_disposing (Some e))\<rparr>)))"

text \<open>
  The readers end, one of them fails, or the drain time expires; then a reader may still fail in
  the second wait.
\<close>

datatype drain_outcome = Drained | Drain_expired "exn option" | Reader_failed exn

definition drain_timeout :: "manager_config \<Rightarrow> nat \<Rightarrow> exn option \<Rightarrow> unit mop" where
  "drain_timeout c a failed =
     andthen (emit_to a EV_resource_limit_hit
         [(''resource'', VStr ''drain_time''), (''limit_ms'', VInt (mc_drain_timeout_ms c))])
     (andthen (note_kill_step a)
     (andthen (deadline (on_process a (\<lambda>os be. be_kill_tree be)))
       (raise (case failed of
          Some e \<Rightarrow> e
        | None \<Rightarrow> fail_with DRAIN_TIMEOUT DRAIN
            (''output did not drain within '' @ str_of_int (mc_drain_timeout_ms c) @ '' ms'')))))"

definition monitor_drained :: "manager_config \<Rightarrow> nat \<Rightarrow> drain_outcome \<Rightarrow> unit mop" where
  "monitor_drained c a how =
     bindop (outcome
       (case how of
          Drained \<Rightarrow>
            bindop (getses a se_total_output_bytes) (\<lambda>n.
            emit_to a EV_session_drained [(''output_bytes'', VInt (int n))])
        | Drain_expired failed \<Rightarrow> drain_timeout c a failed
        | Reader_failed e \<Rightarrow> raise e)) (\<lambda>r.
     modobj a (\<lambda>o'. o'\<lparr>ma_monitor := Monitor_disposing (drain_error r)\<rparr>))"

subsection \<open>The result\<close>

definition disposal_error :: "exn + unit \<Rightarrow> execution_error option" where
  "disposal_error r =
     (case r of
        Inr _ \<Rightarrow> None
      | Inl e \<Rightarrow>
          Some (if is_timeout e
            then exec_error TERMINATION_FAILED DISPOSE ''backend disposal exceeded its deadline''
            else backend_error e DISPOSE))"

text \<open>\<open>sigxcpu\<close> is the number of SIGXCPU where the host has it.\<close>

definition infer_resource_limit :: "int option \<Rightarrow> session \<Rightarrow> int option \<Rightarrow> int option" where
  "infer_resource_limit sigxcpu s rc =
     (case (rl_cpu_time_seconds (cs_resources (se_spec s)), sigxcpu) of
        (Some cpu, Some n) \<Rightarrow> if rc = Some (- n) then Some cpu else None
      | _ \<Rightarrow> None)"

definition error_reason :: "execution_error \<Rightarrow> completion_reason" where
  "error_reason e =
     (if ee_code e \<in> {DRAIN_TIMEOUT, RESOURCE_LIMITED} then CR_resource_limited else CR_failed)"

definition final_reason ::
  "execution_error option \<Rightarrow> completion_reason option \<Rightarrow> int option \<Rightarrow> completion_reason" where
  "final_reason err reason rc =
     (case err of
        Some e \<Rightarrow> error_reason e
      | None \<Rightarrow>
          (case reason of
             Some r \<Rightarrow> r
           | None \<Rightarrow> if rc = Some 0 then CR_success else CR_failed))"

definition final_exit_code ::
  "execution_error option \<Rightarrow> completion_reason \<Rightarrow> int option \<Rightarrow> int" where
  "final_exit_code err reason rc =
     (let code =
        (if reason \<in> {CR_timeout, CR_idle_timeout} then Some 124
         else if err \<noteq> None \<and> (rc = None \<or> rc = Some 0) then Some 1
         else rc)
      in case code of None \<Rightarrow> 1 | Some i \<Rightarrow> i)"

definition duration_ms :: "session \<Rightarrow> rat \<Rightarrow> rat" where
  "duration_ms s now =
     (let ended = or_time (se_exited s) (or_time (se_completed_at s) now)
      in round3 (max 0 (ended - se_started s) * 1000))"

definition drain_duration_ms :: "session \<Rightarrow> rat \<Rightarrow> rat" where
  "drain_duration_ms s now =
     (case se_drain_started s of
        None \<Rightarrow> 0
      | Some d \<Rightarrow> round3 (max 0 (or_time (se_completed_at s) now - d) * 1000))"

definition captured :: "session \<Rightarrow> captured_output" where
  "captured s =
     (case capture_output (se_stdout s) (se_stderr s) None of
        Inr out \<Rightarrow> out
      | Inl _ \<Rightarrow> \<lparr>co_stdout = [], co_stderr = [], co_retained_bytes = 0, co_truncated_bytes = 0,
                   co_decoding_errors = False\<rparr>)"

definition session_result :: "session \<Rightarrow> execution_error option \<Rightarrow> completion_reason
    \<Rightarrow> int option \<Rightarrow> rat \<Rightarrow> command_result" where
  "session_result s err reason rc now =
     (let out = captured s in
      \<lparr>cr_exit_code = final_exit_code err reason rc, cr_stdout = co_stdout out,
       cr_stderr = co_stderr out, cr_output_truncated = (0 < se_truncated_output_bytes s),
       cr_retained_output_bytes = co_retained_bytes out,
       cr_truncated_output_bytes = int (se_truncated_output_bytes s),
       cr_decoding_errors = co_decoding_errors out,
       cr_max_output_bytes = map_option int (se_max_output_bytes s), cr_reason = reason,
       cr_timed_out = (reason \<in> {CR_timeout, CR_idle_timeout}), cr_error = err,
       cr_duration_ms = duration_ms s now, cr_drain_duration_ms = drain_duration_ms s now,
       cr_stdout_bytes = se_stdout s, cr_stderr_bytes = se_stderr s\<rparr>)"

text \<open>The resource limit the exit status reveals becomes the error when there is none yet.\<close>

definition attribute_limit ::
  "int option \<Rightarrow> nat \<Rightarrow> int option \<Rightarrow> execution_error option \<Rightarrow> execution_error option mop" where
  "attribute_limit sigxcpu a rc err =
     bindop (getses a (\<lambda>s. infer_resource_limit sigxcpu s rc)) (\<lambda>hit.
     case (err, hit) of
       (None, Some cpu) \<Rightarrow>
         andthen (emit_to a EV_resource_limit_hit
             [(''resource'', VStr ''cpu_time_seconds''), (''limit'', VInt cpu),
              (''attribution'', VStr ''os_signal'')])
           (ret (Some ((exec_error RESOURCE_LIMITED RUN ''process reached the cpu_time_seconds limit'')
              \<lparr>ee_native := [(''exit_code'', code_value rc)]\<rparr>)))
     | _ \<Rightarrow> ret err)"

definition fail_session :: "nat \<Rightarrow> execution_error option \<Rightarrow> unit mop" where
  "fail_session a err =
     (case err of
        None \<Rightarrow> ret ()
      | Some e \<Rightarrow>
          bindop (getses a se_state) (\<lambda>st.
          andthen (whenop (st \<notin> final_states) (move a FAILED))
            (emit_to a EV_session_error (error_to_dict e))))"

text \<open>The counters of the manager when a session has completed.\<close>

definition count_completion ::
  "nat \<Rightarrow> completion_reason \<Rightarrow> execution_error option \<Rightarrow> unit mop" where
  "count_completion a reason err =
     modify (\<lambda>m. let s = session_at m a in m
       \<lparr>mg_completions := (mg_completions m)(reason := Suc (mg_completions m reason)),
        mg_errors := (case err of None \<Rightarrow> mg_errors m
          | Some e \<Rightarrow> (mg_errors m)(ee_code e := Suc (mg_errors m (ee_code e)))),
        mg_total_output := mg_total_output m + se_total_output_bytes s,
        mg_total_retained := mg_total_retained m + nat (co_retained_bytes (captured s)),
        mg_total_dropped := mg_total_dropped m + se_truncated_output_bytes s,
        mg_objects := (mg_objects m)[a := (mg_objects m ! a)\<lparr>ma_monitor := Monitor_done\<rparr>]\<rparr>)"

text \<open>
  Everything after the readers: the disposal, whose failure counts only when nothing failed before,
  the result, the last transition, the completion event and the counters. The clock is read for
  the durations of the result, for \<open>completed_at\<close>, for those of the event, and by the pruning.
\<close>

definition complete_session :: "nat \<Rightarrow> rat \<Rightarrow> rat \<Rightarrow> rat \<Rightarrow> bool \<Rightarrow> execution_error option
    \<Rightarrow> int option \<Rightarrow> unit mop" where
  "complete_session a t_result t_completed t_event disposed err rc =
     bindop (getses a id) (\<lambda>s.
     let reason = final_reason err (se_completion_reason s) rc in
     andthen (fail_session a err)
     (andthen (modses a (\<lambda>s. s\<lparr>se_result := Some (session_result s err reason rc t_result)\<rparr>))
     (andthen (whenop (err = None) (move a COMPLETED))
     (andthen (modses a (\<lambda>s. s\<lparr>se_completed_at := Some t_completed\<rparr>))
     (bindop (getses a id) (\<lambda>s.
      andthen (emit_to a EV_session_completed
          [(''reason'', VStr (completion_reason_value reason)),
           (''exit_code'', VInt (final_exit_code err reason rc)),
           (''resources_disposed'', VBool disposed),
           (''duration_ms'', float_value (duration_ms s t_event)),
           (''drain_duration_ms'', float_value (drain_duration_ms s t_event))])
        (count_completion a reason err)))))))"

definition monitor_disposed :: "manager_config \<Rightarrow> int option \<Rightarrow> nat \<Rightarrow> bool \<Rightarrow> (nat \<Rightarrow> rat)
    \<Rightarrow> execution_error option \<Rightarrow> unit mop" where
  "monitor_disposed c sigxcpu a late ck err0 =
     bindop (outcome (shielded late (dispose_session_backend c a))) (\<lambda>r.
     let err1 = (case err0 of Some e \<Rightarrow> Some e | None \<Rightarrow> disposal_error r) in
     bindop (on_process a (\<lambda>os be. returncode os)) (\<lambda>rc.
     bindop (attribute_limit sigxcpu a rc err1) (\<lambda>err.
     andthen (complete_session a (ck 0) (ck 1) (ck 2) (\<not> isl r) err rc)
       (prune_completed c (ck 3)))))"

end
