(* ===== verification/SessionReports.thy ===== *)
theory SessionReports
  imports SessionMonitor
begin

section \<open>Reports, events and interleavings of the session manager (runtime/sessions.py)\<close>

text \<open>
  \<open>stats\<close>, \<open>inspect\<close>, \<open>list_sessions\<close> and \<open>event_page\<close>; and the step function of the manager, in
  which any piece of any method can follow any other.
\<close>

subsection \<open>Statistics and inspection\<close>

record manager_stats =
  ms_uptime_ms :: rat
  ms_active :: nat
  ms_starting :: nat
  ms_retained :: nat
  ms_started :: nat
  ms_states :: "session_state \<Rightarrow> nat"
  ms_completed_by_reason :: "completion_reason \<Rightarrow> nat"
  ms_errors_by_code :: "error_code \<Rightarrow> nat"
  ms_input_bytes :: nat
  ms_output_bytes :: nat
  ms_retained_output_bytes :: nat
  ms_dropped_output_bytes :: nat
  ms_cancellations :: nat

definition state_count :: "manager \<Rightarrow> session_state \<Rightarrow> nat" where
  "state_count m st = length (filter (\<lambda>(_, a). se_state (session_at m a) = st) (mg_sessions m))"

definition stats :: "manager_config \<Rightarrow> rat \<Rightarrow> rat \<Rightarrow> manager_stats mop" where
  "stats c now uptime_now =
     andthen (prune_completed c now)
     (gets (\<lambda>m.
       \<lparr>ms_uptime_ms = round3 ((uptime_now - mg_created m) * 1000),
        ms_active = mg_starting m
          + length (filter (\<lambda>(_, a). se_state (session_at m a) \<notin> final_states) (mg_sessions m)),
        ms_starting = mg_starting m, ms_retained = length (mg_sessions m),
        ms_started = mg_started m, ms_states = state_count m,
        ms_completed_by_reason = mg_completions m, ms_errors_by_code = mg_errors m,
        ms_input_bytes = mg_total_input m, ms_output_bytes = mg_total_output m,
        ms_retained_output_bytes = mg_total_retained m,
        ms_dropped_output_bytes = mg_total_dropped m, ms_cancellations = mg_cancellations m\<rparr>))"

definition opt_str_value :: "string option \<Rightarrow> pyval" where
  "opt_str_value v = (case v of None \<Rightarrow> VNone | Some t \<Rightarrow> VStr t)"

definition opt_int_value :: "int option \<Rightarrow> pyval" where
  "opt_int_value v = (case v of None \<Rightarrow> VNone | Some i \<Rightarrow> VInt i)"

definition inspection :: "managed \<Rightarrow> rat \<Rightarrow> pydict" where
  "inspection e now =
     (let s = ma_session e; h = bs_handle (ma_process e) in
      [(''session_id'', VStr (se_id s)), (''trace_id'', VStr (se_trace_id s)),
       (''request_id'', opt_str_value (se_request_id s)),
       (''state'', VStr (session_state_value (se_state s))), (''pid'', VInt (hd_pid h)),
       (''mode'', VStr (command_mode_value (cs_mode (se_spec s)))),
       (''process_tree'', VStr (hd_process_tree h)),
       (''degraded_reasons'', VList (map VStr (hd_degraded_reasons h))),
       (''duration_ms'', float_value (duration_ms s now)),
       (''drain_duration_ms'', float_value (drain_duration_ms s now)),
       (''last_output_age_ms'',
          (case se_last_output s of None \<Rightarrow> VNone | Some t \<Rightarrow> float_value (round3 ((now - t) * 1000)))),
       (''output_bytes'', VInt (int (se_total_output_bytes s))),
       (''input_bytes'', VInt (int (se_input_bytes s))),
       (''retained_output_bytes'', VInt (int (length (se_stdout s) + length (se_stderr s)))),
       (''dropped_output_bytes'', VInt (int (se_truncated_output_bytes s))),
       (''first_cursor'', VInt (int (first_event_seq s))),
       (''next_cursor'', VInt (int (se_next_event_seq s))),
       (''cancellation_steps'', steps_value (se_cancellation_steps s)),
       (''idle_timeout_ms'', opt_int_value (se_idle_timeout_ms s))]
      @ (if hd_process_tree h = ''process_group'' then [(''pgid'', VInt (hd_pid h))] else []))"

definition inspect_session :: "manager_config \<Rightarrow> rat \<Rightarrow> rat \<Rightarrow> string \<Rightarrow> pydict mop" where
  "inspect_session c now now' sid =
     bindop (get_session c now sid) (\<lambda>a. getobj a (\<lambda>e. inspection e now'))"

text \<open>
  The iteration over the live dictionary: when its size has changed since it began, the next step
  of the iteration raises. \<open>ck k\<close> gives the two readings of the k-th inspection.
\<close>

fun inspect_values :: "manager_config \<Rightarrow> (nat \<Rightarrow> rat \<times> rat) \<Rightarrow> nat \<Rightarrow> nat \<Rightarrow> nat list
    \<Rightarrow> pydict list mop" where
  "inspect_values c ck size0 k [] =
     bindop (gets (length \<circ> mg_sessions)) (\<lambda>n.
     if n \<noteq> size0 then raise (X_runtime ''dictionary changed size during iteration'') else ret [])"
| "inspect_values c ck size0 k (a # rest) =
     bindop (gets (length \<circ> mg_sessions)) (\<lambda>n.
     if n \<noteq> size0 then raise (X_runtime ''dictionary changed size during iteration'')
     else
       bindop (getses a se_id) (\<lambda>sid.
       bindop (inspect_session c (fst (ck k)) (snd (ck k)) sid) (\<lambda>d.
       bindop (inspect_values c ck size0 (Suc k) rest) (\<lambda>ds. ret (d # ds)))))"

definition list_sessions :: "manager_config \<Rightarrow> rat \<Rightarrow> (nat \<Rightarrow> rat \<times> rat) \<Rightarrow> pydict list mop" where
  "list_sessions c now ck =
     andthen (prune_completed c now)
     (bindop (gets mg_sessions) (\<lambda>d. inspect_values c ck (length d) 0 (map snd d)))"

subsection \<open>Event pages\<close>

text \<open>
  The size of a payload as compact JSON with \<open>ensure_ascii=False\<close>, in UTF-8. The text of an output
  event is valid Unicode, since its decoder replaces what is not.
\<close>

definition escape_size :: "nat \<Rightarrow> nat" where
  "escape_size n =
     (if n = 34 \<or> n = 92 \<or> n = 10 \<or> n = 13 \<or> n = 9 \<or> n = 8 \<or> n = 12 then 2
      else if n < 32 then 6 else if n < 128 then 1 else if n < 2048 then 2
      else if n < 65536 then 3 else 4)"

definition text_json_size :: "codepoints \<Rightarrow> nat" where
  "text_json_size cps = 2 + sum_list (map escape_size cps)"

definition string_json_size :: "string \<Rightarrow> nat" where
  "string_json_size s = text_json_size (map of_char s)"

fun value_json_size :: "(pyfloat \<Rightarrow> string) \<Rightarrow> pyval \<Rightarrow> nat" where
  "value_json_size fl VNone = 4"
| "value_json_size fl (VBool b) = (if b then 4 else 5)"
| "value_json_size fl (VInt i) = length (str_of_int i)"
| "value_json_size fl (VFloat f) = length (fl f)"
| "value_json_size fl (VStr s) = string_json_size s"
| "value_json_size fl (VList xs) = 2 + (length xs - 1) + sum_list (map (value_json_size fl) xs)"
| "value_json_size fl (VDict d) = 2 + (length d - 1)
     + sum_list (map (\<lambda>kv. string_json_size (fst kv) + 1 + value_json_size fl (snd kv)) d)"

definition payload_json_size :: "(pyfloat \<Rightarrow> string) \<Rightarrow> payload \<Rightarrow> nat" where
  "payload_json_size fl p =
     (case p of
        Dict_payload d \<Rightarrow> value_json_size fl (VDict d)
      | Output_payload o' \<Rightarrow>
          value_json_size fl (VDict
            [(''stream'', VStr (stream_name (op_stream o'))), (''offset'', VInt (int (op_offset o'))),
             (''bytes'', VInt (int (op_bytes o'))), (''encoding'', VStr ''utf-8''),
             (''text'', VStr []), (''data_base64'', VStr (op_data_base64 o')),
             (''decoding_errors'', VBool (op_decoding_errors o'))])
          + sum_list (map escape_size (op_text o')))"

text \<open>The loop over the retained events, with the number of events and bytes selected so far.\<close>

fun select_events :: "(pyfloat \<Rightarrow> string) \<Rightarrow> int \<Rightarrow> int \<Rightarrow> nat \<Rightarrow> nat \<Rightarrow> nat \<Rightarrow> lifecycle_event list
    \<Rightarrow> lifecycle_event list" where
  "select_events fl limit byte_limit cursor n used [] = []"
| "select_events fl limit byte_limit cursor n used (e # es) =
     (if le_seq e < cursor then select_events fl limit byte_limit cursor n used es
      else
        let bytes = payload_json_size fl (le_payload e) in
        if 0 < n \<and> byte_limit < int (used + bytes) then []
        else if limit \<le> int (Suc n) then [e]
        else e # select_events fl limit byte_limit cursor (Suc n) (used + bytes) es)"

definition cursor_expired :: "int \<Rightarrow> session \<Rightarrow> exn" where
  "cursor_expired cursor s = X_sharkrail
     ((exec_error EVENT_CURSOR_EXPIRED RUN
        (''event cursor '' @ str_of_int cursor @ '' is older than retained cursor ''
          @ str_of_int (int (first_event_seq s))))
      \<lparr>ee_native := [(''first_cursor'', VInt (int (first_event_seq s)))]\<rparr>)"

definition page_of :: "(pyfloat \<Rightarrow> string) \<Rightarrow> int \<Rightarrow> int \<Rightarrow> nat \<Rightarrow> session
    \<Rightarrow> lifecycle_event list \<times> nat \<times> bool" where
  "page_of fl limit byte_limit cursor s =
     (let selected = select_events fl limit byte_limit cursor 0 0 (se_events s);
          next_cursor = (case rev selected of [] \<Rightarrow> cursor | e # _ \<Rightarrow> Suc (le_seq e))
      in (selected, next_cursor, next_cursor < se_next_event_seq s))"

text \<open>
  \<open>event_page\<close> from the checks of the cursor on. Waiting for an event only delays the reading of
  the session; \<open>s0\<close> is the session when the cursor was checked, \<open>s\<close> when the page is made.
\<close>

definition check_cursor :: "int \<Rightarrow> session \<Rightarrow> exn + nat" where
  "check_cursor cursor s =
     (if cursor < int (first_event_seq s) then Inl (cursor_expired cursor s)
      else if cursor < 0 \<or> int (se_next_event_seq s) < cursor
      then Inl (request_error ''event cursor is out of range'')
      else Inr (nat cursor))"

definition read_page :: "(pyfloat \<Rightarrow> string) \<Rightarrow> manager_config \<Rightarrow> int \<Rightarrow> int option \<Rightarrow> int option
    \<Rightarrow> session \<Rightarrow> session \<Rightarrow> exn + lifecycle_event list \<times> nat \<times> bool" where
  "read_page fl c cursor limit max_bytes s0 s =
     (case check_cursor cursor s0 of
        Inl e \<Rightarrow> Inl e
      | Inr cur \<Rightarrow>
          let page_limit = (case limit of None \<Rightarrow> mc_max_event_page_size c | Some l \<Rightarrow> l);
              byte_limit = (case max_bytes of None \<Rightarrow> mc_max_event_page_bytes c | Some b \<Rightarrow> b)
          in if page_limit \<le> 0 \<or> mc_max_event_page_size c < page_limit
             then Inl (request_error (''event page limit must be between 1 and ''
                    @ str_of_int (mc_max_event_page_size c)))
             else Inr (page_of fl page_limit byte_limit cur s))"

definition event_page :: "(pyfloat \<Rightarrow> string) \<Rightarrow> manager_config \<Rightarrow> rat \<Rightarrow> string \<Rightarrow> int \<Rightarrow> int option
    \<Rightarrow> int option \<Rightarrow> (lifecycle_event list \<times> nat \<times> bool) mop" where
  "event_page fl c now sid cursor limit max_bytes =
     bindop (get_session c now sid) (\<lambda>a.
     bindop (getses a id) (\<lambda>s.
     case read_page fl c cursor limit max_bytes s s of Inl e \<Rightarrow> raise e | Inr p \<Rightarrow> ret p))"

definition events_after :: "(pyfloat \<Rightarrow> string) \<Rightarrow> manager_config \<Rightarrow> rat \<Rightarrow> string \<Rightarrow> int
    \<Rightarrow> lifecycle_event list mop" where
  "events_after fl c now sid cursor =
     bindop (event_page fl c now sid cursor (Some (mc_max_event_page_size c)) None) (\<lambda>p. ret (fst p))"

end
