(* ===== verification/ManagerFrames.thy ===== *)
theory ManagerFrames
  imports SessionReports
begin

section \<open>What the pieces of the manager leave alone\<close>

text \<open>
  \<open>quiet F\<close> relates the manager before and after a piece of a method that neither registers
  sessions nor moves a monitor nor counts bytes: each session keeps its identity and its byte
  counts, its events stay a numbered window and its history a path of the state machine, its state
  changes as \<open>F\<close> allows, and sessions only leave the dictionary. The locale \<open>state_discipline\<close> is
  the contract of \<open>F\<close>; it is interpreted on what other methods may do to a monitored session
  (\<open>outside\<close>), on what the monitor does before the end (\<open>inner\<close>), and on any transition.
\<close>

definition settled :: "session_state \<Rightarrow> bool" where
  "settled st \<longleftrightarrow> st \<in> {COMPLETED, FAILED, DISPOSED}"

definition calm :: "(session_state \<Rightarrow> session_state \<Rightarrow> bool) \<Rightarrow> session \<Rightarrow> session \<Rightarrow> bool" where
  "calm F s t \<longleftrightarrow>
     se_id t = se_id s \<and> se_spec t = se_spec s \<and> se_input_bytes t = se_input_bytes s
     \<and> se_total_output_bytes t = se_total_output_bytes s
     \<and> se_truncated_output_bytes t = se_truncated_output_bytes s
     \<and> se_stdout t = se_stdout s \<and> se_stderr t = se_stderr s
     \<and> se_result t = se_result s \<and> se_completed_at t = se_completed_at s
     \<and> F (se_state s) (se_state t)
     \<and> (numbered s \<longrightarrow> numbered t) \<and> (lifecycle_ok (se_lifecycle s) \<longrightarrow> lifecycle_ok (se_lifecycle t))"

definition quiet_objects ::
  "(nat \<Rightarrow> session_state \<Rightarrow> session_state \<Rightarrow> bool) \<Rightarrow> managed list \<Rightarrow> managed list \<Rightarrow> bool" where
  "quiet_objects F es es' \<longleftrightarrow> length es' = length es
     \<and> (\<forall>i < length es. calm (F i) (ma_session (es ! i)) (ma_session (es' ! i))
          \<and> ma_monitor (es' ! i) = ma_monitor (es ! i) \<and> ma_os (es' ! i) = ma_os (es ! i))"

definition same_counters :: "manager \<Rightarrow> manager \<Rightarrow> bool" where
  "same_counters m n \<longleftrightarrow>
     mg_pending n = mg_pending m \<and> mg_starting n = mg_starting m \<and> mg_started n = mg_started m
     \<and> mg_completions n = mg_completions m \<and> mg_errors n = mg_errors m
     \<and> mg_total_input n = mg_total_input m \<and> mg_total_output n = mg_total_output m
     \<and> mg_total_retained n = mg_total_retained m \<and> mg_total_dropped n = mg_total_dropped m"

definition quiet :: "(nat \<Rightarrow> session_state \<Rightarrow> session_state \<Rightarrow> bool) \<Rightarrow> manager \<Rightarrow> manager \<Rightarrow> bool" where
  "quiet F m n \<longleftrightarrow> quiet_objects F (mg_objects m) (mg_objects n) \<and> same_counters m n
     \<and> (\<exists>P. mg_sessions n = filter P (mg_sessions m))"

lemma state_emit [simp]: "se_state (emit k p s) = se_state s"
  by (simp add: se_state_def)

lemma nth_update_any: "j < length xs \<Longrightarrow> xs[a := x] ! j = (if a = j then x else xs ! j)"
  by (cases "a < length xs") auto

lemma filter_out_key: "AList.delete k xs = filter (\<lambda>p. fst p \<noteq> k) xs"
  by (induction xs) (auto simp: AList.delete_eq)

locale state_discipline =
  fixes F :: "nat \<Rightarrow> session_state \<Rightarrow> session_state \<Rightarrow> bool"
  assumes F_refl: "F i st st" and F_trans: "F i st su \<Longrightarrow> F i su sv \<Longrightarrow> F i st sv"
begin

lemma calm_refl: "calm (F i) s s"
  by (simp add: calm_def F_refl)

lemma calm_trans: "calm (F i) s t \<Longrightarrow> calm (F i) t u \<Longrightarrow> calm (F i) s u"
  unfolding calm_def by (intro conjI) (auto intro: F_trans)

lemma calm_emit: "calm (F i) s (emit k p s)"
  by (simp add: calm_def F_refl emit_numbered)

lemma calm_fields:
  assumes "se_id t = se_id s" "se_spec t = se_spec s" "se_input_bytes t = se_input_bytes s"
    "se_total_output_bytes t = se_total_output_bytes s"
    "se_truncated_output_bytes t = se_truncated_output_bytes s"
    "se_stdout t = se_stdout s" "se_stderr t = se_stderr s" "se_result t = se_result s"
    "se_completed_at t = se_completed_at s" "se_lifecycle t = se_lifecycle s"
    "se_events t = se_events s" "se_next_event_seq t = se_next_event_seq s"
    "se_recorded t = se_recorded s" "se_max_retained_events t = se_max_retained_events s"
  shows "calm (F i) s t"
  using assms numbering.window_cong [of s t] by (simp add: calm_def se_state_def F_refl)

lemma quiet_objects_refl: "quiet_objects F es es"
  by (simp add: quiet_objects_def calm_refl)

lemma quiet_objects_trans: "quiet_objects F es fs \<Longrightarrow> quiet_objects F fs gs \<Longrightarrow> quiet_objects F es gs"
  unfolding quiet_objects_def by (auto intro: calm_trans)

sublocale quietly: state_relation "quiet F"
proof
  show "quiet F m m" for m
  proof -
    have "mg_sessions m = filter (\<lambda>_. True) (mg_sessions m)" by simp
    then show ?thesis unfolding quiet_def same_counters_def by (blast intro: quiet_objects_refl)
  qed
  show "quiet F m q" if "quiet F m n" "quiet F n q" for m n q
  proof -
    from that obtain P Q where "mg_sessions n = filter P (mg_sessions m)"
      "mg_sessions q = filter Q (mg_sessions n)" by (auto simp: quiet_def)
    then have "mg_sessions q = filter (\<lambda>x. P x \<and> Q x) (mg_sessions m)" by simp
    then show ?thesis using that quiet_objects_trans unfolding quiet_def same_counters_def by metis
  qed
qed

lemma quiet_same_objects:
  assumes "mg_objects n = mg_objects m" "same_counters m n" "mg_sessions n = mg_sessions m"
  shows "quiet F m n"
proof -
  have "mg_sessions n = filter (\<lambda>_. True) (mg_sessions m)" using assms by simp
  then show ?thesis using assms quiet_objects_refl unfolding quiet_def by metis
qed

lemma quiet_update:
  assumes "\<And>e. calm (F a) (ma_session e) (ma_session (f e))" "\<And>e. ma_monitor (f e) = ma_monitor e"
    "\<And>e. ma_os (f e) = ma_os e"
  shows "quiet F m (m\<lparr>mg_objects := (mg_objects m)[a := f (mg_objects m ! a)]\<rparr>)"
proof -
  have "quiet_objects F (mg_objects m) ((mg_objects m)[a := f (mg_objects m ! a)])"
    unfolding quiet_objects_def
    using assms calm_refl by (auto simp: nth_update_any)
  moreover have "mg_sessions m = filter (\<lambda>_. True) (mg_sessions m)" by simp
  ultimately show ?thesis unfolding quiet_def same_counters_def by (auto intro: exI [of _ "\<lambda>_. True"])
qed

lemma keeps_modses:
  "(\<And>s. calm (F a) s (f s)) \<Longrightarrow> keeps (quiet F) (modses a f)"
  unfolding modses_def modobj_def by (intro quietly.keeps_modify quiet_update) simp_all

lemma keeps_emit: "keeps (quiet F) (emit_to a k d)"
  unfolding emit_to_def by (rule keeps_modses) (simp_all add: calm_emit)

lemma keeps_getses: "keeps (quiet F) (getses a f)" and keeps_getobj: "keeps (quiet F) (getobj a g)"
  by (simp_all add: getses_def getobj_def quietly.keeps_gets)

lemma keeps_on_process: "keeps (quiet F) (on_process a f)"
proof -
  have "quiet F m (snd (on_process a f m))" for m
  proof -
    let ?e = "mg_objects m ! a"
    obtain r p where "f (ma_os ?e) (ma_backend ?e) (ma_process ?e) = (r, p)" by fastforce
    then show ?thesis
      using quiet_update [of a "\<lambda>e. e\<lparr>ma_process := p\<rparr>" m] by (simp add: on_process_def calm_refl)
  qed
  then show ?thesis by (simp add: keeps_def)
qed

lemma keeps_deadline: "keeps (quiet F) op \<Longrightarrow> keeps (quiet F) (deadline op)"
  unfolding deadline_def by (intro quietly.keeps_rules)

lemma keeps_outcome: "keeps (quiet F) op \<Longrightarrow> keeps (quiet F) (outcome op)"
  unfolding keeps_def outcome_def by (metis (mono_tags) case_prod_beta snd_conv)

lemma keeps_shielded: "keeps (quiet F) op \<Longrightarrow> keeps (quiet F) (shielded late op)"
  unfolding keeps_def shielded_def by (metis (mono_tags) case_prod_beta snd_conv)

lemma keeps_same:
  "(\<And>m. mg_objects (f m) = mg_objects m) \<Longrightarrow> (\<And>m. same_counters m (f m)) \<Longrightarrow>
   (\<And>m. mg_sessions (f m) = mg_sessions m) \<Longrightarrow> keeps (quiet F) (modify f)"
  by (rule quietly.keeps_modify) (simp add: quiet_same_objects)

lemma keeps_drop:
  "(\<And>m. mg_objects (f m) = mg_objects m) \<Longrightarrow> (\<And>m. same_counters m (f m)) \<Longrightarrow>
   (\<And>m. mg_sessions (f m) = AList.delete sid (mg_sessions m)) \<Longrightarrow> keeps (quiet F) (modify f)"
  by (rule quietly.keeps_modify) (auto simp: quiet_def quiet_objects_refl filter_out_key)

lemma keeps_move:
  assumes "\<And>st. tgt \<in> transitions st \<Longrightarrow> F a st tgt"
  shows "keeps (quiet F) (move a tgt)"
proof -
  have "quiet F m (snd (move a tgt m))" for m
  proof (cases "transition tgt (se_lifecycle (session_at m a))")
    case (Inl e)
    then show ?thesis
      by (simp add: move_def bindop_def getses_def gets_def se_transition_def raise_def quietly.R_refl)
  next
    case (Inr lc)
    let ?s = "session_at m a"
    have c: "calm (F a) ?s (?s\<lparr>se_lifecycle := lc\<rparr>)"
      using Inr assms numbering.window_cong [of ?s "?s\<lparr>se_lifecycle := lc\<rparr>"]
        transition_lifecycle_ok [of "se_lifecycle ?s" tgt lc]
      by (auto simp: calm_def transition_Inr_iff se_state_def)
    have o: "quiet_objects F (mg_objects m)
        ((mg_objects m)[a := (mg_objects m ! a)\<lparr>ma_session := ?s\<lparr>se_lifecycle := lc\<rparr>\<rparr>])"
      using c unfolding quiet_objects_def
      by (auto simp: nth_update_any calm_refl session_at_def)
    have "snd (move a tgt m) =
        m\<lparr>mg_objects := (mg_objects m)[a := (mg_objects m ! a)\<lparr>ma_session := ?s\<lparr>se_lifecycle := lc\<rparr>\<rparr>]\<rparr>"
      using Inr by (simp add: move_def bindop_def getses_def gets_def se_transition_def modses_def
          modobj_def modify_def)
    then show ?thesis
      using o unfolding quiet_def same_counters_def by (auto intro: exI [of _ "\<lambda>_. True"])
  qed
  then show ?thesis by (simp add: keeps_def)
qed

lemma keeps_dispose_task: "keeps (quiet F) (modobj a (\<lambda>e. e\<lparr>ma_dispose_task := v\<rparr>))"
  unfolding modobj_def by (intro quietly.keeps_modify quiet_update) (simp_all add: calm_refl)

lemmas quiet_rules = quietly.keeps_rules quietly.keeps_seq_all keeps_emit keeps_getses keeps_getobj
  keeps_on_process keeps_deadline keeps_outcome keeps_shielded keeps_dispose_task

end

text \<open>
  Other methods move a monitored session only from running to cancelling, and dispose of a
  finished one. A discipline that allows these is kept by each of them.
\<close>

locale outside_discipline = state_discipline +
  assumes F_cancelling: "F i RUNNING CANCELLING"
    and F_disposed: "st \<in> {COMPLETED, FAILED, CANCELED} \<Longrightarrow> F i st DISPOSED"
begin

lemma keeps_move_cancelling: "keeps (quiet F) (move a CANCELLING)"
proof (rule keeps_move)
  show "F a st CANCELLING" if "CANCELLING \<in> transitions st" for st
    using that F_cancelling by (cases st) auto
qed

lemma keeps_move_disposed: "keeps (quiet F) (move a DISPOSED)"
proof (rule keeps_move)
  show "F a st DISPOSED" if "DISPOSED \<in> transitions st" for st
    using that F_disposed by (cases st) auto
qed

lemma keeps_prune: "keeps (quiet F) (prune_completed c now)"
proof -
  have "keeps (quiet F) (prune_one a)" for a
    unfolding prune_one_def
    by (intro quiet_rules keeps_move_disposed keeps_drop [where sid = "_"]) (simp_all add: same_counters_def)
  then show ?thesis
    unfolding prune_completed_def by (intro quiet_rules) auto
qed

lemma keeps_get: "keeps (quiet F) (get_session c now sid)"
  unfolding get_session_def by (intro quiet_rules keeps_prune)

lemma keeps_active: "keeps (quiet F) (require_active c now sid)"
  unfolding require_active_def by (intro quiet_rules keeps_get)

lemmas outside_rules = quiet_rules keeps_get keeps_active keeps_prune

lemma keeps_close_stdin: "keeps (quiet F) (close_stdin_locked c now a sid)"
  unfolding close_stdin_locked_def by (intro outside_rules)

lemma keeps_resize: "keeps (quiet F) (resize_locked c now a sid cols rows)"
  unfolding resize_locked_def by (intro outside_rules)

lemma keeps_interrupt: "keeps (quiet F) (interrupt_locked c now a sid)"
  unfolding interrupt_locked_def by (intro outside_rules)

lemma keeps_report_step: "keeps (quiet F) (report_step a v)"
  unfolding report_step_def by (intro outside_rules keeps_modses) (simp_all add: calm_fields)

lemma keeps_reporting: "keeps (quiet F) (reporting_steps a f)"
  unfolding reporting_steps_def by (intro outside_rules) (auto intro: keeps_report_step)

lemma keeps_cancel_cleanup: "keeps (quiet F) (cancel_cleanup a)"
  unfolding cancel_cleanup_def by (intro outside_rules keeps_report_step)

lemma keeps_cancellation_report: "keeps (quiet F) (cancellation_report a success extra t u)"
  unfolding cancellation_report_def by (intro outside_rules)

lemma keeps_cancel_failed: "keeps (quiet F) (cancel_failed a t u err)"
  unfolding cancel_failed_def Let_def by (intro outside_rules keeps_cancel_cleanup keeps_cancellation_report)

lemma keeps_cancel: "keeps (quiet F) (cancel_locked c now t u a sid policy)"
  unfolding cancel_locked_def Let_def
  by (intro outside_rules keeps_move_cancelling keeps_modses keeps_reporting keeps_cancel_failed
      keeps_cancellation_report keeps_same) (simp_all add: calm_fields same_counters_def)

lemma keeps_dispose_begin: "keeps (quiet F) (dispose_begin c ck sid)"
  unfolding dispose_begin_def cancel_def by (intro outside_rules keeps_cancel)

lemma keeps_dispose_backend: "keeps (quiet F) (dispose_session_backend c a)"
  unfolding dispose_session_backend_def Let_def by (intro outside_rules)

lemma keeps_dispose_finish: "keeps (quiet F) (dispose_finish c late a sid err)"
  unfolding dispose_finish_def
  by (intro outside_rules keeps_dispose_backend keeps_move_disposed keeps_drop [where sid = sid])
    (simp_all add: same_counters_def)

lemma keeps_stats: "keeps (quiet F) (stats c now up)"
  unfolding stats_def by (intro outside_rules)

lemma keeps_inspect: "keeps (quiet F) (inspect_session c now now' sid)"
  unfolding inspect_session_def by (intro outside_rules)

lemma keeps_inspect_values: "keeps (quiet F) (inspect_values c ck size0 k as)"
proof (induction as arbitrary: k)
  case Nil
  show ?case unfolding inspect_values.simps by (intro outside_rules)
next
  case (Cons a as)
  show ?case unfolding inspect_values.simps by (intro outside_rules keeps_inspect Cons.IH)
qed

lemma keeps_list: "keeps (quiet F) (list_sessions c now ck)"
  unfolding list_sessions_def by (intro outside_rules keeps_inspect_values)

lemma keeps_event_page: "keeps (quiet F) (event_page fl c now sid cursor limit max_bytes)"
  unfolding event_page_def by (intro outside_rules)

lemma keeps_note_kill: "keeps (quiet F) (note_kill_step a)"
  unfolding note_kill_step_def by (intro outside_rules keeps_report_step)

lemma keeps_attribute_limit: "keeps (quiet F) (attribute_limit sigxcpu a rc err)"
  unfolding attribute_limit_def by (intro outside_rules)

end

definition outside :: "session_state \<Rightarrow> session_state \<Rightarrow> bool" where
  "outside st st' \<longleftrightarrow> st' = st \<or> st = RUNNING \<and> st' = CANCELLING
     \<or> st \<in> {COMPLETED, FAILED, CANCELED} \<and> st' = DISPOSED"

definition live_states :: "session_state set" where
  "live_states = {RUNNING, EXITING, CANCELLING, DRAINING}"

definition inner :: "session_state \<Rightarrow> session_state \<Rightarrow> bool" where
  "inner st st' \<longleftrightarrow> (st \<in> live_states \<longrightarrow> st' \<in> live_states) \<and> (settled st \<longrightarrow> settled st')"

definition inner_at :: "nat \<Rightarrow> nat \<Rightarrow> session_state \<Rightarrow> session_state \<Rightarrow> bool" where
  "inner_at a i = (if i = a then inner else outside)"

interpretation out: outside_discipline "\<lambda>_. outside"
  by unfold_locales (auto simp: outside_def)

interpretation mon: outside_discipline "inner_at a"
  by unfold_locales
    (auto simp: inner_at_def inner_def outside_def live_states_def settled_def split: if_splits)

lemma outside_inner: "outside st st' \<Longrightarrow> inner st st'"
  by (auto simp: outside_def inner_def live_states_def settled_def)

subsection \<open>The monitor before the end\<close>

lemma inner_drain: "keeps (quiet (inner_at a)) (move a DRAINING)"
proof (rule mon.keeps_move)
  show "inner_at a a st DRAINING" if "DRAINING \<in> transitions st" for st
    using that by (cases st) (auto simp: inner_at_def inner_def live_states_def settled_def)
qed

lemma inner_exiting: "keeps (quiet (inner_at a)) (move a EXITING)"
proof (rule mon.keeps_move)
  show "inner_at a a st EXITING" if "EXITING \<in> transitions st" for st
    using that by (cases st) (auto simp: inner_at_def inner_def live_states_def settled_def)
qed

lemma kill_quiet: "keeps (quiet (inner_at a)) (kill_for_timeout a late reason)"
  unfolding kill_for_timeout_def
  by (intro mon.outside_rules mon.keeps_note_kill mon.keeps_modses mon.calm_fields) simp_all

lemma enter_drain_quiet: "keeps (quiet (inner_at a)) (enter_drain a t u)"
  unfolding enter_drain_def
  by (intro mon.outside_rules inner_exiting inner_drain mon.keeps_modses mon.calm_fields) simp_all

lemma drain_timeout_quiet: "keeps (quiet (\<lambda>_. outside)) (drain_timeout c a failed)"
  unfolding drain_timeout_def by (intro out.outside_rules out.keeps_note_kill)

end
