(* ===== verification/ManagerFacts.thy ===== *)
theory ManagerFacts
  imports ManagerFrames
begin

section \<open>Runs of the session manager\<close>

text \<open>
  A step is one piece of a method, a chunk or the end of a stream that a reader passes on, or a
  stretch of a monitor; pieces of different calls follow each other in any order. The invariant
  \<open>manager_ok\<close> of all runs: the bound on active sessions, the input quota, the exact statistics,
  and for every session its numbered events, its history and the agreement of its monitor's phase
  with its state and its result.
\<close>

subsection \<open>Steps\<close>

datatype manager_op =
    Do_reserve host rat start_request
  | Do_complete platform os string string string rat bool "exn option" nat
  | Do_get rat string
  | Do_write rat nat string bytes
  | Do_close_stdin rat nat string
  | Do_resize rat nat string int int
  | Do_interrupt rat nat string
  | Do_cancel rat rat rat nat string "cancellation_policy option"
  | Do_dispose_begin "nat \<Rightarrow> rat" string
  | Do_dispose_finish bool nat string "exn option"
  | Do_chunk nat rat output_stream bytes
  | Do_eof nat output_stream
  | Do_exited nat bool rat rat "exn + completion_reason option"
  | Do_drained nat drain_outcome
  | Do_disposed "int option" nat bool "nat \<Rightarrow> rat"
  | Do_stats rat rat
  | Do_list rat "nat \<Rightarrow> rat \<times> rat"
  | Do_page "pyfloat \<Rightarrow> string" rat string int "int option" "int option"

definition after_op :: "(manager, 'a) op \<Rightarrow> manager \<Rightarrow> manager" where
  "after_op m s = snd (m s)"

definition reading :: "monitor_phase \<Rightarrow> bool" where
  "reading p \<longleftrightarrow> p \<noteq> Monitor_absent \<and> p \<noteq> Monitor_done"

definition phase_at :: "manager \<Rightarrow> nat \<Rightarrow> monitor_phase option" where
  "phase_at m a = (if a < length (mg_objects m) then Some (ma_monitor (mg_objects m ! a)) else None)"

text \<open>A monitor takes its stretches in order, and its readers run until it ends.\<close>

fun manager_step :: "manager_config \<Rightarrow> manager_op \<Rightarrow> manager \<Rightarrow> manager" where
  "manager_step c (Do_reserve h now r) m = after_op (start_reserve h c now r) m"
| "manager_step c (Do_complete pf os uid trace oid now cancelled late i) m =
     (if i < length (mg_pending m)
      then after_op (start_complete pf c os uid trace oid now cancelled late i) m else m)"
| "manager_step c (Do_get now sid) m = after_op (get_session c now sid) m"
| "manager_step c (Do_write now a sid data) m =
     (if phase_at m a \<noteq> None then after_op (write_locked c now a sid data) m else m)"
| "manager_step c (Do_close_stdin now a sid) m = after_op (close_stdin_locked c now a sid) m"
| "manager_step c (Do_resize now a sid cols rows) m = after_op (resize_locked c now a sid cols rows) m"
| "manager_step c (Do_interrupt now a sid) m = after_op (interrupt_locked c now a sid) m"
| "manager_step c (Do_cancel now t u a sid policy) m = after_op (cancel_locked c now t u a sid policy) m"
| "manager_step c (Do_dispose_begin ck sid) m = after_op (dispose_begin c ck sid) m"
| "manager_step c (Do_dispose_finish late a sid err) m = after_op (dispose_finish c late a sid err) m"
| "manager_step c (Do_chunk a now st data) m =
     (if map_option reading (phase_at m a) = Some True
      then after_op (modses a (append_output now st data)) m else m)"
| "manager_step c (Do_eof a st) m =
     (if map_option reading (phase_at m a) = Some True
      then after_op (modses a (flush_output_decoder st)) m else m)"
| "manager_step c (Do_exited a late t u waited) m =
     (if phase_at m a = Some Monitor_waiting then after_op (monitor_exited a late t u waited) m else m)"
| "manager_step c (Do_drained a how) m =
     (if phase_at m a = Some (Monitor_draining None) then after_op (monitor_drained c a how) m else m)"
| "manager_step c (Do_disposed sigxcpu a late ck) m =
     (case phase_at m a of
        Some (Monitor_disposing err) \<Rightarrow> after_op (monitor_disposed c sigxcpu a late ck err) m
      | _ \<Rightarrow> m)"
| "manager_step c (Do_stats now up) m = after_op (stats c now up) m"
| "manager_step c (Do_list now ck) m = after_op (list_sessions c now ck) m"
| "manager_step c (Do_page fl now sid cursor limit max_bytes) m =
     after_op (event_page fl c now sid cursor limit max_bytes) m"

definition manager_run :: "manager_config \<Rightarrow> manager_op list \<Rightarrow> manager \<Rightarrow> manager" where
  "manager_run c ops m = fold (manager_step c) ops m"

subsection \<open>The invariant\<close>

text \<open>What the result of a session says fits the state it ended in.\<close>

definition verdict_ok :: "session_state \<Rightarrow> command_result \<Rightarrow> bool" where
  "verdict_ok st r \<longleftrightarrow>
     (st = COMPLETED \<longrightarrow> cr_error r = None) \<and> (st = FAILED \<longrightarrow> cr_error r \<noteq> None)
     \<and> (cr_error r \<noteq> None \<longrightarrow> cr_exit_code r \<noteq> 0 \<and> cr_reason r \<in> {CR_failed, CR_resource_limited})
     \<and> (cr_timed_out r \<longleftrightarrow> cr_reason r \<in> {CR_timeout, CR_idle_timeout})
     \<and> (cr_timed_out r \<longrightarrow> cr_exit_code r = 124)"

definition phase_ok :: "managed \<Rightarrow> bool" where
  "phase_ok e \<longleftrightarrow>
     (let s = ma_session e in
      case ma_monitor e of
        Monitor_absent \<Rightarrow> se_result s = None
      | Monitor_waiting \<Rightarrow> se_state s \<in> {RUNNING, CANCELLING} \<and> se_result s = None
      | Monitor_draining err \<Rightarrow> err = None \<and> se_state s = DRAINING \<and> se_result s = None
      | Monitor_disposing err \<Rightarrow>
          se_result s = None
          \<and> (if err = None then se_state s = DRAINING else se_state s \<in> live_states)
      | Monitor_done \<Rightarrow>
          settled (se_state s) \<and> se_completed_at s \<noteq> None
          \<and> se_result s \<noteq> None \<and> verdict_ok (se_state s) (the (se_result s)))"

definition entry_ok :: "manager_config \<Rightarrow> managed \<Rightarrow> bool" where
  "entry_ok c e \<longleftrightarrow> numbered (ma_session e) \<and> lifecycle_ok (se_lifecycle (ma_session e))
     \<and> int (se_input_bytes (ma_session e)) \<le> mc_max_total_input_bytes c \<and> phase_ok e"

definition total_of :: "(managed \<Rightarrow> nat) \<Rightarrow> manager \<Rightarrow> nat" where
  "total_of f m = sum_list (map f (mg_objects m))"

definition when_done :: "(session \<Rightarrow> nat) \<Rightarrow> managed \<Rightarrow> nat" where
  "when_done f e = (if ma_monitor e = Monitor_done then f (ma_session e) else 0)"

definition retained_bytes :: "session \<Rightarrow> nat" where
  "retained_bytes s = nat (co_retained_bytes (captured s))"

text \<open>One for a session whose result has the given reason, or an error with the given code.\<close>

definition ended_for :: "completion_reason \<Rightarrow> session \<Rightarrow> nat" where
  "ended_for why s =
     (case se_result s of None \<Rightarrow> 0 | Some r \<Rightarrow> if cr_reason r = why then 1 else 0)"

definition failed_with :: "error_code \<Rightarrow> session \<Rightarrow> nat" where
  "failed_with code s =
     (case se_result s of None \<Rightarrow> 0
      | Some r \<Rightarrow> (case cr_error r of None \<Rightarrow> 0 | Some e \<Rightarrow> if ee_code e = code then 1 else 0))"

definition accounts_ok :: "manager \<Rightarrow> bool" where
  "accounts_ok m \<longleftrightarrow>
     mg_total_input m = total_of (\<lambda>e. se_input_bytes (ma_session e)) m
     \<and> mg_started m = total_of (\<lambda>e. if ma_monitor e = Monitor_absent then 0 else 1) m
     \<and> (\<forall>why. mg_completions m why = total_of (when_done (ended_for why)) m)
     \<and> (\<forall>code. mg_errors m code = total_of (when_done (failed_with code)) m)
     \<and> mg_total_output m = total_of (when_done se_total_output_bytes) m
     \<and> mg_total_retained m = total_of (when_done retained_bytes) m
     \<and> mg_total_dropped m = total_of (when_done se_truncated_output_bytes) m"

definition dict_ok :: "manager \<Rightarrow> bool" where
  "dict_ok m \<longleftrightarrow> distinct (map fst (mg_sessions m))
     \<and> (\<forall>(k, a) \<in> set (mg_sessions m). a < length (mg_objects m))"

definition admission_ok :: "manager_config \<Rightarrow> manager \<Rightarrow> bool" where
  "admission_ok c m \<longleftrightarrow> mg_starting m = length (mg_pending m)
     \<and> int (active_count m + mg_starting m) \<le> mc_max_active_sessions c"

definition manager_ok :: "manager_config \<Rightarrow> manager \<Rightarrow> bool" where
  "manager_ok c m \<longleftrightarrow> (\<forall>e \<in> set (mg_objects m). entry_ok c e) \<and> accounts_ok m \<and> dict_ok m
     \<and> admission_ok c m"

subsection \<open>Quiet steps\<close>

lemma quiet_entry:
  assumes "calm F s t" "s = ma_session e" "t = ma_session e'" "ma_monitor e' = ma_monitor e"
    and "entry_ok c e" and "phase_ok e \<Longrightarrow> phase_ok e'"
  shows "entry_ok c e'"
  using assms by (simp add: entry_ok_def calm_def)

lemma verdict_outside:
  "verdict_ok COMPLETED r \<Longrightarrow> verdict_ok DISPOSED r" "verdict_ok FAILED r \<Longrightarrow> verdict_ok DISPOSED r"
  by (simp_all add: verdict_ok_def)

lemma outside_phase:
  assumes "calm outside (ma_session e) (ma_session e')" "ma_monitor e' = ma_monitor e" "phase_ok e"
  shows "phase_ok e'"
proof -
  from assms(1) have st: "outside (se_state (ma_session e)) (se_state (ma_session e'))"
    and "se_result (ma_session e') = se_result (ma_session e)"
    and "se_completed_at (ma_session e') = se_completed_at (ma_session e)" by (simp_all add: calm_def)
  with assms(2,3) show ?thesis
    by (cases "ma_monitor e")
      (auto simp: phase_ok_def outside_def live_states_def settled_def Let_def
        intro: verdict_outside split: if_splits)
qed

lemma quiet_outside_entries:
  assumes "quiet_objects (\<lambda>_. outside) es es'" and "\<forall>e \<in> set es. entry_ok c e"
  shows "\<forall>e \<in> set es'. entry_ok c e"
proof
  fix e' assume "e' \<in> set es'"
  then obtain i where i: "i < length es'" "e' = es' ! i" by (auto simp: in_set_conv_nth)
  with assms(1) have "calm outside (ma_session (es ! i)) (ma_session e')"
    "ma_monitor e' = ma_monitor (es ! i)" "i < length es" by (simp_all add: quiet_objects_def)
  moreover from this assms(2) have "entry_ok c (es ! i)" by simp
  ultimately show "entry_ok c e'"
    using quiet_entry [OF _ refl refl] outside_phase by blast
qed

lemma captured_calm: "calm F s t \<Longrightarrow> captured t = captured s"
  by (simp add: calm_def captured_def)

lemma quiet_totals:
  assumes "quiet_objects F (mg_objects m) (mg_objects n)"
    and "\<And>e e' F. calm F (ma_session e) (ma_session e') \<Longrightarrow> ma_monitor e' = ma_monitor e \<Longrightarrow> f e' = f e"
  shows "total_of f n = total_of f m"
proof -
  have "map f (mg_objects n) = map f (mg_objects m)"
    using assms unfolding quiet_objects_def by (intro nth_equalityI) (simp, simp, blast)
  then show ?thesis by (simp add: total_of_def)
qed

lemma quiet_accounts:
  assumes "quiet F m n"
  shows "accounts_ok n \<longleftrightarrow> accounts_ok m"
proof -
  from assms have q: "quiet_objects F (mg_objects m) (mg_objects n)" and s: "same_counters m n"
    by (simp_all add: quiet_def)
  have "total_of (\<lambda>e. se_input_bytes (ma_session e)) n = total_of (\<lambda>e. se_input_bytes (ma_session e)) m"
    "total_of (\<lambda>e. if ma_monitor e = Monitor_absent then 0 else 1) n
       = total_of (\<lambda>e. if ma_monitor e = Monitor_absent then 0 else 1) m"
    "total_of (when_done (ended_for why)) n = total_of (when_done (ended_for why)) m"
    "total_of (when_done (failed_with code)) n = total_of (when_done (failed_with code)) m"
    "total_of (when_done se_total_output_bytes) n = total_of (when_done se_total_output_bytes) m"
    "total_of (when_done retained_bytes) n = total_of (when_done retained_bytes) m"
    "total_of (when_done se_truncated_output_bytes) n = total_of (when_done se_truncated_output_bytes) m"
    for why code
    by (rule quiet_totals [OF q],
        simp add: calm_def when_done_def retained_bytes_def captured_def ended_for_def failed_with_def)+
  then show ?thesis using s unfolding accounts_ok_def same_counters_def by simp
qed

lemma quiet_dict:
  assumes "quiet F m n" and "dict_ok m"
  shows "dict_ok n"
proof -
  from assms obtain P where n: "mg_sessions n = filter P (mg_sessions m)"
    and l: "length (mg_objects n) = length (mg_objects m)" by (auto simp: quiet_def quiet_objects_def)
  then show ?thesis using assms(2) by (auto simp: dict_ok_def distinct_map_filter)
qed

lemma filter_length_mono:
  "(\<And>x. x \<in> set xs \<Longrightarrow> p x \<Longrightarrow> q x) \<Longrightarrow> length (filter p (filter r xs)) \<le> length (filter q xs)"
proof (induction xs)
  case (Cons x xs)
  then have "length (filter p (filter r xs)) \<le> length (filter q xs)" by simp
  with Cons.prems [of x] show ?case by auto
qed simp

lemma quiet_active:
  assumes "quiet F m n" and "dict_ok m"
    and F: "\<And>i st st'. F i st st' \<Longrightarrow> settled st \<Longrightarrow> settled st'"
  shows "active_count n \<le> active_count m"
proof -
  from assms obtain P where n: "mg_sessions n = filter P (mg_sessions m)"
    and q: "quiet_objects F (mg_objects m) (mg_objects n)" by (auto simp: quiet_def)
  let ?act = "\<lambda>m (k, a). \<not> settled (se_state (session_at m a))"
  have "?act m p" if "p \<in> set (mg_sessions m)" "?act n p" for p
  proof -
    obtain k a where p: "p = (k, a)" by (cases p)
    with that(1) assms(2) have "a < length (mg_objects m)" by (auto simp: dict_ok_def)
    with q have "F a (se_state (session_at m a)) (se_state (session_at n a))"
      by (simp add: quiet_objects_def calm_def session_at_def)
    with F that(2) p show ?thesis by auto
  qed
  then have "length (filter (?act n) (filter P (mg_sessions m))) \<le> length (filter (?act m) (mg_sessions m))"
    by (rule filter_length_mono)
  then show ?thesis using n by (simp add: active_count_def settled_def)
qed

lemma quiet_admission:
  assumes "quiet F m n" and "dict_ok m" and "admission_ok c m"
    and F: "\<And>i st st'. F i st st' \<Longrightarrow> settled st \<Longrightarrow> settled st'"
  shows "admission_ok c n"
proof -
  from assms(1) have "mg_starting n = mg_starting m" "mg_pending n = mg_pending m"
    by (simp_all add: quiet_def same_counters_def)
  moreover have "active_count n \<le> active_count m" by (rule quiet_active [OF assms(1,2) F])
  ultimately show ?thesis using assms(3) by (simp add: admission_ok_def)
qed

lemma outside_settled: "outside st st' \<Longrightarrow> settled st \<Longrightarrow> settled st'"
  by (auto simp: outside_def settled_def)

lemma inner_at_settled: "inner_at a i st st' \<Longrightarrow> settled st \<Longrightarrow> settled st'"
  using outside_settled by (auto simp: inner_at_def inner_def split: if_splits)

lemma manager_ok_quiet:
  assumes "quiet (\<lambda>_. outside) m n" and "manager_ok c m"
  shows "manager_ok c n"
proof -
  from assms(2) have ok: "\<forall>e \<in> set (mg_objects m). entry_ok c e" "accounts_ok m" "dict_ok m" "admission_ok c m"
    by (simp_all add: manager_ok_def)
  moreover have "\<forall>e \<in> set (mg_objects n). entry_ok c e"
    using assms(1) ok(1) by (auto simp: quiet_def dest: quiet_outside_entries)
  moreover have "admission_ok c n" by (rule quiet_admission [OF assms(1) ok(3,4)]) (rule outside_settled)
  ultimately show ?thesis
    using quiet_accounts [OF assms(1)] quiet_dict [OF assms(1)] by (simp add: manager_ok_def)
qed

lemma manager_ok_outside:
  assumes "keeps (quiet (\<lambda>_. outside)) f" and "manager_ok c m"
  shows "manager_ok c (after_op f m)"
  using assms manager_ok_quiet by (auto simp: keeps_def after_op_def)

lemma wp_outside:
  assumes "keeps (quiet (\<lambda>_. outside)) f" and "\<And>r n. quiet (\<lambda>_. outside) m n \<Longrightarrow> Q r n"
  shows "wp f Q m"
  using assms by (auto simp: wp_def keeps_def)

text \<open>A quiet beginning leaves the rest to start from a manager that is still in order.\<close>

lemma wp_quiet_bindop:
  assumes "keeps (quiet (\<lambda>_. outside)) f" and "manager_ok c m"
    and "\<And>x n. quiet (\<lambda>_. outside) m n \<Longrightarrow> manager_ok c n \<Longrightarrow> wp (g x) (\<lambda>_ n. manager_ok c n) n"
  shows "wp (bindop f g) (\<lambda>_ n. manager_ok c n) m"
  unfolding wp_bindop
proof (rule wp_outside [OF assms(1)])
  fix r n assume q: "quiet (\<lambda>_. outside) m n"
  show "case r of Inl e \<Rightarrow> manager_ok c n | Inr x \<Rightarrow> wp (g x) (\<lambda>_ n. manager_ok c n) n"
    using manager_ok_quiet [OF q assms(2)] assms(3) [OF q manager_ok_quiet [OF q assms(2)]]
    by (cases r) (simp_all only: sum.case)
qed

lemma wp_quiet_andthen:
  assumes "keeps (quiet (\<lambda>_. outside)) f" and "manager_ok c m"
    and "\<And>n. quiet (\<lambda>_. outside) m n \<Longrightarrow> manager_ok c n \<Longrightarrow> wp g (\<lambda>_ n. manager_ok c n) n"
  shows "wp (andthen f g) (\<lambda>_ n. manager_ok c n) m"
  unfolding andthen_def by (rule wp_quiet_bindop [OF assms])

lemma wp_quiet:
  "keeps (quiet (\<lambda>_. outside)) f \<Longrightarrow> manager_ok c m \<Longrightarrow> wp f (\<lambda>_ n. manager_ok c n) m"
  by (rule wp_outside) (auto intro: manager_ok_quiet)

lemma after_wp: "wp f (\<lambda>_ n. P n) m \<Longrightarrow> P (after_op f m)"
  by (simp add: wp_def after_op_def)

subsection \<open>Starting\<close>

lemma reserve_ok:
  assumes "manager_ok c m"
  shows "manager_ok c (after_op (start_reserve h c now r) m)"
proof (rule after_wp)
  have post: "wp (bindop (gets (\<lambda>m. int (active_count m + mg_starting m))) (\<lambda>n.
        if mc_max_active_sessions c \<le> n then raise (session_limit c)
        else modify (\<lambda>m. m\<lparr>mg_starting := Suc (mg_starting m),
               mg_pending := mg_pending m @ [p]\<rparr>))) (\<lambda>_. manager_ok c) n"
    if "manager_ok c n" for n p
    using that by (auto simp: wp_simps manager_ok_def accounts_ok_def dict_ok_def admission_ok_def
        active_count_def session_at_def total_of_def)
  show "wp (start_reserve h c now r) (\<lambda>_. manager_ok c) m"
    unfolding start_reserve_def
    by (rule wp_quiet_andthen [OF out.keeps_prune assms])
      (auto intro: post simp: wp_raise simp del: of_nat_add split: sum.split option.split)
qed

text \<open>A session in a known state.\<close>

definition in_state :: "nat \<Rightarrow> session_state \<Rightarrow> manager \<Rightarrow> bool" where
  "in_state a st m \<longleftrightarrow> a < length (mg_objects m) \<and> se_state (session_at m a) = st"

lemma wp_modses: "wp (modses a f) Q m = Q (Inr ()) (m\<lparr>mg_objects := (mg_objects m)[a :=
    (mg_objects m ! a)\<lparr>ma_session := f (session_at m a)\<rparr>]\<rparr>)"
  by (simp add: modses_def modobj_def wp_simps session_at_def)

lemma modses_in:
  "in_state a st m \<Longrightarrow> se_state (f (session_at m a)) = st \<Longrightarrow>
     wp (modses a f) (\<lambda>r n. r = Inr () \<and> in_state a st n) m"
  by (simp add: wp_modses in_state_def session_at_def)

lemma emit_in: "in_state a st m \<Longrightarrow> wp (emit_to a k d) (\<lambda>r n. r = Inr () \<and> in_state a st n) m"
  unfolding emit_to_def by (rule modses_in) (simp_all add: in_state_def)

lemma move_in:
  assumes "in_state a st m" and "tgt \<in> transitions st"
  shows "wp (move a tgt) (\<lambda>r n. r = Inr () \<and> in_state a tgt n) m"
proof -
  let ?lc = "se_lifecycle (session_at m a)"
  have "transition tgt ?lc = Inr (?lc\<lparr>lc_state := tgt, lc_history := lc_history ?lc @ [tgt]\<rparr>)"
    using assms by (simp add: in_state_def transition_def se_state_def)
  with assms(1) show ?thesis
    by (simp add: move_def wp_simps getses_def se_transition_def wp_modses in_state_def session_at_def
        se_state_def)
qed

lemma step_in:
  assumes "wp f (\<lambda>r n. r = Inr () \<and> P n) m" and "\<And>n. P n \<Longrightarrow> wp g Q n"
  shows "wp (andthen f g) Q m"
  unfolding wp_andthen by (rule wp_mono [OF assms(1)]) (auto intro: assms(2))

lemma seq_in:
  assumes "\<And>f m. f \<in> set fs \<Longrightarrow> P m \<Longrightarrow> wp f (\<lambda>r n. r = Inr () \<and> P n) m" and "P m"
  shows "wp (seq_all fs) (\<lambda>r n. r = Inr () \<and> P n) m"
  using assms
proof (induction fs arbitrary: m)
  case (Cons f fs)
  have rest: "wp (seq_all fs) (\<lambda>r n. r = Inr () \<and> P n) n" if "P n" for n
    by (rule Cons.IH [OF Cons.prems(1) that]) simp_all
  show ?case unfolding seq_all.simps
    by (rule step_in [OF Cons.prems(1) [OF _ Cons.prems(2)] rest]) simp_all
qed (simp add: wp_simps)

lemma announce_in:
  assumes "in_state a CREATED m"
  shows "wp (announce a) (\<lambda>r n. r = Inr () \<and> in_state a RUNNING n) m"
  unfolding announce_def
proof (rule step_in [OF move_in [OF assms]])
  fix n assume n: "in_state a ACCEPTED n"
  have tail: "wp (andthen (emit_to a EV_process_started d)
       (seq_all (map (\<lambda>reason. emit_to a EV_capability_degraded (g reason)) rs)))
       (\<lambda>r n. r = Inr () \<and> in_state a RUNNING n) n" if "in_state a RUNNING n" for n d g rs
    by (rule step_in [OF emit_in [OF that]], rule seq_in) (auto intro: emit_in)
  show "wp (bindop (getses a se_id) (\<lambda>sid.
      andthen (emit_to a EV_accepted [(''session_id'', VStr sid)])
      (andthen (move a STARTING)
      (andthen (move a RUNNING)
      (bindop (getses a se_spec) (\<lambda>spec.
       bindop (getobj a (bs_handle \<circ> ma_process)) (\<lambda>h.
       andthen (emit_to a EV_process_started
           [(''pid'', VInt (hd_pid h)), (''mode'', VStr (command_mode_value (cs_mode spec))),
            (''process_tree'', VStr (hd_process_tree h))])
         (seq_all (map (\<lambda>reason. emit_to a EV_capability_degraded
             [(''capability'', VStr ''process_tree''), (''reason'', VStr reason)])
           (hd_degraded_reasons h)))))))))) (\<lambda>r n. r = Inr () \<and> in_state a RUNNING n) n"
    unfolding wp_bindop getses_def wp_gets sum.case
    apply (rule step_in [OF emit_in [OF n]])
    apply (rule step_in [OF move_in [of a ACCEPTED]], assumption, simp)
    apply (rule step_in [OF move_in [of a STARTING]], assumption, simp)
    unfolding wp_bindop wp_gets sum.case getobj_def
    by (rule tail)
qed simp

definition starting_at :: "nat \<Rightarrow> nat \<Rightarrow> session_state \<Rightarrow> session_state \<Rightarrow> bool" where
  "starting_at a i = (if i = a then (\<lambda>st st'. settled st \<longrightarrow> settled st') else outside)"

interpretation start: outside_discipline "starting_at a"
  by unfold_locales (auto simp: starting_at_def outside_def settled_def split: if_splits)

lemma announce_quiet: "keeps (quiet (starting_at a)) (announce a)"
proof -
  have m: "keeps (quiet (starting_at a)) (move a tgt)" if t: "tgt \<in> {ACCEPTED, STARTING, RUNNING}" for tgt
  proof (rule start.keeps_move)
    show "starting_at a a st tgt" if "tgt \<in> transitions st" for st
      using that t by (cases st) (auto simp: starting_at_def settled_def)
  qed
  show ?thesis
    unfolding announce_def by (intro start.outside_rules m) (auto intro: start.keeps_emit)
qed

lemma starting_settled: "starting_at a i st st' \<Longrightarrow> settled st \<Longrightarrow> settled st'"
  by (auto simp: starting_at_def outside_def settled_def split: if_splits)

text \<open>The entries other than \<open>a\<close>, and what stays true of \<open>a\<close> itself while it changes.\<close>

definition entries_but :: "manager_config \<Rightarrow> nat \<Rightarrow> manager \<Rightarrow> bool" where
  "entries_but c a m \<longleftrightarrow>
     (\<forall>i < length (mg_objects m). i \<noteq> a \<longrightarrow> entry_ok c (mg_objects m ! i))
     \<and> numbered (session_at m a) \<and> lifecycle_ok (se_lifecycle (session_at m a))
     \<and> int (se_input_bytes (session_at m a)) \<le> mc_max_total_input_bytes c
     \<and> se_result (session_at m a) = None"

lemma entries_but_quiet:
  assumes "quiet F m n" and F: "\<And>i. i \<noteq> a \<Longrightarrow> F i = outside" and "a < length (mg_objects m)"
    and "entries_but c a m"
  shows "entries_but c a n"
proof -
  from assms(1) have q: "quiet_objects F (mg_objects m) (mg_objects n)" by (simp add: quiet_def)
  with assms(3) have "calm (F a) (session_at m a) (session_at n a)"
    by (simp add: quiet_objects_def session_at_def)
  moreover have "entry_ok c (mg_objects n ! i)" if "i < length (mg_objects n)" "i \<noteq> a" for i
  proof -
    from q that have "calm outside (ma_session (mg_objects m ! i)) (ma_session (mg_objects n ! i))"
      "ma_monitor (mg_objects n ! i) = ma_monitor (mg_objects m ! i)" "i < length (mg_objects m)"
      using F by (auto simp: quiet_objects_def)
    moreover from this assms(4) that have "entry_ok c (mg_objects m ! i)" by (simp add: entries_but_def)
    ultimately show ?thesis using quiet_entry [OF _ refl refl] outside_phase by blast
  qed
  ultimately show ?thesis using assms(4) by (auto simp: entries_but_def calm_def)
qed

lemma total_of_put:
  assumes "a < length (mg_objects m)"
  shows "total_of f (m\<lparr>mg_objects := (mg_objects m)[a := e]\<rparr>) + f (mg_objects m ! a) = total_of f m + f e"
proof -
  have "f (mg_objects m ! a) \<le> sum_list (map f (mg_objects m))"
    using assms by (intro member_le_sum_list) auto
  then show ?thesis using assms by (simp add: total_of_def map_update sum_list_update)
qed

lemma total_of_update:
  assumes "a < length (mg_objects m)" and "f e = f (mg_objects m ! a)"
  shows "total_of f (m\<lparr>mg_objects := (mg_objects m)[a := e]\<rparr>) = total_of f m"
  using total_of_put [OF assms(1), of f e] assms(2) by simp

lemma active_count_update:
  assumes "dict_ok m" and "settled (se_state (session_at m a)) \<Longrightarrow> settled (se_state (ma_session e))"
  shows "active_count (m\<lparr>mg_objects := (mg_objects m)[a := e]\<rparr>) \<le> active_count m"
proof -
  let ?n = "m\<lparr>mg_objects := (mg_objects m)[a := e]\<rparr>"
  have "length (filter (\<lambda>(_, b). se_state (session_at ?n b) \<notin> {COMPLETED, FAILED, DISPOSED})
        (filter (\<lambda>_. True) (mg_sessions m)))
      \<le> length (filter (\<lambda>(_, b). se_state (session_at m b) \<notin> {COMPLETED, FAILED, DISPOSED}) (mg_sessions m))"
  proof (rule filter_length_mono)
    fix p
    assume p: "p \<in> set (mg_sessions m)"
      and n: "case p of (_, b) \<Rightarrow> se_state (session_at ?n b) \<notin> {COMPLETED, FAILED, DISPOSED}"
    obtain k b where kb: "p = (k, b)" by (cases p)
    with p assms(1) have "b < length (mg_objects m)" by (auto simp: dict_ok_def)
    then show "case p of (_, b) \<Rightarrow> se_state (session_at m b) \<notin> {COMPLETED, FAILED, DISPOSED}"
      using n kb assms(2) by (auto simp: session_at_def nth_update_any settled_def split: if_splits)
  qed
  then show ?thesis by (simp add: active_count_def)
qed

text \<open>Writing an entry back, when the accounts of the entry do not change.\<close>

lemma put_entry:
  assumes "entries_but c a m" "a < length (mg_objects m)" "dict_ok m" "admission_ok c m"
    and "entry_ok c e" and "settled (se_state (session_at m a)) \<Longrightarrow> settled (se_state (ma_session e))"
  shows "(\<forall>e' \<in> set (mg_objects (m\<lparr>mg_objects := (mg_objects m)[a := e]\<rparr>)). entry_ok c e')
    \<and> dict_ok (m\<lparr>mg_objects := (mg_objects m)[a := e]\<rparr>)
    \<and> admission_ok c (m\<lparr>mg_objects := (mg_objects m)[a := e]\<rparr>)"
proof -
  have "active_count (m\<lparr>mg_objects := (mg_objects m)[a := e]\<rparr>) \<le> active_count m"
    using assms(3,6) by (rule active_count_update)
  then have "admission_ok c (m\<lparr>mg_objects := (mg_objects m)[a := e]\<rparr>)"
    using assms(4) by (simp add: admission_ok_def)
  moreover have "entry_ok c e'" if "e' \<in> set ((mg_objects m)[a := e])" for e'
  proof -
    from that obtain i where "i < length (mg_objects m)" "e' = (mg_objects m)[a := e] ! i"
      by (auto simp: in_set_conv_nth)
    with assms(1,5) show ?thesis by (auto simp: nth_update_any entries_but_def split: if_splits)
  qed
  ultimately show ?thesis using assms(3) by (auto simp: dict_ok_def)
qed

lemma started_entry:
  assumes "0 < mc_max_retained_events c" and "0 \<le> mc_max_total_input_bytes c"
  shows "numbered (started_session c uid trace now p)"
    "lifecycle_ok (se_lifecycle (started_session c uid trace now p))"
    "se_input_bytes (started_session c uid trace now p) = 0"
    "se_result (started_session c uid trace now p) = None"
    "se_state (started_session c uid trace now p) = CREATED"
  using assms by (simp_all add: started_session_def Let_def numbered_def last_n_def se_state_def new_lifecycle_def
      lifecycle_ok_def split: option.split)

text \<open>The manager with one more object that no monitor watches yet.\<close>

definition registered :: "manager_config \<Rightarrow> nat \<Rightarrow> manager \<Rightarrow> bool" where
  "registered c a m \<longleftrightarrow> a < length (mg_objects m) \<and> entries_but c a m
     \<and> ma_monitor (mg_objects m ! a) = Monitor_absent \<and> 0 < mg_started m
     \<and> accounts_ok (m\<lparr>mg_started := mg_started m - 1\<rparr>) \<and> dict_ok m \<and> admission_ok c m"

lemma AList_update_length: "length (AList.update k v xs) \<le> Suc (length xs)"
  by (induction xs) auto

lemma filter_update_length:
  "length (filter p (AList.update k v xs)) \<le> Suc (length (filter p xs))"
  by (induction xs) auto

lemma update_values: "(k', b) \<in> set (AList.update k v xs) \<Longrightarrow> b = v \<or> (k', b) \<in> set xs"
  by (induction xs) (auto split: if_splits)

lemma register_registered:
  fixes m :: manager and c :: manager_config and p :: pending_start and be :: backend
    and i :: nat and uid trace :: string and now :: rat and os :: os and proc :: bstate
  defines "m0 \<equiv> m\<lparr>mg_pending := take i (mg_pending m) @ drop (Suc i) (mg_pending m)\<rparr>"
  defines "m1 \<equiv> m0
       \<lparr>mg_objects := mg_objects m0 @ [\<lparr>ma_session = started_session c uid trace now p,
           ma_backend = be, ma_os = os, ma_process = proc, ma_monitor = Monitor_absent,
           ma_dispose_task = None\<rparr>],
        mg_sessions := AList.update uid (length (mg_objects m0)) (mg_sessions m0),
        mg_starting := mg_starting m0 - 1, mg_started := Suc (mg_started m0)\<rparr>"
  assumes "manager_ok c m" "i < length (mg_pending m)" "config_validate c = Inr ()"
  shows "registered c (length (mg_objects m0)) m1"
proof -
  from assms(5) have pos: "0 < mc_max_retained_events c" "0 \<le> mc_max_total_input_bytes c"
    by (auto simp: config_validate_def split: if_splits)
  note new = started_entry [OF pos, of uid trace now p]
  from assms(3) have ok: "\<forall>e \<in> set (mg_objects m). entry_ok c e" "accounts_ok m" "dict_ok m" "admission_ok c m"
    by (simp_all add: manager_ok_def)
  have "entries_but c (length (mg_objects m0)) m1"
    using ok(1) new pos by (auto simp: entries_but_def m1_def m0_def nth_append session_at_def)
  moreover have "accounts_ok (m1\<lparr>mg_started := mg_started m1 - 1\<rparr>)"
    using ok(2) new by (simp add: accounts_ok_def m1_def m0_def total_of_def when_done_def)
  moreover have "dict_ok m1"
    using ok(3) by (auto simp: dict_ok_def m1_def m0_def distinct_update dest!: update_values)
  moreover have "admission_ok c m1"
  proof -
    let ?p = "\<lambda>(_, b). se_state (session_at m1 b) \<notin> {COMPLETED, FAILED, DISPOSED}"
    have "length (filter ?p (filter (\<lambda>_. True) (mg_sessions m)))
        \<le> length (filter (\<lambda>(_, b). se_state (session_at m b) \<notin> {COMPLETED, FAILED, DISPOSED}) (mg_sessions m))"
      using ok(3) by (intro filter_length_mono) (auto simp: dict_ok_def m1_def m0_def session_at_def nth_append)
    then have "active_count m1 \<le> Suc (active_count m)"
      using filter_update_length [of ?p uid "length (mg_objects m)" "mg_sessions m"]
      by (simp add: active_count_def m1_def m0_def)
    then show ?thesis using ok(4) assms(4) by (auto simp: admission_ok_def m1_def m0_def)
  qed
  ultimately show ?thesis by (simp add: registered_def m1_def m0_def)
qed

lemma registered_quiet:
  assumes "registered c a m" and "quiet (starting_at a) m n"
  shows "registered c a n"
proof -
  have "quiet (starting_at a) (m\<lparr>mg_started := mg_started m - 1\<rparr>) (n\<lparr>mg_started := mg_started n - 1\<rparr>)"
    using assms(2) by (simp add: quiet_def same_counters_def)
  from quiet_accounts [OF this] have "accounts_ok (n\<lparr>mg_started := mg_started n - 1\<rparr>)"
    using assms(1) by (simp add: registered_def)
  moreover have "entries_but c a n"
    using assms by (intro entries_but_quiet [OF assms(2)]) (simp_all add: starting_at_def registered_def)
  moreover have "admission_ok c n"
    using assms(1) by (intro quiet_admission [OF assms(2)]) (auto simp: registered_def dest: starting_settled)
  ultimately show ?thesis
    using assms quiet_dict [OF assms(2)]
    by (auto simp: registered_def quiet_def same_counters_def quiet_objects_def)
qed

lemma registered_entries:
  assumes "registered c a m"
  shows "\<forall>e \<in> set (mg_objects m). entry_ok c e"
proof
  fix e assume "e \<in> set (mg_objects m)"
  then obtain i where "i < length (mg_objects m)" "e = mg_objects m ! i" by (auto simp: in_set_conv_nth)
  with assms show "entry_ok c e"
    by (cases "i = a") (auto simp: registered_def entries_but_def entry_ok_def phase_ok_def session_at_def)
qed

lemma withdraw_ok:
  assumes "registered c a m"
  shows "wp (withdraw c a uid e) (\<lambda>_ n. manager_ok c n) m"
proof -
  let ?n = "m\<lparr>mg_sessions := AList.delete uid (mg_sessions m), mg_started := mg_started m - 1\<rparr>"
  have "quiet (\<lambda>_. outside) (m\<lparr>mg_started := mg_started m - 1\<rparr>) ?n"
    by (auto simp: quiet_def same_counters_def out.quiet_objects_refl filter_out_key)
  moreover have "manager_ok c (m\<lparr>mg_started := mg_started m - 1\<rparr>)"
    using assms registered_entries [OF assms]
    by (simp add: manager_ok_def registered_def dict_ok_def admission_ok_def active_count_def session_at_def)
  ultimately have "manager_ok c ?n" by (rule manager_ok_quiet)
  moreover have "keeps (quiet (\<lambda>_. outside))
      (andthen (outcome (on_process a (cleanup_abandoned_start (mc_ownership c)))) (raise e :: nat mop))"
    by (intro out.outside_rules)
  ultimately show ?thesis
    unfolding withdraw_def wp_andthen [of "modify _"] wp_modify sum.case
    by (intro wp_outside) (auto intro: manager_ok_quiet)
qed

lemma monitored_ok:
  assumes "registered c a m" and "in_state a RUNNING m"
  shows "manager_ok c (m\<lparr>mg_objects := (mg_objects m)[a := (mg_objects m ! a)\<lparr>ma_monitor := Monitor_waiting\<rparr>]\<rparr>)"
proof -
  let ?e = "(mg_objects m ! a)\<lparr>ma_monitor := Monitor_waiting\<rparr>"
  let ?n = "m\<lparr>mg_objects := (mg_objects m)[a := ?e]\<rparr>"
  have r: "entries_but c a m" "a < length (mg_objects m)" "dict_ok m" "admission_ok c m"
    "ma_monitor (mg_objects m ! a) = Monitor_absent" "0 < mg_started m"
    "accounts_ok (m\<lparr>mg_started := mg_started m - 1\<rparr>)"
    using assms(1) by (simp_all add: registered_def)
  have e: "entry_ok c ?e"
    using r(1) assms(2) by (simp add: entries_but_def entry_ok_def phase_ok_def session_at_def in_state_def)
  have same: "total_of f ?n = total_of f m" if "f ?e = f (mg_objects m ! a)" for f
    using r(2) that by (rule total_of_update)
  have "accounts_ok ?n"
    using r(5-7) total_of_put [OF r(2), of "\<lambda>e. if ma_monitor e = Monitor_absent then 0 else 1" ?e]
    by (simp add: accounts_ok_def same when_done_def, simp add: total_of_def, linarith)
  then show ?thesis
    using put_entry [OF r(1-4) e] by (simp add: manager_ok_def session_at_def)
qed

lemma start_register_ok:
  assumes "manager_ok c m" "i < length (mg_pending m)" "config_validate c = Inr ()"
  shows "wp (start_register c uid trace now late p be os proc) (\<lambda>_ n. manager_ok c n)
    (m\<lparr>mg_pending := take i (mg_pending m) @ drop (Suc i) (mg_pending m)\<rparr>)"
proof -
  define m0 where "m0 = m\<lparr>mg_pending := take i (mg_pending m) @ drop (Suc i) (mg_pending m)\<rparr>"
  let ?a = "length (mg_objects m0)"
  let ?m1 = "m0
       \<lparr>mg_objects := mg_objects m0 @ [\<lparr>ma_session = started_session c uid trace now p,
           ma_backend = be, ma_os = os, ma_process = proc, ma_monitor = Monitor_absent,
           ma_dispose_task = None\<rparr>],
        mg_sessions := AList.update uid ?a (mg_sessions m0),
        mg_starting := mg_starting m0 - 1, mg_started := Suc (mg_started m0)\<rparr>"
  have reg: "registered c ?a ?m1"
    using register_registered [OF assms] unfolding m0_def .
  have new: "in_state ?a CREATED ?m1"
    by (simp add: in_state_def session_at_def nth_append started_session_def Let_def se_state_def
        new_lifecycle_def)
  have ann: "wp (announce ?a) (\<lambda>r n. (r = Inr () \<and> in_state ?a RUNNING n) \<and> registered c ?a n) ?m1"
    by (rule wp_conj [OF announce_in [OF new]], rule wp_mono [OF keeps_wp [OF announce_quiet]])
      (rule registered_quiet [OF reg])
  have "wp (catch
          (andthen (announce ?a)
            (andthen (modobj ?a (\<lambda>e. e\<lparr>ma_monitor := Monitor_waiting\<rparr>)) (ret ?a)))
          (withdraw c ?a uid)) (\<lambda>_ n. manager_ok c n) ?m1"
    unfolding wp_catch wp_andthen [of "announce _"]
    by (rule wp_mono [OF ann]) (auto simp: wp_simps modobj_def monitored_ok)
  then show ?thesis
    unfolding start_register_def m0_def [symmetric] wp_bindop wp_gets sum.case
      wp_andthen [of "modify _"] wp_modify
    using withdraw_ok [OF reg] by (cases late) (simp_all only: option.case)
qed

lemma complete_ok:
  assumes "manager_ok c m" "i < length (mg_pending m)" "config_validate c = Inr ()"
  shows "manager_ok c (after_op (start_complete pf c os uid trace oid now cancelled late i) m)"
proof (rule after_wp)
  let ?m0 = "m\<lparr>mg_pending := take i (mg_pending m) @ drop (Suc i) (mg_pending m)\<rparr>"
  let ?p = "mg_pending m ! i"
  have "manager_ok c (?m0\<lparr>mg_starting := mg_starting m - 1\<rparr>)"
    using assms(1,2)
    by (auto simp: manager_ok_def accounts_ok_def dict_ok_def admission_ok_def active_count_def
        session_at_def total_of_def)
  then have fails: "wp (andthen release_start (raise e)) (\<lambda>_ n. manager_ok c n) ?m0" for e
    by (simp add: release_start_def wp_simps)
  obtain r proc where sp: "start_process pf c os oid cancelled (ps_spec ?p) = (r, proc)" by fastforce
  show "wp (start_complete pf c os uid trace oid now cancelled late i) (\<lambda>_ n. manager_ok c n) m"
    unfolding start_complete_def take_pending_def wp_bindop wp_gets sum.case wp_andthen [of "modify _"]
      wp_modify wp_ret sp prod.case
    using fails start_register_ok [OF assms] by (cases r) (simp_all only: sum.case)
qed

end
