(* ===== verification/ManagerSteps.thy ===== *)
theory ManagerSteps
  imports ManagerFacts
begin

section \<open>Every step of the session manager keeps its invariant\<close>

text \<open>
  Input, output and the stretches of the monitor, each of which changes one entry; then the
  invariant of all runs and the properties that follow from it.
\<close>

subsection \<open>Input and output\<close>

lemma entries_but_of_ok:
  assumes "manager_ok c m" "a < length (mg_objects m)" "se_result (session_at m a) = None"
  shows "entries_but c a m"
  using assms by (auto simp: manager_ok_def entries_but_def entry_ok_def session_at_def)

text \<open>One entry changes its session, outside the accounts of completed sessions.\<close>

lemma put_session:
  assumes ok: "manager_ok c m" and a: "a < length (mg_objects m)"
    and e: "entry_ok c e" "settled (se_state (session_at m a)) \<Longrightarrow> settled (se_state (ma_session e))"
    and acc: "accounts_ok (m\<lparr>mg_objects := (mg_objects m)[a := e], mg_total_input := t\<rparr>)"
  shows "manager_ok c (m\<lparr>mg_objects := (mg_objects m)[a := e], mg_total_input := t\<rparr>)"
proof -
  have m: "\<forall>e \<in> set (mg_objects m). entry_ok c e" "dict_ok m" "admission_ok c m"
    using ok by (simp_all add: manager_ok_def)
  let ?n = "m\<lparr>mg_objects := (mg_objects m)[a := e]\<rparr>"
  have "active_count ?n \<le> active_count m" using m(2) e(2) by (rule active_count_update)
  then have adm: "admission_ok c ?n" using m(3) by (simp add: admission_ok_def)
  have "set (mg_objects ?n) \<subseteq> insert e (set (mg_objects m))" by (simp add: set_update_subset_insert)
  with m(1) e(1) have "\<forall>e \<in> set (mg_objects ?n). entry_ok c e" by blast
  moreover have "dict_ok ?n" using m(2) by (auto simp: dict_ok_def)
  ultimately show ?thesis
    using adm acc by (simp add: manager_ok_def dict_ok_def admission_ok_def active_count_def session_at_def)
qed

lemma input_ok:
  assumes ok: "manager_ok c m" and a: "a < length (mg_objects m)"
    and bound: "int (se_input_bytes (session_at m a) + n) \<le> mc_max_total_input_bytes c"
  shows "manager_ok c (m\<lparr>mg_objects := (mg_objects m)[a :=
    (mg_objects m ! a)\<lparr>ma_session := (session_at m a)\<lparr>se_input_bytes := se_input_bytes (session_at m a) + n\<rparr>\<rparr>],
    mg_total_input := mg_total_input m + n\<rparr>)"
proof -
  let ?s = "(session_at m a)\<lparr>se_input_bytes := se_input_bytes (session_at m a) + n\<rparr>"
  let ?e = "(mg_objects m ! a)\<lparr>ma_session := ?s\<rparr>"
  let ?n = "m\<lparr>mg_objects := (mg_objects m)[a := ?e]\<rparr>"
  have old: "entry_ok c (mg_objects m ! a)" using ok a by (simp add: manager_ok_def)
  have "numbered ?s"
    by (rule numbering.window_cong [of "session_at m a"]) (use old in \<open>simp_all add: entry_ok_def session_at_def\<close>)
  then have e: "entry_ok c ?e"
    using old bound by (auto simp: entry_ok_def phase_ok_def session_at_def se_state_def Let_def
        split: monitor_phase.splits)
  have same: "total_of f ?n = total_of f m" if "f ?e = f (mg_objects m ! a)" for f
    using a that by (rule total_of_update)
  have "total_of (\<lambda>e. se_input_bytes (ma_session e)) ?n = total_of (\<lambda>e. se_input_bytes (ma_session e)) m + n"
    using total_of_put [OF a, of "\<lambda>e. se_input_bytes (ma_session e)" ?e] by (simp add: session_at_def)
  moreover have "accounts_ok m" using ok by (simp add: manager_ok_def)
  ultimately have "accounts_ok (?n\<lparr>mg_total_input := mg_total_input m + n\<rparr>)"
    using same by (simp add: accounts_ok_def total_of_def when_done_def retained_bytes_def captured_def
        session_at_def ended_for_def failed_with_def)
  then show ?thesis
    using put_session [OF ok a e, of "mg_total_input m + n"] by (simp add: session_at_def se_state_def)
qed

lemma reserved_ok:
  assumes ok: "manager_ok c m" and a: "a < length (mg_objects m)"
    and bound: "int (se_input_bytes (session_at m a) + length data) \<le> mc_max_total_input_bytes c"
  shows "wp (write_reserved a data) (\<lambda>_ n. manager_ok c n) m"
proof -
  let ?s = "(session_at m a)\<lparr>se_input_bytes := se_input_bytes (session_at m a) + length data\<rparr>"
  let ?m1 = "m\<lparr>mg_total_input := mg_total_input m + length data\<rparr>"
  let ?m2 = "?m1\<lparr>mg_objects := (mg_objects ?m1)[a := (mg_objects ?m1 ! a)\<lparr>ma_session :=
    (session_at ?m1 a)\<lparr>se_input_bytes := se_input_bytes (session_at ?m1 a) + length data\<rparr>\<rparr>]\<rparr>"
  have "?m2 = m\<lparr>mg_objects := (mg_objects m)[a := (mg_objects m ! a)\<lparr>ma_session := ?s\<rparr>],
      mg_total_input := mg_total_input m + length data\<rparr>"
    by (simp add: session_at_def)
  then have m2: "manager_ok c ?m2" using input_ok [OF assms] by (simp only:)
  have "wp (deadline (on_process a (\<lambda>os be. bounded (be_write be data)))) (\<lambda>_ n. manager_ok c n) ?m2"
    by (intro wp_quiet [OF _ m2] out.outside_rules)
  then show ?thesis
    unfolding write_reserved_def wp_andthen wp_modify sum.case wp_modses .
qed

lemma write_ok:
  assumes "manager_ok c m" and "a < length (mg_objects m)"
  shows "manager_ok c (after_op (write_locked c now a sid data) m)"
proof (rule after_wp)
  have body: "wp (if mc_max_input_bytes c < int (length data) then raise e
      else bindop (getses a se_input_bytes) (\<lambda>used.
        if mc_max_total_input_bytes c < int (used + length data) then write_quota_hit c a
        else write_reserved a data)) (\<lambda>_ n. manager_ok c n) n"
    if q: "quiet (\<lambda>_. outside) m n" for n e
  proof -
    have n: "manager_ok c n" by (rule manager_ok_quiet [OF q assms(1)])
    have hit: "wp (write_quota_hit c a) (\<lambda>_ n. manager_ok c n) n"
      unfolding write_quota_hit_def by (intro wp_quiet [OF _ n] out.outside_rules)
    have "a < length (mg_objects n)" using q assms(2) by (simp add: quiet_def quiet_objects_def)
    from reserved_ok [OF n this, of data] hit n show ?thesis
      unfolding wp_if wp_bindop getses_def wp_gets sum.case wp_raise by auto
  qed
  show "wp (write_locked c now a sid data) (\<lambda>_ n. manager_ok c n) m"
    unfolding write_locked_def
    by (rule wp_quiet_andthen [OF out.keeps_active assms(1)]) (rule body)
qed

definition same_rest :: "session \<Rightarrow> session \<Rightarrow> bool" where
  "same_rest s t \<longleftrightarrow> se_lifecycle t = se_lifecycle s \<and> se_input_bytes t = se_input_bytes s
     \<and> se_result t = se_result s \<and> se_completed_at t = se_completed_at s"

lemma same_rest_trans: "same_rest s t \<Longrightarrow> same_rest t u \<Longrightarrow> same_rest s u"
  by (simp add: same_rest_def)

lemma store_chunk_rest: "store_chunk st data s = (t, kept, off, dropped) \<Longrightarrow> same_rest s t"
  by (auto simp: store_chunk_def Let_def same_rest_def split: option.splits if_splits)

lemma limit_rest: "same_rest s (report_event_limit s)"
  by (simp add: report_event_limit_def same_rest_def)

lemma output_event_rest: "same_rest s (output_event st kept off s)"
  unfolding output_event_def Let_def
  by (auto simp: limit_rest split: prod.split) (simp_all add: same_rest_def)

lemma truncation_rest: "same_rest s (report_truncation st n s)"
  by (simp add: report_truncation_def same_rest_def Let_def)

lemma append_output_rest: "same_rest s (append_output now st data s)"
proof -
  obtain t kept off dropped where
    c: "store_chunk st data (s\<lparr>se_last_output := Some now\<rparr>) = (t, kept, off, dropped)"
    by (metis prod_cases4)
  have "same_rest s (s\<lparr>se_last_output := Some now\<rparr>)" by (simp add: same_rest_def)
  from same_rest_trans [OF this store_chunk_rest [OF c]] show ?thesis
    unfolding append_output_def c Let_def prod.case
    by (meson same_rest_trans output_event_rest truncation_rest)
qed

lemma flush_rest: "same_rest s (flush_output_decoder st s)"
  unfolding flush_output_decoder_def Let_def
  by (auto split: option.split prod.split) (auto simp: same_rest_def report_event_limit_def)

lemma reader_ok:
  assumes ok: "manager_ok c m" and a: "a < length (mg_objects m)" and r: "reading (ma_monitor (mg_objects m ! a))"
    and n: "numbered (f (session_at m a))" and rest: "same_rest (session_at m a) (f (session_at m a))"
  shows "manager_ok c (after_op (modses a f) m)"
proof -
  from rest have s: "se_lifecycle (f (session_at m a)) = se_lifecycle (session_at m a)"
      "se_input_bytes (f (session_at m a)) = se_input_bytes (session_at m a)"
      "se_result (f (session_at m a)) = se_result (session_at m a)"
      "se_completed_at (f (session_at m a)) = se_completed_at (session_at m a)"
    by (simp_all add: same_rest_def)
  let ?e = "(mg_objects m ! a)\<lparr>ma_session := f (session_at m a)\<rparr>"
  let ?n = "m\<lparr>mg_objects := (mg_objects m)[a := ?e]\<rparr>"
  have old: "entry_ok c (mg_objects m ! a)" using ok a by (simp add: manager_ok_def)
  then have e: "entry_ok c ?e"
    using s n by (auto simp: entry_ok_def phase_ok_def session_at_def se_state_def Let_def
        split: monitor_phase.splits)
  have same: "total_of g ?n = total_of g m" if "g ?e = g (mg_objects m ! a)" for g
    using a that by (rule total_of_update)
  have "accounts_ok ?n"
    using ok r s same by (simp add: accounts_ok_def manager_ok_def reading_def when_done_def session_at_def
       )
  then have "manager_ok c (?n\<lparr>mg_total_input := mg_total_input m\<rparr>)"
    using put_session [OF ok a e, of "mg_total_input m"] s(1) by (simp add: session_at_def se_state_def)
  then show ?thesis
    using wp_modses [of a f "\<lambda>_ n. manager_ok c n" m] by (simp add: wp_def after_op_def)
qed

lemma chunk_ok:
  assumes "manager_ok c m" and "map_option reading (phase_at m a) = Some True"
  shows "manager_ok c (after_op (modses a (append_output now st data)) m)"
    "manager_ok c (after_op (modses a (flush_output_decoder st)) m)"
proof -
  from assms(2) have a: "a < length (mg_objects m)" and r: "reading (ma_monitor (mg_objects m ! a))"
    by (auto simp: phase_at_def split: if_splits)
  from assms(1) a have n: "numbered (session_at m a)" by (simp add: manager_ok_def entry_ok_def session_at_def)
  show "manager_ok c (after_op (modses a (append_output now st data)) m)"
    by (rule reader_ok [OF assms(1) a r]) (simp_all add: append_output_rest numbering.append_output_keeps n)
  show "manager_ok c (after_op (modses a (flush_output_decoder st)) m)"
    by (rule reader_ok [OF assms(1) a r]) (simp_all add: flush_rest numbering.flush_keeps n)
qed

end
