(* ===== verification/MonitorSteps.thy ===== *)
theory MonitorSteps
  imports ManagerSteps
begin

section \<open>The monitor keeps the manager's invariant\<close>

text \<open>
  The stretches of \<open>_monitor\<close>, each of which leaves the monitor in its next phase with a session in
  a state that fits, and the last of which always produces a result; then the invariant of all runs.
\<close>

subsection \<open>Up to the disposal\<close>

text \<open>The manager while the session of \<open>a\<close> is being drained: only its entry may be out of phase.\<close>

definition monitoring :: "manager_config \<Rightarrow> nat \<Rightarrow> manager \<Rightarrow> bool" where
  "monitoring c a m \<longleftrightarrow> a < length (mg_objects m) \<and> entries_but c a m
     \<and> reading (ma_monitor (mg_objects m ! a)) \<and> se_state (session_at m a) \<in> live_states
     \<and> accounts_ok m \<and> dict_ok m \<and> admission_ok c m"

lemma monitoring_start:
  assumes "manager_ok c m" and "a < length (mg_objects m)" and "reading (ma_monitor (mg_objects m ! a))"
  shows "monitoring c a m"
proof -
  have "entry_ok c (mg_objects m ! a)" using assms by (simp add: manager_ok_def)
  then have "phase_ok (mg_objects m ! a)" by (simp add: entry_ok_def)
  then have "se_result (session_at m a) = None \<and> se_state (session_at m a) \<in> live_states"
    using assms(3) by (auto simp: phase_ok_def reading_def live_states_def session_at_def Let_def
        split: monitor_phase.splits if_splits)
  then show ?thesis
    using assms entries_but_of_ok [OF assms(1,2)] by (simp add: monitoring_def manager_ok_def)
qed

lemma monitoring_quiet:
  assumes "monitoring c a m" and "quiet (inner_at a) m n"
  shows "monitoring c a n"
proof -
  have a: "a < length (mg_objects m)" and q: "quiet_objects (inner_at a) (mg_objects m) (mg_objects n)"
    using assms by (simp_all add: monitoring_def quiet_def)
  then have "inner_at a a (se_state (session_at m a)) (se_state (session_at n a))"
    "ma_monitor (mg_objects n ! a) = ma_monitor (mg_objects m ! a)" "a < length (mg_objects n)"
    by (simp_all add: quiet_objects_def calm_def session_at_def)
  moreover have "entries_but c a n"
    using assms by (intro entries_but_quiet [OF assms(2)]) (simp_all add: inner_at_def monitoring_def)
  moreover have "admission_ok c n"
    using assms(1) by (intro quiet_admission [OF assms(2)]) (auto simp: monitoring_def dest: inner_at_settled)
  ultimately show ?thesis
    using assms quiet_dict [OF assms(2)] quiet_accounts [OF assms(2)]
    by (simp add: monitoring_def inner_at_def inner_def)
qed

lemma set_phase_ok:
  assumes "monitoring c a m" and "reading p"
    and "phase_ok ((mg_objects m ! a)\<lparr>ma_monitor := p\<rparr>)"
  shows "wp (modobj a (\<lambda>e. e\<lparr>ma_monitor := p\<rparr>)) (\<lambda>_ n. manager_ok c n) m"
proof -
  let ?e = "(mg_objects m ! a)\<lparr>ma_monitor := p\<rparr>"
  let ?n = "m\<lparr>mg_objects := (mg_objects m)[a := ?e]\<rparr>"
  have m: "entries_but c a m" "a < length (mg_objects m)" "dict_ok m" "admission_ok c m"
    "reading (ma_monitor (mg_objects m ! a))" "accounts_ok m"
    using assms(1) by (simp_all add: monitoring_def)
  have e: "entry_ok c ?e"
    using m(1) assms(3) by (simp add: entries_but_def entry_ok_def session_at_def)
  have same: "total_of f ?n = total_of f m" if "f ?e = f (mg_objects m ! a)" for f
    using m(2) that by (rule total_of_update)
  have "accounts_ok ?n"
    using m(5,6) assms(2) by (simp add: accounts_ok_def reading_def same when_done_def)
  then have "manager_ok c ?n"
    using put_entry [OF m(1-4) e] by (simp add: manager_ok_def session_at_def)
  then show ?thesis by (simp add: modobj_def wp_simps)
qed

lemma wp_keep:
  assumes "keeps R f" and "\<And>r n. R m n \<Longrightarrow> Q r n"
  shows "wp f Q m"
  using assms by (simp add: wp_def keeps_def)

lemma outcome_wp: "wp (outcome f) Q m \<longleftrightarrow> wp f (\<lambda>r n. Q (Inr r) n) m"
  by (simp add: outcome_def wp_def split: prod.split)

lemma on_process_in:
  "in_state a st m \<Longrightarrow> wp (on_process a f) (\<lambda>r n. in_state a st n) m"
  by (auto simp: on_process_def wp_def in_state_def session_at_def Let_def split: prod.split)

lemma modses_step:
  assumes "in_state a st m" and "\<And>s. se_lifecycle (f s) = se_lifecycle s"
    and "\<And>n. in_state a st n \<Longrightarrow> wp g Q n"
  shows "wp (andthen (modses a f) g) Q m"
  using assms(1,2) by (intro step_in [OF modses_in [OF assms(1)] assms(3)]) (auto simp: in_state_def se_state_def)

lemma enter_drain_in:
  assumes "in_state a st m" and "st \<in> {RUNNING, CANCELLING}"
  shows "wp (enter_drain a t u) (\<lambda>r n. r = Inr () \<longrightarrow> in_state a DRAINING n) m"
proof -
  have tail: "wp (andthen (modses a (\<lambda>s. s\<lparr>se_exited := Some t\<rparr>))
     (andthen (move a DRAINING)
     (andthen (modses a (\<lambda>s. s\<lparr>se_drain_started := Some u\<rparr>))
     (bindop (on_process a (\<lambda>os be. returncode os)) (\<lambda>rc.
      emit_to a EV_process_exited [(''exit_code'', code_value rc)])))))
      (\<lambda>r n. r = Inr () \<longrightarrow> in_state a DRAINING n) n" if n: "in_state a st n" "st \<in> {EXITING, CANCELLING}" for n st
  proof (rule modses_step [OF n(1)], simp)
    fix n assume n1: "in_state a st n"
    have t: "DRAINING \<in> transitions st" using n(2) by auto
    show "wp (andthen (move a DRAINING)
     (andthen (modses a (\<lambda>s. s\<lparr>se_drain_started := Some u\<rparr>))
     (bindop (on_process a (\<lambda>os be. returncode os)) (\<lambda>rc.
      emit_to a EV_process_exited [(''exit_code'', code_value rc)]))))
      (\<lambda>r n. r = Inr () \<longrightarrow> in_state a DRAINING n) n"
      by (rule step_in [OF move_in [OF n1 t]], erule modses_step, simp, unfold wp_bindop,
          erule wp_mono [OF on_process_in])
        (auto intro: wp_mono [OF emit_in] split: sum.split)
  qed
  show ?thesis
    unfolding enter_drain_def wp_bindop getses_def wp_gets sum.case
  proof (cases "st = RUNNING")
    case True
    have "wp (move a EXITING) (\<lambda>r n. r = Inr () \<and> in_state a EXITING n) m"
      using assms(1) True by (intro move_in) auto
    then show "wp (andthen (whenop (se_state (session_at m a) = RUNNING) (move a EXITING))
     (andthen (modses a (\<lambda>s. s\<lparr>se_exited := Some t\<rparr>))
     (andthen (move a DRAINING)
     (andthen (modses a (\<lambda>s. s\<lparr>se_drain_started := Some u\<rparr>))
     (bindop (on_process a (\<lambda>os be. returncode os)) (\<lambda>rc.
      emit_to a EV_process_exited [(''exit_code'', code_value rc)]))))))
      (\<lambda>r n. r = Inr () \<longrightarrow> in_state a DRAINING n) m"
      using assms(1) True by (intro step_in [where P = "in_state a EXITING"] tail [of EXITING])
        (auto simp: in_state_def whenop_def)
  next
    case False
    then have "whenop (se_state (session_at m a) = RUNNING) (move a EXITING) = ret ()"
      using assms by (auto simp: in_state_def whenop_def)
    then show "wp (andthen (whenop (se_state (session_at m a) = RUNNING) (move a EXITING))
     (andthen (modses a (\<lambda>s. s\<lparr>se_exited := Some t\<rparr>))
     (andthen (move a DRAINING)
     (andthen (modses a (\<lambda>s. s\<lparr>se_drain_started := Some u\<rparr>))
     (bindop (on_process a (\<lambda>os be. returncode os)) (\<lambda>rc.
      emit_to a EV_process_exited [(''exit_code'', code_value rc)]))))))
      (\<lambda>r n. r = Inr () \<longrightarrow> in_state a DRAINING n) m"
      using assms False tail [of st m] by (simp add: wp_andthen [of "ret ()"] wp_ret)
  qed
qed

lemma failing_phase:
  assumes "monitoring c a m"
  shows "phase_ok ((mg_objects m ! a)\<lparr>ma_monitor := Monitor_disposing (Some e)\<rparr>)"
  using assms by (simp add: monitoring_def entries_but_def phase_ok_def session_at_def)

lemma draining_phase:
  assumes "monitoring c a m" "in_state a DRAINING m" "p \<in> {Monitor_draining None, Monitor_disposing err}"
    "err = None"
  shows "phase_ok ((mg_objects m ! a)\<lparr>ma_monitor := p\<rparr>)"
  using assms by (auto simp: monitoring_def entries_but_def phase_ok_def session_at_def in_state_def)

lemma kill_keeps_state: "keeps (quiet (\<lambda>_. outside)) (kill_for_timeout a late reason)"
  unfolding kill_for_timeout_def
  by (intro out.outside_rules out.keeps_note_kill out.keeps_modses out.calm_fields) simp_all

lemma exited_ok:
  assumes "manager_ok c m" and "phase_at m a = Some Monitor_waiting"
  shows "manager_ok c (after_op (monitor_exited a late t u waited) m)"
proof (rule after_wp)
  have a: "a < length (mg_objects m)" and p: "ma_monitor (mg_objects m ! a) = Monitor_waiting"
    using assms(2) by (auto simp: phase_at_def split: if_splits)
  then have "phase_ok (mg_objects m ! a)" using assms(1) by (simp add: manager_ok_def entry_ok_def)
  then obtain st where st: "in_state a st m" "st \<in> {RUNNING, CANCELLING}"
    using a p by (auto simp: in_state_def phase_ok_def session_at_def Let_def)
  have mon: "monitoring c a m"
    by (rule monitoring_start [OF assms(1) a]) (simp add: p reading_def)
  have fails: "wp (modobj a (\<lambda>e. e\<lparr>ma_monitor := Monitor_disposing (Some x)\<rparr>)) (\<lambda>_ n. manager_ok c n) n"
    if "monitoring c a n" for n x
    by (rule set_phase_ok [OF that]) (simp_all add: reading_def failing_phase [OF that])
  have drains: "wp (bindop (outcome (enter_drain a t u)) (\<lambda>r.
         modobj a (\<lambda>e. e\<lparr>ma_monitor :=
           (case drain_error r of
              None \<Rightarrow> Monitor_draining None | Some e \<Rightarrow> Monitor_disposing (Some e))\<rparr>))) (\<lambda>_ n. manager_ok c n) n"
    if n: "monitoring c a n" "in_state a st n" "st \<in> {RUNNING, CANCELLING}" for n st
    unfolding wp_bindop outcome_wp sum.case
  proof (rule wp_mono [OF wp_conj [OF enter_drain_in [OF n(2,3)] keeps_wp [OF enter_drain_quiet [of a t u]]]])
    fix r :: "exn + unit" and q
    assume h: "(r = Inr () \<longrightarrow> in_state a DRAINING q) \<and> quiet (inner_at a) n q"
    then have q: "monitoring c a q" using n(1) by (blast intro: monitoring_quiet)
    show "wp (modobj a (\<lambda>e. e\<lparr>ma_monitor := (case drain_error r of
        None \<Rightarrow> Monitor_draining None | Some e \<Rightarrow> Monitor_disposing (Some e))\<rparr>)) (\<lambda>_ n. manager_ok c n) q"
    proof (cases "drain_error r")
      case None
      then have "r = Inr ()" by (cases r) (auto simp: drain_error_def split: exn.splits)
      with h have "phase_ok ((mg_objects q ! a)\<lparr>ma_monitor := Monitor_draining None\<rparr>)"
        using q by (intro draining_phase) auto
      with None show ?thesis using set_phase_ok [OF q] by (simp add: reading_def)
    qed (use fails [OF q] in simp)
  qed
  show "wp (monitor_exited a late t u waited) (\<lambda>_ n. manager_ok c n) m"
  proof (cases waited)
    case (Inl e)
    then show ?thesis using fails [OF mon] by (simp add: monitor_exited_def wp_simps)
  next
    case (Inr reason)
    show ?thesis
    proof (cases reason)
      case None
      with Inr show ?thesis
        using drains [OF mon st] unfolding monitor_exited_def by (simp add: wp_bindop [of "ret _"] wp_ret)
    next
      case (Some why)
      have "wp (outcome (kill_for_timeout a late why)) (\<lambda>r n. case r of Inl _ \<Rightarrow> manager_ok c n
        | Inr q \<Rightarrow> wp (case kill_error q of
            Some e \<Rightarrow> modobj a (\<lambda>o'. o'\<lparr>ma_monitor := Monitor_disposing (Some e)\<rparr>)
          | None \<Rightarrow> bindop (outcome (enter_drain a t u)) (\<lambda>r.
              modobj a (\<lambda>o'. o'\<lparr>ma_monitor := (case drain_error r of
                None \<Rightarrow> Monitor_draining None | Some e \<Rightarrow> Monitor_disposing (Some e))\<rparr>)))
          (\<lambda>_ n. manager_ok c n) n) m"
        unfolding outcome_wp sum.case
      proof (rule wp_mono [OF wp_conj [OF keeps_wp [OF kill_quiet [of a late why]]
              keeps_wp [OF kill_keeps_state [of a late why]]]])
        fix r :: "exn + unit" and n
        assume h: "quiet (inner_at a) m n \<and> quiet (\<lambda>_. outside) m n"
        have n: "monitoring c a n" using mon h by (blast intro: monitoring_quiet)
        have "outside st (se_state (session_at n a))" "a < length (mg_objects n)"
          using h st(1) by (auto simp: quiet_def quiet_objects_def calm_def in_state_def session_at_def)
        then obtain st' where "in_state a st' n" "st' \<in> {RUNNING, CANCELLING}"
          using st(2) by (auto simp: in_state_def outside_def)
        then show "wp (case kill_error r of
            Some e \<Rightarrow> modobj a (\<lambda>o'. o'\<lparr>ma_monitor := Monitor_disposing (Some e)\<rparr>)
          | None \<Rightarrow> bindop (outcome (enter_drain a t u)) (\<lambda>r.
              modobj a (\<lambda>o'. o'\<lparr>ma_monitor := (case drain_error r of
                None \<Rightarrow> Monitor_draining None | Some e \<Rightarrow> Monitor_disposing (Some e))\<rparr>)))
          (\<lambda>_ n. manager_ok c n) n"
          using fails [OF n] drains [OF n] by (cases "kill_error r") auto
      qed
      with Inr Some show ?thesis
        unfolding monitor_exited_def by (simp add: wp_bindop [of "bindop _ _"] wp_bindop [of "outcome _"] outcome_wp wp_ret)
    qed
  qed
qed

lemma drained_ok:
  assumes "manager_ok c m" and "phase_at m a = Some (Monitor_draining None)"
  shows "manager_ok c (after_op (monitor_drained c a how) m)"
proof (rule after_wp)
  let ?f = "case how of
          Drained \<Rightarrow>
            bindop (getses a se_total_output_bytes) (\<lambda>n.
            emit_to a EV_session_drained [(''output_bytes'', VInt (int n))])
        | Drain_expired failed \<Rightarrow> drain_timeout c a failed
        | Reader_failed e \<Rightarrow> raise e"
  have a: "a < length (mg_objects m)" and p: "ma_monitor (mg_objects m ! a) = Monitor_draining None"
    using assms(2) by (auto simp: phase_at_def split: if_splits)
  then have "phase_ok (mg_objects m ! a)" using assms(1) by (simp add: manager_ok_def entry_ok_def)
  then have st: "se_state (session_at m a) = DRAINING" using p by (simp add: phase_ok_def session_at_def Let_def)
  have k: "keeps (quiet (\<lambda>_. outside)) ?f"
    by (cases how) (auto intro: out.outside_rules drain_timeout_quiet)
  show "wp (monitor_drained c a how) (\<lambda>_ n. manager_ok c n) m"
    unfolding monitor_drained_def wp_bindop [of "outcome _"] outcome_wp sum.case
  proof (rule wp_keep [OF k])
    fix r n assume q: "quiet (\<lambda>_. outside) m n"
    then have n: "manager_ok c n" using assms(1) by (rule manager_ok_quiet)
    from q a have na: "a < length (mg_objects n)" "ma_monitor (mg_objects n ! a) = Monitor_draining None"
      "se_state (session_at n a) = DRAINING"
      using p st by (auto simp: quiet_def quiet_objects_def calm_def session_at_def outside_def)
    have mon: "monitoring c a n" by (rule monitoring_start [OF n na(1)]) (simp add: na reading_def)
    have "phase_ok ((mg_objects n ! a)\<lparr>ma_monitor := Monitor_disposing (drain_error r)\<rparr>)"
      using mon na by (auto simp: monitoring_def entries_but_def phase_ok_def session_at_def live_states_def)
    then show "wp (modobj a (\<lambda>o'. o'\<lparr>ma_monitor := Monitor_disposing (drain_error r)\<rparr>)) (\<lambda>_ n. manager_ok c n) n"
      by (intro set_phase_ok [OF mon]) (simp_all add: reading_def)
  qed
qed

subsection \<open>The result\<close>

text \<open>The manager with another session in an entry; pieces that work on one session only.\<close>

definition put_ses :: "manager \<Rightarrow> nat \<Rightarrow> session \<Rightarrow> manager" where
  "put_ses m a s = m\<lparr>mg_objects := (mg_objects m)[a := (mg_objects m ! a)\<lparr>ma_session := s\<rparr>]\<rparr>"

lemma put_ses_self: "put_ses m a (session_at m a) = m"
proof -
  have "(mg_objects m ! a)\<lparr>ma_session := session_at m a\<rparr> = mg_objects m ! a" by (simp add: session_at_def)
  then show ?thesis by (simp add: put_ses_def)
qed

lemma put_ses_fields:
  "a < length (mg_objects m) \<Longrightarrow> session_at (put_ses m a s) a = s"
  "a < length (mg_objects m) \<Longrightarrow> mg_objects (put_ses m a s) ! a = (mg_objects m ! a)\<lparr>ma_session := s\<rparr>"
  "length (mg_objects (put_ses m a s)) = length (mg_objects m)"
  by (simp_all add: put_ses_def session_at_def)

definition go :: "session_state \<Rightarrow> session \<Rightarrow> session" where
  "go st s = s\<lparr>se_lifecycle := (se_lifecycle s)\<lparr>lc_state := st, lc_history := lc_history (se_lifecycle s) @ [st]\<rparr>\<rparr>"

lemma modses_put: "a < length (mg_objects m) \<Longrightarrow> modses a f (put_ses m a s) = (Inr (), put_ses m a (f s))"
  by (simp add: modses_def modobj_def modify_def put_ses_def)

lemma emit_put: "a < length (mg_objects m) \<Longrightarrow>
    emit_to a k d (put_ses m a s) = (Inr (), put_ses m a (emit k (Dict_payload d) s))"
  by (simp add: emit_to_def modses_put)

lemma getses_put: "a < length (mg_objects m) \<Longrightarrow> getses a f (put_ses m a s) = (Inr (f s), put_ses m a s)"
  by (simp add: getses_def gets_def put_ses_fields)

lemma move_put:
  "a < length (mg_objects m) \<Longrightarrow> tgt \<in> transitions (se_state s) \<Longrightarrow>
     move a tgt (put_ses m a s) = (Inr (), put_ses m a (go tgt s))"
  by (simp add: move_def bindop_def getses_put se_transition_def transition_def se_state_def modses_put go_def)

lemma go_fields [simp]:
  "se_state (go st s) = st" "se_result (go st s) = se_result s" "se_id (go st s) = se_id s"
  "se_input_bytes (go st s) = se_input_bytes s" "se_stdout (go st s) = se_stdout s"
  "se_stderr (go st s) = se_stderr s" "se_total_output_bytes (go st s) = se_total_output_bytes s"
  "se_truncated_output_bytes (go st s) = se_truncated_output_bytes s"
  by (simp_all add: go_def se_state_def)

text \<open>The session as the last stretch of its monitor leaves it.\<close>

definition failed_session :: "execution_error option \<Rightarrow> session \<Rightarrow> session" where
  "failed_session err s =
     (case err of None \<Rightarrow> s | Some e \<Rightarrow> emit EV_session_error (Dict_payload (error_to_dict e)) (go FAILED s))"

definition completed_session ::
  "rat \<Rightarrow> rat \<Rightarrow> rat \<Rightarrow> bool \<Rightarrow> execution_error option \<Rightarrow> int option \<Rightarrow> session \<Rightarrow> session" where
  "completed_session t u v disposed err rc s =
     (let reason = final_reason err (se_completion_reason s) rc;
          s1 = failed_session err s;
          s2 = s1\<lparr>se_result := Some (session_result s err reason rc t)\<rparr>;
          s3 = (if err = None then go COMPLETED s2 else s2)\<lparr>se_completed_at := Some u\<rparr>
      in emit EV_session_completed (Dict_payload
           [(''reason'', VStr (completion_reason_value reason)),
            (''exit_code'', VInt (final_exit_code err reason rc)),
            (''resources_disposed'', VBool disposed),
            (''duration_ms'', float_value (duration_ms s3 v)),
            (''drain_duration_ms'', float_value (drain_duration_ms s3 v))]) s3)"

lemma live_fails: "st \<in> live_states \<Longrightarrow> FAILED \<in> transitions st \<and> st \<notin> final_states"
  by (auto simp: live_states_def final_states_def)

lemma fail_session_put:
  assumes "a < length (mg_objects m)" and "se_state s \<in> live_states"
  shows "fail_session a err (put_ses m a s) = (Inr (), put_ses m a (failed_session err s))"
  using assms live_fails [OF assms(2)]
  by (simp add: fail_session_def failed_session_def bindop_def andthen_def whenop_def ret_def
      getses_put move_put emit_put split: option.split)

lemma result_failed: "session_result (failed_session err s) e r rc t = session_result s e r rc t"
  by (simp add: session_result_def failed_session_def captured_def duration_ms_def drain_duration_ms_def
      go_def emit_def Let_def split: option.split)

lemma complete_session_value:
  assumes "a < length (mg_objects m)" and "se_state (session_at m a) \<in> live_states"
    and "err = None \<Longrightarrow> se_state (session_at m a) = DRAINING"
  shows "complete_session a t u v disposed err rc m =
    count_completion a (final_reason err (se_completion_reason (session_at m a)) rc) err
      (put_ses m a (completed_session t u v disposed err rc (session_at m a)))"
proof -
  let ?s = "session_at m a"
  have "complete_session a t u v disposed err rc (put_ses m a ?s) =
    count_completion a (final_reason err (se_completion_reason ?s) rc) err
      (put_ses m a (completed_session t u v disposed err rc ?s))"
  proof (cases err)
    case None
    with assms show ?thesis
      by (simp add: complete_session_def completed_session_def bindop_def andthen_def whenop_def Let_def
          getses_put modses_put move_put emit_put fail_session_put result_failed failed_session_def se_state_def)
  next
    case (Some e)
    with assms show ?thesis
      by (simp add: complete_session_def completed_session_def bindop_def andthen_def whenop_def Let_def
          getses_put modses_put emit_put fail_session_put result_failed ret_def)
  qed
  then show ?thesis by (simp add: put_ses_self)
qed

lemma go_ok:
  assumes "numbered s" "lifecycle_ok (se_lifecycle s)" "tgt \<in> transitions (se_state s)"
  shows "numbered (go tgt s)" "lifecycle_ok (se_lifecycle (go tgt s))"
proof -
  show "numbered (go tgt s)"
    by (rule numbering.window_cong [OF assms(1)]) (simp_all add: go_def)
  show "lifecycle_ok (se_lifecycle (go tgt s))"
    by (rule transition_lifecycle_ok [OF assms(2), of tgt])
      (use assms(3) in \<open>simp add: transition_Inr_iff go_def se_state_def\<close>)
qed

lemma completed_session_ok:
  fixes t u v :: rat and disposed :: bool and rc :: "int option" and err :: "execution_error option"
    and s :: session
  assumes n: "numbered s" and l: "lifecycle_ok (se_lifecycle s)" and st: "se_state s \<in> live_states"
    and dr: "err = None \<Longrightarrow> se_state s = DRAINING"
  defines "s' \<equiv> completed_session t u v disposed err rc s"
  shows "numbered s'" "lifecycle_ok (se_lifecycle s')"
    "se_state s' = (if err = None then COMPLETED else FAILED)"
    "se_result s' = Some (session_result s err (final_reason err (se_completion_reason s) rc) rc t)"
    "se_completed_at s' = Some u" "se_input_bytes s' = se_input_bytes s"
    "se_total_output_bytes s' = se_total_output_bytes s"
    "se_truncated_output_bytes s' = se_truncated_output_bytes s"
    "captured s' = captured s"
proof -
  let ?r = "Some (session_result s err (final_reason err (se_completion_reason s) rc) rc t)"
  define s1 where "s1 = failed_session err s"
  define s2 where "s2 = s1\<lparr>se_result := ?r\<rparr>"
  define s3 where "s3 = (if err = None then go COMPLETED s2 else s2)\<lparr>se_completed_at := Some u\<rparr>"
  have s1: "numbered s1 \<and> lifecycle_ok (se_lifecycle s1)
      \<and> se_state s1 = (if err = None then DRAINING else FAILED) \<and> se_input_bytes s1 = se_input_bytes s
      \<and> se_total_output_bytes s1 = se_total_output_bytes s
      \<and> se_truncated_output_bytes s1 = se_truncated_output_bytes s
      \<and> se_stdout s1 = se_stdout s \<and> se_stderr s1 = se_stderr s"
    using n l dr go_ok [OF n l, of FAILED] live_fails [OF st]
    by (cases err) (auto simp: s1_def failed_session_def emit_numbered)
  have n2: "numbered s2"
    unfolding s2_def by (rule numbering.window_cong [of s1]) (use s1 in simp_all)
  have l2: "lifecycle_ok (se_lifecycle s2)" and st2: "se_state s2 = (if err = None then DRAINING else FAILED)"
    using s1 by (simp_all add: s2_def se_state_def)
  have "numbered (if err = None then go COMPLETED s2 else s2)"
    using n2 go_ok(1) [OF n2 l2, of COMPLETED] st2 by simp
  then have "numbered s3"
    unfolding s3_def by (rule numbering.window_cong) simp_all
  moreover have "lifecycle_ok (se_lifecycle s3)" "se_state s3 = (if err = None then COMPLETED else FAILED)"
    using l2 go_ok(2) [OF n2 l2, of COMPLETED] st2 by (auto simp: s3_def se_state_def go_def)
  moreover have "se_result s3 = ?r" "se_completed_at s3 = Some u" by (simp_all add: s3_def s2_def go_def)
  moreover have "se_input_bytes s3 = se_input_bytes s" "se_total_output_bytes s3 = se_total_output_bytes s"
    "se_truncated_output_bytes s3 = se_truncated_output_bytes s" "captured s3 = captured s"
    using s1 by (simp_all add: s3_def s2_def captured_def go_def)
  moreover have "s' = emit EV_session_completed (Dict_payload
           [(''reason'', VStr (completion_reason_value (final_reason err (se_completion_reason s) rc))),
            (''exit_code'', VInt (final_exit_code err (final_reason err (se_completion_reason s) rc) rc)),
            (''resources_disposed'', VBool disposed),
            (''duration_ms'', float_value (duration_ms s3 v)),
            (''drain_duration_ms'', float_value (drain_duration_ms s3 v))]) s3"
    by (simp add: s'_def completed_session_def Let_def s1_def s2_def s3_def)
  ultimately show "numbered s'" "lifecycle_ok (se_lifecycle s')"
    "se_state s' = (if err = None then COMPLETED else FAILED)"
    "se_result s' = ?r" "se_completed_at s' = Some u" "se_input_bytes s' = se_input_bytes s"
    "se_total_output_bytes s' = se_total_output_bytes s"
    "se_truncated_output_bytes s' = se_truncated_output_bytes s" "captured s' = captured s"
    by (simp_all add: emit_numbered captured_def)
qed

lemma session_verdict:
  "verdict_ok (if err = None then COMPLETED else FAILED) (session_result s err (final_reason err reason rc) rc t)"
  by (cases err; cases rc; cases reason)
    (auto simp: verdict_ok_def session_result_def final_reason_def final_exit_code_def error_reason_def Let_def)

lemma count_ok:
  fixes t u v :: rat and disposed :: bool and rc :: "int option" and err :: "execution_error option"
    and m :: manager and a :: nat
  assumes ok: "manager_ok c m" and a: "a < length (mg_objects m)"
    and p: "ma_monitor (mg_objects m ! a) = Monitor_disposing err0"
    and e0: "err = None \<Longrightarrow> err0 = None"
  defines "s' \<equiv> completed_session t u v disposed err rc (session_at m a)"
    and "reason \<equiv> final_reason err (se_completion_reason (session_at m a)) rc"
  shows "wp (count_completion a reason err) (\<lambda>_ n. manager_ok c n) (put_ses m a s')"
proof -
  let ?s = "session_at m a"
  let ?e = "(mg_objects m ! a)\<lparr>ma_session := s', ma_monitor := Monitor_done\<rparr>"
  let ?n = "m\<lparr>mg_objects := (mg_objects m)[a := ?e]\<rparr>"
  have old: "entry_ok c (mg_objects m ! a)" using ok a by (simp add: manager_ok_def)
  then have st: "se_state ?s \<in> live_states" "err = None \<Longrightarrow> se_state ?s = DRAINING"
    and res: "se_result ?s = None"
    using p e0 by (auto simp: entry_ok_def phase_ok_def session_at_def Let_def live_states_def split: if_splits)
  note s' = completed_session_ok [of ?s err t u v disposed rc, folded s'_def]
  have facts: "numbered ?s" "lifecycle_ok (se_lifecycle ?s)" using old by (simp_all add: entry_ok_def session_at_def)
  note s' = s' [OF facts st]
  have e: "entry_ok c ?e"
    using old s' session_verdict by (simp add: entry_ok_def phase_ok_def settled_def session_at_def Let_def)
  have m: "entries_but c a m" "dict_ok m" "admission_ok c m" "accounts_ok m"
    using ok entries_but_of_ok [OF ok a res] by (simp_all add: manager_ok_def)
  have tot: "total_of f ?n + f (mg_objects m ! a) = total_of f m + f ?e" for f
    by (rule total_of_put [OF a])
  have put: "(\<forall>e' \<in> set (mg_objects ?n). entry_ok c e') \<and> dict_ok ?n \<and> admission_ok c ?n"
    using put_entry [OF m(1) a m(2,3) e] st s'(3) by (auto simp: settled_def live_states_def)
  define q where "q = snd (count_completion a reason err (put_ses m a s'))"
  have obj: "mg_objects q = (mg_objects m)[a := ?e]" "mg_sessions q = mg_sessions m"
    "mg_pending q = mg_pending m" "mg_starting q = mg_starting m" "mg_started q = mg_started m"
    "mg_total_input q = mg_total_input m"
    "mg_completions q = (mg_completions m)(reason := Suc (mg_completions m reason))"
    "mg_errors q = (case err of None \<Rightarrow> mg_errors m
       | Some e \<Rightarrow> (mg_errors m)(ee_code e := Suc (mg_errors m (ee_code e))))"
    "mg_total_output q = mg_total_output m + se_total_output_bytes ?s"
    "mg_total_retained q = mg_total_retained m + retained_bytes ?s"
    "mg_total_dropped q = mg_total_dropped m + se_truncated_output_bytes ?s"
    using a s' by (simp_all add: q_def count_completion_def modify_def Let_def put_ses_def session_at_def
        retained_bytes_def split: option.split)
  have same: "total_of f q = total_of f ?n" for f by (simp add: total_of_def obj)
  have whole: "total_of (when_done f) q = total_of (when_done f) m + f s'" for f
    using tot [of "when_done f"] p by (simp add: same when_done_def)
  have "mg_total_input q = total_of (\<lambda>e. se_input_bytes (ma_session e)) q"
    using tot [of "\<lambda>e. se_input_bytes (ma_session e)"] s' m(4) obj(6)
    by (simp add: same session_at_def accounts_ok_def)
  moreover have "mg_started q = total_of (\<lambda>e. if ma_monitor e = Monitor_absent then 0 else 1) q"
    using tot [of "\<lambda>e. if ma_monitor e = Monitor_absent then 0 else 1"] p m(4) obj(5)
    by (simp add: same accounts_ok_def)
  moreover have "mg_completions q why = total_of (when_done (ended_for why)) q" for why
  proof -
    have "mg_completions m why = total_of (when_done (ended_for why)) m" using m(4) by (simp add: accounts_ok_def)
    moreover have "mg_completions q why = mg_completions m why + ended_for why s'"
      using s'(4) by (simp add: obj ended_for_def session_result_def reason_def Let_def)
    ultimately show ?thesis by (simp add: whole)
  qed
  moreover have "mg_errors q code = total_of (when_done (failed_with code)) q" for code
  proof -
    have "mg_errors m code = total_of (when_done (failed_with code)) m" using m(4) by (simp add: accounts_ok_def)
    moreover have "mg_errors q code = mg_errors m code + failed_with code s'"
      using s'(4) by (simp add: obj failed_with_def session_result_def Let_def split: option.split)
    ultimately show ?thesis by (simp add: whole)
  qed
  moreover have "mg_total_output q = total_of (when_done se_total_output_bytes) q"
    "mg_total_retained q = total_of (when_done retained_bytes) q"
    "mg_total_dropped q = total_of (when_done se_truncated_output_bytes) q"
    using m(4) s' obj(8-11) unfolding whole by (simp_all add: accounts_ok_def retained_bytes_def)
  ultimately have "accounts_ok q" unfolding accounts_ok_def by blast
  then have "manager_ok c q"
    using put obj by (simp add: manager_ok_def dict_ok_def admission_ok_def active_count_def session_at_def)
  then show ?thesis by (simp add: wp_def q_def)
qed

lemma attribute_keeps_error:
  "wp (attribute_limit sigxcpu a rc err) (\<lambda>r n. case r of Inl _ \<Rightarrow> True | Inr e \<Rightarrow> e = None \<longrightarrow> err = None) m"
  by (auto simp: attribute_limit_def wp_simps getses_def emit_to_def modses_def modobj_def
      split: option.split)

lemma disposed_ok:
  assumes "manager_ok c m" and "phase_at m a = Some (Monitor_disposing err0)"
  shows "manager_ok c (after_op (monitor_disposed c sigxcpu a late ck err0) m)"
proof (rule after_wp)
  have a: "a < length (mg_objects m)" and p: "ma_monitor (mg_objects m ! a) = Monitor_disposing err0"
    using assms(2) by (auto simp: phase_at_def split: if_splits)
  have final: "wp (andthen (complete_session a (ck 0) (ck 1) (ck 2) disposed err rc) (prune_completed c (ck 3)))
      (\<lambda>_ n. manager_ok c n) n"
    if q: "quiet (\<lambda>_. outside) m n" and n: "manager_ok c n" and e: "err = None \<Longrightarrow> err0 = None" for n err rc disposed
  proof -
    have na: "a < length (mg_objects n)" "ma_monitor (mg_objects n ! a) = Monitor_disposing err0"
      using q a p by (auto simp: quiet_def quiet_objects_def)
    have "entry_ok c (mg_objects n ! a)" using n na by (simp add: manager_ok_def)
    then have st: "se_state (session_at n a) \<in> live_states" "err = None \<Longrightarrow> se_state (session_at n a) = DRAINING"
      using na(2) e by (auto simp: entry_ok_def phase_ok_def session_at_def Let_def live_states_def split: if_splits)
    have "wp (count_completion a (final_reason err (se_completion_reason (session_at n a)) rc) err)
        (\<lambda>_ n. manager_ok c n)
        (put_ses n a (completed_session (ck 0) (ck 1) (ck 2) disposed err rc (session_at n a)))"
      by (rule count_ok [OF n na]) (rule e)
    then have "wp (complete_session a (ck 0) (ck 1) (ck 2) disposed err rc) (\<lambda>_ n. manager_ok c n) n"
      using complete_session_value [of a n err "ck 0" "ck 1" "ck 2" disposed rc] na(1) st
      by (simp add: wp_def)
    then show ?thesis
      unfolding wp_andthen
      by (rule wp_mono) (auto intro: wp_quiet out.keeps_prune split: sum.split)
  qed
  show "wp (monitor_disposed c sigxcpu a late ck err0) (\<lambda>_ n. manager_ok c n) m"
    unfolding monitor_disposed_def wp_bindop [of "outcome _"] outcome_wp sum.case Let_def
  proof (rule wp_keep [OF out.keeps_shielded [OF out.keeps_dispose_backend]])
    fix r n assume q: "quiet (\<lambda>_. outside) m n"
    then have n: "manager_ok c n" using assms(1) by (rule manager_ok_quiet)
    let ?err = "case err0 of None \<Rightarrow> disposal_error r | Some e \<Rightarrow> Some e"
    have e0: "?err = None \<Longrightarrow> err0 = None" by (cases err0) auto
    show "wp (bindop (on_process a (\<lambda>os be. returncode os)) (\<lambda>rc.
        bindop (attribute_limit sigxcpu a rc ?err) (\<lambda>err.
        andthen (complete_session a (ck 0) (ck 1) (ck 2) (\<not> isl r) err rc) (prune_completed c (ck 3)))))
        (\<lambda>_ n. manager_ok c n) n"
    proof (rule wp_quiet_bindop [OF out.keeps_on_process n])
      fix rc n1 assume q1: "quiet (\<lambda>_. outside) n n1" and n1: "manager_ok c n1"
      show "wp (bindop (attribute_limit sigxcpu a rc ?err) (\<lambda>err.
        andthen (complete_session a (ck 0) (ck 1) (ck 2) (\<not> isl r) err rc) (prune_completed c (ck 3))))
        (\<lambda>_ n. manager_ok c n) n1"
        unfolding wp_bindop [of "attribute_limit _ _ _ _"]
      proof (rule wp_mono [OF wp_conj [OF keeps_wp [OF out.keeps_attribute_limit] attribute_keeps_error]])
        fix r1 :: "exn + execution_error option" and n2
        assume h: "quiet (\<lambda>_. outside) n1 n2 \<and> (case r1 of Inl _ \<Rightarrow> True | Inr e \<Rightarrow> e = None \<longrightarrow> ?err = None)"
        then have n2: "manager_ok c n2" and q2: "quiet (\<lambda>_. outside) m n2"
          using n1 q q1 manager_ok_quiet out.quietly.R_trans by blast+
        show "case r1 of Inl e \<Rightarrow> manager_ok c n2 | Inr err \<Rightarrow>
          wp (andthen (complete_session a (ck 0) (ck 1) (ck 2) (\<not> isl r) err rc) (prune_completed c (ck 3)))
            (\<lambda>_ n. manager_ok c n) n2"
          using final [OF q2 n2] h e0 n2 by (cases r1) auto
      qed
    qed
  qed
qed

end
