(* ===== verification/ManagerProps.thy ===== *)
theory ManagerProps
  imports MonitorSteps
begin

section \<open>Properties of the session manager\<close>

subsection \<open>All runs\<close>

lemma manager_step_ok:
  assumes "config_validate c = Inr ()" and ok: "manager_ok c m"
  shows "manager_ok c (manager_step c op m)"
proof (cases op)
  case (Do_reserve h now r)
  then show ?thesis using reserve_ok [OF ok] by simp
next
  case (Do_complete pf os uid trace oid now cancelled late i)
  then show ?thesis using complete_ok [OF ok _ assms(1)] ok by simp
next
  case (Do_write now a sid data)
  then show ?thesis using write_ok [OF ok] ok by (simp add: phase_at_def)
next
  case (Do_chunk a now st data)
  then show ?thesis using chunk_ok [OF ok] ok by simp
next
  case (Do_eof a st)
  then show ?thesis using chunk_ok [OF ok] ok by simp
next
  case (Do_exited a late t u waited)
  then show ?thesis using exited_ok [OF ok] ok by simp
next
  case (Do_drained a how)
  then show ?thesis using drained_ok [OF ok] ok by simp
next
  case (Do_disposed sigxcpu a late ck)
  then show ?thesis using disposed_ok [OF ok] ok by (simp split: option.split monitor_phase.split)
qed (simp_all add: manager_ok_outside [OF _ ok] out.keeps_get out.keeps_close_stdin out.keeps_resize
    out.keeps_interrupt out.keeps_cancel out.keeps_dispose_begin out.keeps_dispose_finish
    out.keeps_stats out.keeps_list out.keeps_event_page)

lemma new_manager_ok: "config_validate c = Inr () \<Longrightarrow> manager_ok c (new_manager now)"
  by (auto simp: manager_ok_def accounts_ok_def dict_ok_def admission_ok_def active_count_def
      total_of_def new_manager_def config_validate_def split: if_splits)

lemma manager_run_ok:
  assumes "config_validate c = Inr ()"
  shows "manager_ok c (manager_run c ops (new_manager now))"
proof -
  have "manager_ok c m \<Longrightarrow> manager_ok c (manager_run c ops m)" for m
    by (induction ops arbitrary: m) (simp_all add: manager_run_def manager_step_ok [OF assms])
  then show ?thesis using new_manager_ok [OF assms] by blast
qed

definition demo_config :: manager_config where
  "demo_config = \<lparr>mc_default_max_output_bytes = 100, mc_max_active_sessions = 2, mc_max_input_bytes = 10,
     mc_max_total_input_bytes = 15, mc_max_output_events = 10, mc_backend = None,
     mc_drain_timeout_ms = 2000, mc_termination_timeout_ms = 2000, mc_shutdown_timeout_ms = 5000,
     mc_max_retained_events = 20, mc_max_completed_sessions = 4, mc_completed_session_ttl_ms = 1000,
     mc_max_event_page_size = 5, mc_max_event_page_bytes = 1000, mc_recording = True,
     mc_policy = None, mc_ownership = None\<rparr>"

lemma demo_config_ok: "config_validate demo_config = Inr ()"
  by (simp add: config_validate_def demo_config_def)

text \<open>
  C6. However starts, writes, cancellations, disposals and completions interleave, the sessions that
  are not yet completed, failed or disposed of, together with the starts whose process is still
  being created, never exceed \<open>max_active_sessions\<close>; and every reservation belongs to a start
  that is still under way, so that none is leaked.
\<close>

theorem active_sessions_bounded:
  assumes "config_validate c = Inr ()"
  shows "let m = manager_run c ops (new_manager now) in
    int (active_count m + mg_starting m) \<le> mc_max_active_sessions c
    \<and> mg_starting m = length (mg_pending m)"
  using manager_run_ok [OF assms, of ops now] by (simp add: manager_ok_def admission_ok_def Let_def)

text \<open>
  C7. No session is ever charged more than \<open>max_total_input_bytes\<close> of input, and the manager's input
  counter is exactly what its sessions were charged, whatever writes fail or are interrupted.
\<close>

theorem input_quota_kept:
  assumes "config_validate c = Inr ()"
  shows "let m = manager_run c ops (new_manager now) in
    list_all (\<lambda>e. int (se_input_bytes (ma_session e)) \<le> mc_max_total_input_bytes c) (mg_objects m)
    \<and> mg_total_input m = sum_list (map (\<lambda>e. se_input_bytes (ma_session e)) (mg_objects m))"
  using manager_run_ok [OF assms, of ops now]
  by (simp add: manager_ok_def entry_ok_def accounts_ok_def total_of_def Let_def list_all_iff)


subsection \<open>Every monitored session gets a result\<close>

lemma modobj_phase:
  "a < length (mg_objects m) \<Longrightarrow>
     wp (modobj a (\<lambda>e. e\<lparr>ma_monitor := p\<rparr>)) (\<lambda>r n. phase_at n a = Some p) m"
  by (simp add: modobj_def wp_simps phase_at_def)

lemma quiet_phase: "quiet F m n \<Longrightarrow> phase_at n a = phase_at m a"
  by (auto simp: phase_at_def quiet_def quiet_objects_def)

lemma quiet_length: "quiet F m n \<Longrightarrow> length (mg_objects n) = length (mg_objects m)"
  by (simp add: quiet_def quiet_objects_def)

lemma andthen_keeps_phase:
  assumes "wp f (\<lambda>r n. r = Inr () \<and> P (phase_at n a)) m" and "\<And>n. P (phase_at n a) \<Longrightarrow> quiet F n (snd (g n))"
  shows "wp (andthen f g) (\<lambda>_ n. P (phase_at n a)) m"
  unfolding wp_andthen
proof (rule wp_mono [OF assms(1)])
  fix r n assume h: "r = Inr () \<and> P (phase_at n a)"
  then have "phase_at (snd (g n)) a = phase_at n a" using assms(2) quiet_phase by blast
  with h show "case r of Inl e \<Rightarrow> P (phase_at n a) | Inr x \<Rightarrow> wp g (\<lambda>_ n. P (phase_at n a)) n"
    by (simp add: wp_def)
qed

definition ending :: "monitor_phase option \<Rightarrow> bool" where
  "ending p \<longleftrightarrow> (\<exists>e. p = Some (Monitor_draining None) \<or> p = Some (Monitor_disposing e))"

lemma ending_phases [simp]: "ending (Some (Monitor_draining None))" "ending (Some (Monitor_disposing e))"
  by (simp_all add: ending_def)

lemma exited_phase:
  assumes "a < length (mg_objects m)"
  shows "ending (phase_at (after_op (monitor_exited a late t u waited) m) a)"
proof -
  have set: "wp (modobj a (\<lambda>e. e\<lparr>ma_monitor := p\<rparr>)) (\<lambda>_ n. ending (phase_at n a)) n"
    if "a < length (mg_objects n)" "ending (Some p)" for n p
    by (rule wp_mono [OF modobj_phase [OF that(1)]]) (simp add: that(2))
  have drain: "wp (bindop (outcome (enter_drain a t u)) (\<lambda>r.
         modobj a (\<lambda>e. e\<lparr>ma_monitor := (case drain_error r of
              None \<Rightarrow> Monitor_draining None | Some e \<Rightarrow> Monitor_disposing (Some e))\<rparr>)))
      (\<lambda>_ n. ending (phase_at n a)) n" if "a < length (mg_objects n)" for n
    unfolding wp_bindop outcome_wp sum.case
    by (rule wp_keep [OF enter_drain_quiet [of a]])
      (use that in \<open>auto simp: quiet_length intro!: set split: option.split\<close>)
  have "wp (monitor_exited a late t u waited) (\<lambda>_ n. ending (phase_at n a)) m"
  proof (cases waited)
    case (Inl e)
    then show ?thesis
      using set [OF assms, of "Monitor_disposing (Some (backend_error e RUN))"]
      by (simp add: monitor_exited_def wp_bindop [of "ret _"] wp_ret)
  next
    case (Inr reason)
    show ?thesis
    proof (cases reason)
      case None
      then show ?thesis
        using Inr drain [OF assms] by (simp add: monitor_exited_def wp_bindop [of "ret _"] wp_ret)
    next
      case (Some why)
      have "wp (case kill_error r of
            Some e \<Rightarrow> modobj a (\<lambda>o'. o'\<lparr>ma_monitor := Monitor_disposing (Some e)\<rparr>)
          | None \<Rightarrow> bindop (outcome (enter_drain a t u)) (\<lambda>r.
              modobj a (\<lambda>o'. o'\<lparr>ma_monitor := (case drain_error r of
                None \<Rightarrow> Monitor_draining None | Some e \<Rightarrow> Monitor_disposing (Some e))\<rparr>)))
          (\<lambda>_ n. ending (phase_at n a)) n" if "a < length (mg_objects n)" for r n
        using drain [OF that] set [OF that] by (cases "kill_error r") auto
      then have "wp (kill_for_timeout a late why) (\<lambda>r n. wp (case kill_error r of
            Some e \<Rightarrow> modobj a (\<lambda>o'. o'\<lparr>ma_monitor := Monitor_disposing (Some e)\<rparr>)
          | None \<Rightarrow> bindop (outcome (enter_drain a t u)) (\<lambda>r.
              modobj a (\<lambda>o'. o'\<lparr>ma_monitor := (case drain_error r of
                None \<Rightarrow> Monitor_draining None | Some e \<Rightarrow> Monitor_disposing (Some e))\<rparr>)))
          (\<lambda>_ n. ending (phase_at n a)) n) m"
        by (intro wp_keep [OF kill_quiet [of a]]) (use assms in \<open>simp add: quiet_length\<close>)
      then show ?thesis
        using Inr Some unfolding monitor_exited_def
        by (simp add: wp_bindop [of "bindop _ _"] wp_bindop [of "outcome _"] outcome_wp wp_ret)
    qed
  qed
  then show ?thesis by (rule after_wp)
qed

lemma drained_phase:
  assumes "a < length (mg_objects m)"
  shows "\<exists>e. phase_at (after_op (monitor_drained c a how) m) a = Some (Monitor_disposing e)"
proof -
  have k: "keeps (quiet (\<lambda>_. outside)) (case how of
          Drained \<Rightarrow>
            bindop (getses a se_total_output_bytes) (\<lambda>n.
            emit_to a EV_session_drained [(''output_bytes'', VInt (int n))])
        | Drain_expired failed \<Rightarrow> drain_timeout c a failed
        | Reader_failed e \<Rightarrow> raise e)"
    by (cases how) (auto intro: out.outside_rules drain_timeout_quiet)
  have "wp (modobj a (\<lambda>e. e\<lparr>ma_monitor := Monitor_disposing err\<rparr>))
      (\<lambda>_ n. \<exists>e. phase_at n a = Some (Monitor_disposing e)) n" if "a < length (mg_objects n)" for n err
    by (rule wp_mono [OF modobj_phase [OF that]]) blast
  then have "wp (monitor_drained c a how) (\<lambda>_ n. \<exists>e. phase_at n a = Some (Monitor_disposing e)) m"
    unfolding monitor_drained_def wp_bindop [of "outcome _"] outcome_wp sum.case
    by (intro wp_keep [OF k]) (use assms in \<open>simp add: quiet_length\<close>)
  then show ?thesis by (rule after_wp)
qed

lemma complete_phase:
  assumes "a < length (mg_objects m)" and "se_state (session_at m a) \<in> live_states"
    and "err = None \<Longrightarrow> se_state (session_at m a) = DRAINING"
  shows "wp (complete_session a t u v disposed err rc)
    (\<lambda>r n. r = Inr () \<and> phase_at n a = Some Monitor_done) m"
  using complete_session_value [OF assms(1,2), of err t u v disposed rc] assms
  by (simp add: wp_def count_completion_def modify_def Let_def phase_at_def put_ses_def)

text \<open>Reading the return code of a process raises nothing.\<close>

definition code_readable :: "manager \<Rightarrow> nat \<Rightarrow> bool" where
  "code_readable m a \<longleftrightarrow> (\<forall>h. \<not> isl (ma_os (mg_objects m ! a) h Get_returncode))"

lemma quiet_readable:
  "quiet F m n \<Longrightarrow> a < length (mg_objects m) \<Longrightarrow> code_readable n a = code_readable m a"
  by (simp add: quiet_def quiet_objects_def code_readable_def)

lemma readable_returncode:
  assumes "code_readable m a"
  shows "\<not> isl (fst (on_process a (\<lambda>os be. returncode os) m))"
  using assms
  by (auto simp: code_readable_def on_process_def returncode_def os_opt_def os_call_def bindop_def ret_def
      Let_def isl_def split: sum.split os_value.split prod.split)

text \<open>The phase and the operating system of an entry after a stretch of its monitor.\<close>

lemma modobj_keeps_os: "keeps (\<lambda>m n. length (mg_objects n) = length (mg_objects m)
    \<and> (\<forall>i < length (mg_objects m). ma_os (mg_objects n ! i) = ma_os (mg_objects m ! i)))
    (modobj a (\<lambda>e. e\<lparr>ma_monitor := p\<rparr>))"
  by (auto simp: keeps_def modobj_def modify_def nth_update_any)

definition same_os :: "manager \<Rightarrow> manager \<Rightarrow> bool" where
  "same_os m n \<longleftrightarrow> length (mg_objects n) = length (mg_objects m)
     \<and> (\<forall>i < length (mg_objects m). ma_os (mg_objects n ! i) = ma_os (mg_objects m ! i))"

interpretation os_kept: state_relation same_os
  by unfold_locales (auto simp: same_os_def)

lemma quiet_same_os: "keeps (quiet F) f \<Longrightarrow> keeps same_os f"
  by (simp add: keeps_def same_os_def quiet_def quiet_objects_def)

lemma os_outcome: "keeps same_os f \<Longrightarrow> keeps same_os (outcome f)"
  unfolding keeps_def outcome_def by (metis (mono_tags) case_prod_beta snd_conv)

lemma os_modobj: "keeps same_os (modobj a (\<lambda>e. e\<lparr>ma_monitor := p\<rparr>))"
  using modobj_keeps_os [of a p] by (simp add: keeps_def same_os_def)

lemma os_exited: "keeps same_os (monitor_exited a late t u waited)"
  unfolding monitor_exited_def
  by (intro os_kept.keeps_rules os_modobj os_outcome quiet_same_os [OF enter_drain_quiet [of a]]
      quiet_same_os [OF kill_quiet [of a]])

lemma os_drained: "keeps same_os (monitor_drained c a how)"
  unfolding monitor_drained_def
  by (cases how) (auto intro!: os_kept.keeps_rules os_modobj os_outcome quiet_same_os [OF drain_timeout_quiet]
      quiet_same_os [OF out.keeps_getses] quiet_same_os [OF out.keeps_emit])

lemma os_readable: "same_os m n \<Longrightarrow> a < length (mg_objects m) \<Longrightarrow> code_readable n a = code_readable m a"
  by (simp add: same_os_def code_readable_def)

lemma exited_step:
  assumes "manager_ok c m" and "a < length (mg_objects m)" and "map_option reading (phase_at m a) = Some True"
    and "code_readable m a"
  shows "code_readable (manager_step c (Do_exited a late t u waited) m) a
    \<and> a < length (mg_objects (manager_step c (Do_exited a late t u waited) m))
    \<and> ending (phase_at (manager_step c (Do_exited a late t u waited) m) a)"
proof (cases "phase_at m a = Some Monitor_waiting")
  case True
  let ?n = "after_op (monitor_exited a late t u waited) m"
  have same: "same_os m ?n"
    using os_exited [of a late t u waited] by (simp add: keeps_def after_op_def)
  have "code_readable ?n a" using os_readable [OF same assms(2)] assms(4) by simp
  moreover have "a < length (mg_objects ?n)" using same assms(2) by (simp add: same_os_def)
  moreover have "ending (phase_at ?n a)" by (rule exited_phase [OF assms(2)])
  moreover have "manager_step c (Do_exited a late t u waited) m = ?n" by (simp add: True)
  ultimately show ?thesis by simp
next
  case False
  have "phase_ok (mg_objects m ! a)" using assms(1,2) by (simp add: manager_ok_def entry_ok_def)
  then have "ending (phase_at m a)"
    using False assms(2,3) by (auto simp: ending_def phase_at_def reading_def phase_ok_def Let_def
        split: monitor_phase.splits)
  then show ?thesis using False assms by simp
qed

lemma drained_step:
  assumes "a < length (mg_objects m)" and "ending (phase_at m a)" and "code_readable m a"
  shows "code_readable (manager_step c (Do_drained a how) m) a
    \<and> (\<exists>e. phase_at (manager_step c (Do_drained a how) m) a = Some (Monitor_disposing e))"
proof (cases "phase_at m a = Some (Monitor_draining None)")
  case True
  let ?n = "after_op (monitor_drained c a how) m"
  have same: "same_os m ?n"
    using os_drained [of c a how] by (simp add: keeps_def after_op_def)
  have "code_readable ?n a" using os_readable [OF same assms(1)] assms(3) by simp
  moreover have "\<exists>e. phase_at ?n a = Some (Monitor_disposing e)" by (rule drained_phase [OF assms(1)])
  moreover have "manager_step c (Do_drained a how) m = ?n" by (simp add: True)
  ultimately show ?thesis by simp
next
  case False
  then show ?thesis using assms by (auto simp: ending_def)
qed

lemma attribute_returns:
  "wp (attribute_limit sigxcpu a rc err) (\<lambda>r n. case r of Inl _ \<Rightarrow> False | Inr e \<Rightarrow> e = None \<longrightarrow> err = None) m"
  by (auto simp: attribute_limit_def wp_simps getses_def emit_to_def modses_def modobj_def
      split: option.split)

lemma disposed_phase:
  assumes ok: "manager_ok c m" and p: "phase_at m a = Some (Monitor_disposing err0)"
    and readable: "code_readable m a"
  shows "phase_at (after_op (monitor_disposed c sigxcpu a late ck err0) m) a = Some Monitor_done"
proof (rule after_wp)
  have a: "a < length (mg_objects m)" using p by (auto simp: phase_at_def split: if_splits)
  have last: "wp (andthen (complete_session a (ck 0) (ck 1) (ck 2) disposed err rc) (prune_completed c (ck 3)))
      (\<lambda>_ n. phase_at n a = Some Monitor_done) n"
    if q: "quiet (\<lambda>_. outside) m n" and e: "err = None \<Longrightarrow> err0 = None" for n err rc disposed
  proof -
    have na: "a < length (mg_objects n)" "ma_monitor (mg_objects n ! a) = Monitor_disposing err0"
      using quiet_phase [OF q, of a] p by (auto simp: phase_at_def split: if_splits)
    have "entry_ok c (mg_objects n ! a)"
      using manager_ok_quiet [OF q ok] na by (simp add: manager_ok_def)
    then have st: "se_state (session_at n a) \<in> live_states" "err = None \<Longrightarrow> se_state (session_at n a) = DRAINING"
      using na(2) e by (auto simp: entry_ok_def phase_ok_def session_at_def Let_def live_states_def split: if_splits)
    have "wp (complete_session a (ck 0) (ck 1) (ck 2) disposed err rc)
        (\<lambda>r n. r = Inr () \<and> phase_at n a = Some Monitor_done) n"
      by (rule complete_phase [OF na(1) st(1)]) (rule st(2))
    then show ?thesis
      by (rule andthen_keeps_phase [where F = "\<lambda>_. outside"])
        (use out.keeps_prune [of c "ck 3"] in \<open>simp add: keeps_def\<close>)
  qed
  show "wp (monitor_disposed c sigxcpu a late ck err0) (\<lambda>_ n. phase_at n a = Some Monitor_done) m"
    unfolding monitor_disposed_def wp_bindop [of "outcome _"] outcome_wp sum.case Let_def
  proof (rule wp_keep [OF out.keeps_shielded [OF out.keeps_dispose_backend]])
    fix r n assume q: "quiet (\<lambda>_. outside) m n"
    let ?err = "case err0 of None \<Rightarrow> disposal_error r | Some e \<Rightarrow> Some e"
    have e0: "?err = None \<Longrightarrow> err0 = None" by (cases err0) auto
    have rd: "\<not> isl (fst (on_process a (\<lambda>os be. returncode os) n))"
      using readable quiet_readable [OF q a] readable_returncode by blast
    show "wp (bindop (on_process a (\<lambda>os be. returncode os)) (\<lambda>rc.
        bindop (attribute_limit sigxcpu a rc ?err) (\<lambda>err.
        andthen (complete_session a (ck 0) (ck 1) (ck 2) (\<not> isl r) err rc) (prune_completed c (ck 3)))))
        (\<lambda>_ n. phase_at n a = Some Monitor_done) n"
      unfolding wp_bindop [of "on_process _ _"]
    proof (rule wp_mono [OF wp_conj [OF keeps_wp [OF out.keeps_on_process], where Q = "\<lambda>r _. \<not> isl r"]])
      show "wp (on_process a (\<lambda>os be. returncode os)) (\<lambda>r _. \<not> isl r) n" using rd by (simp add: wp_def)
    next
      fix rc :: "exn + int option" and n1
      assume h: "quiet (\<lambda>_. outside) n n1 \<and> \<not> isl rc"
      then obtain code where code: "rc = Inr code" by (cases rc) auto
      have "wp (bindop (attribute_limit sigxcpu a code ?err) (\<lambda>err.
        andthen (complete_session a (ck 0) (ck 1) (ck 2) (\<not> isl r) err code) (prune_completed c (ck 3))))
        (\<lambda>_ n. phase_at n a = Some Monitor_done) n1"
        unfolding wp_bindop [of "attribute_limit _ _ _ _"]
      proof (rule wp_mono [OF wp_conj [OF keeps_wp [OF out.keeps_attribute_limit] attribute_returns]])
        fix r1 :: "exn + execution_error option" and n2
        assume h2: "quiet (\<lambda>_. outside) n1 n2 \<and> (case r1 of Inl _ \<Rightarrow> False | Inr e \<Rightarrow> e = None \<longrightarrow> ?err = None)"
        then have "quiet (\<lambda>_. outside) m n2" using q h out.quietly.R_trans by blast
        then show "case r1 of Inl e \<Rightarrow> phase_at n2 a = Some Monitor_done | Inr err \<Rightarrow>
          wp (andthen (complete_session a (ck 0) (ck 1) (ck 2) (\<not> isl r) err code) (prune_completed c (ck 3)))
            (\<lambda>_ n. phase_at n a = Some Monitor_done) n2"
          using last h2 e0 by (cases r1) auto
      qed
      then show "case rc of Inl e \<Rightarrow> phase_at n1 a = Some Monitor_done | Inr rc \<Rightarrow>
        wp (bindop (attribute_limit sigxcpu a rc ?err) (\<lambda>err.
          andthen (complete_session a (ck 0) (ck 1) (ck 2) (\<not> isl r) err rc) (prune_completed c (ck 3))))
        (\<lambda>_ n. phase_at n a = Some Monitor_done) n1"
        by (simp add: code)
    qed
  qed
qed

text \<open>
  C9. A monitored session always gets its result: in any reachable state, whatever the monitor waits
  for, once its waits have ended (the process exited, a timeout hit or the wait raised; the readers
  ended, failed or ran out of time; the disposal ended, raised or was late) the session is completed,
  failed or disposed of, holds a result, and its completion was counted.
\<close>

theorem monitor_always_ends:
  assumes "config_validate c = Inr ()"
    and "map_option reading (phase_at (manager_run c ops (new_manager now)) a) = Some True"
    and "code_readable (manager_run c ops (new_manager now)) a"
  shows "let n = manager_run c (ops @ [Do_exited a late t u waited, Do_drained a how,
      Do_disposed sigxcpu a late' ck]) (new_manager now) in
    phase_at n a = Some Monitor_done \<and> settled (se_state (session_at n a))
    \<and> se_result (session_at n a) \<noteq> None
    \<and> se_completed_at (session_at n a) \<noteq> None"
proof -
  let ?m = "manager_run c ops (new_manager now)"
  have ok: "manager_ok c ?m" by (rule manager_run_ok [OF assms(1)])
  have a: "a < length (mg_objects ?m)" using assms(2) by (auto simp: phase_at_def split: if_splits)
  define m1 where "m1 = manager_step c (Do_exited a late t u waited) ?m"
  define m2 where "m2 = manager_step c (Do_drained a how) m1"
  define m3 where "m3 = manager_step c (Do_disposed sigxcpu a late' ck) m2"
  have ok1: "manager_ok c m1" and ok2: "manager_ok c m2" and ok3: "manager_ok c m3"
    unfolding m3_def m2_def m1_def by (intro manager_step_ok assms(1) ok)+
  have r1: "code_readable m1 a" "a < length (mg_objects m1)" and p1: "ending (phase_at m1 a)"
    using exited_step [OF ok a assms(2,3), of late t u waited] by (simp_all add: m1_def)
  have r2: "code_readable m2 a" and p2: "\<exists>e. phase_at m2 a = Some (Monitor_disposing e)"
    using drained_step [OF r1(2) p1 r1(1), of c how] by (simp_all add: m2_def)
  then have p3: "phase_at m3 a = Some Monitor_done"
    using disposed_phase [OF ok2] by (auto simp: m3_def)
  then have a3: "a < length (mg_objects m3)" and d3: "ma_monitor (mg_objects m3 ! a) = Monitor_done"
    by (auto simp: phase_at_def split: if_splits)
  have "phase_ok (mg_objects m3 ! a)" using ok3 a3 by (simp add: manager_ok_def entry_ok_def)
  then have "settled (se_state (session_at m3 a)) \<and> se_result (session_at m3 a) \<noteq> None
      \<and> se_completed_at (session_at m3 a) \<noteq> None"
    using d3 by (auto simp: phase_ok_def Let_def session_at_def split: option.splits)
  with p3 show ?thesis
    by (simp add: manager_run_def m3_def m2_def m1_def Let_def)
qed

text \<open>A host on which every process starts and has already exited.\<close>

definition calm_os :: os where
  "calm_os h call = (case call of Spawn _ \<Rightarrow> Inr (V_int 42) | Get_returncode \<Rightarrow> Inr (V_opt (Some 0))
     | _ \<Rightarrow> Inr V_unit)"

definition plain_host :: host where
  "plain_host = \<lparr>h_normcase = id, h_path_name = id, h_is_absolute = (\<lambda>_. False),
     h_resolve = (\<lambda>p. [p]), h_cwd = ''/''\<rparr>"

definition plain_platform :: platform where
  "plain_platform = \<lparr>pf_nt = False, pf_environ = [], pf_has_nproc = True, pf_birth = (\<lambda>_. None)\<rparr>"

definition sample_request :: start_request where
  "sample_request = \<lparr>sr_spec = sample_spec, sr_timeout_ms = None, sr_idle_timeout_ms = None,
     sr_max_output_bytes = None, sr_trace_id = None, sr_request_id = None, sr_output_retention = ''head''\<rparr>"

definition sample_start :: "manager_op list" where
  "sample_start = [Do_reserve plain_host 1 sample_request,
     Do_complete plain_platform calm_os ''s1'' ''t1'' ''o1'' 2 False None 0]"

lemma sample_start_waits:
  "phase_at (manager_run demo_config sample_start (new_manager 0)) 0 = Some Monitor_waiting"
  by code_simp

lemma sample_start_os:
  "ma_os (mg_objects (manager_run demo_config sample_start (new_manager 0)) ! 0) h Get_returncode
     = Inr (V_opt (Some 0))"
  by code_simp

theorem monitor_always_ends_witness:
  "se_result (session_at (manager_run demo_config (sample_start @ [Do_exited 0 False 3 4 (Inr None),
      Do_drained 0 Drained, Do_disposed None 0 False of_nat]) (new_manager 0)) 0) \<noteq> None"
proof -
  let ?m = "manager_run demo_config sample_start (new_manager 0)"
  have r: "code_readable ?m 0"
    unfolding code_readable_def by (simp add: sample_start_os)
  have p: "map_option reading (phase_at ?m 0) = Some True"
    unfolding sample_start_waits by (simp add: reading_def)
  show ?thesis
    using monitor_always_ends [OF demo_config_ok p r, of False 3 4 "Inr None" Drained None False of_nat]
    by (simp add: Let_def)
qed

text \<open>The same host and session once more, for the bounds and the accounts.\<close>

lemma sample_two_starts:
  "(let m = manager_run demo_config (sample_start @ [Do_reserve plain_host 3 sample_request]) (new_manager 0) in
    (active_count m, mg_starting m, length (mg_pending m))) = (1, 1, 1)"
  by code_simp

theorem active_sessions_bounded_witness:
  "let m = manager_run demo_config (sample_start @ [Do_reserve plain_host 3 sample_request]) (new_manager 0) in
    int (active_count m + mg_starting m) \<le> 2 \<and> mg_starting m = length (mg_pending m)
    \<and> active_count m = 1 \<and> mg_starting m = 1"
  using active_sessions_bounded [OF demo_config_ok, of "sample_start @ [Do_reserve plain_host 3 sample_request]" 0]
    sample_two_starts by (simp add: demo_config_def Let_def)

lemma sample_input:
  "map (\<lambda>e. se_input_bytes (ma_session e)) (mg_objects (manager_run demo_config
     (sample_start @ [Do_write 3 0 ''s1'' [65, 66]]) (new_manager 0))) = [2]"
  by code_simp

theorem input_quota_kept_witness:
  "let m = manager_run demo_config (sample_start @ [Do_write 3 0 ''s1'' [65, 66]]) (new_manager 0) in
    list_all (\<lambda>e. int (se_input_bytes (ma_session e)) \<le> 15) (mg_objects m)
    \<and> length (mg_objects m) = 1 \<and> mg_total_input m = 2"
proof -
  let ?m = "manager_run demo_config (sample_start @ [Do_write 3 0 ''s1'' [65, 66]]) (new_manager 0)"
  have l: "length (mg_objects ?m) = 1" using arg_cong [OF sample_input, of length] by simp
  have sum: "sum_list (map (\<lambda>e. se_input_bytes (ma_session e)) (mg_objects ?m)) = 2"
    unfolding sample_input by simp
  have "list_all (\<lambda>e. int (se_input_bytes (ma_session e)) \<le> mc_max_total_input_bytes demo_config) (mg_objects ?m)
      \<and> mg_total_input ?m = sum_list (map (\<lambda>e. se_input_bytes (ma_session e)) (mg_objects ?m))"
    by (rule input_quota_kept [OF demo_config_ok, unfolded Let_def])
  then show ?thesis unfolding Let_def sum using l by (simp add: demo_config_def)
qed

















subsection \<open>What a result says\<close>

text \<open>
  C11. The result of a session, once it has one, fits how the session ended, in every reachable
  state: a completed session has no error and a failed one has one, an error never comes with exit
  code 0 and is reported as failed or resource limited, and a timed-out session, and only it, is
  reported as such with exit code 124. The result stays this way when the session is disposed of.
\<close>

theorem result_fits_state:
  assumes "config_validate c = Inr ()"
  shows "list_all (\<lambda>e.
      case se_result (ma_session e) of
        None \<Rightarrow> \<not> settled (se_state (ma_session e)) \<or> ma_monitor e = Monitor_absent
      | Some r \<Rightarrow>
          (let st = se_state (ma_session e); timed_out = cr_reason r \<in> {CR_timeout, CR_idle_timeout} in
           settled st
           \<and> (if st = COMPLETED then cr_error r = None else st = FAILED \<longrightarrow> cr_error r \<noteq> None)
           \<and> (cr_error r = None \<or> cr_exit_code r \<noteq> 0 \<and> cr_reason r \<in> {CR_failed, CR_resource_limited})
           \<and> cr_timed_out r = timed_out \<and> (if timed_out then cr_exit_code r = 124 else True)))
    (mg_objects (manager_run c ops (new_manager now)))"
proof -
  have "phase_ok e" if "e \<in> set (mg_objects (manager_run c ops (new_manager now)))" for e
    using manager_run_ok [OF assms, of ops now] that by (simp add: manager_ok_def entry_ok_def)
  moreover have "ma_monitor e = Monitor_absent \<or> \<not> settled (se_state (ma_session e))"
    if "phase_ok e" "se_result (ma_session e) = None" for e
    using that by (cases "ma_monitor e")
      (auto simp: phase_ok_def Let_def settled_def live_states_def split: if_splits)
  moreover have "settled (se_state (ma_session e)) \<and> verdict_ok (se_state (ma_session e)) r"
    if "phase_ok e" "se_result (ma_session e) = Some r" for e r
    using that by (cases "ma_monitor e") (simp_all add: phase_ok_def Let_def)
  ultimately show ?thesis
    unfolding list_all_iff by (fastforce simp: verdict_ok_def Let_def split: option.split)
qed

theorem result_fits_state_witness:
  "list_all (\<lambda>e. case se_result (ma_session e) of
      None \<Rightarrow> \<not> settled (se_state (ma_session e)) \<or> ma_monitor e = Monitor_absent
    | Some r \<Rightarrow> settled (se_state (ma_session e)))
   (mg_objects (manager_run demo_config (sample_start @ [Do_exited 0 False 3 4 (Inr (Some CR_timeout)),
      Do_drained 0 Drained, Do_disposed None 0 False of_nat]) (new_manager 0)))"
  by (rule list.pred_mono_strong [OF result_fits_state [OF demo_config_ok]])
    (simp add: Let_def split: option.splits)

end
