(* ===== verification/EventPages.thy ===== *)
theory EventPages
  imports ManagerProps "HOL-Library.Sublist"
begin

section \<open>Event pages against the log of a session\<close>

text \<open>
  \<open>log_page\<close> says what a page is in terms of the complete log of a session: the longest run of
  events from the cursor within the two limits, but at least one event. \<open>event_page\<close> implements
  it as long as the retained window still holds the cursor, and says that the cursor expired when
  it does not. A client that follows the returned cursors reads every event exactly once.
\<close>

subsection \<open>The loop over the retained events\<close>

definition page_size :: "(pyfloat \<Rightarrow> string) \<Rightarrow> lifecycle_event list \<Rightarrow> nat" where
  "page_size fl es = sum_list (map (\<lambda>e. payload_json_size fl (le_payload e)) es)"

definition log_page :: "(pyfloat \<Rightarrow> string) \<Rightarrow> int \<Rightarrow> int \<Rightarrow> lifecycle_event list
    \<Rightarrow> lifecycle_event list \<Rightarrow> bool" where
  "log_page fl limit byte_limit rest page \<longleftrightarrow>
     prefix page rest \<and> int (length page) \<le> limit \<and> (page = [] \<longleftrightarrow> rest = [])
     \<and> (2 \<le> length page \<longrightarrow> int (page_size fl page) \<le> byte_limit)
     \<and> (length page < length rest \<and> int (length page) < limit \<longrightarrow>
          byte_limit < int (page_size fl (take (Suc (length page)) rest)))"

text \<open>The same for a page that was begun with \<open>n\<close> events of \<open>used\<close> bytes.\<close>

definition page_tail :: "(pyfloat \<Rightarrow> string) \<Rightarrow> int \<Rightarrow> int \<Rightarrow> nat \<Rightarrow> nat \<Rightarrow> lifecycle_event list
    \<Rightarrow> lifecycle_event list \<Rightarrow> bool" where
  "page_tail fl limit byte_limit n used rest page \<longleftrightarrow>
     prefix page rest \<and> int (n + length page) \<le> limit
     \<and> (page = [] \<longrightarrow> rest = [] \<or> 0 < n)
     \<and> (page \<noteq> [] \<and> 2 \<le> n + length page \<longrightarrow> int (used + page_size fl page) \<le> byte_limit)
     \<and> (length page < length rest \<and> int (n + length page) < limit \<longrightarrow>
          byte_limit < int (used + page_size fl (take (Suc (length page)) rest)))"

lemma page_size_simps [simp]:
  "page_size fl [] = 0" "page_size fl (e # es) = payload_json_size fl (le_payload e) + page_size fl es"
  by (simp_all add: page_size_def)

lemma page_tail_cons:
  fixes e :: lifecycle_event
  assumes "page_tail fl limit bl (Suc n) (used + payload_json_size fl (le_payload e)) rest p"
    and "n = 0 \<or> int (used + payload_json_size fl (le_payload e)) \<le> bl" and "int (Suc n) < limit"
  shows "page_tail fl limit bl n used (e # rest) (e # p)"
  using assms by (cases p) (auto simp: page_tail_def add.assoc)

lemma select_page:
  "int n < limit \<Longrightarrow>
   page_tail fl limit bl n used (filter (\<lambda>e. cur \<le> le_seq e) es) (select_events fl limit bl cur n used es)"
proof (induction es arbitrary: n used)
  case Nil
  then show ?case by (simp add: page_tail_def)
next
  case (Cons e es)
  let ?b = "payload_json_size fl (le_payload e)"
  show ?case
  proof (cases "le_seq e < cur \<or> 0 < n \<and> bl < int (used + ?b) \<or> limit \<le> int (Suc n)")
    case True
    then show ?thesis
      using Cons.prems Cons.IH [of n used]
      by (cases "le_seq e < cur") (auto simp: page_tail_def Let_def not_less)
  next
    case False
    then have "page_tail fl limit bl (Suc n) (used + ?b) (filter (\<lambda>e. cur \<le> le_seq e) es)
        (select_events fl limit bl cur (Suc n) (used + ?b) es)" (is "page_tail _ _ _ _ _ _ ?p")
      by (intro Cons.IH) simp
    moreover have "select_events fl limit bl cur n used (e # es) = e # ?p"
      using False by (simp add: Let_def)
    moreover have "filter (\<lambda>e. cur \<le> le_seq e) (e # es) = e # filter (\<lambda>e. cur \<le> le_seq e) es"
      using False by simp
    ultimately show ?thesis
      using False by (auto intro!: page_tail_cons)
  qed
qed

lemma page_from_start: "page_tail fl limit bl 0 0 rest page \<Longrightarrow> log_page fl limit bl rest page"
  by (auto simp: page_tail_def log_page_def)

lemma filter_window:
  assumes "map le_seq es = [a ..< b]" and "a \<le> cur"
  shows "filter (\<lambda>e. cur \<le> le_seq e) es = drop (cur - a) es"
  using assms
proof (induction es arbitrary: a)
  case (Cons e es)
  then have ab: "a < b" "le_seq e = a" "map le_seq es = [Suc a ..< b]"
    by (simp_all add: upt_rec [of a b] split: if_splits)
  show ?case
  proof (cases "cur = a")
    case True
    have "cur \<le> le_seq x" if "x \<in> set es" for x
    proof -
      have "le_seq x \<in> set (map le_seq es)" using that by simp
      then show ?thesis using ab(3) True by (simp del: set_map)
    qed
    then show ?thesis using True ab by (auto simp: filter_id_conv)
  next
    case False
    then show ?thesis
      using Cons.IH [OF ab(3)] Cons.prems(2) ab by (simp add: Suc_diff_le [symmetric] drop_Cons')
  qed
qed simp

subsection \<open>Pages of a session\<close>

lemma numbered_log:
  assumes "numbered s" and "se_recorded s = Some evs"
  shows "length evs = se_next_event_seq s" "map le_seq evs = [0 ..< length evs]"
    "se_events s = last_n (se_max_retained_events s) evs"
    "first_event_seq s = length evs - min (se_max_retained_events s) (length evs)"
proof -
  have l: "map le_seq evs = [0 ..< se_next_event_seq s]"
    and e: "se_events s = last_n (se_max_retained_events s) evs"
    using assms by (simp_all add: numbered_def)
  have "length (map le_seq evs) = se_next_event_seq s" unfolding l by simp
  then show n: "length evs = se_next_event_seq s" by simp
  show "map le_seq evs = [0 ..< length evs]" using l n by simp
  show "se_events s = last_n (se_max_retained_events s) evs" by (rule e)
  show "first_event_seq s = length evs - min (se_max_retained_events s) (length evs)"
    using numbered_first [OF assms(1)] n by simp
qed

lemma numbered_events:
  assumes "numbered s"
  shows "map le_seq (se_events s) = [first_event_seq s ..< se_next_event_seq s]"
    "first_event_seq s \<le> se_next_event_seq s"
proof -
  have "length (se_events s) = min (se_max_retained_events s) (se_next_event_seq s)"
    and "map le_seq (se_events s) = [se_next_event_seq s - length (se_events s) ..< se_next_event_seq s]"
    using assms by (simp_all add: numbered_def)
  then show "map le_seq (se_events s) = [first_event_seq s ..< se_next_event_seq s]"
    using numbered_first [OF assms] by simp
  show "first_event_seq s \<le> se_next_event_seq s" using numbered_first [OF assms] by simp
qed

text \<open>The page at a cursor that is still retained.\<close>

lemma page_of_window:
  assumes n: "numbered s" and cur: "first_event_seq s \<le> cur" "cur \<le> se_next_event_seq s" and "0 < limit"
    and p: "page_of fl limit bl cur s = (page, nx, again)"
  shows "log_page fl limit bl (drop (cur - first_event_seq s) (se_events s)) page"
    "nx = cur + length page" "again \<longleftrightarrow> nx < se_next_event_seq s"
proof -
  let ?rest = "drop (cur - first_event_seq s) (se_events s)"
  note seqs = numbered_events [OF n]
  have page: "page = select_events fl limit bl cur 0 0 (se_events s)"
    using p by (simp add: page_of_def Let_def)
  show lp: "log_page fl limit bl ?rest page"
    using page_from_start [OF select_page [of 0 limit fl bl 0 cur "se_events s"]] assms(4)
      filter_window [OF seqs(1) cur(1)] page by simp
  then have pre: "prefix page ?rest" by (simp add: log_page_def)
  have rest: "map le_seq ?rest = [cur ..< se_next_event_seq s]"
    using seqs cur by (simp add: drop_map [symmetric])
  have "Suc (le_seq (last page)) = cur + length page" if "page \<noteq> []"
  proof -
    let ?k = "length page - 1"
    have k: "?k < length page" using that by simp
    then have "?k < length ?rest" using prefix_length_le [OF pre] by simp
    moreover from this have "cur + ?k < se_next_event_seq s"
      using rest length_map [of le_seq ?rest] by (metis add.commute length_upt less_diff_conv)
    ultimately have "le_seq (?rest ! ?k) = cur + ?k"
      using rest by (metis nth_map nth_upt)
    moreover have "page ! ?k = ?rest ! ?k" using pre k by (auto simp: prefix_def nth_append)
    ultimately show ?thesis using that k by (simp add: last_conv_nth)
  qed
  moreover have "nx = (case rev page of [] \<Rightarrow> cur | e # _ \<Rightarrow> Suc (le_seq e))"
    using p by (auto simp: page_of_def Let_def)
  ultimately show "nx = cur + length page" by (cases page rule: rev_cases) simp_all
  show "again \<longleftrightarrow> nx < se_next_event_seq s"
    using p by (auto simp: page_of_def Let_def)
qed

lemma manager_numbered:
  assumes "config_validate c = Inr ()" and "a < length (mg_objects (manager_run c ops (new_manager now)))"
  shows "numbered (session_at (manager_run c ops (new_manager now)) a)"
  using manager_run_ok [OF assms(1), of ops now] assms(2) by (simp add: manager_ok_def entry_ok_def session_at_def)

text \<open>
  C10. The event pages of any session the manager ever registered are pages of its complete log:
  a cursor the retained window has passed is answered with \<open>event_cursor_expired\<close>, one beyond the
  log with an error, and every other cursor with the longest run of log events from exactly there
  within the limits of events and bytes, at least one if there is one, and the cursor after it.
\<close>

theorem event_page_refines_log:
  assumes "config_validate c = Inr ()"
    and "a < length (mg_objects (manager_run c ops (new_manager now)))"
    and "se_recorded (session_at (manager_run c ops (new_manager now)) a) = Some evs"
    and "0 < limit" and "limit \<le> mc_max_event_page_size c"
  shows "let s = session_at (manager_run c ops (new_manager now)) a;
             first = length evs - min (se_max_retained_events s) (length evs)
    in case read_page fl c cursor (Some limit) (Some bytes) s s of
         Inl e \<Rightarrow>
           (cursor < int first \<and> e = cursor_expired cursor s)
           \<or> (int (length evs) < cursor \<and> e = request_error ''event cursor is out of range'')
       | Inr (page, next, again) \<Rightarrow>
           int first \<le> cursor \<and> cursor \<le> int (length evs)
           \<and> log_page fl limit bytes (drop (nat cursor) evs) page
           \<and> int next = cursor + int (length page) \<and> (again \<longleftrightarrow> next < length evs)"
proof -
  let ?s = "session_at (manager_run c ops (new_manager now)) a"
  note n = manager_numbered [OF assms(1,2)]
  note evs = numbered_log [OF n assms(3)]
  let ?first = "length evs - min (se_max_retained_events ?s) (length evs)"
  show ?thesis
  proof (cases "int ?first \<le> cursor \<and> cursor \<le> int (length evs)")
    case False
    then show ?thesis
      using evs(1,4) by (auto simp: read_page_def check_cursor_def Let_def)
  next
    case True
    define cur where "cur = nat cursor"
    have cur: "cursor = int cur" "?first \<le> cur" "cur \<le> length evs" using True by (auto simp: cur_def)
    obtain page nx again where p: "page_of fl limit bytes cur ?s = (page, nx, again)"
      by (cases "page_of fl limit bytes cur ?s")
    have "first_event_seq ?s \<le> cur" "cur \<le> se_next_event_seq ?s" using cur evs by simp_all
    note w = page_of_window [OF n this assms(4) p]
    have "drop (cur - first_event_seq ?s) (se_events ?s) = drop cur evs"
      unfolding evs(3,4) last_n_def drop_drop using cur by (simp add: min_def)
    with w have "log_page fl limit bytes (drop cur evs) page" "nx = cur + length page"
      "again \<longleftrightarrow> nx < length evs" using evs(1) by simp_all
    moreover have "read_page fl c cursor (Some limit) (Some bytes) ?s ?s = Inr (page, nx, again)"
      using cur evs assms(4,5) p by (simp add: read_page_def check_cursor_def)
    ultimately show ?thesis using cur by (simp add: Let_def)
  qed
qed

text \<open>Following the cursors a client gets back, for at most \<open>k\<close> pages.\<close>

fun follow :: "(pyfloat \<Rightarrow> string) \<Rightarrow> int \<Rightarrow> int \<Rightarrow> session \<Rightarrow> nat \<Rightarrow> nat \<Rightarrow> lifecycle_event list" where
  "follow fl limit bl s 0 cur = []"
| "follow fl limit bl s (Suc k) cur =
     (let (page, next, again) = page_of fl limit bl cur s
      in page @ (if again then follow fl limit bl s k next else []))"

lemma follow_reads:
  assumes n: "numbered s" and "0 < limit" and "first_event_seq s \<le> cur" and "cur \<le> se_next_event_seq s"
    and "se_next_event_seq s - cur \<le> k"
  shows "follow fl limit bl s k cur = drop (cur - first_event_seq s) (se_events s)"
  using assms(3-5)
proof (induction k arbitrary: cur)
  case 0
  then have "length (se_events s) \<le> cur - first_event_seq s"
    using arg_cong [OF numbered_events(1) [OF n], of length] by simp
  then show ?case by simp
next
  case (Suc k)
  let ?rest = "drop (cur - first_event_seq s) (se_events s)"
  obtain page nx again where p: "page_of fl limit bl cur s = (page, nx, again)"
    by (cases "page_of fl limit bl cur s")
  note w = page_of_window [OF n Suc.prems(1,2) assms(2) p]
  have len: "length ?rest = se_next_event_seq s - cur"
    using arg_cong [OF numbered_events(1) [OF n], of length] Suc.prems by simp
  from w(1) obtain zs where zs: "?rest = page @ zs" by (auto simp: log_page_def prefix_def)
  show ?case
  proof (cases again)
    case True
    with w(2,3) have again: "cur < nx \<or> page = []" "nx < se_next_event_seq s" by auto
    with w(1,2) len have "page \<noteq> []" by (auto simp: log_page_def)
    then have "follow fl limit bl s k nx = drop (nx - first_event_seq s) (se_events s)"
      using Suc.prems again w(2) \<open>page \<noteq> []\<close>
      by (intro Suc.IH) (auto simp: Suc_le_eq [symmetric] dest!: Suc_leI)
    also have "\<dots> = drop (length page) ?rest"
      using w(2) Suc.prems(1) by (simp add: add.commute)
    finally show ?thesis using p True zs by simp
  next
    case False
    with w(2,3) len zs have "zs = []" by (metis add_le_cancel_left append_Nil2 diff_add_inverse
        le_add_diff_inverse length_0_conv length_append not_less Suc.prems(2) le_zero_eq)
    then show ?thesis using p False zs by simp
  qed
qed

text \<open>
  C12. A client that starts at a retained cursor and follows the returned cursors reads every
  retained event from there exactly once and in order, whatever page limits it uses, and is done
  after at most as many pages as there are events.
\<close>

theorem paging_reads_everything:
  assumes "config_validate c = Inr ()"
    and "a < length (mg_objects (manager_run c ops (new_manager now)))" and "0 < limit"
    and "first_event_seq (session_at (manager_run c ops (new_manager now)) a) \<le> cur"
    and "cur \<le> se_next_event_seq (session_at (manager_run c ops (new_manager now)) a)"
  shows "let s = session_at (manager_run c ops (new_manager now)) a;
             seen = follow fl limit bytes s (se_next_event_seq s - cur) cur
    in map le_seq seen = [cur ..< se_next_event_seq s]
       \<and> seen = drop (cur - first_event_seq s) (se_events s)"
proof -
  let ?s = "session_at (manager_run c ops (new_manager now)) a"
  note n = manager_numbered [OF assms(1,2)]
  note follow_reads [OF n assms(3-5) order_refl, of fl bytes]
  moreover have "map le_seq (drop (cur - first_event_seq ?s) (se_events ?s)) = [cur ..< se_next_event_seq ?s]"
    using numbered_events(1) [OF n] assms(4) by (simp add: drop_map [symmetric])
  ultimately show ?thesis by (simp add: Let_def)
qed

subsection \<open>An example\<close>

abbreviation sample_session :: session where
  "sample_session \<equiv> session_at (manager_run demo_config sample_start (new_manager 0)) 0"

lemma sample_page_size: "mc_max_event_page_size demo_config = 5"
  by (simp add: demo_config_def)

lemma sample_run_values:
  "(let m = manager_run demo_config sample_start (new_manager 0); s = session_at m 0 in
    (length (mg_objects m), map_option (map le_seq) (se_recorded s), first_event_seq s, se_next_event_seq s))
   = (1, Some [0, 1], 0, 2)"
  by code_simp

lemma sample_start_registered:
  "0 < length (mg_objects (manager_run demo_config sample_start (new_manager 0)))"
  using sample_run_values by (simp add: Let_def)

lemma sample_session_facts:
  "map_option (map le_seq) (se_recorded sample_session) = Some [0, 1]"
  "first_event_seq sample_session = 0" "se_next_event_seq sample_session = 2"
  using sample_run_values by (simp_all only: Let_def prod.inject)

lemma sample_numbers: "[0 ..< 2] = [0, 1 :: nat]" "(2 :: nat) - 0 = 2"
  by (simp_all add: upt_rec)

theorem event_page_refines_log_witness:
  "case read_page (\<lambda>_. ''0.0'') demo_config 1 (Some 2) (Some 1000) sample_session sample_session of
     Inl e \<Rightarrow> False
   | Inr (page, next, _) \<Rightarrow> page \<noteq> [] \<and> int next = 1 + int (length page) \<and> length page \<le> 2"
proof -
  obtain evs where rec: "se_recorded sample_session = Some evs" and seqs: "map le_seq evs = [0, 1]"
    using sample_session_facts(1) by (cases "se_recorded sample_session") simp_all
  have len: "length evs = 2" using arg_cong [OF seqs, of length] by simp
  have "length evs - min (se_max_retained_events sample_session) (length evs) = 0"
    using numbered_log(4) [OF manager_numbered [OF demo_config_ok sample_start_registered] rec]
    unfolding sample_session_facts by simp
  then show ?thesis
    using event_page_refines_log [OF demo_config_ok sample_start_registered rec, of 2 1 "\<lambda>_. ''0.0''" 1000]
      sample_page_size
    unfolding Let_def by (auto simp: log_page_def len split: sum.splits)
qed

theorem paging_reads_everything_witness:
  "map le_seq (follow (\<lambda>_. ''0.0'') 1 5 sample_session 2 0) = [0, 1]"
proof -
  have "first_event_seq sample_session \<le> 0" "0 \<le> se_next_event_seq sample_session"
    by (simp_all add: sample_session_facts)
  note paging_reads_everything [OF demo_config_ok sample_start_registered zero_less_one this,
      of "\<lambda>_. ''0.0''" 5, unfolded Let_def sample_session_facts sample_numbers]
  then show ?thesis by (rule conjunct1)
qed

text \<open>
  A page that waited: the cursor is checked only before the wait, so events that leave the window
  while the caller is woken up are left out of the page without \<open>event_cursor_expired\<close>.
\<close>

lemma waited_page_skips:
  "(let s0 = new_session ''s'' sample_spec None None None 10 1 ''t'' None 0 True Keep_head;
        s = emit EV_session_completed (Dict_payload []) (emit EV_process_exited (Dict_payload []) s0)
    in case read_page (\<lambda>_. ''0.0'') demo_config 0 None None s0 s of
         Inl _ \<Rightarrow> None
       | Inr (page, next, again) \<Rightarrow> Some (map le_seq page, next, again)) = Some ([1], 2, False)"
  by code_simp

end
