(* ===== verification/WindowsFacts.thy ===== *)
theory WindowsFacts
  imports WindowsBackends
begin

section \<open>Ownership on Windows and cancellation on every backend\<close>

text \<open>
  The two Windows backends honour the contract of \<open>tree_backend\<close>; the pipe backend creates the
  owning Job before the process, resumes the process only inside it, and closes it on every
  failure; the disposal of a ConPTY releases its Jobs whatever the operating system answers.
\<close>

subsection \<open>The contract\<close>







lemma keeps_as_windows_pty: "keeps handle_kept as_windows_pty"
  unfolding as_windows_pty_def by (intro kept.keeps_rules os_calls_keep)







lemma keeps_attempt_handle: "keeps handle_kept m \<Longrightarrow> keeps handle_kept (attempt m)"
  unfolding attempt_def by (intro kept.keeps_rules)

lemma keeps_reap: "keeps handle_kept (reap_broker_process os b)"
  unfolding reap_broker_process_def broker_alive_def
  by (intro kept.keeps_rules os_calls_keep keeps_attempt_handle)

lemma keeps_close_channels: "keeps handle_kept (close_channels os cs)"
  unfolding close_channels_def
  by (rule kept.keeps_seq_all) (auto intro!: kept.keeps_rules os_calls_keep split: option.split)

lemma keeps_release: "keeps handle_kept (release_terminal os err)"
  unfolding release_terminal_def
  by (intro kept.keeps_rules os_calls_keep keeps_attempt_handle keeps_reap keeps_close_channels)

definition jobs_kept :: "bstate \<Rightarrow> bstate \<Rightarrow> bool" where
  "jobs_kept s t \<longleftrightarrow> hd_job (bs_handle t) = hd_job (bs_handle s)
     \<and> hd_broker_job (bs_handle t) = hd_broker_job (bs_handle s)"

interpretation jobs: state_relation jobs_kept
  by unfold_locales (auto simp: jobs_kept_def)

lemma kept_jobs: "keeps handle_kept m \<Longrightarrow> keeps jobs_kept m"
  by (auto simp: keeps_def handle_kept_def jobs_kept_def)

lemma jobs_mark: "keeps jobs_kept mark_tree_killed"
  by (simp add: keeps_def jobs_kept_def mark_tree_killed_def hmod_def modify_def)

lemma jobs_kill: "keeps jobs_kept (windows_pty_kill_tree os)"
  unfolding windows_pty_kill_tree_def terminate_and_wait_empty_def
  by (intro jobs.keeps_rules jobs_mark kept_jobs [OF keeps_as_windows_pty] os_calls_keep [THEN kept_jobs])

lemma grows_hget: "keeps trace_grows (hget f)"
  by (rule os_calls_grow)

lemma grows_mark: "keeps trace_grows mark_tree_killed"
  by (simp add: mark_tree_killed_def os_calls_grow)

lemma grows_pty: "keeps trace_grows as_windows_pty" "keeps trace_grows (windows_pty_kill_tree os)"
  unfolding as_windows_pty_def windows_pty_kill_tree_def terminate_and_wait_empty_def
  by (intro trace.keeps_rules os_calls_grow grows_mark)+

lemma grows_attempt: "keeps trace_grows m \<Longrightarrow> keeps trace_grows (attempt m)"
  unfolding attempt_def by (intro trace.keeps_rules)

lemma grows_release: "keeps trace_grows (release_terminal os err)"
  unfolding release_terminal_def reap_broker_process_def broker_alive_def close_channels_def
  by (intro trace.keeps_rules os_calls_grow grows_attempt trace.keeps_seq_all)
    (auto intro!: trace.keeps_rules os_calls_grow split: option.split)

lemma wp_attempt: "wp m (\<lambda>r t. Q (Inr (case r of Inl e \<Rightarrow> Some e | Inr _ \<Rightarrow> None)) t) s \<Longrightarrow> wp (attempt m) Q s"
  by (simp add: attempt_def wp_simps split: sum.split) (simp add: wp_def split: sum.splits)

lemma wp_close_owned_job [wp_simps]:
  "wp (close_owned_job os field clear err) Q s =
     (case field (bs_handle s) of
        None \<Rightarrow> Q (Inr err) s
      | Some j \<Rightarrow>
          Q (Inr (first_error err (case os (bs_trace s) (Job_close j) of Inl e \<Rightarrow> Some e | Inr _ \<Rightarrow> None)))
            (s\<lparr>bs_trace := bs_trace s @ [Job_close j], bs_handle := clear (bs_handle s)\<rparr>))"
  by (simp add: close_owned_job_def attempt_def wp_simps split: option.split sum.split)

definition dispose_rest :: "os \<Rightarrow> exn option \<Rightarrow> unit bop" where
  "dispose_rest os err =
     bindop (release_terminal os err) (\<lambda>err.
     bindop (hget hd_write_pending) (\<lambda>pending.
     andthen (whenop pending
        (suppress (\<lambda>e. is_os_error e \<or> is_runtime_error e) (os_do os (Await_pending_write (1/4)))))
      (case err of None \<Rightarrow> ret () | Some e \<Rightarrow> raise e)))"

lemma dispose_rest_keeps: "keeps handle_kept (dispose_rest os err)" "keeps trace_grows (dispose_rest os err)"
  unfolding dispose_rest_def
  by (intro kept.keeps_rules os_calls_keep keeps_release)
    (intro trace.keeps_rules os_calls_grow grows_release)

definition released :: "handle \<Rightarrow> bool" where
  "released h \<longleftrightarrow> hd_disposed h \<and> hd_tree_killed h \<and> hd_output_closed h \<and> hd_job h = None
     \<and> hd_broker_job h = None"

definition job_closed :: "int option \<Rightarrow> os_call list \<Rightarrow> bool" where
  "job_closed job calls = (case job of None \<Rightarrow> True | Some j \<Rightarrow> Job_close j \<in> set calls)"

definition disposal_ok :: "int option \<Rightarrow> int option \<Rightarrow> bstate \<Rightarrow> bool" where
  "disposal_ok a b t \<longleftrightarrow> released (bs_handle t) \<and> job_closed a (bs_trace t) \<and> job_closed b (bs_trace t)"

lemma wp_rest:
  assumes "disposal_ok a b s"
  shows "wp (dispose_rest os err) (\<lambda>r. disposal_ok a b) s"
proof (rule wp_mono [OF wp_conj [OF keeps_wp [OF dispose_rest_keeps(1)] keeps_wp [OF dispose_rest_keeps(2)]]])
  fix t assume "handle_kept s t \<and> trace_grows s t"
  with assms show "disposal_ok a b t"
    by (auto simp: disposal_ok_def handle_kept_def trace_grows_def job_closed_def
        dest: set_mono_prefix split: option.splits)
qed

lemma dispose_owned_releases:
  assumes "\<not> hd_disposed (bs_handle s)"
  shows "wp (dispose_owned_pty os) (\<lambda>r. disposal_ok (hd_job (bs_handle s)) (hd_broker_job (bs_handle s))) s"
proof -
  let ?s = "s\<lparr>bs_handle := bs_handle s\<lparr>hd_closing := True\<rparr>\<rparr>"
  let ?Q = "\<lambda>r. disposal_ok (hd_job (bs_handle s)) (hd_broker_job (bs_handle s))"
  let ?rest = "\<lambda>err. bindop (close_owned_job os hd_job (\<lambda>h. h\<lparr>hd_job := None\<rparr>) err) (\<lambda>err.
       bindop (close_owned_job os hd_broker_job (\<lambda>h. h\<lparr>hd_broker_job := None\<rparr>) err) (\<lambda>err.
       andthen (hmod (\<lambda>h. h\<lparr>hd_output_closed := True, hd_tree_killed := True, hd_disposed := True\<rparr>))
         (dispose_rest os err)))"
  have step: "wp (?rest err) ?Q t" if "jobs_kept ?s t" for t err
  proof -
    have "hd_job (bs_handle t) = hd_job (bs_handle s)" "hd_broker_job (bs_handle t) = hd_broker_job (bs_handle s)"
      using that by (simp_all add: jobs_kept_def)
    then show ?thesis
      by (simp add: wp_simps split: option.split)
        (auto intro!: wp_rest simp: disposal_ok_def released_def job_closed_def)
  qed
  have "wp (attempt (windows_pty_kill_tree os)) (\<lambda>r t. case r of Inl e \<Rightarrow> ?Q (Inl e) t | Inr err \<Rightarrow> wp (?rest err) ?Q t) ?s"
    by (rule wp_attempt, rule wp_mono [OF keeps_wp [OF jobs_kill]]) (auto intro: step)
  then show ?thesis
    unfolding dispose_owned_pty_def dispose_rest_def using assms by (simp add: wp_simps)
qed

text \<open>
  C36. Disposing a ConPTY always releases its ownership: whatever the operating system answers,
  and whether or not the call raises, afterwards the handle is disposed with its output closed,
  both of its kill-on-close Jobs have been closed, and no Job is left in the handle.
\<close>

theorem conpty_dispose_releases:
  assumes "hd_kind (bs_handle s) = Windows_pty_handle" and "\<not> hd_disposed (bs_handle s)"
  shows "let t = snd (windows_pty_dispose os s)
    in released (bs_handle t) \<and> job_closed (hd_job (bs_handle s)) (bs_trace t)
      \<and> job_closed (hd_broker_job (bs_handle s)) (bs_trace t)"
proof -
  have "wp (windows_pty_dispose os) (\<lambda>r. disposal_ok (hd_job (bs_handle s)) (hd_broker_job (bs_handle s))) s"
    unfolding windows_pty_dispose_def as_windows_pty_def
    using dispose_owned_releases [OF assms(2)] assms by (simp add: wp_simps)
  then show ?thesis by (simp add: wp_def Let_def disposal_ok_def)
qed

definition refusing_os :: os where
  "refusing_os hist c = Inl (X_os Os_plain (Some 5) ''refused'')"

definition conpty_state :: bstate where
  "conpty_state = \<lparr>bs_handle = new_handle\<lparr>hd_kind := Windows_pty_handle, hd_job := Some 11,
     hd_broker_job := Some 12, hd_broker := Some 13\<rparr>, bs_trace = []\<rparr>"

theorem conpty_dispose_releases_witness:
  "Job_close 11 \<in> set (bs_trace (snd (windows_pty_dispose refusing_os conpty_state)))
   \<and> Job_close 12 \<in> set (bs_trace (snd (windows_pty_dispose refusing_os conpty_state)))
   \<and> hd_disposed (bs_handle (snd (windows_pty_dispose refusing_os conpty_state)))"
  using conpty_dispose_releases [of conpty_state refusing_os]
  by (simp add: conpty_state_def new_handle_def Let_def released_def job_closed_def)

subsection \<open>Cancellation on every backend\<close>















subsection \<open>A Windows process is owned before it runs\<close>

lemma wp_then_raise:
  assumes "keeps trace_grows m" and "\<And>e t. trace_grows s t \<Longrightarrow> Q (Inl e) t"
  shows "wp (andthen m (raise e)) Q s"
  unfolding wp_andthen wp_raise
  by (rule wp_mono [OF keeps_wp [OF assms(1)]]) (auto intro: assms(2) split: sum.split)

lemma grows_reap: "keeps trace_grows (reap_unassigned_process os)"
    "keeps trace_grows (reap_assigned_process os job)"
  unfolding reap_unassigned_process_def reap_assigned_process_def pipe_kill_tree_def taskkill_tree_def
    posix_killpg_def
  by (intro trace.keeps_rules os_calls_grow grows_mark)+

lemma reap_assigned_closes:
  "wp (reap_assigned_process os job)
     (\<lambda>r t. prefix (bs_trace s @ [Job_terminate job, Job_close job]) (bs_trace t)) s"
proof -
  let ?rest = "bindop (returncode os) (\<lambda>rc.
        andthen (whenop (rc = None) (suppress (is_kind Os_process_lookup) (os_do os Process_kill)))
          (suppress is_timeout (os_do os (Process_wait (Some 1)))))"
  have grows: "keeps trace_grows ?rest"
    by (intro trace.keeps_rules os_calls_grow)
  have "wp (finally_do (suppress is_os_error (os_do os (Job_terminate job)))
         (suppress is_os_error (os_do os (Job_close job))))
      (\<lambda>r t. bs_trace t = bs_trace s @ [Job_terminate job, Job_close job]) s"
    by (auto simp: wp_simps split: sum.split)
  then show ?thesis
    unfolding reap_assigned_process_def wp_andthen
  proof (rule wp_mono)
    fix r :: "exn + unit" and t :: bstate
    assume t: "bs_trace t = bs_trace s @ [Job_terminate job, Job_close job]"
    show "case r of
        Inl e \<Rightarrow> prefix (bs_trace s @ [Job_terminate job, Job_close job]) (bs_trace t)
      | Inr x \<Rightarrow> wp ?rest (\<lambda>r t. prefix (bs_trace s @ [Job_terminate job, Job_close job]) (bs_trace t)) t"
      using wp_mono [OF keeps_wp [OF grows, of t]] t by (auto simp: trace_grows_def split: sum.split)
  qed
qed

definition job_number :: "os_value \<Rightarrow> int" where
  "job_number v = (case v of V_int i \<Rightarrow> i | _ \<Rightarrow> 0)"

definition owned_start :: "command_spec \<Rightarrow> os \<Rightarrow> bstate \<Rightarrow> exn + unit \<Rightarrow> bstate \<Rightarrow> bool" where
  "owned_start spec os s r t \<longleftrightarrow>
     (case r of
        Inr _ \<Rightarrow> \<exists>j pid opts. bs_trace t = bs_trace s @
            [Job_create (cs_resources spec), Spawn opts, Job_assign j pid, Job_resume j pid]
          \<and> so_creation_flags opts = 0x204 \<and> hd_job (bs_handle t) = Some j
          \<and> hd_pid (bs_handle t) = pid \<and> hd_process_tree (bs_handle t) = ''job_object''
      | Inl _ \<Rightarrow> \<exists>cs. bs_trace t = bs_trace s @ Job_create (cs_resources spec) # cs
          \<and> (case os (bs_trace s) (Job_create (cs_resources spec)) of
               Inl _ \<Rightarrow> cs = [] | Inr v \<Rightarrow> Job_close (job_number v) \<in> set cs))"

lemma owned_start_failed:
  assumes "prefix (bs_trace s @ Job_create (cs_resources spec) # cs) (bs_trace t)"
    and "os (bs_trace s) (Job_create (cs_resources spec)) = Inr v" and "Job_close (job_number v) \<in> set cs"
  shows "owned_start spec os s (Inl e) t"
  using assms by (auto simp: owned_start_def prefix_def)

lemma windows_start_owned:
  assumes "pf_nt pf"
  shows "wp (windows_pipe_start pf os spec) (owned_start spec os s) s"
proof (cases "os (bs_trace s) (Job_create (cs_resources spec))")
  case (Inl e)
  then show ?thesis
    by (simp add: windows_pipe_start_def job_create_call_def wp_simps owned_start_def)
next
  case (Inr v)
  let ?l = "cs_resources spec" and ?j = "job_number v"
  let ?o = "\<lparr>so_argv = argv_strings spec, so_cwd = cs_cwd spec,
      so_env = child_environment True (pf_environ pf) spec, so_terminal = None,
      so_creation_flags = windows_suspended_flags, so_new_session = False, so_rlimits = None\<rparr>"
  have flags: "windows_suspended_flags = 0x204"
    by (simp add: windows_suspended_flags_def new_process_group_flag_def create_suspended_flag_def)
  have jn: "(case v of V_int i \<Rightarrow> i | _ \<Rightarrow> 0) = ?j" by (simp add: job_number_def)
  have failed: "owned_start spec os s (Inl e) t"
    if "prefix (bs_trace s @ Job_create ?l # cs) (bs_trace t)" and "Job_close ?j \<in> set cs" for cs e t
    by (rule owned_start_failed [of s spec cs t os v]) (use that Inr in auto)
  have spawn: "wp (catch (pipe_start pf windows_suspended_flags os spec)
      (\<lambda>e. andthen (os_do os (Job_close ?j)) (raise e)))
    (\<lambda>r t. case r of Inl e \<Rightarrow> owned_start spec os s (Inl e) t
      | Inr _ \<Rightarrow> bs_trace t = bs_trace s @ [Job_create ?l, Spawn ?o]) u"
    if u: "bs_trace u = bs_trace s @ [Job_create ?l]" for u
    by (cases "os (bs_trace u) (Spawn ?o)")
      (auto simp: pipe_start_def wp_simps assms u split: sum.split
        intro!: failed [of "[Spawn ?o, Job_close ?j]"])
  have assign: "wp (catch (os_do os (Job_assign ?j pid))
      (\<lambda>e. andthen (suppress is_os_error (os_do os (Job_close ?j)))
            (andthen (reap_unassigned_process os) (raise e))))
    (\<lambda>r t. case r of Inl e \<Rightarrow> owned_start spec os s (Inl e) t
      | Inr _ \<Rightarrow> bs_trace t = bs_trace s @ [Job_create ?l, Spawn ?o, Job_assign ?j pid]
          \<and> bs_handle t = bs_handle u) u"
    if u: "bs_trace u = bs_trace s @ [Job_create ?l, Spawn ?o]" for u pid
  proof -
    let ?cs = "[Spawn ?o, Job_assign ?j pid, Job_close ?j]"
    have reaped: "wp (andthen (reap_unassigned_process os) (raise e)) Q w"
      if "bs_trace w = bs_trace s @ Job_create ?l # ?cs"
        and "\<And>e t. owned_start spec os s (Inl e) t \<Longrightarrow> Q (Inl e) t" for e w Q
      by (rule wp_then_raise [OF grows_reap(1)], rule that(2), rule failed [of ?cs])
        (use that(1) in \<open>auto simp: trace_grows_def\<close>)
    show ?thesis
      by (simp only: wp_catch wp_os_do wp_andthen [where m = "suppress _ _"] wp_suppress u)
        (auto simp: wp_simps(8) u split: sum.split intro!: reaped failed [of ?cs])
  qed
  have resume: "wp (catch (os_do os (Job_resume ?j pid))
      (\<lambda>e. andthen (reap_assigned_process os ?j) (raise e)))
    (\<lambda>r t. case r of Inl e \<Rightarrow> owned_start spec os s (Inl e) t
      | Inr _ \<Rightarrow> bs_trace t = bs_trace s @ [Job_create ?l, Spawn ?o, Job_assign ?j pid, Job_resume ?j pid]
          \<and> bs_handle t = bs_handle u) u"
    if u: "bs_trace u = bs_trace s @ [Job_create ?l, Spawn ?o, Job_assign ?j pid]" for u pid
  proof -
    let ?cs = "[Spawn ?o, Job_assign ?j pid, Job_resume ?j pid]"
    have reaped: "wp (andthen (reap_assigned_process os ?j) (raise e)) Q w"
      if w: "bs_trace w = bs_trace s @ Job_create ?l # ?cs"
        and Q: "\<And>e t. owned_start spec os s (Inl e) t \<Longrightarrow> Q (Inl e) t" for e w Q
      unfolding wp_andthen wp_raise
      by (rule wp_mono [OF reap_assigned_closes])
        (auto simp: w split: sum.split intro!: Q failed [of "?cs @ [Job_terminate ?j, Job_close ?j]"])
    show ?thesis
      by (cases "os (bs_trace u) (Job_resume ?j pid)")
        (auto simp: wp_catch wp_os_do u split: sum.split intro!: reaped)
  qed
  have second: "wp (andthen
       (catch (os_do os (Job_assign ?j pid))
         (\<lambda>e. andthen (suppress is_os_error (os_do os (Job_close ?j)))
            (andthen (reap_unassigned_process os) (raise e))))
     (andthen
       (catch (os_do os (Job_resume ?j pid))
         (\<lambda>e. andthen (reap_assigned_process os ?j) (raise e)))
     (hmod (\<lambda>h. new_handle\<lparr>hd_kind := Windows_handle, hd_pid := hd_pid h,
        hd_has_stdin := hd_has_stdin h, hd_process_tree := ''job_object'',
        hd_birth_identity := hd_birth_identity h, hd_job := Some ?j\<rparr>)))) (owned_start spec os s) u"
    if u: "bs_trace u = bs_trace s @ [Job_create ?l, Spawn ?o]" and pid: "pid = hd_pid (bs_handle u)"
    for u pid
    apply (unfold wp_andthen)
    apply (rule wp_mono [OF assign [OF u]])
    subgoal for r t
      apply (cases r)
       apply simp
      apply (simp, elim conjE)
      apply (rule wp_mono [OF resume], assumption)
      subgoal for q v by (cases q) (auto simp: wp_hmod owned_start_def flags pid)
      done
    done
  show ?thesis
    unfolding windows_pipe_start_def job_create_call_def
    apply (simp only: wp_bindop wp_os_int Inr sum.case jn)
    apply (subst wp_andthen)
    apply (rule wp_mono [OF spawn])
     apply simp
    subgoal for r t by (cases r) (simp_all add: wp_bindop wp_hget second)
    done
qed

text \<open>
  C37. On Windows a command runs only inside its Job Object: the Job is created first, the
  process is spawned suspended, assigned and only then resumed; and every start that fails after
  the Job was created has closed it, which kills what it owns.
\<close>

theorem windows_start_is_owned:
  assumes "pf_nt pf"
  shows "case windows_pipe_start pf os spec s of (r, t) \<Rightarrow> owned_start spec os s r t"
  using windows_start_owned [OF assms, of os spec s] by (auto simp: wp_def split: prod.split)

definition windows_platform :: platform where
  "windows_platform = \<lparr>pf_nt = True, pf_environ = [], pf_has_nproc = False, pf_birth = (\<lambda>_. None)\<rparr>"

definition unresumable_os :: os where
  "unresumable_os hist c =
     (case c of
        Job_create _ \<Rightarrow> Inr (V_int 9)
      | Job_resume _ _ \<Rightarrow> Inl (X_os Os_plain (Some 5) ''ResumeThread failed'')
      | _ \<Rightarrow> Inr V_unit)"

theorem windows_start_is_owned_witness:
  "\<exists>cs. bs_trace (snd (windows_pipe_start windows_platform unresumable_os sample_spec
        \<lparr>bs_handle = new_handle, bs_trace = []\<rparr>)) = Job_create no_limits # cs \<and> Job_close 9 \<in> set cs"
proof -
  let ?r = "windows_pipe_start windows_platform unresumable_os sample_spec
        \<lparr>bs_handle = new_handle, bs_trace = []\<rparr>"
  have "isl (fst ?r)" by code_simp
  moreover have "pf_nt windows_platform" by (simp add: windows_platform_def)
  ultimately show ?thesis
    using windows_start_is_owned [of windows_platform sample_spec unresumable_os 
        "\<lparr>bs_handle = new_handle, bs_trace = []\<rparr>"]
    by (cases ?r) (auto simp: owned_start_def sample_spec_def unresumable_os_def job_number_def split: sum.splits)
qed

subsection \<open>Terminal input and the broker's messages\<close>

lemma crlf_round: "crlf_to_lf (lf_to_crlf bs) = bs"
proof (induction bs)
  case (Cons b bs)
  show ?case
  proof (cases "b = 10")
    case True
    then show ?thesis using Cons by simp
  next
    case False
    then have "\<not> (\<exists>rest. lf_to_crlf bs = 10 # rest)" by (cases bs) auto
    then show ?thesis using Cons False by (cases "lf_to_crlf bs") auto
  qed
qed simp

fun enters_ok :: "byte \<Rightarrow> bytes \<Rightarrow> bool" where
  "enters_ok prev [] = True"
| "enters_ok prev (b # bs) = ((if b = 10 then prev = 13 else True) \<and> enters_ok b bs)"

lemma enters_ok_lf: "enters_ok p (lf_to_crlf bs)"
  by (induction bs arbitrary: p) auto

lemma count_lf: "count_list (lf_to_crlf bs) 10 = count_list bs 10"
  by (induction bs) auto

lemma count_crlf: "count_list (crlf_to_lf bs) 10 = count_list bs 10"
  by (induction bs rule: crlf_to_lf.induct) auto

text \<open>
  Terminal input on Windows has an enter sequence CR LF for every line end of the portable
  input and no bare LF, and translating it once more changes nothing.
\<close>

theorem windows_input_normal:
  "enters_ok 0 (windows_terminal_input data)
   \<and> count_list (windows_terminal_input data) 10 = count_list data 10
   \<and> windows_terminal_input (windows_terminal_input data) = windows_terminal_input data"
  by (simp add: windows_terminal_input_def crlf_round enters_ok_lf count_lf count_crlf)




end
