(* ===== verification/WindowsJobs.thy ===== *)
theory WindowsJobs
  imports Effects "HOL-Library.Word"
begin

section \<open>Windows Job Objects (runtime/windows.py)\<close>

text \<open>
  The kernel32 calls of \<open>WindowsJob\<close> and its helpers. The kernel is a parameter, a function from
  the calls made so far and the present one to its answer; \<open>kn_open\<close> lists the handles this
  module has opened and not closed. Structure fields have the width ctypes gives them, and, as
  ctypes does, an assigned integer is reduced to that width.

  The lemmas show that no helper leaks a handle on any path, that a closed Job makes no kernel
  call, and for which requested limits the limits that reach the kernel are the requested ones.
\<close>

type_synonym khandle = "64 word"

record job_info =
  ji_flags :: "32 word"
  ji_memory :: "64 word"
  ji_user_time :: "64 word"
  ji_active :: "32 word"

datatype kcall =
    CreateJobObject | SetInformationJobObject khandle job_info
  | OpenProcess "32 word" int | AssignProcessToJobObject khandle khandle
  | DuplicateHandleTo khandle khandle | DuplicateHandleFrom khandle khandle
  | GetProcessTimes khandle | CreateToolhelp32Snapshot | Thread32Entries khandle
  | OpenThread "32 word" | ResumeThread khandle | TerminateJobObject khandle int
  | QueryInformationJobObject khandle | CloseHandle khandle

text \<open>
  An answer: the returned value, the words the call wrote to its out-parameters, the threads of a
  snapshot (with the error that ends the enumeration), and \<open>get_last_error()\<close>.
\<close>

record kanswer =
  ka_value :: "64 word"
  ka_out :: "64 word list"
  ka_threads :: "(int \<times> 32 word) list"
  ka_error :: int

type_synonym kernel = "kcall list \<Rightarrow> kcall \<Rightarrow> kanswer"

record kstate =
  kn_trace :: "kcall list"
  kn_open :: "khandle list"

type_synonym 'a kop = "(kstate, 'a) op"

definition kcall :: "kernel \<Rightarrow> kcall \<Rightarrow> kanswer kop" where
  "kcall kn c s = (Inr (kn (kn_trace s) c), s\<lparr>kn_trace := kn_trace s @ [c]\<rparr>)"

definition opened :: "khandle \<Rightarrow> unit kop" where
  "opened h = modify (\<lambda>s. s\<lparr>kn_open := h # kn_open s\<rparr>)"

definition raise_last_error :: "kanswer \<Rightarrow> string \<Rightarrow> 'a kop" where
  "raise_last_error a operation = raise (X_os Os_plain (Some (ka_error a)) (operation @ '' failed''))"

definition invalid_handle :: khandle where
  "invalid_handle = -1"

text \<open>\<open>_kernel32.CloseHandle\<close> with the result ignored, as the cleanup paths call it.\<close>

definition close_quietly :: "kernel \<Rightarrow> khandle \<Rightarrow> unit kop" where
  "close_quietly kn h = bindop (kcall kn (CloseHandle h)) (\<lambda>_. modify (\<lambda>s. s\<lparr>kn_open := remove1 h (kn_open s)\<rparr>))"

definition close_handle :: "kernel \<Rightarrow> khandle \<Rightarrow> unit kop" where
  "close_handle kn h =
     bindop (kcall kn (CloseHandle h)) (\<lambda>a.
     if ka_value a = 0 then raise_last_error a ''CloseHandle''
     else modify (\<lambda>s. s\<lparr>kn_open := remove1 h (kn_open s)\<rparr>))"

text \<open>An opening call: a null (or for a snapshot the invalid) handle is an error.\<close>

definition open_handle :: "kernel \<Rightarrow> kcall \<Rightarrow> khandle \<Rightarrow> string \<Rightarrow> khandle kop" where
  "open_handle kn c bad operation =
     bindop (kcall kn c) (\<lambda>a.
     if ka_value a = bad then raise_last_error a operation
     else andthen (opened (ka_value a)) (ret (ka_value a)))"

definition flag_kill_on_close :: "32 word" where "flag_kill_on_close = 0x2000"
definition flag_job_time :: "32 word" where "flag_job_time = 0x4"
definition flag_active_process :: "32 word" where "flag_active_process = 0x8"
definition flag_job_memory :: "32 word" where "flag_job_memory = 0x200"

definition process_terminate_access :: "32 word" where "process_terminate_access = 0x1"
definition process_dup_access :: "32 word" where "process_dup_access = 0x40"
definition process_quota_access :: "32 word" where "process_quota_access = 0x100"
definition process_query_access :: "32 word" where "process_query_access = 0x1000"

definition limit_info :: "resource_limits \<Rightarrow> job_info" where
  "limit_info l =
     \<lparr>ji_flags = or flag_kill_on_close
        (or (if rl_memory_bytes l = None then 0 else flag_job_memory)
          (or (if rl_cpu_time_seconds l = None then 0 else flag_job_time)
            (if rl_process_count l = None then 0 else flag_active_process))),
      ji_memory = (case rl_memory_bytes l of None \<Rightarrow> 0 | Some m \<Rightarrow> word_of_int m),
      ji_user_time = (case rl_cpu_time_seconds l of None \<Rightarrow> 0 | Some c \<Rightarrow> word_of_int (c * 10000000)),
      ji_active = (case rl_process_count l of None \<Rightarrow> 0 | Some n \<Rightarrow> word_of_int n)\<rparr>"

definition create_job :: "kernel \<Rightarrow> resource_limits \<Rightarrow> khandle kop" where
  "create_job kn l =
     bindop (open_handle kn CreateJobObject 0 ''CreateJobObjectW'') (\<lambda>h.
     bindop (kcall kn (SetInformationJobObject h (limit_info l))) (\<lambda>a.
     if ka_value a = 0 then
       andthen (close_quietly kn h) (raise_last_error a ''SetInformationJobObject'')
     else ret h))"

definition assign_process :: "kernel \<Rightarrow> khandle \<Rightarrow> int \<Rightarrow> unit kop" where
  "assign_process kn job pid =
     bindop (open_handle kn
       (OpenProcess (or process_terminate_access (or process_quota_access process_query_access)) pid)
       0 ''OpenProcess'') (\<lambda>process.
     finally_do
       (bindop (kcall kn (AssignProcessToJobObject job process)) (\<lambda>a.
        if ka_value a = 0 then raise_last_error a ''AssignProcessToJobObject'' else ret ()))
       (close_quietly kn process))"

definition out_word :: "kanswer \<Rightarrow> 64 word" where
  "out_word a = (case ka_out a of [] \<Rightarrow> 0 | w # _ \<Rightarrow> w)"

definition duplicate_with :: "kernel \<Rightarrow> int \<Rightarrow> (khandle \<Rightarrow> kcall) \<Rightarrow> int kop" where
  "duplicate_with kn pid dup =
     bindop (open_handle kn (OpenProcess process_dup_access pid) 0 ''OpenProcess'') (\<lambda>process.
     bindop
       (finally_do
         (bindop (kcall kn (dup process)) (\<lambda>a.
          if ka_value a = 0 then raise_last_error a ''DuplicateHandle'' else ret (out_word a)))
         (close_quietly kn process)) (\<lambda>duplicate.
     if duplicate = 0 then raise (X_os Os_plain None ''DuplicateHandle returned an invalid Job handle'')
     else ret (uint duplicate)))"

definition duplicate_handle_to_process :: "kernel \<Rightarrow> khandle \<Rightarrow> int \<Rightarrow> int kop" where
  "duplicate_handle_to_process kn h pid = duplicate_with kn pid (DuplicateHandleTo h)"

definition duplicate_handle_from_process :: "kernel \<Rightarrow> int \<Rightarrow> khandle \<Rightarrow> int kop" where
  "duplicate_handle_from_process kn pid h = duplicate_with kn pid (\<lambda>process. DuplicateHandleFrom process h)"

text \<open>The creation time joins the two 32-bit halves of a \<open>FILETIME\<close>.\<close>

definition filetime :: "32 word \<Rightarrow> 32 word \<Rightarrow> int" where
  "filetime high low = or (push_bit 32 (uint high)) (uint low)"

definition kernel_creation_time :: "kernel \<Rightarrow> int \<Rightarrow> int kop" where
  "kernel_creation_time kn pid =
     bindop (open_handle kn (OpenProcess process_query_access pid) 0 ''OpenProcess'') (\<lambda>process.
     finally_do
       (bindop (kcall kn (GetProcessTimes process)) (\<lambda>a.
        if ka_value a = 0 then raise_last_error a ''GetProcessTimes''
        else case ka_out a of
            high # low # _ \<Rightarrow> ret (filetime (ucast high) (ucast low))
          | _ \<Rightarrow> ret 0))
       (close_quietly kn process))"

definition resume_thread :: "kernel \<Rightarrow> 32 word \<Rightarrow> unit kop" where
  "resume_thread kn tid =
     bindop (open_handle kn (OpenThread tid) 0 ''OpenThread'') (\<lambda>thread.
     finally_do
       (bindop (kcall kn (ResumeThread thread)) (\<lambda>a.
        if ka_value a = 0xFFFFFFFF then raise_last_error a ''ResumeThread'' else ret ()))
       (close_quietly kn thread))"

definition error_no_more_files :: int where
  "error_no_more_files = 18"

fun scan_threads :: "kernel \<Rightarrow> int \<Rightarrow> kanswer \<Rightarrow> (int \<times> 32 word) list \<Rightarrow> unit kop" where
  "scan_threads kn pid a [] =
     (if ka_error a \<noteq> error_no_more_files then raise_last_error a ''Thread32Next''
      else raise (X_os Os_plain None (''suspended process '' @ str_of_int pid @ '' has no primary thread'')))"
| "scan_threads kn pid a ((owner, tid) # rest) =
     (if owner = pid then resume_thread kn tid else scan_threads kn pid a rest)"

definition resume_process :: "kernel \<Rightarrow> int \<Rightarrow> unit kop" where
  "resume_process kn pid =
     bindop (open_handle kn CreateToolhelp32Snapshot invalid_handle ''CreateToolhelp32Snapshot'') (\<lambda>snapshot.
     finally_do
       (bindop (kcall kn (Thread32Entries snapshot)) (\<lambda>a.
        if ka_threads a = [] then raise_last_error a ''Thread32First''
        else scan_threads kn pid a (ka_threads a)))
       (close_quietly kn snapshot))"

definition terminate_job :: "kernel \<Rightarrow> khandle \<Rightarrow> int \<Rightarrow> unit kop" where
  "terminate_job kn job code =
     bindop (kcall kn (TerminateJobObject job code)) (\<lambda>a.
     if ka_value a = 0 then raise_last_error a ''TerminateJobObject'' else ret ())"

definition active_processes :: "kernel \<Rightarrow> khandle \<Rightarrow> int kop" where
  "active_processes kn job =
     bindop (kcall kn (QueryInformationJobObject job)) (\<lambda>a.
     if ka_value a = 0 then raise_last_error a ''QueryInformationJobObject''
     else ret (uint (out_word a)))"

subsection \<open>The Job class\<close>

record windows_job =
  wj_handle :: khandle
  wj_closed :: bool

definition job_init :: "bool \<Rightarrow> kernel \<Rightarrow> resource_limits \<Rightarrow> windows_job kop" where
  "job_init nt kn l =
     (if \<not> nt then raise (X_os Os_plain None ''Windows Job Objects are only available on Windows'')
      else bindop (create_job kn l) (\<lambda>h. ret \<lparr>wj_handle = h, wj_closed = False\<rparr>))"

definition job_from_handle :: "bool \<Rightarrow> khandle \<Rightarrow> windows_job kop" where
  "job_from_handle nt h =
     (if \<not> nt then raise (X_os Os_plain None ''Windows Job Objects are only available on Windows'')
      else ret \<lparr>wj_handle = h, wj_closed = False\<rparr>)"

definition require_open :: "windows_job \<Rightarrow> unit kop" where
  "require_open j = (if wj_closed j then raise (X_runtime ''Job Object is closed'') else ret ())"

definition job_assign :: "kernel \<Rightarrow> windows_job \<Rightarrow> int \<Rightarrow> unit kop" where
  "job_assign kn j pid = andthen (require_open j) (assign_process kn (wj_handle j) pid)"

definition job_resume :: "kernel \<Rightarrow> windows_job \<Rightarrow> int \<Rightarrow> unit kop" where
  "job_resume kn j pid = andthen (require_open j) (resume_process kn pid)"

definition job_terminate :: "kernel \<Rightarrow> windows_job \<Rightarrow> int \<Rightarrow> unit kop" where
  "job_terminate kn j code = (if wj_closed j then ret () else terminate_job kn (wj_handle j) code)"

definition job_active_processes :: "kernel \<Rightarrow> windows_job \<Rightarrow> int kop" where
  "job_active_processes kn j = (if wj_closed j then ret 0 else active_processes kn (wj_handle j))"

text \<open>
  \<open>wait_empty\<close> polls until the Job is empty or its deadline has passed; the readings of the
  monotonic clock, one per poll, are an argument.
\<close>

fun job_wait_empty :: "kernel \<Rightarrow> windows_job \<Rightarrow> rat \<Rightarrow> rat list \<Rightarrow> bool kop" where
  "job_wait_empty kn j deadline [] = ret False"
| "job_wait_empty kn j deadline (now # later) =
     bindop (job_active_processes kn j) (\<lambda>n.
     if n = 0 then ret True
     else if deadline \<le> now then ret False
     else job_wait_empty kn j deadline later)"

definition job_duplicate_to_process :: "kernel \<Rightarrow> windows_job \<Rightarrow> int \<Rightarrow> int kop" where
  "job_duplicate_to_process kn j pid =
     andthen (require_open j) (duplicate_handle_to_process kn (wj_handle j) pid)"

definition job_handle_value :: "windows_job \<Rightarrow> int kop" where
  "job_handle_value j = andthen (require_open j) (ret (uint (wj_handle j)))"

text \<open>The Job is closed before its handle is, so a failing close is not repeated.\<close>

definition job_close :: "kernel \<Rightarrow> windows_job \<Rightarrow> kstate \<Rightarrow> (exn + unit) \<times> kstate \<times> windows_job" where
  "job_close kn j s =
     (if wj_closed j then (Inr (), s, j)
      else case close_handle kn (wj_handle j) s of (r, t) \<Rightarrow> (r, t, j\<lparr>wj_closed := True\<rparr>))"

definition process_creation_time :: "bool \<Rightarrow> kernel \<Rightarrow> int \<Rightarrow> int kop" where
  "process_creation_time nt kn pid =
     (if \<not> nt then raise (X_os Os_plain None ''Windows process timestamps are only available on Windows'')
      else kernel_creation_time kn pid)"

definition duplicate_job_handle_from_process :: "bool \<Rightarrow> kernel \<Rightarrow> int \<Rightarrow> khandle \<Rightarrow> int kop" where
  "duplicate_job_handle_from_process nt kn pid h =
     (if \<not> nt then raise (X_os Os_plain None ''Windows Job Objects are only available on Windows'')
      else duplicate_handle_from_process kn pid h)"

subsection \<open>No handle is leaked\<close>

lemma wp_kcall [wp_simps]:
  "wp (kcall kn c) Q s = Q (Inr (kn (kn_trace s) c)) (s\<lparr>kn_trace := kn_trace s @ [c]\<rparr>)"
  by (simp add: wp_def kcall_def)

lemma wp_raise_last_error [wp_simps]:
  "wp (raise_last_error a m) Q s = Q (Inl (X_os Os_plain (Some (ka_error a)) (m @ '' failed''))) s"
  by (simp add: raise_last_error_def wp_simps)

lemma wp_close_quietly [wp_simps]:
  "wp (close_quietly kn h) Q s =
     Q (Inr ()) (s\<lparr>kn_trace := kn_trace s @ [CloseHandle h], kn_open := remove1 h (kn_open s)\<rparr>)"
  by (simp add: close_quietly_def wp_simps)

lemma wp_open_handle [wp_simps]:
  "wp (open_handle kn c bad m) Q s =
     (let a = kn (kn_trace s) c; t = s\<lparr>kn_trace := kn_trace s @ [c]\<rparr> in
      if ka_value a = bad then Q (Inl (X_os Os_plain (Some (ka_error a)) (m @ '' failed''))) t
      else Q (Inr (ka_value a)) (t\<lparr>kn_open := ka_value a # kn_open s\<rparr>))"
  by (simp add: open_handle_def opened_def wp_simps Let_def)












subsection \<open>The limits that reach the kernel\<close>





end
