(* ===== verification/Spec2Isabelle.thy ===== *)
theory Spec2Isabelle
  imports CoreErrors Lifecycle CoreOutput Policy StoreRecovery StoreOutbox EventPages
    WindowsFacts WindowsJobs
begin

text \<open>
  SharkRail runs commands in owned process trees, as sessions of one process or as durable Jobs of
  a service. This library models its Python sources under \<open>src/src/sharkrail/\<close> and proves what
  makes them correct. Python integers are \<open>int\<close> or \<open>nat\<close>, bytes are \<open>8 word\<close>, clock readings are
  \<open>rat\<close>, JSON-like values are \<open>pyval\<close>; an exception is the left side of a sum. The clock, fresh
  identifiers, the hash, the operating system and the Windows kernel are parameters.

  \<^bold>\<open>core/\<close>. \<open>CoreErrors\<close> holds the stable error codes and their dictionary form (errors.py);
  \<open>Lifecycle\<close> the session state machine (lifecycle.py): its table, its histories, and a rank that
  makes every run finite; \<open>Utf8\<close> and \<open>CoreOutput\<close> the decoding of buffers and of chunked streams
  and the byte budget of a capture (output.py); \<open>CoreModels\<close> the command requests (models.py).

  \<^bold>\<open>runtime/\<close>. \<open>Routing\<close> builds direct, shell and WSL command lines and parses WSL ones
  (routing.py); \<open>Policy\<close> is the execution policy (policy.py), with path resolution a parameter.
  \<open>Effects\<close> is the exception and state monad of the process layer with its weakest preconditions;
  \<open>Backends\<close>, \<open>Cancellation\<close> and \<open>PtyFacts\<close> hold the POSIX pipe and terminal backends and the
  escalation interrupt, terminate, kill tree (backends.py), \<open>WindowsBackends\<close> and \<open>WindowsFacts\<close>
  the Job-owned pipe and the brokered ConPTY, \<open>WindowsJobs\<close> the kernel calls behind them
  (windows.py). A process operation takes an oracle for the operating system, a function of the
  calls made so far, and leaves the trace of its calls; the locale \<open>tree_backend\<close> is what
  cancellation needs of a backend and is interpreted on all four. \<open>Session\<close>, \<open>SessionOutput\<close> and
  \<open>SessionEvents\<close> are one session (sessions.py): retained output, stream decoders, the window of
  events. \<open>Ownership\<close> is the client of the executor-ownership link (service/ownership.py).
  \<open>SessionManager\<close> (configuration, admission, start, input, resize, interrupt, retention),
  \<open>SessionControl\<close> (cancellation, disposal, shutdown), \<open>SessionMonitor\<close> (the monitor of a session
  from the exit of its process to its result) and \<open>SessionReports\<close> (statistics, inspection, event
  pages) are the class \<open>SessionManager\<close> of sessions.py. Its methods are cut where they wait, and a
  run (\<open>ManagerFacts.manager_run\<close>) is any interleaving of these pieces.

  \<^bold>\<open>Runs of the manager.\<close> \<open>ManagerFrames\<close> has the locale of what may happen to a session during a
  piece (\<open>state_discipline\<close>, \<open>outside_discipline\<close>), interpreted on what other methods may do to a
  monitored session and on what its monitor does; \<open>ManagerFacts\<close>, \<open>ManagerSteps\<close> and \<open>MonitorSteps\<close>
  prove the invariant \<open>manager_ok\<close> piece by piece; \<open>ManagerProps\<close> draws the bound on active
  sessions, the input quota, the exact statistics, the agreement of results with states and the
  liveness of the monitor from it; \<open>EventPages\<close> relates pages to the complete log of a session.

  \<^bold>\<open>service/\<close>. \<open>JobModels\<close> is the Job resource (models.py), \<open>JobStore\<close> the tables of the store with
  their triggers and transactions, \<open>StoreOps\<close> the public operations of \<open>SqliteJobStore\<close> (store.py).
  \<open>StoreInv\<close> carries any predicate that the row operations keep to every run of operations (locale
  \<open>table_invariant\<close>); \<open>StoreFacts\<close>, \<open>StoreProps\<close>, \<open>StoreFlow\<close>, \<open>StoreRecovery\<close> and \<open>StoreOutbox\<close>
  prove integrity, idempotent admission, exactly-once completion, recovery, retention and callback
  leases; \<open>StoreExample\<close> holds the concrete stores of the witnesses.

  \<^bold>\<open>Bounds.\<close> No operation takes fuel, except that the terminal loops \<open>write_fd\<close> and \<open>read_fd\<close> are
  partial functions, because the code loops as long as the system is interrupted;
  \<open>pty_write_returns\<close> shows when they return.

  \<^bold>\<open>Not modelled.\<close> Of the session manager: cancellation of a caller inside an operation other than
  \<open>start\<close>, scheduling within a piece, the overall deadline of a shutdown, telemetry. Of the store:
  the engine of SQLite, file permissions and the instance lock. Of the backends: the thread helpers
  and the in-process test double of the ConPTY start; ctypes declarations. Of the rest: the
  adapters and servers around the manager and the store (JSON-RPC, MCP, ACP, HTTP, command line, the
  Job service and the master process), which dispatch onto the operations modelled here; the
  readers of configuration, capabilities, process birth times and file security, which consist of
  calls of the host.
\<close>

end
